(* ===== verification/Prelude.thy ===== *)
theory Prelude
  imports Main "HOL-Library.Word"
begin

text \<open>
  What every other theory shares: the types of the Rust program that carry no structure of
  their own, the sequencing of asynchronous calls with the \<open>?\<close> operator and the early-return
  loops, the frame calculus that lifts a fact about one database statement to a whole request
  handler, and list lemmas about the row operations of SQL.

  An asynchronous Rust function is a state transformer \<open>'w \<Rightarrow> 'a \<times> 'w\<close>; a
  \<^verbatim>\<open>Result<T, E>\<close> is a sum whose left summand is the error.
\<close>

section \<open>Types of the Rust program\<close>

text \<open>
  A \<^verbatim>\<open>String\<close> and a \<^verbatim>\<open>Vec<u8>\<close> are both lists of 8-bit characters: a Rust string is its
  UTF-8 bytes, so \<^verbatim>\<open>as_bytes\<close> is the identity here, and searching it for an ASCII character
  is the same on bytes as on code points.
\<close>

type_synonym bytes = string
type_synonym uuid = "128 word"
type_synonym i64 = "64 word"
type_synonym i32 = "32 word"

text \<open>A \<^verbatim>\<open>TIMESTAMPTZ\<close> value: microseconds since the Unix epoch.\<close>

type_synonym timestamp = int

definition seconds :: "int \<Rightarrow> timestamp" where
  "seconds n = n * 1000000"

lemma seconds_mono [simp]: "seconds a \<le> seconds b \<longleftrightarrow> a \<le> b"
  by (simp add: seconds_def)

lemma seconds_less [simp]: "seconds a < seconds b \<longleftrightarrow> a < b"
  by (simp add: seconds_def)

section \<open>Sequencing asynchronous calls\<close>

definition ret :: "'a \<Rightarrow> 'w \<Rightarrow> 'a \<times> 'w" where
  "ret a w = (a, w)"

text \<open>\<^verbatim>\<open>let r = m.await; k(r)\<close>\<close>

definition await :: "('w \<Rightarrow> 'a \<times> 'w) \<Rightarrow> ('a \<Rightarrow> 'w \<Rightarrow> 'b \<times> 'w) \<Rightarrow> 'w \<Rightarrow> 'b \<times> 'w" where
  "await m k w = (case m w of (a, w') \<Rightarrow> k a w')"

text \<open>\<^verbatim>\<open>let a = m.await?; k(a)\<close>\<close>

definition try_await ::
  "('w \<Rightarrow> ('e + 'a) \<times> 'w) \<Rightarrow> ('a \<Rightarrow> 'w \<Rightarrow> ('e + 'b) \<times> 'w) \<Rightarrow> 'w \<Rightarrow> ('e + 'b) \<times> 'w" where
  "try_await m k = await m (\<lambda>r. case r of Inl e \<Rightarrow> ret (Inl e) | Inr a \<Rightarrow> k a)"

text \<open>\<^verbatim>\<open>m.await.map_err(f)\<close> and \<^verbatim>\<open>o.ok_or(e)\<close>\<close>

definition map_err :: "('e \<Rightarrow> 'f) \<Rightarrow> ('w \<Rightarrow> ('e + 'a) \<times> 'w) \<Rightarrow> 'w \<Rightarrow> ('f + 'a) \<times> 'w" where
  "map_err f m = await m (\<lambda>r. ret (case r of Inl e \<Rightarrow> Inl (f e) | Inr a \<Rightarrow> Inr a))"

definition ok_or :: "'e \<Rightarrow> 'a option \<Rightarrow> 'e + 'a" where
  "ok_or e m = (case m of None \<Rightarrow> Inl e | Some a \<Rightarrow> Inr a)"

text \<open>
  \<^verbatim>\<open>for x in xs { body }\<close> with an accumulator, whose body may leave the enclosing function
  early with an error.
\<close>

fun for_each :: "('s \<Rightarrow> 'a \<Rightarrow> 'w \<Rightarrow> ('e + 's) \<times> 'w) \<Rightarrow> 's \<Rightarrow> 'a list \<Rightarrow> 'w \<Rightarrow> ('e + 's) \<times> 'w" where
  "for_each body s [] = ret (Inr s)"
| "for_each body s (x # xs) = try_await (body s x) (\<lambda>s'. for_each body s' xs)"

lemma await_ret [simp]: "await (ret a) k = k a"
  by (rule ext) (simp add: await_def ret_def)

lemma try_await_ret [simp]:
  "try_await (ret (Inr a)) k = k a" "try_await (ret (Inl e)) k = ret (Inl e)"
  by (simp_all add: try_await_def)

lemma ok_or_simps [simp]: "ok_or e None = Inl e" "ok_or e (Some a) = Inr a"
  by (simp_all add: ok_or_def)

lemma ok_or_Inr_iff [simp]: "ok_or e m = Inr a \<longleftrightarrow> m = Some a"
  by (cases m) auto

lemma map_sum_Inr_iff [simp]: "map_sum f g m = Inr y \<longleftrightarrow> (\<exists>x. m = Inr x \<and> y = g x)"
  by (cases m) auto

lemma map_sum_id_Inl_iff [simp]: "map_sum id g m = Inl e \<longleftrightarrow> m = Inl e"
  by (cases m) auto

lemma await_eq_iff: "await m k w = (b, w2) \<longleftrightarrow> (\<exists>a w1. m w = (a, w1) \<and> k a w1 = (b, w2))"
  by (auto simp: await_def split: prod.splits)

lemma try_await_Inr_iff:
  "try_await m k w = (Inr b, w2) \<longleftrightarrow> (\<exists>a w1. m w = (Inr a, w1) \<and> k a w1 = (Inr b, w2))"
  by (auto simp: try_await_def await_def ret_def split: prod.splits sum.splits)

lemma try_await_Inl_iff:
  "try_await m k w = (Inl e, w2) \<longleftrightarrow>
     m w = (Inl e, w2) \<or> (\<exists>a w1. m w = (Inr a, w1) \<and> k a w1 = (Inl e, w2))"
  by (auto simp: try_await_def await_def ret_def split: prod.splits sum.splits)

text \<open>Stepping through a call whose outcome is known.\<close>

lemma await_step: "m w = (a, w') \<Longrightarrow> await m k w = k a w'"
  by (simp add: await_def)

lemma try_await_step:
  "m w = (Inr a, w') \<Longrightarrow> try_await m k w = k a w'"
  "m w = (Inl e, w') \<Longrightarrow> try_await m k w = (Inl e, w')"
  by (simp_all add: try_await_def await_def ret_def)

lemma map_err_Inr_iff [simp]: "map_err f m w = (Inr a, w') \<longleftrightarrow> m w = (Inr a, w')"
  by (auto simp: map_err_def await_def ret_def split: prod.splits sum.splits)

lemma map_err_Inl_iff [simp]: "map_err f m w = (Inl e, w') \<longleftrightarrow> (\<exists>e'. m w = (Inl e', w') \<and> e = f e')"
  by (auto simp: map_err_def await_def ret_def split: prod.splits sum.splits)

lemma ret_eq_iff [simp]: "ret a w = (b, w') \<longleftrightarrow> a = b \<and> w = w'"
  by (simp add: ret_def)

section \<open>The frame calculus\<close>

text \<open>
  \<open>keeps R m\<close>: the call \<open>m\<close> takes a state only to states it is related to by \<open>R\<close>. For a
  preorder \<open>R\<close> the calls that keep it are closed under sequencing, \<open>?\<close>, error mapping and
  loops, so a handler keeps \<open>R\<close> as soon as each of its database statements does.
\<close>

definition keeps :: "('w \<Rightarrow> 'w \<Rightarrow> bool) \<Rightarrow> ('w \<Rightarrow> 'a \<times> 'w) \<Rightarrow> bool" where
  "keeps R m \<longleftrightarrow> (\<forall>w. R w (snd (m w)))"

named_theorems keeps_intro "introduction rules of the frame calculus"

lemma keepsD: "keeps R m \<Longrightarrow> m w = (a, w') \<Longrightarrow> R w w'"
  by (auto simp: keeps_def dest: spec [of _ w])

lemma keeps_if [keeps_intro]:
  "(b \<Longrightarrow> keeps R m) \<Longrightarrow> (\<not> b \<Longrightarrow> keeps R m') \<Longrightarrow> keeps R (if b then m else m')"
  by simp

lemma keeps_case_sum [keeps_intro]:
  "(\<And>e. r = Inl e \<Longrightarrow> keeps R (f e)) \<Longrightarrow> (\<And>a. r = Inr a \<Longrightarrow> keeps R (g a)) \<Longrightarrow>
     keeps R (case r of Inl e \<Rightarrow> f e | Inr a \<Rightarrow> g a)"
  by (cases r) auto

lemma keeps_case_option [keeps_intro]:
  "(r = None \<Longrightarrow> keeps R f) \<Longrightarrow> (\<And>a. r = Some a \<Longrightarrow> keeps R (g a)) \<Longrightarrow>
     keeps R (case r of None \<Rightarrow> f | Some a \<Rightarrow> g a)"
  by (cases r) auto

lemma keeps_case_prod [keeps_intro]:
  "(\<And>a b. r = (a, b) \<Longrightarrow> keeps R (f a b)) \<Longrightarrow> keeps R (case r of (a, b) \<Rightarrow> f a b)"
  by (cases r) auto

lemma keeps_let [keeps_intro]: "keeps R (f e) \<Longrightarrow> keeps R (let a = e in f a)"
  by simp

locale frame =
  fixes R :: "'w \<Rightarrow> 'w \<Rightarrow> bool"
  assumes frame_refl: "R w w"
    and frame_trans: "R u v \<Longrightarrow> R v w \<Longrightarrow> R u w"
begin

lemma keeps_ret: "keeps R (ret a)"
  by (simp add: keeps_def ret_def frame_refl)

lemma keeps_await: "keeps R m \<Longrightarrow> (\<And>a. keeps R (k a)) \<Longrightarrow> keeps R (await m k)"
  by (fastforce simp: keeps_def await_def split: prod.split intro: frame_trans)

lemma keeps_try_await: "keeps R m \<Longrightarrow> (\<And>a. keeps R (k a)) \<Longrightarrow> keeps R (try_await m k)"
  unfolding try_await_def by (rule keeps_await) (auto split: sum.split intro: keeps_ret)

lemma keeps_map_err: "keeps R m \<Longrightarrow> keeps R (map_err f m)"
  unfolding map_err_def by (rule keeps_await) (auto intro: keeps_ret)

lemma keeps_for_each: "(\<And>s x. keeps R (body s x)) \<Longrightarrow> keeps R (for_each body s xs)"
  by (induction xs arbitrary: s) (auto intro: keeps_ret keeps_try_await)

lemmas keeps_rules = keeps_ret keeps_await keeps_try_await keeps_map_err keeps_for_each

end

section \<open>Rows of a table\<close>

text \<open>\<^verbatim>\<open>UPDATE t SET f WHERE P\<close> over the rows of a table, in their order.\<close>

definition update_where :: "('r \<Rightarrow> bool) \<Rightarrow> ('r \<Rightarrow> 'r) \<Rightarrow> 'r list \<Rightarrow> 'r list" where
  "update_where P f rows = map (\<lambda>r. if P r then f r else r) rows"

lemma set_update_where: "set (update_where P f rows) = f ` {r \<in> set rows. P r} \<union> {r \<in> set rows. \<not> P r}"
  by (auto simp: update_where_def)

lemma length_update_where [simp]: "length (update_where P f rows) = length rows"
  by (simp add: update_where_def)

lemma map_update_where_same:
  "(\<And>r. r \<in> set rows \<Longrightarrow> P r \<Longrightarrow> g (f r) = g r) \<Longrightarrow> map g (update_where P f rows) = map g rows"
  by (simp add: update_where_def)

lemma image_update_where_same:
  "(\<And>r. r \<in> set rows \<Longrightarrow> P r \<Longrightarrow> g (f r) = g r) \<Longrightarrow> g ` set (update_where P f rows) = g ` set rows"
  using map_update_where_same [of rows P g f] by (metis set_map)

lemma update_where_none: "(\<And>r. r \<in> set rows \<Longrightarrow> \<not> P r) \<Longrightarrow> update_where P f rows = rows"
  by (simp add: update_where_def map_idI)

lemma update_where_Nil [simp]: "update_where P f [] = []"
  and update_where_Cons [simp]:
    "update_where P f (r # rs) = (if P r then f r else r) # update_where P f rs"
  by (simp_all add: update_where_def)

lemma find_Some_iff_mem: "find P xs = Some x \<Longrightarrow> x \<in> set xs \<and> P x"
  by (induction xs) (auto split: if_splits)

lemma find_distinct:
  "distinct (map f xs) \<Longrightarrow> x \<in> set xs \<Longrightarrow> find (\<lambda>y. f y = f x) xs = Some x"
  by (induction xs) (auto simp: image_iff)

lemma distinct_map_eqD:
  "distinct (map f xs) \<Longrightarrow> x \<in> set xs \<Longrightarrow> y \<in> set xs \<Longrightarrow> f x = f y \<Longrightarrow> x = y"
  by (auto simp: distinct_map inj_on_def)

end
