(* ===== verification/Json_Values.thy ===== *)
theory Json_Values
  imports Prelude
begin

text \<open>
  \<^verbatim>\<open>serde_json::Value\<close> and the parts of serde the server relies on: indexing a value by a key
  (\<^verbatim>\<open>body["api_url"].as_str()\<close>) and the readers that \<^verbatim>\<open>derive(Deserialize)\<close> generates for a
  struct. An object is the list of its members, with distinct keys; numbers are integers (the
  server never looks at a number of a value it carries).
\<close>

datatype json =
    JNull
  | JBool bool
  | JNum int
  | JStr string
  | JArr "json list"
  | JObj "(string \<times> json) list"

text \<open>\<^verbatim>\<open>v.get(key)\<close>, \<^verbatim>\<open>v[key]\<close> (null when absent) and \<^verbatim>\<open>v.as_str()\<close>\<close>

fun json_get :: "json \<Rightarrow> string \<Rightarrow> json option" where
  "json_get (JObj ms) k = map_of ms k"
| "json_get _ k = None"

definition json_index :: "json \<Rightarrow> string \<Rightarrow> json" where
  "json_index v k = (case json_get v k of None \<Rightarrow> JNull | Some j \<Rightarrow> j)"

fun as_str :: "json \<Rightarrow> string option" where
  "as_str (JStr s) = Some s"
| "as_str _ = None"

text \<open>
  The members of a struct, in declaration order: an object is read by field name (unknown
  members are skipped, a missing one is an error), an array by position and length.
\<close>

fun json_fields :: "string list \<Rightarrow> json \<Rightarrow> json list option" where
  "json_fields ks (JObj ms) = those (map (map_of ms) ks)"
| "json_fields ks (JArr vs) = (if length vs = length ks then Some vs else None)"
| "json_fields ks _ = None"

text \<open>\<^verbatim>\<open>Vec<T>\<close>: every element has to read as a \<^verbatim>\<open>T\<close>.\<close>

fun json_list :: "(json \<Rightarrow> 'a option) \<Rightarrow> json \<Rightarrow> 'a list option" where
  "json_list f (JArr vs) = those (map f vs)"
| "json_list f _ = None"

lemma those_map_Some [simp]: "those (map (\<lambda>x. Some (f x)) xs) = Some (map f xs)"
  by (induction xs) auto

lemma those_map_inverse: "(\<And>x. x \<in> set xs \<Longrightarrow> g (f x) = Some x) \<Longrightarrow> those (map g (map f xs)) = Some xs"
  by (induction xs) auto

lemma json_list_roundtrip:
  "(\<And>x. x \<in> set xs \<Longrightarrow> g (f x) = Some x) \<Longrightarrow> json_list g (JArr (map f xs)) = Some xs"
  by (simp del: map_map add: those_map_inverse)

lemma json_list_strings [simp]: "json_list as_str (JArr (map JStr xs)) = Some xs"
  by (rule json_list_roundtrip) simp

end
