(* ===== verification/Models.thy ===== *)
theory Models
  imports Json_Values
begin

text \<open>
  The data of \<^verbatim>\<open>src/models\<close>: the rows the queries read and write and the bodies that nodes and
  clients exchange, one record per struct with the struct's fields in order (a prefix keeps the
  field names apart), and the serde readers and writers of the two bodies that are stored and
  re-read: the S2S message payload of the outbox and the acknowledgement.
\<close>

section \<open>Rows\<close>

record federation_node =
  fn_id :: uuid
  fn_node_id :: string
  fn_api_url :: string
  fn_public_key_b64 :: string
  fn_last_seen :: "timestamp option"
  fn_is_blocked :: bool
  fn_created_at :: timestamp

record federation_outbox_entry =
  ob_id :: uuid
  ob_target_node_id :: string
  ob_logical_msg_id :: string
  ob_payload :: json
  ob_attempt_count :: i32
  ob_last_attempt :: "timestamp option"
  ob_next_attempt :: timestamp
  ob_status :: string
  ob_created_at :: timestamp

record user =
  u_id :: uuid
  u_username :: string
  u_created_at :: "timestamp option"

record devices =
  dv_id :: uuid
  dv_user_id :: uuid
  dv_identity_pubkey :: string
  dv_prekey_pubkey :: string
  dv_signed_prekey_pub :: string
  dv_signed_prekey_sig :: string
  dv_one_time_prekeys :: json
  dv_device_label :: "string option"
  dv_push_token :: "string option"
  dv_last_seen :: "timestamp option"
  dv_created_at :: "timestamp option"

record chat =
  ch_id :: uuid
  ch_chat_type :: "string option"
  ch_user_a :: "uuid option"
  ch_user_b :: "uuid option"
  ch_name :: "string option"
  ch_owner_id :: "uuid option"
  ch_last_message_id :: "uuid option"
  ch_created_at :: "timestamp option"
  ch_updated_at :: "timestamp option"

record pending_session =
  pse_id :: uuid
  pse_sender_device_id :: uuid
  pse_recipient_device_id :: uuid
  pse_ephemeral_pubkey :: string
  pse_sender_prekey_pub :: string
  pse_otpk_used :: string
  pse_ciphertext :: string
  pse_created_at :: "timestamp option"

record session =
  ss_id :: uuid
  ss_chat_id :: "uuid option"
  ss_sender_device_id :: uuid
  ss_receiver_device_id :: uuid
  ss_created_at :: "timestamp option"
  ss_updated_at :: "timestamp option"

section \<open>Views\<close>

record device_bundle =
  db_device_id :: uuid
  db_identity_pubkey :: string
  db_prekey_pubkey :: string
  db_signed_prekey_pub :: string
  db_signed_prekey_sig :: string
  db_one_time_prekeys :: "string list"

record chat_view =
  cv_id :: uuid
  cv_chat_type :: "string option"
  cv_partner_user_id :: "uuid option"
  cv_partner_username :: "string option"
  cv_partner_federated_address :: "string option"
  cv_name :: "string option"
  cv_last_message_id :: "uuid option"
  cv_updated_at :: "timestamp option"

record message_view =
  mv_id :: uuid
  mv_logical_msg_id :: string
  mv_chat_id :: "uuid option"
  mv_from_user_id :: "uuid option"
  mv_from_device_id :: "uuid option"
  mv_header :: json
  mv_ciphertext :: string
  mv_created_at :: "timestamp option"

section \<open>Bodies of requests and replies\<close>

record outgoing_message_payload =
  om_to_device_id :: uuid
  om_header :: json
  om_ciphertext :: string

record outgoing_message =
  og_chat_id :: uuid
  og_logical_msg_id :: string
  og_to_user_id :: uuid
  og_to_user_address :: "string option"
  og_payloads :: "outgoing_message_payload list"

record s2s_device_payload =
  sd_to_device_id :: uuid
  sd_header :: json
  sd_ciphertext :: string

record s2s_message_payload =
  sm_logical_msg_id :: string
  sm_from_federated_address :: string
  sm_from_device_id :: uuid
  sm_from_identity_pubkey :: string
  sm_to_user :: string
  sm_payloads :: "s2s_device_payload list"

record s2s_session_init =
  si_recipient_device_id :: uuid
  si_ephemeral_pubkey :: string
  si_sender_prekey_pub :: string
  si_otpk_used :: string
  si_ciphertext :: string

record s2s_session_payload =
  sp_from_federated_address :: string
  sp_from_device_id :: uuid
  sp_from_identity_pubkey :: string
  sp_to_user :: string
  sp_sessions_init :: "s2s_session_init list"

record s2s_ack =
  ack_logical_msg_id :: string
  ack_status :: string

record node_info =
  ni_node_id :: string
  ni_api_url :: string
  ni_public_key_b64 :: string
  ni_protocol_version :: string

record signed_prekey =
  spk_key :: string
  spk_signature :: string

record enrollment_claims =
  ec_sub :: string
  ec_exp :: nat

record realtime_event =
  ev_event_type :: string
  ev_payload :: json

section \<open>The stored S2S bodies\<close>

text \<open>
  \<^verbatim>\<open>derive(Serialize, Deserialize)\<close> of the S2S bodies. A \<^verbatim>\<open>Uuid\<close> is written and read as a
  string by the uuid crate, whose two functions are arguments (\<open>show_id\<close>, \<open>read_id\<close>).
\<close>

definition device_payload_to_json :: "(uuid \<Rightarrow> string) \<Rightarrow> s2s_device_payload \<Rightarrow> json" where
  "device_payload_to_json show_id p =
     JObj [(''to_device_id'', JStr (show_id (sd_to_device_id p))),
           (''header'', sd_header p),
           (''ciphertext'', JStr (sd_ciphertext p))]"

definition device_payload_of_json :: "(string \<Rightarrow> uuid option) \<Rightarrow> json \<Rightarrow> s2s_device_payload option" where
  "device_payload_of_json read_id j =
     (case json_fields [''to_device_id'', ''header'', ''ciphertext''] j of
        Some [JStr d, h, JStr c] \<Rightarrow>
          map_option (\<lambda>i. \<lparr>sd_to_device_id = i, sd_header = h, sd_ciphertext = c\<rparr>) (read_id d)
      | _ \<Rightarrow> None)"

definition message_payload_to_json :: "(uuid \<Rightarrow> string) \<Rightarrow> s2s_message_payload \<Rightarrow> json" where
  "message_payload_to_json show_id p =
     JObj [(''logical_msg_id'', JStr (sm_logical_msg_id p)),
           (''from_federated_address'', JStr (sm_from_federated_address p)),
           (''from_device_id'', JStr (show_id (sm_from_device_id p))),
           (''from_identity_pubkey'', JStr (sm_from_identity_pubkey p)),
           (''to_user'', JStr (sm_to_user p)),
           (''payloads'', JArr (map (device_payload_to_json show_id) (sm_payloads p)))]"

definition message_payload_of_json :: "(string \<Rightarrow> uuid option) \<Rightarrow> json \<Rightarrow> s2s_message_payload option" where
  "message_payload_of_json read_id j =
     (case json_fields [''logical_msg_id'', ''from_federated_address'', ''from_device_id'',
                        ''from_identity_pubkey'', ''to_user'', ''payloads''] j of
        Some [JStr l, JStr f, JStr d, JStr k, JStr t, ps] \<Rightarrow>
          (case (read_id d, json_list (device_payload_of_json read_id) ps) of
             (Some i, Some pl) \<Rightarrow>
               Some \<lparr>sm_logical_msg_id = l, sm_from_federated_address = f, sm_from_device_id = i,
                     sm_from_identity_pubkey = k, sm_to_user = t, sm_payloads = pl\<rparr>
           | _ \<Rightarrow> None)
      | _ \<Rightarrow> None)"

definition ack_to_json :: "s2s_ack \<Rightarrow> json" where
  "ack_to_json a = JObj [(''logical_msg_id'', JStr (ack_logical_msg_id a)), (''status'', JStr (ack_status a))]"

definition ack_of_json :: "json \<Rightarrow> s2s_ack option" where
  "ack_of_json j =
     (case json_fields [''logical_msg_id'', ''status''] j of
        Some [JStr l, JStr s] \<Rightarrow> Some \<lparr>ack_logical_msg_id = l, ack_status = s\<rparr>
      | _ \<Rightarrow> None)"

text \<open>The bundle a peer returns for a key fetch, and the body of a forwarded session.\<close>

definition bundle_to_json :: "(uuid \<Rightarrow> string) \<Rightarrow> device_bundle \<Rightarrow> json" where
  "bundle_to_json show_id b =
     JObj [(''device_id'', JStr (show_id (db_device_id b))),
           (''identity_pubkey'', JStr (db_identity_pubkey b)),
           (''prekey_pubkey'', JStr (db_prekey_pubkey b)),
           (''signed_prekey_pub'', JStr (db_signed_prekey_pub b)),
           (''signed_prekey_sig'', JStr (db_signed_prekey_sig b)),
           (''one_time_prekeys'', JArr (map JStr (db_one_time_prekeys b)))]"

definition bundle_of_json :: "(string \<Rightarrow> uuid option) \<Rightarrow> json \<Rightarrow> device_bundle option" where
  "bundle_of_json read_id j =
     (case json_fields [''device_id'', ''identity_pubkey'', ''prekey_pubkey'', ''signed_prekey_pub'',
                        ''signed_prekey_sig'', ''one_time_prekeys''] j of
        Some [JStr d, JStr ik, JStr pk, JStr sk, JStr sg, ot] \<Rightarrow>
          (case (read_id d, json_list as_str ot) of
             (Some i, Some os) \<Rightarrow>
               Some \<lparr>db_device_id = i, db_identity_pubkey = ik, db_prekey_pubkey = pk,
                     db_signed_prekey_pub = sk, db_signed_prekey_sig = sg, db_one_time_prekeys = os\<rparr>
           | _ \<Rightarrow> None)
      | _ \<Rightarrow> None)"

definition session_init_to_json :: "(uuid \<Rightarrow> string) \<Rightarrow> s2s_session_init \<Rightarrow> json" where
  "session_init_to_json show_id i =
     JObj [(''recipient_device_id'', JStr (show_id (si_recipient_device_id i))),
           (''ephemeral_pubkey'', JStr (si_ephemeral_pubkey i)),
           (''sender_prekey_pub'', JStr (si_sender_prekey_pub i)),
           (''otpk_used'', JStr (si_otpk_used i)),
           (''ciphertext'', JStr (si_ciphertext i))]"

definition session_payload_to_json :: "(uuid \<Rightarrow> string) \<Rightarrow> s2s_session_payload \<Rightarrow> json" where
  "session_payload_to_json show_id p =
     JObj [(''from_federated_address'', JStr (sp_from_federated_address p)),
           (''from_device_id'', JStr (show_id (sp_from_device_id p))),
           (''from_identity_pubkey'', JStr (sp_from_identity_pubkey p)),
           (''to_user'', JStr (sp_to_user p)),
           (''sessions_init'', JArr (map (session_init_to_json show_id) (sp_sessions_init p)))]"

lemma device_payload_roundtrip:
  "read_id (show_id (sd_to_device_id p)) = Some (sd_to_device_id p) \<Longrightarrow>
     device_payload_of_json read_id (device_payload_to_json show_id p) = Some p"
  by (simp add: device_payload_of_json_def device_payload_to_json_def)

lemma message_payload_roundtrip:
  assumes "\<And>i. read_id (show_id i) = Some i"
  shows "message_payload_of_json read_id (message_payload_to_json show_id p) = Some p"
proof -
  have "json_list (device_payload_of_json read_id)
      (JArr (map (device_payload_to_json show_id) (sm_payloads p))) = Some (sm_payloads p)"
    by (rule json_list_roundtrip) (simp add: device_payload_roundtrip assms)
  then show ?thesis
    by (simp add: message_payload_of_json_def message_payload_to_json_def assms del: json_list.simps)
qed

lemma ack_roundtrip [simp]: "ack_of_json (ack_to_json a) = Some a"
  by (simp add: ack_of_json_def ack_to_json_def)

lemma bundle_roundtrip:
  "read_id (show_id (db_device_id b)) = Some (db_device_id b) \<Longrightarrow>
     bundle_of_json read_id (bundle_to_json show_id b) = Some b"
  by (simp add: bundle_of_json_def bundle_to_json_def del: json_list.simps)

end
