(* ===== verification/Database.thy ===== *)
theory Database
  imports Models "HOL-Library.Multiset"
begin

text \<open>
  The PostgreSQL schema of \<^verbatim>\<open>sql_models/seed.sql\<close> and \<^verbatim>\<open>sql_models/federation.sql\<close>: the state
  as one list of rows per table (in insertion order), the constraints each table declares, and
  the notifications its triggers raise. A statement that would break a constraint fails with the
  SQLSTATE code PostgreSQL reports and changes nothing; within one statement the order of the
  checks is PostgreSQL's: row checks, then unique indexes, then foreign keys.
\<close>

section \<open>Tables that no model struct mirrors\<close>

record user_row =
  us_id :: uuid
  us_username :: string
  us_created_at :: "timestamp option"
  us_home_node_id :: "uuid option"
  us_federated_address :: "string option"

record nonce_row =
  nn_nonce :: string
  nn_node_id :: string
  nn_used_at :: timestamp

record message_row =
  me_id :: uuid
  me_logical_msg_id :: string
  me_chat_id :: "uuid option"
  me_from_user_id :: "uuid option"
  me_from_device_id :: "uuid option"
  me_to_user_id :: "uuid option"
  me_to_device_id :: "uuid option"
  me_header :: json
  me_ciphertext :: string
  me_delivered_at :: "timestamp option"
  me_read_at :: "timestamp option"
  me_created_at :: "timestamp option"

record chat_member =
  cm_chat_id :: uuid
  cm_user_id :: uuid

record used_token =
  ut_token :: string
  ut_used_at :: "timestamp option"

section \<open>Notifications\<close>

text \<open>The arguments of the \<^verbatim>\<open>pg_notify\<close> calls in the triggers, one constructor per channel.\<close>

datatype notification =
    Message_Notif "uuid option" "uuid option"  \<comment> \<open>chat, recipient user\<close>
  | Session_Notif uuid uuid uuid  \<comment> \<open>notified user, sender device, receiver device\<close>
  | Device_Notif uuid  \<comment> \<open>user of the device\<close>
  | Pending_Session_Notif uuid pending_session  \<comment> \<open>recipient user, new row\<close>

section \<open>The database state\<close>

record db =
  t_federation_nodes :: "federation_node list"
  t_used_node_nonces :: "nonce_row list"
  t_federation_outbox :: "federation_outbox_entry list"
  t_users :: "user_row list"
  t_devices :: "devices list"
  t_chats :: "chat list"
  t_chat_members :: "chat_member list"
  t_messages :: "message_row list"
  t_sessions :: "session list"
  t_pending_sessions :: "pending_session list"
  t_used_tokens :: "used_token list"
  t_notifications :: "notification list"

definition empty_db :: db where
  "empty_db = \<lparr>t_federation_nodes = [], t_used_node_nonces = [], t_federation_outbox = [],
     t_users = [], t_devices = [], t_chats = [], t_chat_members = [], t_messages = [],
     t_sessions = [], t_pending_sessions = [], t_used_tokens = [], t_notifications = []\<rparr>"

definition node_ids :: "db \<Rightarrow> uuid set" where
  "node_ids d = fn_id ` set (t_federation_nodes d)"

definition user_ids :: "db \<Rightarrow> uuid set" where
  "user_ids d = us_id ` set (t_users d)"

definition device_ids :: "db \<Rightarrow> uuid set" where
  "device_ids d = dv_id ` set (t_devices d)"

definition chat_ids :: "db \<Rightarrow> uuid set" where
  "chat_ids d = ch_id ` set (t_chats d)"

text \<open>The owner of a device: \<^verbatim>\<open>SELECT user_id FROM devices WHERE id = $1\<close>.\<close>

definition user_of_device :: "db \<Rightarrow> uuid \<Rightarrow> uuid option" where
  "user_of_device d i = map_option dv_user_id (find (\<lambda>r. dv_id r = i) (t_devices d))"

section \<open>Errors of a statement\<close>

datatype sql_error =
    Database string  \<comment> \<open>\<^verbatim>\<open>sqlx::Error::Database\<close> with its SQLSTATE code\<close>
  | RowNotFound
  | ColumnDecode string
  | Io  \<comment> \<open>the connection failed or timed out\<close>

abbreviation unique_violation :: sql_error where
  "unique_violation \<equiv> Database ''23505''"

abbreviation foreign_key_violation :: sql_error where
  "foreign_key_violation \<equiv> Database ''23503''"

abbreviation check_violation :: sql_error where
  "check_violation \<equiv> Database ''23514''"

text \<open>A statement, given the server's \<^verbatim>\<open>NOW()\<close> and the next \<^verbatim>\<open>gen_random_uuid()\<close>.\<close>

type_synonym 'a stmt = "timestamp \<Rightarrow> uuid \<Rightarrow> db \<Rightarrow> sql_error + 'a \<times> db"

text \<open>A query: it changes nothing.\<close>

definition select :: "(timestamp \<Rightarrow> db \<Rightarrow> 'a) \<Rightarrow> 'a stmt" where
  "select f now new_id d = Inr (f now d, d)"

text \<open>
  \<^verbatim>\<open>ORDER BY c ASC\<close> (nulls last) and \<^verbatim>\<open>ORDER BY c DESC\<close> (nulls first); ties keep the order of
  the table.
\<close>

definition order_asc :: "('r \<Rightarrow> timestamp option) \<Rightarrow> 'r list \<Rightarrow> 'r list" where
  "order_asc f rs =
     sort_key (\<lambda>r. if f r = None then 1 else 0 :: nat)
       (sort_key (\<lambda>r. case f r of None \<Rightarrow> 0 | Some t \<Rightarrow> t) rs)"

definition order_desc :: "('r \<Rightarrow> timestamp option) \<Rightarrow> 'r list \<Rightarrow> 'r list" where
  "order_desc f rs =
     sort_key (\<lambda>r. if f r = None then 0 else 1 :: nat)
       (sort_key (\<lambda>r. case f r of None \<Rightarrow> 0 | Some t \<Rightarrow> - t) rs)"

lemma set_order [simp]: "set (order_asc f rs) = set rs" "set (order_desc f rs) = set rs"
  by (simp_all add: order_asc_def order_desc_def)

lemma mset_order [simp]: "mset (order_asc f rs) = mset rs" "mset (order_desc f rs) = mset rs"
  by (simp_all add: order_asc_def order_desc_def)

section \<open>Constraints\<close>

text \<open>A nullable foreign key column.\<close>

definition opt_fk :: "uuid set \<Rightarrow> uuid option \<Rightarrow> bool" where
  "opt_fk ids x = (case x of None \<Rightarrow> True | Some i \<Rightarrow> i \<in> ids)"

lemma opt_fk_simps [simp]: "opt_fk S None" "opt_fk S (Some i) \<longleftrightarrow> i \<in> S"
  by (simp_all add: opt_fk_def)

lemma opt_fk_mono: "opt_fk S x \<Longrightarrow> S \<subseteq> T \<Longrightarrow> opt_fk T x"
  by (cases x) auto

text \<open>
  \<^verbatim>\<open>chats_direct_shape\<close>: a check passes unless it evaluates to false; a null \<^verbatim>\<open>chat_type\<close> makes
  its first disjunct null.
\<close>

definition direct_shape :: "chat \<Rightarrow> bool" where
  "direct_shape c =
     (ch_chat_type c = Some ''direct'' \<longrightarrow>
        (case (ch_user_a c, ch_user_b c) of (Some a, Some b) \<Rightarrow> a < b | _ \<Rightarrow> False))"

definition chat_type_check :: "chat \<Rightarrow> bool" where
  "chat_type_check c = (ch_chat_type c \<in> {None, Some ''direct'', Some ''group''})"

text \<open>\<^verbatim>\<open>LEAST\<close> and \<^verbatim>\<open>GREATEST\<close> skip nulls.\<close>

fun sql_least :: "uuid option \<Rightarrow> uuid option \<Rightarrow> uuid option" where
  "sql_least (Some a) (Some b) = Some (min a b)"
| "sql_least None y = y"
| "sql_least x None = x"

fun sql_greatest :: "uuid option \<Rightarrow> uuid option \<Rightarrow> uuid option" where
  "sql_greatest (Some a) (Some b) = Some (max a b)"
| "sql_greatest None y = y"
| "sql_greatest x None = x"

definition is_direct :: "chat \<Rightarrow> bool" where
  "is_direct c \<longleftrightarrow> ch_chat_type c = Some ''direct''"

definition chat_pair :: "chat \<Rightarrow> uuid option \<times> uuid option" where
  "chat_pair c = (sql_least (ch_user_a c) (ch_user_b c), sql_greatest (ch_user_a c) (ch_user_b c))"

text \<open>The unique key \<^verbatim>\<open>uniq_message_per_device\<close>; a row with a null device never conflicts.\<close>

definition message_key :: "message_row \<Rightarrow> (string \<times> uuid) option" where
  "message_key m = map_option (Pair (me_logical_msg_id m)) (me_to_device_id m)"

definition nodes_ok :: "federation_node list \<Rightarrow> bool" where
  "nodes_ok rs \<longleftrightarrow> distinct (map fn_id rs) \<and> distinct (map fn_node_id rs)"

definition nonce_key :: "nonce_row \<Rightarrow> string \<times> string" where
  "nonce_key r = (nn_nonce r, nn_node_id r)"

definition nonces_ok :: "nonce_row list \<Rightarrow> bool" where
  "nonces_ok rs \<longleftrightarrow> distinct (map nonce_key rs)"

definition outbox_ok :: "federation_outbox_entry list \<Rightarrow> bool" where
  "outbox_ok rs \<longleftrightarrow> distinct (map ob_id rs) \<and>
     (\<forall>r \<in> set rs. ob_status r \<in> {''pending'', ''delivered'', ''failed''})"

definition users_ok :: "uuid set \<Rightarrow> user_row list \<Rightarrow> bool" where
  "users_ok nodes rs \<longleftrightarrow> distinct (map us_id rs) \<and> distinct (map us_username rs) \<and>
     distinct (List.map_filter us_federated_address rs) \<and>
     (\<forall>r \<in> set rs. opt_fk nodes (us_home_node_id r))"

definition device_key :: "devices \<Rightarrow> uuid \<times> string" where
  "device_key r = (dv_user_id r, dv_identity_pubkey r)"

definition devices_ok :: "uuid set \<Rightarrow> devices list \<Rightarrow> bool" where
  "devices_ok users rs \<longleftrightarrow> distinct (map dv_id rs) \<and> distinct (map device_key rs) \<and>
     (\<forall>r \<in> set rs. dv_user_id r \<in> users)"

definition chats_ok :: "uuid set \<Rightarrow> chat list \<Rightarrow> bool" where
  "chats_ok users rs \<longleftrightarrow> distinct (map ch_id rs) \<and>
     distinct (map chat_pair (filter is_direct rs)) \<and>
     (\<forall>r \<in> set rs. chat_type_check r \<and> direct_shape r \<and>
        opt_fk users (ch_user_a r) \<and> opt_fk users (ch_user_b r))"

definition messages_ok :: "uuid set \<Rightarrow> uuid set \<Rightarrow> uuid set \<Rightarrow> message_row list \<Rightarrow> bool" where
  "messages_ok chats users devs rs \<longleftrightarrow> distinct (map me_id rs) \<and>
     distinct (List.map_filter message_key rs) \<and>
     (\<forall>r \<in> set rs. opt_fk chats (me_chat_id r) \<and> opt_fk users (me_from_user_id r) \<and>
        opt_fk users (me_to_user_id r) \<and> opt_fk devs (me_from_device_id r) \<and>
        opt_fk devs (me_to_device_id r))"

definition session_key :: "session \<Rightarrow> uuid \<times> uuid" where
  "session_key r = (ss_sender_device_id r, ss_receiver_device_id r)"

definition sessions_ok :: "uuid set \<Rightarrow> uuid set \<Rightarrow> session list \<Rightarrow> bool" where
  "sessions_ok chats devs rs \<longleftrightarrow> distinct (map ss_id rs) \<and> distinct (map session_key rs) \<and>
     (\<forall>r \<in> set rs. opt_fk chats (ss_chat_id r) \<and> ss_sender_device_id r \<in> devs \<and>
        ss_receiver_device_id r \<in> devs)"

definition pending_sessions_ok :: "uuid set \<Rightarrow> pending_session list \<Rightarrow> bool" where
  "pending_sessions_ok devs rs \<longleftrightarrow> distinct (map pse_id rs) \<and>
     (\<forall>r \<in> set rs. pse_sender_device_id r \<in> devs \<and> pse_recipient_device_id r \<in> devs)"

definition tokens_ok :: "used_token list \<Rightarrow> bool" where
  "tokens_ok rs \<longleftrightarrow> distinct (map ut_token rs)"

text \<open>The schema's constraints hold of the whole state.\<close>

definition db_ok :: "db \<Rightarrow> bool" where
  "db_ok d \<longleftrightarrow> nodes_ok (t_federation_nodes d) \<and> nonces_ok (t_used_node_nonces d) \<and>
     outbox_ok (t_federation_outbox d) \<and> users_ok (node_ids d) (t_users d) \<and>
     devices_ok (user_ids d) (t_devices d) \<and> chats_ok (user_ids d) (t_chats d) \<and>
     messages_ok (chat_ids d) (user_ids d) (device_ids d) (t_messages d) \<and>
     sessions_ok (chat_ids d) (device_ids d) (t_sessions d) \<and>
     pending_sessions_ok (device_ids d) (t_pending_sessions d) \<and> tokens_ok (t_used_tokens d)"

lemmas db_ok_defs = db_ok_def nodes_ok_def nonces_ok_def outbox_ok_def users_ok_def devices_ok_def
  chats_ok_def messages_ok_def sessions_ok_def pending_sessions_ok_def tokens_ok_def

lemma db_ok_empty: "db_ok empty_db"
  by (simp add: db_ok_defs empty_db_def List.map_filter_simps)

section \<open>Growing id sets keep the foreign keys\<close>

lemma users_ok_mono: "users_ok N rs \<Longrightarrow> N \<subseteq> N' \<Longrightarrow> users_ok N' rs"
  by (auto simp: users_ok_def intro: opt_fk_mono)

lemma devices_ok_mono: "devices_ok U rs \<Longrightarrow> U \<subseteq> U' \<Longrightarrow> devices_ok U' rs"
  by (auto simp: devices_ok_def)

lemma chats_ok_mono: "chats_ok U rs \<Longrightarrow> U \<subseteq> U' \<Longrightarrow> chats_ok U' rs"
  by (auto simp: chats_ok_def intro: opt_fk_mono)

lemma messages_ok_mono:
  "messages_ok C U D rs \<Longrightarrow> C \<subseteq> C' \<Longrightarrow> U \<subseteq> U' \<Longrightarrow> D \<subseteq> D' \<Longrightarrow> messages_ok C' U' D' rs"
  by (auto simp: messages_ok_def intro: opt_fk_mono)

lemma sessions_ok_mono: "sessions_ok C D rs \<Longrightarrow> C \<subseteq> C' \<Longrightarrow> D \<subseteq> D' \<Longrightarrow> sessions_ok C' D' rs"
  by (auto simp: sessions_ok_def intro: opt_fk_mono)

lemma pending_sessions_ok_mono: "pending_sessions_ok D rs \<Longrightarrow> D \<subseteq> D' \<Longrightarrow> pending_sessions_ok D' rs"
  by (auto simp: pending_sessions_ok_def)

lemma sql_least_greatest_sym:
  "sql_least x y = sql_least y x" "sql_greatest x y = sql_greatest y x"
  by (cases x; cases y; simp add: min.commute max.commute)+

end
