(* ===== verification/Rust_Text.thy ===== *)
theory Rust_Text
  imports Prelude
begin

text \<open>
  The string handling of the server: federated addresses (\<^verbatim>\<open>src/federation/mod.rs\<close>), the path
  of a URL (\<^verbatim>\<open>url_path\<close> in \<^verbatim>\<open>src/federation/client.rs\<close>), the canonical string that two nodes
  sign and check, and the \<^verbatim>\<open>i64\<close> parsing and arithmetic of the timestamp checks
  (\<^verbatim>\<open>src/middlewares/auth.rs\<close> and \<^verbatim>\<open>node_auth.rs\<close>), with the standard library functions they
  rest on: \<^verbatim>\<open>str::find\<close>, \<^verbatim>\<open>rfind\<close>, \<^verbatim>\<open>split\<close>, \<^verbatim>\<open>i64::from_str\<close>, \<^verbatim>\<open>u64::to_string\<close>.
\<close>

section \<open>Searching a string\<close>

fun find_char :: "char \<Rightarrow> string \<Rightarrow> nat option" where
  "find_char c [] = None"
| "find_char c (x # xs) = (if x = c then Some 0 else map_option Suc (find_char c xs))"

definition rfind_char :: "char \<Rightarrow> string \<Rightarrow> nat option" where
  "rfind_char c s = map_option (\<lambda>i. length s - 1 - i) (find_char c (rev s))"

fun find_str :: "string \<Rightarrow> string \<Rightarrow> nat option" where
  "find_str p [] = (if p = [] then Some 0 else None)"
| "find_str p (x # xs) =
     (if take (length p) (x # xs) = p then Some 0 else map_option Suc (find_str p xs))"

text \<open>\<^verbatim>\<open>s.split(c).next()\<close>, which is never \<^verbatim>\<open>None\<close>: the part before the first \<open>c\<close>.\<close>

definition split_first :: "char \<Rightarrow> string \<Rightarrow> string" where
  "split_first c s = takeWhile (\<lambda>x. x \<noteq> c) s"

lemma find_char_None_iff [simp]: "find_char c s = None \<longleftrightarrow> c \<notin> set s"
  by (induction s) auto

lemma find_char_append [simp]: "c \<notin> set u \<Longrightarrow> find_char c (u @ c # v) = Some (length u)"
  by (induction u) auto

lemma rfind_char_None_iff [simp]: "rfind_char c s = None \<longleftrightarrow> c \<notin> set s"
  by (simp add: rfind_char_def)

lemma rfind_char_append [simp]: "c \<notin> set v \<Longrightarrow> rfind_char c (u @ c # v) = Some (length u)"
  by (simp add: rfind_char_def)

lemma find_char_SomeD:
  "find_char c s = Some i \<Longrightarrow> i < length s \<and> s = take i s @ c # drop (Suc i) s \<and> c \<notin> set (take i s)"
  by (induction s arbitrary: i) (auto split: if_splits)

lemma split_last_char:
  assumes "c \<in> set s"
  obtains u v where "s = u @ c # v" "c \<notin> set v"
  using split_list_last [OF assms] by blast

section \<open>Federated addresses\<close>

definition parse_federated_address :: "string \<Rightarrow> (string \<times> string) option" where
  "parse_federated_address addr =
     (case rfind_char CHR ''@'' addr of
        None \<Rightarrow> None
      | Some at \<Rightarrow> Some (take at addr, drop (at + 1) addr))"

text \<open>The user name, an at-sign and the node id, as \<^verbatim>\<open>format!\<close> joins them.\<close>

definition format_address :: "string \<Rightarrow> string \<Rightarrow> string" where
  "format_address username node_id = username @ CHR ''@'' # node_id"

text \<open>
  The user name under which a receiving node files the sender of an S2S request:
  \<^verbatim>\<open>from_federated_address.split('@').next().unwrap_or("unknown")\<close>.
\<close>

definition sender_username :: "string \<Rightarrow> string" where
  "sender_username addr = split_first CHR ''@'' addr"

lemma parse_format: "CHR ''@'' \<notin> set n \<Longrightarrow> parse_federated_address (format_address u n) = Some (u, n)"
  by (simp add: parse_federated_address_def format_address_def)

lemma parse_None_iff: "parse_federated_address a = None \<longleftrightarrow> CHR ''@'' \<notin> set a"
  by (cases "rfind_char CHR ''@'' a")
    (simp_all add: parse_federated_address_def flip: rfind_char_None_iff)

lemma parse_Some_iff:
  "parse_federated_address a = Some (u, n) \<longleftrightarrow> a = format_address u n \<and> CHR ''@'' \<notin> set n"
proof
  assume p: "parse_federated_address a = Some (u, n)"
  then have "CHR ''@'' \<in> set a"
    using parse_None_iff [of a] by auto
  then obtain u' n' where "a = u' @ CHR ''@'' # n'" "CHR ''@'' \<notin> set n'"
    by (rule split_last_char)
  with p show "a = format_address u n \<and> CHR ''@'' \<notin> set n"
    using parse_format [of n' u'] by (simp add: format_address_def)
qed (auto simp: parse_format)

text \<open>
  C29: a federated address is read back exactly. \<open>parse_federated_address\<close> answers
  \<open>Some (u, n)\<close> for exactly the addresses \<open>u@n\<close> whose node part has no further at-sign, so
  printing an address and parsing it is the identity, and parsing loses nothing; only an
  address without any at-sign is refused.
\<close>

theorem parse_federated_address_correct:
  "(parse_federated_address a = Some (u, n) \<longleftrightarrow> a = format_address u n \<and> CHR ''@'' \<notin> set n) \<and>
   (parse_federated_address a = None \<longleftrightarrow> CHR ''@'' \<notin> set a)"
  by (simp add: parse_Some_iff parse_None_iff)

lemma takeWhile_no_char: "takeWhile (\<lambda>x. x \<noteq> c) (u @ c # v) = u \<longleftrightarrow> c \<notin> set u"
  by (induction u) auto

lemma sender_username_format:
  "sender_username (format_address u n) = u \<longleftrightarrow> CHR ''@'' \<notin> set u"
  by (simp add: sender_username_def split_first_def format_address_def takeWhile_no_char)

section \<open>URLs and the canonical string\<close>

definition url_path :: "string \<Rightarrow> string" where
  "url_path url =
     (case find_str ''://'' url of
        Some pos \<Rightarrow>
          (let after_scheme = drop (pos + 3) url
           in case find_char CHR ''/'' after_scheme of
                Some slash \<Rightarrow> drop slash after_scheme
              | None \<Rightarrow> ''/'')
      | None \<Rightarrow> url)"

definition newline :: char where
  "newline = CHR 10"

text \<open>\<^verbatim>\<open>format!("{}\n{}\n{}\n{}", method, path, ts, nonce)\<close>, on both ends of an S2S request.\<close>

definition canonical_string :: "string \<Rightarrow> string \<Rightarrow> string \<Rightarrow> string \<Rightarrow> string" where
  "canonical_string meth path ts nonce =
     meth @ newline # path @ newline # ts @ newline # nonce"

lemma find_str_scheme: "CHR '':'' \<notin> set s \<Longrightarrow> find_str ''://'' (s @ ''://'' @ r) = Some (length s)"
  by (induction s) auto

lemma url_path_absolute:
  assumes "CHR '':'' \<notin> set scheme" "CHR ''/'' \<notin> set host"
  shows "url_path (scheme @ ''://'' @ host @ CHR ''/'' # p) = CHR ''/'' # p"
  using assms find_str_scheme [of scheme "host @ CHR ''/'' # p"]
  by (simp add: url_path_def)

lemma append_sep_inj:
  "c \<notin> set a \<Longrightarrow> c \<notin> set a' \<Longrightarrow> a @ c # b = a' @ c # b' \<longleftrightarrow> a = a' \<and> b = b'"
proof (induction a arbitrary: a')
  case Nil
  then show ?case by (cases a') auto
next
  case (Cons x a)
  then show ?case by (cases a') auto
qed

lemma canonical_string_inj:
  assumes "newline \<notin> set m" "newline \<notin> set m'" "newline \<notin> set p" "newline \<notin> set p'"
    and "newline \<notin> set t" "newline \<notin> set t'"
  shows "canonical_string m p t n = canonical_string m' p' t' n' \<longleftrightarrow>
    m = m' \<and> p = p' \<and> t = t' \<and> n = n'"
  using assms by (simp add: canonical_string_def append_sep_inj)

section \<open>64-bit timestamps\<close>

definition digit_value :: "char \<Rightarrow> nat option" where
  "digit_value c = (let n = of_char c in if 48 \<le> n \<and> n \<le> (57 :: nat) then Some (n - 48) else None)"

fun digits_value :: "nat \<Rightarrow> string \<Rightarrow> nat option" where
  "digits_value acc [] = Some acc"
| "digits_value acc (c # cs) =
     (case digit_value c of None \<Rightarrow> None | Some d \<Rightarrow> digits_value (10 * acc + d) cs)"

text \<open>
  \<^verbatim>\<open>s.parse::<i64>()\<close>: an optional sign, at least one digit, and a value that fits the width;
  anything else is \<^verbatim>\<open>Err\<close>.
\<close>

definition parse_i64 :: "string \<Rightarrow> i64 option" where
  "parse_i64 s =
     (let (neg, ds) =
        (case s of
           [] \<Rightarrow> (False, [])
         | c # r \<Rightarrow>
             if c = CHR ''-'' then (True, r) else if c = CHR ''+'' then (False, r) else (False, s))
      in if ds = [] then None
         else case digits_value 0 ds of
                None \<Rightarrow> None
              | Some n \<Rightarrow>
                  let v = (if neg then - int n else int n)
                  in if - (2 ^ 63) \<le> v \<and> v < 2 ^ 63 then Some (word_of_int v) else None)"

text \<open>\<^verbatim>\<open>n.to_string()\<close> for an unsigned integer.\<close>

fun show_nat :: "nat \<Rightarrow> string" where
  "show_nat n =
     (if n < 10 then [char_of (48 + n)] else show_nat (n div 10) @ [char_of (48 + n mod 10)])"

declare show_nat.simps [simp del]

text \<open>
  \<^verbatim>\<open>i64::abs\<close> and \<^verbatim>\<open>i64\<close> subtraction as the release build compiles them (overflow wraps;
  \<^verbatim>\<open>i64::MIN.abs()\<close> is \<^verbatim>\<open>i64::MIN\<close>), and the test \<^verbatim>\<open>(now - ts).abs() > limit\<close> of both
  authentication extractors.
\<close>

definition abs_i64 :: "i64 \<Rightarrow> i64" where
  "abs_i64 d = (if sint d < 0 then - d else d)"

definition outside_window :: "i64 \<Rightarrow> i64 \<Rightarrow> int \<Rightarrow> bool" where
  "outside_window now ts limit \<longleftrightarrow> sint (abs_i64 (now - ts)) > limit"

lemma digit_value_char_of: "d < 10 \<Longrightarrow> digit_value (char_of (48 + d)) = Some d"
  by (simp add: digit_value_def)

lemma digits_value_snoc:
  "digits_value acc (s @ [c]) =
     (case digits_value acc s of
        None \<Rightarrow> None
      | Some v \<Rightarrow> (case digit_value c of None \<Rightarrow> None | Some d \<Rightarrow> Some (10 * v + d)))"
  by (induction s arbitrary: acc) (auto split: option.split)

lemma digits_value_show_nat: "digits_value 0 (show_nat n) = Some n"
proof (induction n rule: show_nat.induct)
  case (1 n)
  show ?case
  proof (cases "n < 10")
    case True
    then show ?thesis by (subst show_nat.simps) (simp add: digit_value_char_of)
  next
    case False
    with 1 show ?thesis
      by (subst show_nat.simps) (simp add: digits_value_snoc digit_value_char_of)
  qed
qed

lemma show_nat_nonempty [simp]: "show_nat n \<noteq> []"
  by (subst show_nat.simps) simp

lemma digit_value_sign [simp]: "digit_value CHR ''-'' = None" "digit_value CHR ''+'' = None"
  "digit_value newline = None"
  by (simp_all add: digit_value_def newline_def)

lemma digits_value_digits: "digits_value acc s = Some v \<Longrightarrow> c \<in> set s \<Longrightarrow> digit_value c \<noteq> None"
  by (induction s arbitrary: acc) (auto split: option.splits)

lemma show_nat_no_char: "digit_value c = None \<Longrightarrow> c \<notin> set (show_nat n)"
  using digits_value_digits [OF digits_value_show_nat] by blast

lemma show_nat_Cons:
  obtains c r where "show_nat n = c # r" "c \<noteq> CHR ''-''" "c \<noteq> CHR ''+''"
  using show_nat_no_char [of "CHR ''-''" n] show_nat_no_char [of "CHR ''+''" n]
  by (cases "show_nat n") auto

lemma parse_i64_show_nat: "n < 2 ^ 63 \<Longrightarrow> parse_i64 (show_nat n) = Some (word_of_nat n)"
  using digits_value_show_nat [of n]
  by (rule_tac n = n in show_nat_Cons) (auto simp: parse_i64_def)

lemma sint_minus_64: "sint (a - b :: i64) = signed_take_bit 63 (sint a - sint b)"
  by (simp add: sint_word_ariths)

lemma signed_take_bit_63_id: "- (2 ^ 63) \<le> k \<Longrightarrow> k < 2 ^ 63 \<Longrightarrow> signed_take_bit 63 k = (k :: int)"
  by (simp add: signed_take_bit_int_eq_self)

lemma sint_bounds_64: "- (2 ^ 63) \<le> sint (x :: i64)" "sint (x :: i64) < 2 ^ 63"
  using sint_greater_eq [of x] sint_less [of x] by simp_all

lemma sint_abs_i64: "sint (abs_i64 x) = (if sint x = - (2 ^ 63) then - (2 ^ 63) else \<bar>sint x\<bar>)"
proof -
  have neg: "sint (- x) = signed_take_bit 63 (- sint x)"
    by (simp add: sint_word_ariths)
  show ?thesis
  proof (cases "sint x = - (2 ^ 63)")
    case True
    then have "sint (- x) = signed_take_bit 63 (2 ^ 63)"
      using neg by simp
    also have "\<dots> = - (2 ^ 63)"
      by (simp add: signed_take_bit_eq_take_bit_minus bit_iff_odd)
    finally show ?thesis
      using True by (simp add: abs_i64_def)
  next
    case False
    with sint_bounds_64 [of x] have "- (2 ^ 63) \<le> - sint x" "sint x < 0 \<Longrightarrow> - sint x < 2 ^ 63"
      by linarith+
    with neg have "sint x < 0 \<Longrightarrow> sint (- x) = - sint x"
      using signed_take_bit_63_id by metis
    with False show ?thesis
      by (simp add: abs_i64_def)
  qed
qed

lemma signed_take_bit_63_wrap:
  "2 ^ 63 \<le> k \<Longrightarrow> k < 2 ^ 64 \<Longrightarrow> signed_take_bit 63 k = (k :: int) - 2 ^ 64"
proof -
  assume k: "2 ^ 63 \<le> k" "k < 2 ^ 64"
  have "signed_take_bit 63 k = signed_take_bit 63 (k - 2 ^ 64)"
    by (rule signed_take_bit_eq_iff_take_bit_eq [THEN iffD2])
      (simp add: take_bit_eq_mod flip: mod_diff_right_eq)
  also have "\<dots> = k - 2 ^ 64"
    using k by (intro signed_take_bit_63_id) simp_all
  finally show ?thesis .
qed

lemma outside_window_iff:
  assumes now: "0 \<le> sint now" "sint now < 2 ^ 62" and limit: "0 \<le> limit" "limit < 2 ^ 62"
  shows "outside_window now ts limit \<longleftrightarrow>
    limit < \<bar>sint now - sint ts\<bar> \<and> sint now - sint ts \<noteq> 2 ^ 63"
proof (cases "sint now - sint ts < 2 ^ 63")
  case True
  have "- (2 ^ 63) < sint now - sint ts"
    using now sint_bounds_64 [of ts] by linarith
  with True have "sint (now - ts) = sint now - sint ts" "sint (now - ts) \<noteq> - (2 ^ 63)"
    by (simp_all add: sint_minus_64 signed_take_bit_63_id)
  with True show ?thesis
    by (auto simp: outside_window_def sint_abs_i64)
next
  case False
  have le: "sint now - sint ts \<le> 2 ^ 63 + 2 ^ 62"
    using now sint_bounds_64 [of ts] by linarith
  with False have d: "sint (now - ts) = sint now - sint ts - 2 ^ 64"
    by (simp add: sint_minus_64 signed_take_bit_63_wrap)
  with False le limit show ?thesis
    by (auto simp: outside_window_def sint_abs_i64)
qed

end
