(* ===== verification/Host.thy ===== *)
theory Host
  imports Database Rust_Text
begin

text \<open>
  The process around the request handlers. A \<open>host\<close> collects everything the server calls that is
  not in the repository: the fate of each database statement, what other connections do to the
  database between two statements of a handler, the clocks, the random number generator, the
  network, and the base64, Ed25519, JWT and uuid crates. It is an argument of every definition.
  A \<open>world\<close> is what changes: the database, the number of external calls made so far (which
  indexes the host's answers), the HTTP requests sent and the tasks spawned.
\<close>

section \<open>The environment\<close>

text \<open>
  What becomes of a statement: it runs; it is lost before the server sees it; or it takes effect
  and the reply is lost, so the caller gets an error for a change that is in the database.
\<close>

datatype fate = Runs | Lost | Unacknowledged

record http_request =
  hr_method :: string
  hr_url :: string
  hr_headers :: "(string \<times> string) list"
  hr_body :: "json option"

text \<open>A response carries its status and, when its body is JSON, the value.\<close>

datatype http_result = Http_Error | Http_Response nat "json option"

record host =
  stmt_fate :: "nat \<Rightarrow> fate"
  others :: "nat \<Rightarrow> db \<Rightarrow> db"
  db_clock :: "nat \<Rightarrow> timestamp"
  unix_secs :: "nat \<Rightarrow> nat"
  gen_random_uuid :: "nat \<Rightarrow> uuid"
  os_rng :: "nat \<Rightarrow> nat \<Rightarrow> bytes"
  http_send :: "nat \<Rightarrow> http_request \<Rightarrow> http_result"
  b64_encode :: "bytes \<Rightarrow> string"
  b64_decode :: "string \<Rightarrow> bytes option"
  vk_valid :: "bytes \<Rightarrow> bool"
  ed_verify :: "bytes \<Rightarrow> bytes \<Rightarrow> bytes \<Rightarrow> bool"
  ed_sign :: "bytes \<Rightarrow> bytes \<Rightarrow> bytes"
  ed_public :: "bytes \<Rightarrow> bytes"
  jwt_encode :: "string \<Rightarrow> enrollment_claims \<Rightarrow> string option"
  jwt_decode :: "nat \<Rightarrow> string \<Rightarrow> string \<Rightarrow> enrollment_claims option"
  uuid_show :: "uuid \<Rightarrow> string"
  uuid_parse :: "string \<Rightarrow> uuid option"

text \<open>
  A task handed to \<^verbatim>\<open>tokio::spawn\<close>: the immediate delivery of a queued message, or one entry of
  an outbox poll.
\<close>

datatype task =
    Deliver_Now string s2s_message_payload uuid
  | Outbox_Entry federation_outbox_entry

record world =
  ticks :: nat
  store :: db
  sent :: "http_request list"
  spawned :: "task list"

section \<open>External calls\<close>

text \<open>
  One statement on the connection pool. Each is its own transaction, so other connections may
  have run before it (\<open>others\<close>), and it either takes effect as a whole or not at all.
\<close>

definition exec :: "host \<Rightarrow> 'a stmt \<Rightarrow> world \<Rightarrow> (sql_error + 'a) \<times> world" where
  "exec h q w =
     (let n = ticks w; d = others h n (store w); w' = w\<lparr>ticks := Suc n, store := d\<rparr>
      in case stmt_fate h n of
           Lost \<Rightarrow> (Inl Io, w')
         | Runs \<Rightarrow>
             (case q (db_clock h n) (gen_random_uuid h n) d of
                Inl e \<Rightarrow> (Inl e, w')
              | Inr (a, d') \<Rightarrow> (Inr a, w'\<lparr>store := d'\<rparr>))
         | Unacknowledged \<Rightarrow>
             (case q (db_clock h n) (gen_random_uuid h n) d of
                Inl e \<Rightarrow> (Inl Io, w')
              | Inr (a, d') \<Rightarrow> (Inl Io, w'\<lparr>store := d'\<rparr>)))"

text \<open>\<^verbatim>\<open>Utc::now().timestamp()\<close>, the 64-bit seconds of the process clock.\<close>

definition utc_now :: "host \<Rightarrow> world \<Rightarrow> i64 \<times> world" where
  "utc_now h w = (word_of_nat (unix_secs h (ticks w)), w\<lparr>ticks := Suc (ticks w)\<rparr>)"

text \<open>\<^verbatim>\<open>SystemTime::now().duration_since(UNIX_EPOCH).unwrap().as_secs()\<close>; the host clock is past 1970.\<close>

definition system_secs :: "host \<Rightarrow> world \<Rightarrow> nat \<times> world" where
  "system_secs h w = (unix_secs h (ticks w), w\<lparr>ticks := Suc (ticks w)\<rparr>)"

text \<open>\<^verbatim>\<open>OsRng.fill_bytes(&mut [0u8; n])\<close>\<close>

definition fill_random :: "host \<Rightarrow> nat \<Rightarrow> world \<Rightarrow> bytes \<times> world" where
  "fill_random h n w = (os_rng h (ticks w) n, w\<lparr>ticks := Suc (ticks w)\<rparr>)"

definition send_http :: "host \<Rightarrow> http_request \<Rightarrow> world \<Rightarrow> http_result \<times> world" where
  "send_http h r w = (http_send h (ticks w) r, w\<lparr>ticks := Suc (ticks w), sent := sent w @ [r]\<rparr>)"

definition spawn :: "task \<Rightarrow> world \<Rightarrow> unit \<times> world" where
  "spawn t w = ((), w\<lparr>spawned := spawned w @ [t]\<rparr>)"

definition is_success :: "nat \<Rightarrow> bool" where
  "is_success s \<longleftrightarrow> 200 \<le> s \<and> s < 300"

section \<open>The state of the application\<close>

record node_keys =
  nk_public_b64 :: string
  nk_private_b64 :: string

text \<open>\<^verbatim>\<open>AppState\<close> without its pool and HTTP client, which are the host and the world.\<close>

record app_state =
  jwt_secret :: string
  app_node_keys :: node_keys
  this_node_id :: string
  this_api_url :: string
  registry_url :: string

section \<open>Replies of the handlers\<close>

datatype status_code =
    OK | CREATED | ACCEPTED | BAD_REQUEST | UNAUTHORIZED | FORBIDDEN | NOT_FOUND | CONFLICT
  | INTERNAL_SERVER_ERROR | BAD_GATEWAY | SERVICE_UNAVAILABLE

text \<open>
  The body of a reply: \<^verbatim>\<open>{"error": s}\<close>, \<^verbatim>\<open>{"status": s}\<close>, another constant object, a plain text,
  or the JSON of a model value.
\<close>

datatype body =
    Error_Body string
  | Status_Body string
  | Const_Body string string
  | Text_Body string
  | Devices_Body "devices list"
  | Bundles_Body "device_bundle list"
  | Device_Body devices
  | User_Body "user option"
  | Users_Body "user list"
  | New_User_Body user string
  | Chats_Body "chat_view list"
  | Messages_Body "message_view list"
  | Sessions_Body "pending_session list"
  | Ack_Body s2s_ack
  | Node_Info_Body node_info

text \<open>A handler replies or panics (the connection is then dropped without a reply).\<close>

datatype reply = Reply status_code body | Panic

section \<open>Facts about external calls\<close>

definition well_behaved :: "host \<Rightarrow> nat \<Rightarrow> bool" where
  "well_behaved h n \<longleftrightarrow> stmt_fate h n = Runs \<and> others h n = id"

text \<open>A host on which nothing fails and nobody else uses the database.\<close>

definition quiet :: "host \<Rightarrow> bool" where
  "quiet h \<longleftrightarrow> (\<forall>n. well_behaved h n)"

lemma exec_quiet:
  "quiet h \<Longrightarrow> exec h q w =
     (case q (db_clock h (ticks w)) (gen_random_uuid h (ticks w)) (store w) of
        Inl e \<Rightarrow> (Inl e, w\<lparr>ticks := Suc (ticks w)\<rparr>)
      | Inr (a, d) \<Rightarrow> (Inr a, w\<lparr>ticks := Suc (ticks w), store := d\<rparr>))"
  by (simp add: exec_def quiet_def well_behaved_def Let_def split: sum.split prod.split)

lemma exec_select_quiet:
  "quiet h \<Longrightarrow> exec h (select f) w =
     (Inr (f (db_clock h (ticks w)) (store w)), w\<lparr>ticks := Suc (ticks w)\<rparr>)"
  by (simp add: exec_quiet select_def)

text \<open>What a successful statement did, with faults and other connections.\<close>

lemma exec_Inr_iff:
  "exec h q w = (Inr a, w') \<longleftrightarrow>
     stmt_fate h (ticks w) = Runs \<and>
     (\<exists>d'. q (db_clock h (ticks w)) (gen_random_uuid h (ticks w))
            (others h (ticks w) (store w)) = Inr (a, d') \<and>
        w' = w\<lparr>ticks := Suc (ticks w), store := d'\<rparr>)"
  by (auto simp: exec_def Let_def split: fate.splits sum.splits)

lemma exec_select_Inr_iff:
  "exec h (select f) w = (Inr a, w') \<longleftrightarrow>
     stmt_fate h (ticks w) = Runs \<and>
     a = f (db_clock h (ticks w)) (others h (ticks w) (store w)) \<and>
     w' = w\<lparr>ticks := Suc (ticks w), store := others h (ticks w) (store w)\<rparr>"
  by (auto simp: exec_Inr_iff select_def)

lemma ticks_exec: "ticks (snd (exec h q w)) = Suc (ticks w)"
  by (cases "stmt_fate h (ticks w)") (simp_all add: exec_def Let_def split: sum.split)

lemma exec_cases:
  obtains (no_effect) "store (snd (exec h q w)) = others h (ticks w) (store w)"
  | (effect) a d' where "q (db_clock h (ticks w)) (gen_random_uuid h (ticks w))
      (others h (ticks w) (store w)) = Inr (a, d')" "store (snd (exec h q w)) = d'"
proof (cases "q (db_clock h (ticks w)) (gen_random_uuid h (ticks w)) (others h (ticks w) (store w))")
  case (Inl e)
  then show ?thesis
    by (intro no_effect) (cases "stmt_fate h (ticks w)", simp_all add: exec_def Let_def)
next
  case (Inr p)
  then show ?thesis
    by (cases p; cases "stmt_fate h (ticks w)") (auto intro: effect no_effect simp: exec_def Let_def)
qed

lemma exec_other_fields:
  "exec h q w = (r, w') \<Longrightarrow> ticks w' = Suc (ticks w)"
  "exec h q w = (r, w') \<Longrightarrow> sent w' = sent w"
  "exec h q w = (r, w') \<Longrightarrow> spawned w' = spawned w"
  by (auto simp: exec_def Let_def split: fate.splits sum.splits)

lemmas external_calls = utc_now_def system_secs_def fill_random_def send_http_def spawn_def

end
