(* ===== verification/User_Repository.thy ===== *)
theory User_Repository
  imports Host
begin

text \<open>\<^verbatim>\<open>src/repository/user_repository.rs\<close> and \<^verbatim>\<open>src/repository/enrollment_token_repository.rs\<close>.\<close>

section \<open>users\<close>

text \<open>The columns \<^verbatim>\<open>id, username, created_at\<close> of a row.\<close>

definition as_user :: "user_row \<Rightarrow> user" where
  "as_user r = \<lparr>u_id = us_id r, u_username = us_username r, u_created_at = us_created_at r\<rparr>"

definition all_local_users :: "db \<Rightarrow> user list" where
  "all_local_users d = map as_user (filter (\<lambda>r. us_home_node_id r = None) (t_users d))"

definition get_all_users :: "host \<Rightarrow> world \<Rightarrow> (sql_error + user list) \<times> world" where
  "get_all_users h = exec h (select (\<lambda>now. all_local_users))"

definition create_user_stmt :: "string \<Rightarrow> user stmt" where
  "create_user_stmt username now new_id d =
     (if new_id \<in> user_ids d \<or> username \<in> us_username ` set (t_users d) then Inl unique_violation
      else
        let r = \<lparr>us_id = new_id, us_username = username, us_created_at = Some now,
                 us_home_node_id = None, us_federated_address = None\<rparr>
        in Inr (as_user r, d\<lparr>t_users := t_users d @ [r]\<rparr>))"

definition insert_user :: "host \<Rightarrow> string \<Rightarrow> world \<Rightarrow> (sql_error + user) \<times> world" where
  "insert_user h username = exec h (create_user_stmt username)"

text \<open>The join of users and devices on one identity key, in the order of \<^verbatim>\<open>users\<close>.\<close>

definition user_by_pubkey :: "string \<Rightarrow> db \<Rightarrow> user option" where
  "user_by_pubkey pubkey_b64 d =
     map_option as_user
       (find (\<lambda>u. \<exists>v \<in> set (t_devices d). dv_user_id v = us_id u \<and> dv_identity_pubkey v = pubkey_b64)
          (t_users d))"

definition find_user_by_pubkey :: "host \<Rightarrow> string \<Rightarrow> world \<Rightarrow> (sql_error + user option) \<times> world" where
  "find_user_by_pubkey h pubkey_b64 = exec h (select (\<lambda>now. user_by_pubkey pubkey_b64))"

definition user_by_id :: "uuid \<Rightarrow> db \<Rightarrow> user option" where
  "user_by_id i d = map_option as_user (find (\<lambda>r. us_id r = i) (t_users d))"

definition find_user_by_id :: "host \<Rightarrow> uuid \<Rightarrow> world \<Rightarrow> (sql_error + user option) \<times> world" where
  "find_user_by_id h i = exec h (select (\<lambda>now. user_by_id i))"

section \<open>used_tokens\<close>

definition token_used :: "string \<Rightarrow> db \<Rightarrow> bool" where
  "token_used token d \<longleftrightarrow> token \<in> ut_token ` set (t_used_tokens d)"

definition enrollment_token_exists :: "host \<Rightarrow> string \<Rightarrow> world \<Rightarrow> (sql_error + bool) \<times> world" where
  "enrollment_token_exists h token = exec h (select (\<lambda>now. token_used token))"

definition add_used_token_stmt :: "string \<Rightarrow> unit stmt" where
  "add_used_token_stmt token now new_id d =
     (if token_used token d then Inr ((), d)
      else Inr ((), d\<lparr>t_used_tokens := t_used_tokens d @
             [\<lparr>ut_token = token, ut_used_at = Some now\<rparr>]\<rparr>))"

definition add_used_token :: "host \<Rightarrow> string \<Rightarrow> world \<Rightarrow> (sql_error + unit) \<times> world" where
  "add_used_token h token = exec h (add_used_token_stmt token)"

end
