(* ===== verification/Contracts.thy ===== *)
theory Contracts
  imports Host
begin

text \<open>
  The interfaces of the repositories, as the handlers rely on them: a table that takes a row once per
  key, a lookup that creates what it does not find, and a cache keyed by a name. The laws are stated
  of single statements; the lemmas are about the calls the handlers make of them. The repositories
  interpret each locale on their own statements.
\<close>

section \<open>Rows that are inserted once\<close>

locale insert_once =
  fixes ins :: "'r \<Rightarrow> bool stmt" and key :: "'r \<Rightarrow> 'k" and keys :: "db \<Rightarrow> 'k set"
  assumes ins_keys: "ins r t i d = Inr (b, d') \<Longrightarrow>
      (b \<longleftrightarrow> key r \<notin> keys d) \<and> keys d' = insert (key r) (keys d)"
    and ins_again: "key r \<in> keys d \<Longrightarrow> ins r t i d = Inr (False, d)"
begin

lemma exec_again:
  assumes "quiet h" "key r \<in> keys (store w)"
  shows "exec h (ins r) w = (Inr False, w\<lparr>ticks := Suc (ticks w)\<rparr>)"
  using assms by (simp add: exec_quiet ins_again)

lemma exec_keys:
  assumes "exec h (ins r) w = (Inr b, w')"
  shows "key r \<in> keys (store w')"
  using assms by (auto simp: exec_Inr_iff dest: ins_keys)

text \<open>A loop over rows that are all there finds nothing new and changes nothing.\<close>

lemma loop_again:
  assumes "quiet h" "\<And>x. x \<in> set xs \<Longrightarrow> key (row x) \<in> keys (store w)"
  shows "for_each (\<lambda>any x. try_await (exec h (ins (row x))) (\<lambda>is_new. ret (Inr (any \<or> is_new)))) any_new xs w =
    (Inr any_new, w\<lparr>ticks := ticks w + length xs\<rparr>)"
  using assms(2)
proof (induction xs arbitrary: w)
  case (Cons x xs)
  from Cons.prems have "exec h (ins (row x)) w = (Inr False, w\<lparr>ticks := Suc (ticks w)\<rparr>)"
    by (simp add: exec_again [OF assms(1)])
  with Cons show ?case
    by (simp add: try_await_def await_def ret_def)
qed (simp add: ret_def)

end

section \<open>Find or create\<close>

locale find_or_create =
  fixes found :: "db \<Rightarrow> 'a option" and create :: "'a stmt"
  assumes create_found: "found d = None \<Longrightarrow> create t i d = Inr (a, d') \<Longrightarrow> found d' = Some a"
begin

definition call :: "host \<Rightarrow> world \<Rightarrow> (sql_error + 'a) \<times> world" where
  "call h =
     try_await (exec h (select (\<lambda>_. found))) (\<lambda>r. case r of Some a \<Rightarrow> ret (Inr a) | None \<Rightarrow> exec h create)"

lemma call_outcome:
  assumes "quiet h" "call h w = (Inr a, w')"
  shows "(found (store w) = Some a \<and> store w' = store w) \<or>
    (found (store w) = None \<and> (\<exists>t i. create t i (store w) = Inr (a, store w')))"
proof (cases "found (store w)")
  case None
  with assms have "exec h create (w\<lparr>ticks := Suc (ticks w)\<rparr>) = (Inr a, w')"
    by (simp add: call_def try_await_def await_def exec_select_quiet)
  then obtain t i where "create t i (store w) = Inr (a, store w')"
    using assms(1) by (auto simp: exec_quiet split: sum.splits)
  with None show ?thesis
    by blast
next
  case (Some x)
  with assms show ?thesis
    by (auto simp: call_def try_await_def await_def exec_select_quiet ret_def)
qed

lemma call_found:
  assumes "quiet h" "call h w = (Inr a, w')"
  shows "found (store w') = Some a"
  using call_outcome [OF assms] by (auto dest: create_found)

lemma call_again:
  assumes "quiet h" "found (store w) = Some a"
  shows "call h w = (Inr a, w\<lparr>ticks := Suc (ticks w)\<rparr>)"
  using assms by (simp add: call_def try_await_def await_def exec_select_quiet ret_def)

end

section \<open>A cache\<close>

locale keyed_cache =
  fixes lookup :: "'k \<Rightarrow> db \<Rightarrow> 'r option" and put :: "'k \<Rightarrow> 'v \<Rightarrow> 'r stmt"
  assumes put_lookup: "put k v t i d = Inr (r, d') \<Longrightarrow> lookup k d' = Some r"
    and put_other: "put k v t i d = Inr (r, d') \<Longrightarrow> k' \<noteq> k \<Longrightarrow> lookup k' d' = lookup k' d"
begin

lemma exec_put_lookup:
  "exec h (put k v) w = (Inr r, w') \<Longrightarrow> lookup k (store w') = Some r"
  by (auto simp: exec_Inr_iff dest: put_lookup)

lemma exec_put_other:
  "quiet h \<Longrightarrow> exec h (put k v) w = (Inr r, w') \<Longrightarrow> k' \<noteq> k \<Longrightarrow> lookup k' (store w') = lookup k' (store w)"
  by (auto simp: exec_quiet split: sum.splits dest: put_other)

end

end
