(* ===== verification/Federation_Repository.thy ===== *)
theory Federation_Repository
  imports Contracts
begin

text \<open>
  \<^verbatim>\<open>src/repository/federation_repository.rs\<close>: the cache of peer nodes, the nonce store, the
  outbox, and the shadow users, devices and chats of remote senders. Each query is a statement on
  the database (\<open>..._stmt\<close>), and the repository function runs it on the pool.
\<close>

section \<open>federation_nodes\<close>

definition upsert_federation_node_stmt :: "string \<Rightarrow> string \<Rightarrow> string \<Rightarrow> federation_node stmt" where
  "upsert_federation_node_stmt node_id api_url public_key_b64 now new_id d =
     (case find (\<lambda>r. fn_node_id r = node_id) (t_federation_nodes d) of
        Some r \<Rightarrow>
          (let upd = (\<lambda>r. r\<lparr>fn_api_url := api_url, fn_public_key_b64 := public_key_b64,
                          fn_last_seen := Some now\<rparr>)
           in Inr (upd r, d\<lparr>t_federation_nodes :=
                update_where (\<lambda>r. fn_node_id r = node_id) upd (t_federation_nodes d)\<rparr>))
      | None \<Rightarrow>
          (if new_id \<in> node_ids d then Inl unique_violation
           else
             let r = \<lparr>fn_id = new_id, fn_node_id = node_id, fn_api_url = api_url,
                      fn_public_key_b64 = public_key_b64, fn_last_seen = None,
                      fn_is_blocked = False, fn_created_at = now\<rparr>
             in Inr (r, d\<lparr>t_federation_nodes := t_federation_nodes d @ [r]\<rparr>)))"

definition upsert_federation_node ::
  "host \<Rightarrow> string \<Rightarrow> string \<Rightarrow> string \<Rightarrow> world \<Rightarrow> (sql_error + federation_node) \<times> world" where
  "upsert_federation_node h node_id api_url public_key_b64 =
     exec h (upsert_federation_node_stmt node_id api_url public_key_b64)"

definition find_node :: "string \<Rightarrow> db \<Rightarrow> federation_node option" where
  "find_node node_id d = find (\<lambda>r. fn_node_id r = node_id) (t_federation_nodes d)"

definition get_federation_node ::
  "host \<Rightarrow> string \<Rightarrow> world \<Rightarrow> (sql_error + federation_node option) \<times> world" where
  "get_federation_node h node_id = exec h (select (\<lambda>now. find_node node_id))"

section \<open>used_node_nonces\<close>

definition claim_nonce_stmt :: "string \<Rightarrow> string \<Rightarrow> bool stmt" where
  "claim_nonce_stmt node_id nonce now new_id d =
     (if (nonce, node_id) \<in> nonce_key ` set (t_used_node_nonces d) then Inr (False, d)
      else Inr (True, d\<lparr>t_used_node_nonces := t_used_node_nonces d @
             [\<lparr>nn_nonce = nonce, nn_node_id = node_id, nn_used_at = now\<rparr>]\<rparr>))"

definition claim_nonce :: "host \<Rightarrow> string \<Rightarrow> string \<Rightarrow> world \<Rightarrow> (sql_error + bool) \<times> world" where
  "claim_nonce h node_id nonce = exec h (claim_nonce_stmt node_id nonce)"

definition purge_expired_nonces_stmt :: "nat stmt" where
  "purge_expired_nonces_stmt now new_id d =
     (let expired = (\<lambda>r. nn_used_at r < now - seconds 300)
      in Inr (length (filter expired (t_used_node_nonces d)),
              d\<lparr>t_used_node_nonces := filter (\<lambda>r. \<not> expired r) (t_used_node_nonces d)\<rparr>))"

definition purge_expired_nonces :: "host \<Rightarrow> world \<Rightarrow> (sql_error + nat) \<times> world" where
  "purge_expired_nonces h = exec h purge_expired_nonces_stmt"

section \<open>federation_outbox\<close>

definition enqueue_outbox_stmt :: "string \<Rightarrow> string \<Rightarrow> json \<Rightarrow> uuid stmt" where
  "enqueue_outbox_stmt target_node_id logical_msg_id payload now new_id d =
     (if new_id \<in> ob_id ` set (t_federation_outbox d) then Inl unique_violation
      else Inr (new_id, d\<lparr>t_federation_outbox := t_federation_outbox d @
             [\<lparr>ob_id = new_id, ob_target_node_id = target_node_id,
               ob_logical_msg_id = logical_msg_id, ob_payload = payload, ob_attempt_count = 0,
               ob_last_attempt = None, ob_next_attempt = now, ob_status = ''pending'',
               ob_created_at = now\<rparr>]\<rparr>))"

definition enqueue_outbox ::
  "host \<Rightarrow> string \<Rightarrow> string \<Rightarrow> json \<Rightarrow> world \<Rightarrow> (sql_error + uuid) \<times> world" where
  "enqueue_outbox h target_node_id logical_msg_id payload =
     exec h (enqueue_outbox_stmt target_node_id logical_msg_id payload)"

definition outbox_due :: "timestamp \<Rightarrow> federation_outbox_entry \<Rightarrow> bool" where
  "outbox_due now e \<longleftrightarrow> ob_status e = ''pending'' \<and> ob_next_attempt e \<le> now"

definition due_entries :: "timestamp \<Rightarrow> db \<Rightarrow> federation_outbox_entry list" where
  "due_entries now d =
     take 100 (sort_key ob_next_attempt (filter (outbox_due now) (t_federation_outbox d)))"

definition fetch_due_outbox_entries ::
  "host \<Rightarrow> world \<Rightarrow> (sql_error + federation_outbox_entry list) \<times> world" where
  "fetch_due_outbox_entries h = exec h (select due_entries)"

definition mark_outbox_delivered_stmt :: "uuid \<Rightarrow> unit stmt" where
  "mark_outbox_delivered_stmt i now new_id d =
     Inr ((), d\<lparr>t_federation_outbox :=
       update_where (\<lambda>e. ob_id e = i)
         (\<lambda>e. e\<lparr>ob_status := ''delivered'', ob_last_attempt := Some now\<rparr>) (t_federation_outbox d)\<rparr>)"

definition mark_outbox_delivered :: "host \<Rightarrow> uuid \<Rightarrow> world \<Rightarrow> (sql_error + unit) \<times> world" where
  "mark_outbox_delivered h i = exec h (mark_outbox_delivered_stmt i)"

definition mark_outbox_delivered_by_logical_id_stmt :: "string \<Rightarrow> unit stmt" where
  "mark_outbox_delivered_by_logical_id_stmt logical_msg_id now new_id d =
     Inr ((), d\<lparr>t_federation_outbox :=
       update_where (\<lambda>e. ob_logical_msg_id e = logical_msg_id \<and> ob_status e = ''pending'')
         (\<lambda>e. e\<lparr>ob_status := ''delivered'', ob_last_attempt := Some now\<rparr>) (t_federation_outbox d)\<rparr>)"

definition mark_outbox_delivered_by_logical_id ::
  "host \<Rightarrow> string \<Rightarrow> world \<Rightarrow> (sql_error + unit) \<times> world" where
  "mark_outbox_delivered_by_logical_id h logical_msg_id =
     exec h (mark_outbox_delivered_by_logical_id_stmt logical_msg_id)"

text \<open>
  \<^verbatim>\<open>(10_i64 * (1_i64 << attempt_count.min(12))).min(3600)\<close>: the shift amount of a release build
  is taken modulo the width, comparisons are signed.
\<close>

definition backoff_secs :: "i32 \<Rightarrow> i64" where
  "backoff_secs attempt_count =
     (let shift = (if sint attempt_count < 12 then attempt_count else 12);
          b = 10 * push_bit (unat shift mod 64) (1 :: i64)
      in if sint b < 3600 then b else 3600)"

definition fail_outbox_stmt :: "uuid \<Rightarrow> i32 \<Rightarrow> unit stmt" where
  "fail_outbox_stmt i attempt_count now new_id d =
     Inr ((), d\<lparr>t_federation_outbox :=
       update_where (\<lambda>e. ob_id e = i)
         (\<lambda>e. e\<lparr>ob_status := ''failed'', ob_last_attempt := Some now,
              ob_attempt_count := attempt_count\<rparr>) (t_federation_outbox d)\<rparr>)"

definition retry_outbox_stmt :: "uuid \<Rightarrow> i32 \<Rightarrow> i64 \<Rightarrow> unit stmt" where
  "retry_outbox_stmt i attempt_count backoff now new_id d =
     Inr ((), d\<lparr>t_federation_outbox :=
       update_where (\<lambda>e. ob_id e = i)
         (\<lambda>e. e\<lparr>ob_attempt_count := attempt_count, ob_last_attempt := Some now,
              ob_next_attempt := now + seconds (sint backoff)\<rparr>) (t_federation_outbox d)\<rparr>)"

definition record_outbox_failure ::
  "host \<Rightarrow> uuid \<Rightarrow> i32 \<Rightarrow> i32 \<Rightarrow> world \<Rightarrow> (sql_error + unit) \<times> world" where
  "record_outbox_failure h i attempt_count max_attempts =
     (if sint attempt_count \<ge> sint max_attempts then exec h (fail_outbox_stmt i attempt_count)
      else exec h (retry_outbox_stmt i attempt_count (backoff_secs attempt_count)))"

section \<open>Shadow users, devices and direct chats\<close>

definition upsert_shadow_user_stmt :: "string \<Rightarrow> string \<Rightarrow> uuid \<Rightarrow> uuid stmt" where
  "upsert_shadow_user_stmt username federated_address home_node_id now new_id d =
     (case find (\<lambda>r. us_federated_address r = Some federated_address) (t_users d) of
        Some r \<Rightarrow>
          (if \<exists>q \<in> set (t_users d). us_id q \<noteq> us_id r \<and> us_username q = username
           then Inl unique_violation
           else Inr (us_id r, d\<lparr>t_users :=
                  update_where (\<lambda>q. us_federated_address q = Some federated_address)
                    (\<lambda>q. q\<lparr>us_username := username\<rparr>) (t_users d)\<rparr>))
      | None \<Rightarrow>
          (if new_id \<in> user_ids d \<or> username \<in> us_username ` set (t_users d)
           then Inl unique_violation
           else if home_node_id \<notin> node_ids d then Inl foreign_key_violation
           else Inr (new_id, d\<lparr>t_users := t_users d @
                  [\<lparr>us_id = new_id, us_username = username, us_created_at = Some now,
                    us_home_node_id = Some home_node_id,
                    us_federated_address = Some federated_address\<rparr>]\<rparr>)))"

definition upsert_shadow_user ::
  "host \<Rightarrow> string \<Rightarrow> string \<Rightarrow> uuid \<Rightarrow> world \<Rightarrow> (sql_error + uuid) \<times> world" where
  "upsert_shadow_user h username federated_address home_node_id =
     exec h (upsert_shadow_user_stmt username federated_address home_node_id)"

text \<open>Adding a row to \<^verbatim>\<open>devices\<close>, with the notification of its trigger.\<close>

definition insert_device :: "devices \<Rightarrow> db \<Rightarrow> sql_error + db" where
  "insert_device r d =
     (if dv_id r \<in> device_ids d \<or> device_key r \<in> device_key ` set (t_devices d)
      then Inl unique_violation
      else if dv_user_id r \<notin> user_ids d then Inl foreign_key_violation
      else Inr (d\<lparr>t_devices := t_devices d @ [r],
                  t_notifications := t_notifications d @ [Device_Notif (dv_user_id r)]\<rparr>))"

definition upsert_shadow_device_stmt :: "uuid \<Rightarrow> uuid \<Rightarrow> string \<Rightarrow> unit stmt" where
  "upsert_shadow_device_stmt device_id user_id identity_pubkey now new_id d =
     (if device_id \<in> device_ids d then Inr ((), d)
      else map_sum id (Pair ())
        (insert_device
           \<lparr>dv_id = device_id, dv_user_id = user_id, dv_identity_pubkey = identity_pubkey,
            dv_prekey_pubkey = '''', dv_signed_prekey_pub = '''', dv_signed_prekey_sig = '''',
            dv_one_time_prekeys = JArr [], dv_device_label = None, dv_push_token = None,
            dv_last_seen = Some now, dv_created_at = Some now\<rparr> d))"

definition upsert_shadow_device ::
  "host \<Rightarrow> uuid \<Rightarrow> uuid \<Rightarrow> string \<Rightarrow> world \<Rightarrow> (sql_error + unit) \<times> world" where
  "upsert_shadow_device h device_id user_id identity_pubkey =
     exec h (upsert_shadow_device_stmt device_id user_id identity_pubkey)"

text \<open>
  Adding a direct chat between \<open>ua\<close> and \<open>ub\<close> (null where a sub-select found nothing); the default
  of \<^verbatim>\<open>chat_type\<close> is \<^verbatim>\<open>direct\<close>.
\<close>

definition insert_direct_chat :: "uuid option \<Rightarrow> uuid option \<Rightarrow> uuid stmt" where
  "insert_direct_chat ua ub now new_id d =
     (let c = \<lparr>ch_id = new_id, ch_chat_type = Some ''direct'', ch_user_a = ua, ch_user_b = ub,
               ch_name = None, ch_owner_id = None, ch_last_message_id = None,
               ch_created_at = Some now, ch_updated_at = Some now\<rparr>
      in if \<not> direct_shape c then Inl check_violation
         else if new_id \<in> chat_ids d \<or> chat_pair c \<in> chat_pair ` {r \<in> set (t_chats d). is_direct r}
         then Inl unique_violation
         else if \<not> (opt_fk (user_ids d) ua \<and> opt_fk (user_ids d) ub) then Inl foreign_key_violation
         else Inr (new_id, d\<lparr>t_chats := t_chats d @ [c]\<rparr>))"

definition find_direct_chat :: "uuid \<Rightarrow> uuid \<Rightarrow> db \<Rightarrow> uuid option" where
  "find_direct_chat ua ub d =
     map_option ch_id (find (\<lambda>c. ch_user_a c = Some ua \<and> ch_user_b c = Some ub \<and> is_direct c)
       (t_chats d))"

definition get_or_create_direct_chat ::
  "host \<Rightarrow> uuid \<Rightarrow> uuid \<Rightarrow> world \<Rightarrow> (sql_error + uuid) \<times> world" where
  "get_or_create_direct_chat h user_x user_y =
     (let (ua, ub) = (if user_x < user_y then (user_x, user_y) else (user_y, user_x))
      in try_await (exec h (select (\<lambda>now. find_direct_chat ua ub))) (\<lambda>row.
           case row of
             Some i \<Rightarrow> ret (Inr i)
           | None \<Rightarrow> exec h (insert_direct_chat (Some ua) (Some ub))))"

definition local_user_id :: "string \<Rightarrow> db \<Rightarrow> uuid option" where
  "local_user_id username d =
     map_option us_id (find (\<lambda>r. us_username r = username \<and> us_home_node_id r = None) (t_users d))"

definition get_local_user_id_by_username ::
  "host \<Rightarrow> string \<Rightarrow> world \<Rightarrow> (sql_error + uuid option) \<times> world" where
  "get_local_user_id_by_username h username = exec h (select (\<lambda>now. local_user_id username))"

section \<open>Contracts\<close>

text \<open>The node cache, and the pair of a direct chat; \<open>uv\<close> pairs the two columns an upsert writes.\<close>

lemma find_snoc: "find P (xs @ [x]) = (case find P xs of Some y \<Rightarrow> Some y | None \<Rightarrow> if P x then Some x else None)"
  by (induction xs) auto

lemma find_update_where:
  "(\<And>r. P (f r) \<longleftrightarrow> P r) \<Longrightarrow> find P (update_where P f rs) = map_option f (find P rs)"
  by (induction rs) auto

lemma find_update_where_other:
  "(\<And>r. P r \<Longrightarrow> Q r = False) \<Longrightarrow> (\<And>r. P r \<Longrightarrow> Q (f r) = False) \<Longrightarrow> find Q (update_where P f rs) = find Q rs"
  by (induction rs) auto

interpretation node_cache: keyed_cache find_node
  "\<lambda>n (uv :: string \<times> string). upsert_federation_node_stmt n (fst uv) (snd uv)"
proof
  fix n :: string and uv :: "string \<times> string" and t i d r d'
  assume st: "upsert_federation_node_stmt n (fst uv) (snd uv) t i d = Inr (r, d')"
  show "find_node n d' = Some r"
    using st by (auto simp: upsert_federation_node_stmt_def find_node_def Let_def find_snoc
        find_update_where split: option.splits if_splits)
  fix n' assume "n' \<noteq> n"
  with st show "find_node n' d' = find_node n' d"
    by (auto simp: upsert_federation_node_stmt_def find_node_def Let_def find_snoc
        split: option.splits if_splits intro!: find_update_where_other)
qed

interpretation direct_chat: find_or_create "find_direct_chat a b" "insert_direct_chat (Some a) (Some b)" for a b
proof
  fix d t i c d'
  assume none: "find_direct_chat a b d = None" and ins: "insert_direct_chat (Some a) (Some b) t i d = Inr (c, d')"
  from none have "find (\<lambda>c. ch_user_a c = Some a \<and> ch_user_b c = Some b \<and> is_direct c) (t_chats d) = None"
    by (simp add: find_direct_chat_def)
  with ins show "find_direct_chat a b d' = Some c"
    by (auto simp: find_direct_chat_def insert_direct_chat_def Let_def find_snoc is_direct_def split: if_splits)
qed

lemma get_or_create_direct_chat_call:
  "get_or_create_direct_chat h x y =
     (if x < y then direct_chat.call x y h else direct_chat.call y x h)"
  by (simp add: get_or_create_direct_chat_def direct_chat.call_def)

end
