(* ===== verification/Device_Repository.thy ===== *)
theory Device_Repository
  imports Federation_Repository User_Repository
begin

text \<open>\<^verbatim>\<open>src/repository/device_repository.rs\<close>: devices, their key bundles and their owners.\<close>

definition create_device_stmt ::
  "uuid \<Rightarrow> string \<Rightarrow> string \<Rightarrow> string \<Rightarrow> string \<Rightarrow> json \<Rightarrow> string \<Rightarrow> string \<Rightarrow> devices stmt" where
  "create_device_stmt user_id identity_pubkey prekey_pubkey signed_prekey_pub signed_prekey_sig
       one_time_prekeys device_label push_token now new_id d =
     (let r = \<lparr>dv_id = new_id, dv_user_id = user_id, dv_identity_pubkey = identity_pubkey,
               dv_prekey_pubkey = prekey_pubkey, dv_signed_prekey_pub = signed_prekey_pub,
               dv_signed_prekey_sig = signed_prekey_sig, dv_one_time_prekeys = one_time_prekeys,
               dv_device_label = Some device_label, dv_push_token = Some push_token,
               dv_last_seen = Some now, dv_created_at = Some now\<rparr>
      in map_sum id (Pair r) (insert_device r d))"

definition insert_new_device ::
  "host \<Rightarrow> uuid \<Rightarrow> string \<Rightarrow> string \<Rightarrow> string \<Rightarrow> string \<Rightarrow> json \<Rightarrow> string \<Rightarrow> string \<Rightarrow> world \<Rightarrow>
     (sql_error + devices) \<times> world" where
  "insert_new_device h user_id identity_pubkey prekey_pubkey signed_prekey_pub signed_prekey_sig
       one_time_prekeys device_label push_token =
     exec h (create_device_stmt user_id identity_pubkey prekey_pubkey signed_prekey_pub
       signed_prekey_sig one_time_prekeys device_label push_token)"

definition devices_of_user :: "uuid \<Rightarrow> db \<Rightarrow> devices list" where
  "devices_of_user user_id d =
     order_desc dv_created_at (filter (\<lambda>r. dv_user_id r = user_id) (t_devices d))"

definition get_devices_by_user_id :: "host \<Rightarrow> uuid \<Rightarrow> world \<Rightarrow> (sql_error + devices list) \<times> world" where
  "get_devices_by_user_id h user_id = exec h (select (\<lambda>now. devices_of_user user_id))"

text \<open>\<^verbatim>\<open>fetch_one\<close>: the newest device with this key, or \<^verbatim>\<open>RowNotFound\<close>.\<close>

definition device_by_identity_key_stmt :: "string \<Rightarrow> devices stmt" where
  "device_by_identity_key_stmt id_key now new_id d =
     (case order_desc dv_created_at (filter (\<lambda>r. dv_identity_pubkey r = id_key) (t_devices d)) of
        [] \<Rightarrow> Inl RowNotFound
      | r # _ \<Rightarrow> Inr (r, d))"

definition get_device_by_identity_key :: "host \<Rightarrow> string \<Rightarrow> world \<Rightarrow> (sql_error + devices) \<times> world" where
  "get_device_by_identity_key h id_key = exec h (device_by_identity_key_stmt id_key)"

text \<open>
  The loop of \<^verbatim>\<open>get_device_bundle\<close>: the first row whose one-time prekeys are not an array of
  strings ends it with a decoding error.
\<close>

fun decode_bundles :: "devices list \<Rightarrow> sql_error + device_bundle list" where
  "decode_bundles [] = Inr []"
| "decode_bundles (r # rows) =
     (case json_list as_str (dv_one_time_prekeys r) of
        None \<Rightarrow> Inl (ColumnDecode ''one_time_prekeys'')
      | Some otpks \<Rightarrow>
          map_sum id (Cons
            \<lparr>db_device_id = dv_id r, db_identity_pubkey = dv_identity_pubkey r,
             db_prekey_pubkey = dv_prekey_pubkey r, db_signed_prekey_pub = dv_signed_prekey_pub r,
             db_signed_prekey_sig = dv_signed_prekey_sig r, db_one_time_prekeys = otpks\<rparr>)
            (decode_bundles rows))"

definition get_device_bundle ::
  "host \<Rightarrow> uuid \<Rightarrow> world \<Rightarrow> (sql_error + device_bundle list) \<times> world" where
  "get_device_bundle h user_id =
     try_await (exec h (select (\<lambda>now d. filter (\<lambda>r. dv_user_id r = user_id) (t_devices d))))
       (\<lambda>rows. ret (decode_bundles rows))"

definition device_owner_stmt :: "uuid \<Rightarrow> uuid stmt" where
  "device_owner_stmt device_id now new_id d =
     (case user_of_device d device_id of None \<Rightarrow> Inl RowNotFound | Some u \<Rightarrow> Inr (u, d))"

definition user_for_device :: "host \<Rightarrow> uuid \<Rightarrow> world \<Rightarrow> (sql_error + user option) \<times> world" where
  "user_for_device h device_id =
     try_await (exec h (device_owner_stmt device_id)) (\<lambda>user_id.
       exec h (select (\<lambda>now. user_by_id user_id)))"

end
