(* ===== verification/Message_Repository.thy ===== *)
theory Message_Repository
  imports Contracts
begin

text \<open>
  \<^verbatim>\<open>src/repository/message_repository.rs\<close>: the per-device copies of a message, written by a local
  sender or by a peer node, and their one-time collection by the recipient device.
\<close>

text \<open>
  Adding a row to \<^verbatim>\<open>messages\<close>, with the notification of its trigger; the \<^verbatim>\<open>created_at\<close> default is
  the time of the statement.
\<close>

definition new_message ::
  "uuid \<Rightarrow> timestamp \<Rightarrow> string \<Rightarrow> uuid \<Rightarrow> uuid \<Rightarrow> uuid \<Rightarrow> uuid \<Rightarrow> uuid \<Rightarrow> json \<Rightarrow> string \<Rightarrow> message_row" where
  "new_message new_id now logical_msg_id chat_id from_user_id from_device_id to_user_id to_device_id
       header ciphertext =
     \<lparr>me_id = new_id, me_logical_msg_id = logical_msg_id, me_chat_id = Some chat_id,
      me_from_user_id = Some from_user_id, me_from_device_id = Some from_device_id,
      me_to_user_id = Some to_user_id, me_to_device_id = Some to_device_id, me_header = header,
      me_ciphertext = ciphertext, me_delivered_at = None, me_read_at = None,
      me_created_at = Some now\<rparr>"

definition message_keys :: "db \<Rightarrow> (string \<times> uuid) set" where
  "message_keys d = set (List.map_filter message_key (t_messages d))"

definition message_fks :: "db \<Rightarrow> message_row \<Rightarrow> bool" where
  "message_fks d r \<longleftrightarrow> opt_fk (chat_ids d) (me_chat_id r) \<and> opt_fk (user_ids d) (me_from_user_id r) \<and>
     opt_fk (device_ids d) (me_from_device_id r) \<and> opt_fk (user_ids d) (me_to_user_id r) \<and>
     opt_fk (device_ids d) (me_to_device_id r)"

definition add_message :: "message_row \<Rightarrow> db \<Rightarrow> db" where
  "add_message r d = d\<lparr>t_messages := t_messages d @ [r],
     t_notifications := t_notifications d @ [Message_Notif (me_chat_id r) (me_to_user_id r)]\<rparr>"

definition insert_message_stmt ::
  "string \<Rightarrow> uuid \<Rightarrow> uuid \<Rightarrow> uuid \<Rightarrow> uuid \<Rightarrow> uuid \<Rightarrow> json \<Rightarrow> string \<Rightarrow> unit stmt" where
  "insert_message_stmt logical_msg_id chat_id from_user_id from_device_id to_user_id to_device_id
       header ciphertext now new_id d =
     (let r = new_message new_id now logical_msg_id chat_id from_user_id from_device_id to_user_id
                to_device_id header ciphertext
      in if new_id \<in> me_id ` set (t_messages d) \<or> (logical_msg_id, to_device_id) \<in> message_keys d
         then Inl unique_violation
         else if \<not> message_fks d r then Inl foreign_key_violation
         else Inr ((), add_message r d))"

text \<open>\<^verbatim>\<open>for payload in msg.payloads { INSERT ... ? }\<close>\<close>

definition insert_message ::
  "host \<Rightarrow> uuid \<Rightarrow> uuid \<Rightarrow> outgoing_message \<Rightarrow> world \<Rightarrow> (sql_error + unit) \<times> world" where
  "insert_message h from_device_id from_user_id msg =
     for_each (\<lambda>_ p.
       exec h (insert_message_stmt (og_logical_msg_id msg) (og_chat_id msg) from_user_id
         from_device_id (og_to_user_id msg) (om_to_device_id p) (om_header p) (om_ciphertext p)))
       () (og_payloads msg)"

text \<open>\<^verbatim>\<open>ON CONFLICT (logical_msg_id, to_device_id) DO NOTHING\<close>; the result is \<^verbatim>\<open>rows_affected() == 1\<close>.\<close>

definition insert_federated_message_stmt ::
  "string \<Rightarrow> uuid \<Rightarrow> uuid \<Rightarrow> uuid \<Rightarrow> uuid \<Rightarrow> uuid \<Rightarrow> json \<Rightarrow> string \<Rightarrow> bool stmt" where
  "insert_federated_message_stmt logical_msg_id chat_id from_user_id from_device_id to_user_id
       to_device_id header ciphertext now new_id d =
     (let r = new_message new_id now logical_msg_id chat_id from_user_id from_device_id to_user_id
                to_device_id header ciphertext
      in if (logical_msg_id, to_device_id) \<in> message_keys d then Inr (False, d)
         else if new_id \<in> me_id ` set (t_messages d) then Inl unique_violation
         else if \<not> message_fks d r then Inl foreign_key_violation
         else Inr (True, add_message r d))"

definition insert_federated_message ::
  "host \<Rightarrow> string \<Rightarrow> uuid \<Rightarrow> uuid \<Rightarrow> uuid \<Rightarrow> uuid \<Rightarrow> uuid \<Rightarrow> json \<Rightarrow> string \<Rightarrow> world \<Rightarrow>
     (sql_error + bool) \<times> world" where
  "insert_federated_message h logical_msg_id chat_id from_user_id from_device_id to_user_id
       to_device_id header ciphertext =
     exec h (insert_federated_message_stmt logical_msg_id chat_id from_user_id from_device_id
       to_user_id to_device_id header ciphertext)"

definition as_message_view :: "message_row \<Rightarrow> message_view" where
  "as_message_view m =
     \<lparr>mv_id = me_id m, mv_logical_msg_id = me_logical_msg_id m, mv_chat_id = me_chat_id m,
      mv_from_user_id = me_from_user_id m, mv_from_device_id = me_from_device_id m,
      mv_header = me_header m, mv_ciphertext = me_ciphertext m, mv_created_at = me_created_at m\<rparr>"

definition pending_for :: "uuid \<Rightarrow> message_row \<Rightarrow> bool" where
  "pending_for device_id m \<longleftrightarrow> me_to_device_id m = Some device_id \<and> me_delivered_at m = None"

definition pending_messages :: "uuid \<Rightarrow> db \<Rightarrow> message_view list" where
  "pending_messages device_id d =
     map as_message_view (order_asc me_created_at (filter (pending_for device_id) (t_messages d)))"

definition mark_delivered_stmt :: "uuid \<Rightarrow> unit stmt" where
  "mark_delivered_stmt device_id now new_id d =
     Inr ((), d\<lparr>t_messages := update_where (pending_for device_id)
       (\<lambda>m. m\<lparr>me_delivered_at := Some now\<rparr>) (t_messages d)\<rparr>)"

definition fetch_pending_messages ::
  "host \<Rightarrow> devices \<Rightarrow> world \<Rightarrow> (sql_error + message_view list) \<times> world" where
  "fetch_pending_messages h device =
     try_await (exec h (select (\<lambda>now. pending_messages (dv_id device)))) (\<lambda>messages.
     try_await (exec h (mark_delivered_stmt (dv_id device))) (\<lambda>_.
       ret (Inr messages)))"

section \<open>Contract\<close>

text \<open>A copy of a message for one device, as the arguments of the insert after the logical id.\<close>

type_synonym message_copy = "string \<times> uuid \<times> uuid \<times> uuid \<times> uuid \<times> uuid \<times> json \<times> string"

definition ins_copy :: "message_copy \<Rightarrow> bool stmt" where
  "ins_copy m =
     (case m of (logical_msg_id, chat_id, from_user_id, from_device_id, to_user_id, to_device_id, header, ciphertext) \<Rightarrow>
        insert_federated_message_stmt logical_msg_id chat_id from_user_id from_device_id to_user_id
          to_device_id header ciphertext)"

definition copy_key :: "message_copy \<Rightarrow> string \<times> uuid" where
  "copy_key m = (case m of (l, _, _, _, _, td, _, _) \<Rightarrow> (l, td))"

lemma message_keys_add:
  "message_key r = Some k \<Longrightarrow> message_keys (add_message r d) = insert k (message_keys d)"
  by (auto simp: message_keys_def add_message_def List.map_filter_def)

interpretation message_table: insert_once ins_copy copy_key message_keys
proof
  fix r t i d b d'
  assume "ins_copy r t i d = Inr (b, d')"
  then show "(b \<longleftrightarrow> copy_key r \<notin> message_keys d) \<and> message_keys d' = insert (copy_key r) (message_keys d)"
    by (cases r) (auto simp: ins_copy_def copy_key_def insert_federated_message_stmt_def Let_def
        message_keys_add message_key_def new_message_def split: if_splits)
next
  fix r t i d
  assume "copy_key r \<in> message_keys d"
  then show "ins_copy r t i d = Inr (False, d)"
    by (cases r) (auto simp: ins_copy_def copy_key_def insert_federated_message_stmt_def Let_def)
qed

lemma insert_federated_message_copy:
  "insert_federated_message h l c fu fd tu td hdr ct = exec h (ins_copy (l, c, fu, fd, tu, td, hdr, ct))"
  by (simp add: insert_federated_message_def ins_copy_def)

end
