(* ===== verification/Session_Repository.thy ===== *)
theory Session_Repository
  imports Federation_Repository
begin

text \<open>
  \<^verbatim>\<open>src/repository/session_repository.rs\<close> and \<^verbatim>\<open>src/repository/chat_repository.rs\<close>: X3DH session
  initiations, established sessions, the chat they belong to, and the chat list of a device.
\<close>

section \<open>pending_sessions\<close>

definition create_pending_session_stmt ::
  "uuid \<Rightarrow> uuid \<Rightarrow> string \<Rightarrow> string \<Rightarrow> string \<Rightarrow> string \<Rightarrow> unit stmt" where
  "create_pending_session_stmt sender_device_id recipient_device_id ephemeral_pubkey
       sender_prekey_pub otpk_used ciphertext now new_id d =
     (let r = \<lparr>pse_id = new_id, pse_sender_device_id = sender_device_id,
               pse_recipient_device_id = recipient_device_id,
               pse_ephemeral_pubkey = ephemeral_pubkey, pse_sender_prekey_pub = sender_prekey_pub,
               pse_otpk_used = otpk_used, pse_ciphertext = ciphertext, pse_created_at = Some now\<rparr>
      in if new_id \<in> pse_id ` set (t_pending_sessions d) then Inr ((), d)
         else if sender_device_id \<notin> device_ids d \<or> recipient_device_id \<notin> device_ids d
         then Inl foreign_key_violation
         else Inr ((), d\<lparr>t_pending_sessions := t_pending_sessions d @ [r],
                t_notifications := t_notifications d @
                  (case user_of_device d recipient_device_id of
                     None \<Rightarrow> [] | Some u \<Rightarrow> [Pending_Session_Notif u r])\<rparr>))"

definition create_pending_session ::
  "host \<Rightarrow> uuid \<Rightarrow> uuid \<Rightarrow> string \<Rightarrow> string \<Rightarrow> string \<Rightarrow> string \<Rightarrow> world \<Rightarrow> (sql_error + unit) \<times> world" where
  "create_pending_session h sender_device_id recipient_device_id ephemeral_pubkey
       sender_prekey_pub otpk_used ciphertext =
     exec h (create_pending_session_stmt sender_device_id recipient_device_id ephemeral_pubkey
       sender_prekey_pub otpk_used ciphertext)"

definition pending_sessions_of :: "uuid \<Rightarrow> db \<Rightarrow> pending_session list" where
  "pending_sessions_of device_id d =
     filter (\<lambda>r. pse_recipient_device_id r = device_id) (t_pending_sessions d)"

definition get_pending_sessions ::
  "host \<Rightarrow> devices \<Rightarrow> world \<Rightarrow> (sql_error + pending_session list) \<times> world" where
  "get_pending_sessions h device = exec h (select (\<lambda>now. pending_sessions_of (dv_id device)))"

definition pending_session_by_id :: "uuid \<Rightarrow> uuid \<Rightarrow> db \<Rightarrow> pending_session option" where
  "pending_session_by_id pending_id recipient_device_id d =
     find (\<lambda>r. pse_id r = pending_id \<and> pse_recipient_device_id r = recipient_device_id)
       (t_pending_sessions d)"

definition get_pending_session_by_id ::
  "host \<Rightarrow> uuid \<Rightarrow> uuid \<Rightarrow> world \<Rightarrow> (sql_error + pending_session option) \<times> world" where
  "get_pending_session_by_id h pending_id recipient_device_id =
     exec h (select (\<lambda>now. pending_session_by_id pending_id recipient_device_id))"

definition delete_pending_session_stmt :: "uuid \<Rightarrow> unit stmt" where
  "delete_pending_session_stmt pending_id now new_id d =
     Inr ((), d\<lparr>t_pending_sessions := filter (\<lambda>r. pse_id r \<noteq> pending_id) (t_pending_sessions d)\<rparr>)"

definition delete_pending_session :: "host \<Rightarrow> uuid \<Rightarrow> world \<Rightarrow> (sql_error + unit) \<times> world" where
  "delete_pending_session h pending_id = exec h (delete_pending_session_stmt pending_id)"

section \<open>chats and sessions\<close>

text \<open>
  The pair of users of two devices, in the order the chats table wants. The comparison of a
  column with a null is not true, so a chat is found only when both sub-selects give a user.
\<close>

definition device_pair :: "uuid \<Rightarrow> uuid \<Rightarrow> db \<Rightarrow> uuid option \<times> uuid option" where
  "device_pair sender_device_id receiver_device_id d =
     (let s = user_of_device d sender_device_id; r = user_of_device d receiver_device_id
      in (sql_least s r, sql_greatest s r))"

definition find_chat_of_devices :: "uuid \<Rightarrow> uuid \<Rightarrow> db \<Rightarrow> uuid option" where
  "find_chat_of_devices sender_device_id receiver_device_id d =
     (case device_pair sender_device_id receiver_device_id d of
        (Some a, Some b) \<Rightarrow>
          map_option ch_id (find (\<lambda>c. ch_user_a c = Some a \<and> ch_user_b c = Some b) (t_chats d))
      | _ \<Rightarrow> None)"

definition insert_chat_of_devices_stmt :: "uuid \<Rightarrow> uuid \<Rightarrow> uuid stmt" where
  "insert_chat_of_devices_stmt sender_device_id receiver_device_id now new_id d =
     (let (a, b) = device_pair sender_device_id receiver_device_id d
      in insert_direct_chat a b now new_id d)"

definition get_or_create_chat_id :: "host \<Rightarrow> uuid \<Rightarrow> uuid \<Rightarrow> world \<Rightarrow> (sql_error + uuid) \<times> world" where
  "get_or_create_chat_id h sender_device_id receiver_device_id =
     try_await (exec h (select (\<lambda>now. find_chat_of_devices sender_device_id receiver_device_id)))
       (\<lambda>found. case found of
          Some chat_id \<Rightarrow> ret (Inr chat_id)
        | None \<Rightarrow> exec h (insert_chat_of_devices_stmt sender_device_id receiver_device_id))"

text \<open>
  The trigger on \<^verbatim>\<open>sessions\<close> notifies the receiver and then the sender; equal notifications of one
  transaction are sent once.
\<close>

definition session_notifications :: "db \<Rightarrow> uuid \<Rightarrow> uuid \<Rightarrow> notification list" where
  "session_notifications d sender_device_id receiver_device_id =
     (let note = (\<lambda>owner. case owner of None \<Rightarrow> [] | Some u \<Rightarrow> [Session_Notif u sender_device_id receiver_device_id]);
          s = user_of_device d sender_device_id; r = user_of_device d receiver_device_id
      in if s = r then note r else note r @ note s)"

definition insert_or_update_session_stmt :: "uuid \<Rightarrow> uuid \<Rightarrow> uuid \<Rightarrow> unit stmt" where
  "insert_or_update_session_stmt chat_id sender_device_id receiver_device_id now new_id d =
     (if (sender_device_id, receiver_device_id) \<in> session_key ` set (t_sessions d)
      then Inr ((), d\<lparr>t_sessions :=
             update_where (\<lambda>r. session_key r = (sender_device_id, receiver_device_id))
               (\<lambda>r. r\<lparr>ss_updated_at := Some now\<rparr>) (t_sessions d)\<rparr>)
      else if new_id \<in> ss_id ` set (t_sessions d) then Inl unique_violation
      else if chat_id \<notin> chat_ids d \<or> sender_device_id \<notin> device_ids d \<or>
              receiver_device_id \<notin> device_ids d
      then Inl foreign_key_violation
      else Inr ((), d\<lparr>t_sessions := t_sessions d @
             [\<lparr>ss_id = new_id, ss_chat_id = Some chat_id, ss_sender_device_id = sender_device_id,
               ss_receiver_device_id = receiver_device_id, ss_created_at = Some now,
               ss_updated_at = Some now\<rparr>],
             t_notifications := t_notifications d @
               session_notifications d sender_device_id receiver_device_id\<rparr>))"

definition insert_or_update_session ::
  "host \<Rightarrow> uuid \<Rightarrow> uuid \<Rightarrow> uuid \<Rightarrow> world \<Rightarrow> (sql_error + unit) \<times> world" where
  "insert_or_update_session h chat_id sender_device_id receiver_device_id =
     exec h (insert_or_update_session_stmt chat_id sender_device_id receiver_device_id)"

section \<open>The chat list of a device\<close>

definition chat_partner :: "uuid \<Rightarrow> chat \<Rightarrow> uuid option" where
  "chat_partner user_id c = (if ch_user_a c = Some user_id then ch_user_b c else ch_user_a c)"

definition chat_visible :: "uuid \<Rightarrow> db \<Rightarrow> chat \<Rightarrow> bool" where
  "chat_visible user_id d c \<longleftrightarrow>
     (ch_chat_type c = Some ''direct'' \<and> (ch_user_a c = Some user_id \<or> ch_user_b c = Some user_id)) \<or>
     (ch_chat_type c = Some ''group'' \<and>
        (\<exists>m \<in> set (t_chat_members d). cm_chat_id m = ch_id c \<and> cm_user_id m = user_id))"

definition as_chat_view :: "uuid \<Rightarrow> db \<Rightarrow> chat \<Rightarrow> chat_view" where
  "as_chat_view user_id d c =
     (let partner = chat_partner user_id c;
          row = find (\<lambda>u. Some (us_id u) = partner) (t_users d)
      in \<lparr>cv_id = ch_id c, cv_chat_type = ch_chat_type c, cv_partner_user_id = partner,
          cv_partner_username = map_option us_username row,
          cv_partner_federated_address = Option.bind row us_federated_address,
          cv_name = ch_name c, cv_last_message_id = ch_last_message_id c,
          cv_updated_at = ch_updated_at c\<rparr>)"

definition chats_of_user :: "uuid \<Rightarrow> db \<Rightarrow> chat_view list" where
  "chats_of_user user_id d =
     map (as_chat_view user_id d) (order_desc ch_updated_at (filter (chat_visible user_id d) (t_chats d)))"

definition get_chats_for_device ::
  "host \<Rightarrow> devices \<Rightarrow> world \<Rightarrow> (sql_error + chat_view list) \<times> world" where
  "get_chats_for_device h device =
     try_await (exec h (select (\<lambda>now d. user_of_device d (dv_id device)))) (\<lambda>user_id.
       case user_id of
         None \<Rightarrow> ret (Inr [])
       | Some i \<Rightarrow> exec h (select (\<lambda>now. chats_of_user i)))"

section \<open>Contract\<close>

interpretation chat_of_devices: find_or_create "find_chat_of_devices s r" "insert_chat_of_devices_stmt s r" for s r
proof
  fix d t i c d'
  assume none: "find_chat_of_devices s r d = None" and ins: "insert_chat_of_devices_stmt s r t i d = Inr (c, d')"
  obtain a b where p: "device_pair s r d = (a, b)"
    by fastforce
  with ins obtain x y where xy: "a = Some x" "b = Some y"
    by (auto simp: insert_chat_of_devices_stmt_def insert_direct_chat_def Let_def direct_shape_def
        split: if_splits option.splits)
  with none p have "find (\<lambda>c. ch_user_a c = Some x \<and> ch_user_b c = Some y) (t_chats d) = None"
    by (simp add: find_chat_of_devices_def)
  with ins p xy show "find_chat_of_devices s r d' = Some c"
    by (auto simp: insert_chat_of_devices_stmt_def insert_direct_chat_def find_chat_of_devices_def
        device_pair_def user_of_device_def Let_def find_snoc split: if_splits)
qed

lemma get_or_create_chat_call: "get_or_create_chat_id h s r = chat_of_devices.call s r h"
  by (simp add: get_or_create_chat_id_def chat_of_devices.call_def)

end
