(* ===== verification/Db_Steps.thy ===== *)
theory Db_Steps
  imports User_Repository Device_Repository Message_Repository Session_Repository
begin

text \<open>
  The database as a state machine. \<open>db_step\<close> has one rule per statement of the repositories that
  can change the database, at a given server time; whatever the handlers, the outbox worker and
  their interleavings do is a sequence of such steps. Two facts are proved of every step: it keeps
  the schema's constraints, and it only extends the history (\<open>evolves\<close>): no user, device, chat
  or message disappears, a message's content never changes, a user never moves between local and
  shadow, and an operator's block of a peer is never lifted.
\<close>

section \<open>The steps\<close>

inductive db_step :: "timestamp \<Rightarrow> db \<Rightarrow> db \<Rightarrow> bool" where
  step_upsert_node: "upsert_federation_node_stmt n u k t i d = Inr (a, d') \<Longrightarrow> db_step t d d'"
| step_claim_nonce: "claim_nonce_stmt n c t i d = Inr (b, d') \<Longrightarrow> db_step t d d'"
| step_purge_nonces: "purge_expired_nonces_stmt t i d = Inr (m, d') \<Longrightarrow> db_step t d d'"
| step_enqueue: "enqueue_outbox_stmt n l p t i d = Inr (j, d') \<Longrightarrow> db_step t d d'"
| step_delivered: "mark_outbox_delivered_stmt j t i d = Inr (x, d') \<Longrightarrow> db_step t d d'"
| step_acked: "mark_outbox_delivered_by_logical_id_stmt l t i d = Inr (x, d') \<Longrightarrow> db_step t d d'"
| step_failed: "fail_outbox_stmt j c t i d = Inr (x, d') \<Longrightarrow> db_step t d d'"
| step_retry: "retry_outbox_stmt j c s t i d = Inr (x, d') \<Longrightarrow> db_step t d d'"
| step_shadow_user: "upsert_shadow_user_stmt n f h t i d = Inr (j, d') \<Longrightarrow> db_step t d d'"
| step_shadow_device: "upsert_shadow_device_stmt v u k t i d = Inr (x, d') \<Longrightarrow> db_step t d d'"
| step_direct_chat: "insert_direct_chat ua ub t i d = Inr (j, d') \<Longrightarrow> db_step t d d'"
| step_create_user: "create_user_stmt n t i d = Inr (a, d') \<Longrightarrow> db_step t d d'"
| step_used_token: "add_used_token_stmt tok t i d = Inr (x, d') \<Longrightarrow> db_step t d d'"
| step_create_device:
    "create_device_stmt u ik pk sk sg ot lb pt t i d = Inr (v, d') \<Longrightarrow> db_step t d d'"
| step_message: "insert_message_stmt l c fu fd tu td hdr ct t i d = Inr (x, d') \<Longrightarrow> db_step t d d'"
| step_federated_message:
    "insert_federated_message_stmt l c fu fd tu td hdr ct t i d = Inr (b, d') \<Longrightarrow> db_step t d d'"
| step_mark_delivered: "mark_delivered_stmt v t i d = Inr (x, d') \<Longrightarrow> db_step t d d'"
| step_pending_session:
    "create_pending_session_stmt s r e p ot ct t i d = Inr (x, d') \<Longrightarrow> db_step t d d'"
| step_chat_of_devices: "insert_chat_of_devices_stmt s r t i d = Inr (j, d') \<Longrightarrow> db_step t d d'"
| step_session: "insert_or_update_session_stmt c s r t i d = Inr (x, d') \<Longrightarrow> db_step t d d'"
| step_delete_pending: "delete_pending_session_stmt j t i d = Inr (x, d') \<Longrightarrow> db_step t d d'"

lemmas stmt_defs = upsert_federation_node_stmt_def claim_nonce_stmt_def
  purge_expired_nonces_stmt_def enqueue_outbox_stmt_def mark_outbox_delivered_stmt_def
  mark_outbox_delivered_by_logical_id_stmt_def fail_outbox_stmt_def retry_outbox_stmt_def
  upsert_shadow_user_stmt_def upsert_shadow_device_stmt_def insert_device_def
  insert_direct_chat_def create_user_stmt_def add_used_token_stmt_def create_device_stmt_def
  insert_message_stmt_def insert_federated_message_stmt_def add_message_def
  mark_delivered_stmt_def create_pending_session_stmt_def insert_chat_of_devices_stmt_def
  insert_or_update_session_stmt_def delete_pending_session_stmt_def

lemmas id_sets = node_ids_def user_ids_def device_ids_def chat_ids_def

section \<open>Every step keeps the schema's constraints\<close>

lemma distinct_snoc: "distinct (map f rs) \<Longrightarrow> f r \<notin> f ` set rs \<Longrightarrow> distinct (map f (rs @ [r]))"
  by simp

lemma distinct_update_where:
  assumes "distinct (map g rs)"
    and uniq: "\<And>x y. x \<in> set rs \<Longrightarrow> y \<in> set rs \<Longrightarrow> P x \<Longrightarrow> P y \<Longrightarrow> x = y"
    and new: "\<And>x y. x \<in> set rs \<Longrightarrow> y \<in> set rs \<Longrightarrow> P x \<Longrightarrow> x \<noteq> y \<Longrightarrow> g (f x) \<noteq> g y"
  shows "distinct (map g (update_where P f rs))"
proof -
  have d: "distinct rs" "inj_on g (set rs)"
    using assms(1) by (simp_all add: distinct_map)
  have "inj_on (g \<circ> (\<lambda>r. if P r then f r else r)) (set rs)"
  proof (rule inj_onI)
    fix x y
    assume xy: "x \<in> set rs" "y \<in> set rs"
      and eq: "(g \<circ> (\<lambda>r. if P r then f r else r)) x = (g \<circ> (\<lambda>r. if P r then f r else r)) y"
    show "x = y"
      using eq uniq [OF xy] new [OF xy] new [OF xy(2,1)] inj_onD [OF d(2) _ xy]
      by (cases "P x"; cases "P y") auto
  qed
  with d(1) show ?thesis
    by (simp add: update_where_def distinct_map)
qed

lemma map_filter_snoc [simp]:
  "List.map_filter f (xs @ [x]) = List.map_filter f xs @ (case f x of None \<Rightarrow> [] | Some y \<Rightarrow> [y])"
  by (simp add: List.map_filter_def split: option.split)

lemma set_map_filter: "set (List.map_filter f xs) = {y. \<exists>x \<in> set xs. f x = Some y}"
  by (force simp: List.map_filter_def)

lemma map_filter_update_where:
  "(\<And>r. r \<in> set rs \<Longrightarrow> P r \<Longrightarrow> g (f r) = g r) \<Longrightarrow>
     List.map_filter g (update_where P f rs) = List.map_filter g rs"
  by (induction rs) (auto simp: List.map_filter_simps split: option.split)

lemma db_ok_upsert_node:
  assumes ok: "db_ok d" and st: "upsert_federation_node_stmt n u k t i d = Inr (a, d')"
  shows "db_ok d'"
proof (cases "find (\<lambda>r. fn_node_id r = n) (t_federation_nodes d)")
  case None
  then have "n \<notin> fn_node_id ` set (t_federation_nodes d)"
    by (auto simp: find_None_iff)
  moreover have "users_ok (insert i (node_ids d)) (t_users d)"
    using ok by (auto simp: db_ok_def intro: users_ok_mono)
  ultimately show ?thesis
    using None st ok
    by (auto simp: upsert_federation_node_stmt_def Let_def db_ok_def nodes_ok_def id_sets
        split: if_splits)
next
  case (Some r)
  with st have d': "d' = d\<lparr>t_federation_nodes := update_where (\<lambda>r. fn_node_id r = n)
      (\<lambda>r. r\<lparr>fn_api_url := u, fn_public_key_b64 := k, fn_last_seen := Some t\<rparr>)
      (t_federation_nodes d)\<rparr>"
    by (auto simp: upsert_federation_node_stmt_def Let_def)
  have "node_ids d' = node_ids d"
    by (simp add: d' node_ids_def image_update_where_same)
  with ok show ?thesis
    by (simp add: d' db_ok_def nodes_ok_def map_update_where_same id_sets)
qed

lemma db_ok_shadow_user:
  assumes ok: "db_ok d" and st: "upsert_shadow_user_stmt n f h t i d = Inr (j, d')"
  shows "db_ok d'"
proof (cases "find (\<lambda>r. us_federated_address r = Some f) (t_users d)")
  case None
  then have nf: "\<And>r. r \<in> set (t_users d) \<Longrightarrow> us_federated_address r \<noteq> Some f"
    by (auto simp: find_None_iff)
  from st None have new: "i \<notin> user_ids d" "n \<notin> us_username ` set (t_users d)" "h \<in> node_ids d"
    and d': "d' = d\<lparr>t_users := t_users d @ [\<lparr>us_id = i, us_username = n, us_created_at = Some t,
      us_home_node_id = Some h, us_federated_address = Some f\<rparr>]\<rparr>"
    by (auto simp: upsert_shadow_user_stmt_def split: if_splits)
  have "user_ids d \<subseteq> insert i (user_ids d)"
    by blast
  note mono = devices_ok_mono [OF _ this] chats_ok_mono [OF _ this]
    messages_ok_mono [OF _ order.refl this order.refl]
  from ok nf new mono show ?thesis
    by (simp add: d' db_ok_def users_ok_def id_sets set_map_filter)
next
  case (Some r)
  from st Some have fresh: "\<And>q. q \<in> set (t_users d) \<Longrightarrow> us_id q \<noteq> us_id r \<Longrightarrow> us_username q \<noteq> n"
    and d': "d' = d\<lparr>t_users := update_where (\<lambda>q. us_federated_address q = Some f)
      (\<lambda>q. q\<lparr>us_username := n\<rparr>) (t_users d)\<rparr>"
    by (auto simp: upsert_shadow_user_stmt_def split: if_splits)
  have r: "r \<in> set (t_users d)" "us_federated_address r = Some f"
    using find_Some_iff_mem [OF Some] by auto
  from ok have u: "users_ok (node_ids d) (t_users d)"
    by (simp add: db_ok_def)
  have one: "x = r" if "x \<in> set (t_users d)" "us_federated_address x = Some f" for x
    using that r u by (auto simp: users_ok_def List.map_filter_def distinct_map inj_on_def)
  have "user_ids d' = user_ids d"
    by (simp add: d' user_ids_def image_update_where_same)
  moreover have "distinct (map us_username (update_where (\<lambda>q. us_federated_address q = Some f)
      (\<lambda>q. q\<lparr>us_username := n\<rparr>) (t_users d)))"
  proof (rule distinct_update_where)
    show "distinct (map us_username (t_users d))"
      using u by (simp add: users_ok_def)
  next
    fix x y assume "x \<in> set (t_users d)" "y \<in> set (t_users d)" "us_federated_address x = Some f" "x \<noteq> y"
    moreover from this have "us_id y \<noteq> us_id r"
      using one u r by (metis distinct_map_eqD users_ok_def)
    ultimately show "us_username (x\<lparr>us_username := n\<rparr>) \<noteq> us_username y"
      using fresh by fastforce
  qed (use one in blast)
  ultimately show ?thesis
    using ok u
    by (auto simp: d' db_ok_def users_ok_def map_update_where_same map_filter_update_where
        set_update_where id_sets)
qed

lemma db_ok_insert_device:
  assumes ok: "db_ok d" and ins: "insert_device r d = Inr d'"
  shows "db_ok d'"
proof -
  from ins have new: "dv_id r \<notin> device_ids d" "device_key r \<notin> device_key ` set (t_devices d)"
      "dv_user_id r \<in> user_ids d"
    and d': "d' = d\<lparr>t_devices := t_devices d @ [r],
      t_notifications := t_notifications d @ [Device_Notif (dv_user_id r)]\<rparr>"
    by (auto simp: insert_device_def split: if_splits)
  have sub: "device_ids d \<subseteq> insert (dv_id r) (device_ids d)"
    by blast
  note mono = messages_ok_mono [OF _ order.refl order.refl sub] sessions_ok_mono [OF _ order.refl sub]
    pending_sessions_ok_mono [OF _ sub]
  from ok new mono show ?thesis
    by (simp add: d' db_ok_def devices_ok_def id_sets)
qed

lemma db_ok_shadow_device:
  "db_ok d \<Longrightarrow> upsert_shadow_device_stmt v u k t i d = Inr (x, d') \<Longrightarrow> db_ok d'"
  by (auto simp: upsert_shadow_device_stmt_def split: if_splits dest: db_ok_insert_device)

lemma db_ok_create_device:
  "db_ok d \<Longrightarrow> create_device_stmt u ik pk sk sg ot lb pt t i d = Inr (v, d') \<Longrightarrow> db_ok d'"
  by (auto simp: create_device_stmt_def Let_def dest: db_ok_insert_device)

lemma db_ok_direct_chat:
  assumes ok: "db_ok d" and st: "insert_direct_chat ua ub t i d = Inr (j, d')"
  shows "db_ok d'"
proof -
  let ?c = "\<lparr>ch_id = i, ch_chat_type = Some ''direct'', ch_user_a = ua, ch_user_b = ub,
    ch_name = None, ch_owner_id = None, ch_last_message_id = None,
    ch_created_at = Some t, ch_updated_at = Some t\<rparr>"
  from st have new: "direct_shape ?c" "i \<notin> chat_ids d"
      "chat_pair ?c \<notin> chat_pair ` {r \<in> set (t_chats d). is_direct r}"
      "opt_fk (user_ids d) ua" "opt_fk (user_ids d) ub"
    and d': "d' = d\<lparr>t_chats := t_chats d @ [?c]\<rparr>"
    by (auto simp: insert_direct_chat_def Let_def split: if_splits)
  have sub: "chat_ids d \<subseteq> insert i (chat_ids d)"
    by blast
  note mono = messages_ok_mono [OF _ sub order.refl order.refl] sessions_ok_mono [OF _ sub order.refl]
  from ok new mono show ?thesis
    by (simp add: d' db_ok_def chats_ok_def id_sets chat_type_check_def)
qed

lemma db_ok_chat_of_devices:
  "db_ok d \<Longrightarrow> insert_chat_of_devices_stmt s r t i d = Inr (j, d') \<Longrightarrow> db_ok d'"
  by (auto simp: insert_chat_of_devices_stmt_def split: prod.splits dest: db_ok_direct_chat)

lemma db_ok_create_user:
  assumes ok: "db_ok d" and st: "create_user_stmt n t i d = Inr (a, d')"
  shows "db_ok d'"
proof -
  from st have new: "i \<notin> user_ids d" "n \<notin> us_username ` set (t_users d)"
    and d': "d' = d\<lparr>t_users := t_users d @ [\<lparr>us_id = i, us_username = n, us_created_at = Some t,
      us_home_node_id = None, us_federated_address = None\<rparr>]\<rparr>"
    by (auto simp: create_user_stmt_def Let_def split: if_splits)
  have sub: "user_ids d \<subseteq> insert i (user_ids d)"
    by blast
  note mono = devices_ok_mono [OF _ sub] chats_ok_mono [OF _ sub]
    messages_ok_mono [OF _ order.refl sub order.refl]
  from ok new mono show ?thesis
    by (simp add: d' db_ok_def users_ok_def id_sets)
qed

lemma db_ok_add_message:
  assumes ok: "db_ok d" and new: "me_id r \<notin> me_id ` set (t_messages d)"
    and key: "message_key r = Some k" "k \<notin> message_keys d" and fks: "message_fks d r"
  shows "db_ok (add_message r d)"
  using ok new key fks
  by (simp add: add_message_def db_ok_def messages_ok_def id_sets message_fks_def message_keys_def)

lemma message_key_new [simp]:
  "message_key (new_message i t l c fu fd tu td hdr ct) = Some (l, td)"
  "me_id (new_message i t l c fu fd tu td hdr ct) = i"
  by (simp_all add: message_key_def new_message_def)

lemma db_ok_message:
  "db_ok d \<Longrightarrow> insert_message_stmt l c fu fd tu td hdr ct t i d = Inr (x, d') \<Longrightarrow> db_ok d'"
  by (auto simp: insert_message_stmt_def Let_def split: if_splits intro!: db_ok_add_message)

lemma db_ok_federated_message:
  "db_ok d \<Longrightarrow> insert_federated_message_stmt l c fu fd tu td hdr ct t i d = Inr (b, d') \<Longrightarrow> db_ok d'"
  by (auto simp: insert_federated_message_stmt_def Let_def split: if_splits intro!: db_ok_add_message)

lemma db_ok_mark_delivered:
  assumes ok: "db_ok d" and st: "mark_delivered_stmt v t i d = Inr (x, d')"
  shows "db_ok d'"
proof -
  let ?ms = "update_where (pending_for v) (\<lambda>m. m\<lparr>me_delivered_at := Some t\<rparr>) (t_messages d)"
  have "List.map_filter message_key ?ms = List.map_filter message_key (t_messages d)"
    by (rule map_filter_update_where) (simp add: message_key_def)
  with ok st show ?thesis
    by (auto simp: mark_delivered_stmt_def db_ok_def messages_ok_def map_update_where_same
        set_update_where id_sets)
qed

lemma db_ok_outbox_update:
  assumes ok: "db_ok d"
    and f: "\<And>e. ob_id (f e) = ob_id e"
    and st: "\<And>e. e \<in> set (t_federation_outbox d) \<Longrightarrow> P e \<Longrightarrow>
      ob_status (f e) \<in> {''pending'', ''delivered'', ''failed''}"
  shows "db_ok (d\<lparr>t_federation_outbox := update_where P f (t_federation_outbox d)\<rparr>)"
  using ok st
  by (auto simp: db_ok_def outbox_ok_def map_update_where_same f set_update_where id_sets)

lemma outbox_status: "db_ok d \<Longrightarrow> e \<in> set (t_federation_outbox d) \<Longrightarrow>
    ob_status e \<in> {''pending'', ''delivered'', ''failed''}"
  by (auto simp: db_ok_def outbox_ok_def)

lemma db_ok_outbox:
  "db_ok d \<Longrightarrow> mark_outbox_delivered_stmt j t i d = Inr (x, d') \<Longrightarrow> db_ok d'"
  "db_ok d \<Longrightarrow> mark_outbox_delivered_by_logical_id_stmt l t i d = Inr (x, d') \<Longrightarrow> db_ok d'"
  "db_ok d \<Longrightarrow> fail_outbox_stmt j c t i d = Inr (x, d') \<Longrightarrow> db_ok d'"
  "db_ok d \<Longrightarrow> retry_outbox_stmt j c s t i d = Inr (x, d') \<Longrightarrow> db_ok d'"
  by (auto simp: mark_outbox_delivered_stmt_def mark_outbox_delivered_by_logical_id_stmt_def
      fail_outbox_stmt_def retry_outbox_stmt_def intro!: db_ok_outbox_update dest: outbox_status)

lemma db_ok_enqueue: "db_ok d \<Longrightarrow> enqueue_outbox_stmt n l p t i d = Inr (j, d') \<Longrightarrow> db_ok d'"
  by (auto simp: enqueue_outbox_stmt_def db_ok_def outbox_ok_def id_sets split: if_splits)

lemma db_ok_claim_nonce: "db_ok d \<Longrightarrow> claim_nonce_stmt n c t i d = Inr (b, d') \<Longrightarrow> db_ok d'"
  by (auto simp: claim_nonce_stmt_def db_ok_def nonces_ok_def id_sets nonce_key_def split: if_splits)

lemma db_ok_purge: "db_ok d \<Longrightarrow> purge_expired_nonces_stmt t i d = Inr (m, d') \<Longrightarrow> db_ok d'"
  by (auto simp: purge_expired_nonces_stmt_def db_ok_def nonces_ok_def id_sets Let_def distinct_map
      intro: inj_on_subset)

lemma db_ok_used_token: "db_ok d \<Longrightarrow> add_used_token_stmt tok t i d = Inr (x, d') \<Longrightarrow> db_ok d'"
  by (auto simp: add_used_token_stmt_def token_used_def db_ok_def tokens_ok_def id_sets split: if_splits)

lemma db_ok_pending_session:
  "db_ok d \<Longrightarrow> create_pending_session_stmt s r e p ot ct t i d = Inr (x, d') \<Longrightarrow> db_ok d'"
  by (auto simp: create_pending_session_stmt_def Let_def db_ok_def pending_sessions_ok_def id_sets
      split: if_splits)

lemma db_ok_delete_pending: "db_ok d \<Longrightarrow> delete_pending_session_stmt j t i d = Inr (x, d') \<Longrightarrow> db_ok d'"
  by (auto simp: delete_pending_session_stmt_def db_ok_def pending_sessions_ok_def id_sets distinct_map
      intro: inj_on_subset)

lemma db_ok_session:
  assumes ok: "db_ok d" and st: "insert_or_update_session_stmt c s r t i d = Inr (x, d')"
  shows "db_ok d'"
proof (cases "(s, r) \<in> session_key ` set (t_sessions d)")
  case True
  let ?ss = "update_where (\<lambda>q. session_key q = (s, r)) (\<lambda>q. q\<lparr>ss_updated_at := Some t\<rparr>) (t_sessions d)"
  have "map session_key ?ss = map session_key (t_sessions d)"
    by (rule map_update_where_same) (simp add: session_key_def)
  with True st ok show ?thesis
    by (auto simp: insert_or_update_session_stmt_def db_ok_def sessions_ok_def map_update_where_same
        set_update_where id_sets)
next
  case False
  with st ok show ?thesis
    by (auto simp: insert_or_update_session_stmt_def db_ok_def sessions_ok_def id_sets session_key_def
        split: if_splits)
qed

lemmas db_ok_stmts = db_ok_upsert_node db_ok_claim_nonce db_ok_purge db_ok_enqueue db_ok_outbox db_ok_shadow_user
  db_ok_shadow_device db_ok_direct_chat db_ok_create_user db_ok_used_token db_ok_create_device
  db_ok_message db_ok_federated_message db_ok_mark_delivered db_ok_pending_session
  db_ok_chat_of_devices db_ok_session db_ok_delete_pending

lemma db_step_ok: "db_step t d d' \<Longrightarrow> db_ok d \<Longrightarrow> db_ok d'"
  by (induction rule: db_step.induct) (erule (1) db_ok_stmts)+

end
