(* ===== verification/Guarantee.thy ===== *)
theory Guarantee
  imports Db_Steps
begin

text \<open>
  What every handler guarantees, whatever the faults and the other connections do. \<open>evolves\<close> is the
  history the database keeps; \<open>steps_upto T\<close> is any number of steps at server times up to \<open>T\<close>;
  \<open>guarantee h\<close> says that a call takes the database along such steps, provided the other
  connections do too (\<open>host_ok\<close>). Both relations on worlds are frames, so each handler inherits
  the guarantee from its statements.
\<close>

section \<open>History\<close>

definition kept :: "('r \<Rightarrow> 'r \<Rightarrow> bool) \<Rightarrow> 'r list \<Rightarrow> 'r list \<Rightarrow> bool" where
  "kept R xs ys \<longleftrightarrow> (\<forall>x \<in> set xs. \<exists>y \<in> set ys. R x y)"

lemma kept_refl: "(\<And>x. R x x) \<Longrightarrow> kept R xs xs"
  by (auto simp: kept_def)

lemma kept_append: "(\<And>x. R x x) \<Longrightarrow> kept R xs (xs @ ys)"
  by (auto simp: kept_def)

lemma kept_trans: "(\<And>x y z. R x y \<Longrightarrow> R y z \<Longrightarrow> R x z) \<Longrightarrow> kept R xs ys \<Longrightarrow> kept R ys zs \<Longrightarrow> kept R xs zs"
  unfolding kept_def by blast

lemma kept_update_where:
  "(\<And>x. R x x) \<Longrightarrow> (\<And>x. x \<in> set xs \<Longrightarrow> P x \<Longrightarrow> R x (f x)) \<Longrightarrow> kept R xs (update_where P f xs)"
  unfolding kept_def
proof
  fix x
  assume R: "\<And>x. R x x" "\<And>x. x \<in> set xs \<Longrightarrow> P x \<Longrightarrow> R x (f x)" and x: "x \<in> set xs"
  then have "(if P x then f x else x) \<in> set (update_where P f xs)"
    by (simp add: update_where_def)
  moreover have "R x (if P x then f x else x)"
    using R x by simp
  ultimately show "\<exists>y \<in> set (update_where P f xs). R x y"
    by blast
qed

definition same_node :: "federation_node \<Rightarrow> federation_node \<Rightarrow> bool" where
  "same_node r r' \<longleftrightarrow> fn_id r' = fn_id r \<and> fn_node_id r' = fn_node_id r \<and>
     fn_is_blocked r' = fn_is_blocked r \<and> fn_created_at r' = fn_created_at r"

definition same_user :: "user_row \<Rightarrow> user_row \<Rightarrow> bool" where
  "same_user r r' \<longleftrightarrow> us_id r' = us_id r \<and> us_created_at r' = us_created_at r \<and>
     us_home_node_id r' = us_home_node_id r \<and> us_federated_address r' = us_federated_address r \<and>
     (us_federated_address r = None \<longrightarrow> us_username r' = us_username r)"

text \<open>A message only ever goes from undelivered to delivered.\<close>

definition same_message :: "message_row \<Rightarrow> message_row \<Rightarrow> bool" where
  "same_message m m' \<longleftrightarrow> m' = m \<or> (me_delivered_at m = None \<and> (\<exists>t. m' = m\<lparr>me_delivered_at := Some t\<rparr>))"

text \<open>What an entry of the outbox never changes: its target and the request it carries.\<close>

definition same_entry :: "federation_outbox_entry \<Rightarrow> federation_outbox_entry \<Rightarrow> bool" where
  "same_entry e e' \<longleftrightarrow> ob_id e' = ob_id e \<and> ob_target_node_id e' = ob_target_node_id e \<and>
     ob_logical_msg_id e' = ob_logical_msg_id e \<and> ob_payload e' = ob_payload e \<and>
     ob_created_at e' = ob_created_at e"

definition same_session :: "session \<Rightarrow> session \<Rightarrow> bool" where
  "same_session r r' \<longleftrightarrow> (\<exists>t. r' = r\<lparr>ss_updated_at := t\<rparr>)"

definition evolves :: "db \<Rightarrow> db \<Rightarrow> bool" where
  "evolves d d' \<longleftrightarrow>
     kept same_node (t_federation_nodes d) (t_federation_nodes d') \<and>
     kept same_user (t_users d) (t_users d') \<and>
     kept same_message (t_messages d) (t_messages d') \<and>
     kept same_session (t_sessions d) (t_sessions d') \<and>
     kept same_entry (t_federation_outbox d) (t_federation_outbox d') \<and>
     set (t_devices d) \<subseteq> set (t_devices d') \<and> set (t_chats d) \<subseteq> set (t_chats d') \<and>
     set (t_used_tokens d) \<subseteq> set (t_used_tokens d') \<and>
     t_chat_members d' = t_chat_members d"

lemma same_session_touch [simp]: "same_session r (r\<lparr>ss_updated_at := t\<rparr>)"
  unfolding same_session_def by (rule exI [of _ t]) simp

lemma same_message_deliver [simp]:
  "me_delivered_at m = None \<Longrightarrow> same_message m (m\<lparr>me_delivered_at := Some t\<rparr>)"
  unfolding same_message_def by blast

lemma same_refl [simp]: "same_node r r" "same_user u u" "same_message m m" "same_session s s"
    "same_entry e e"
  using same_session_touch [of s "ss_updated_at s"]
  by (simp_all add: same_node_def same_user_def same_message_def same_entry_def)

lemma same_trans:
  "same_node r r' \<Longrightarrow> same_node r' r'' \<Longrightarrow> same_node r r''"
  "same_user u u' \<Longrightarrow> same_user u' u'' \<Longrightarrow> same_user u u''"
  "same_message m m' \<Longrightarrow> same_message m' m'' \<Longrightarrow> same_message m m''"
  "same_session s s' \<Longrightarrow> same_session s' s'' \<Longrightarrow> same_session s s''"
  "same_entry e e' \<Longrightarrow> same_entry e' e'' \<Longrightarrow> same_entry e e''"
  by (auto simp: same_node_def same_user_def same_message_def same_session_def same_entry_def)

lemma evolves_refl [simp]: "evolves d d"
  by (simp add: evolves_def kept_refl)

lemma evolves_trans: "evolves d d' \<Longrightarrow> evolves d' d'' \<Longrightarrow> evolves d d''"
  unfolding evolves_def
  by (intro conjI; elim conjE)
    (rule kept_trans [OF same_trans(1)] kept_trans [OF same_trans(2)] kept_trans [OF same_trans(3)]
      kept_trans [OF same_trans(4)] kept_trans [OF same_trans(5)] subset_trans trans; assumption)+

lemma db_step_evolves: "db_step t d d' \<Longrightarrow> evolves d d'"
proof (induction rule: db_step.induct)
  case (step_upsert_node n u k t i d a d')
  then show ?case
    by (auto simp: upsert_federation_node_stmt_def Let_def evolves_def kept_refl kept_append
        same_node_def split: option.splits if_splits intro!: kept_update_where)
next
  case (step_shadow_user n f h t i d j d')
  then show ?case
    by (auto simp: upsert_shadow_user_stmt_def evolves_def kept_refl kept_append same_user_def
        split: option.splits if_splits intro!: kept_update_where)
next
  case (step_session c s r t i d x d')
  then show ?case
    by (auto simp: insert_or_update_session_stmt_def evolves_def kept_refl kept_append
        split: if_splits intro!: kept_update_where)
next
  case (step_mark_delivered v t i d x d')
  then show ?case
    by (auto simp: mark_delivered_stmt_def evolves_def kept_refl pending_for_def
        intro!: kept_update_where)
next
  case (step_delivered j t i d x d')
  then show ?case
    by (auto simp: mark_outbox_delivered_stmt_def evolves_def kept_refl same_entry_def
        intro!: kept_update_where)
next
  case (step_acked l t i d x d')
  then show ?case
    by (auto simp: mark_outbox_delivered_by_logical_id_stmt_def evolves_def kept_refl same_entry_def
        intro!: kept_update_where)
next
  case (step_failed j c t i d x d')
  then show ?case
    by (auto simp: fail_outbox_stmt_def evolves_def kept_refl same_entry_def intro!: kept_update_where)
next
  case (step_retry j c s t i d x d')
  then show ?case
    by (auto simp: retry_outbox_stmt_def evolves_def kept_refl same_entry_def intro!: kept_update_where)
qed (auto simp: stmt_defs evolves_def kept_refl kept_append Let_def
      split: if_splits option.splits prod.splits)

section \<open>Any number of steps\<close>

inductive steps_upto :: "timestamp \<Rightarrow> db \<Rightarrow> db \<Rightarrow> bool" for T where
  steps_none: "steps_upto T d d"
| steps_more: "steps_upto T d d' \<Longrightarrow> db_step t d' d'' \<Longrightarrow> t \<le> T \<Longrightarrow> steps_upto T d d''"

lemma steps_one: "db_step t d d' \<Longrightarrow> t \<le> T \<Longrightarrow> steps_upto T d d'"
  by (rule steps_more [OF steps_none])

lemma steps_trans: "steps_upto T d' d'' \<Longrightarrow> steps_upto T d d' \<Longrightarrow> steps_upto T d d''"
  by (induction rule: steps_upto.induct) (auto intro: steps_more)

lemma steps_mono: "steps_upto T d d' \<Longrightarrow> T \<le> T' \<Longrightarrow> steps_upto T' d d'"
  by (induction rule: steps_upto.induct) (auto intro: steps_none steps_more)

lemma steps_ok: "steps_upto T d d' \<Longrightarrow> db_ok d \<Longrightarrow> db_ok d'"
  by (induction rule: steps_upto.induct) (auto dest: db_step_ok)

lemma steps_evolve: "steps_upto T d d' \<Longrightarrow> evolves d d'"
  by (induction rule: steps_upto.induct) (auto dest: db_step_evolves intro: evolves_trans)

section \<open>The guarantee\<close>

text \<open>
  The server's clock does not go back, and what other connections do between two of our calls is
  made of steps of the same program, at server times that have come.
\<close>

definition host_ok :: "host \<Rightarrow> bool" where
  "host_ok h \<longleftrightarrow> (\<forall>m n. m \<le> n \<longrightarrow> db_clock h m \<le> db_clock h n) \<and>
     (\<forall>n d. steps_upto (db_clock h n) d (others h n d))"

definition guarantee :: "host \<Rightarrow> world \<Rightarrow> world \<Rightarrow> bool" where
  "guarantee h w w' \<longleftrightarrow> ticks w \<le> ticks w' \<and>
     (host_ok h \<longrightarrow> steps_upto (db_clock h (ticks w')) (store w) (store w'))"

interpretation guar: frame "guarantee h" for h
proof
  show "guarantee h w w" for w
    by (simp add: guarantee_def steps_none)
next
  fix u v w
  assume uv: "guarantee h u v" and vw: "guarantee h v w"
  have "steps_upto (db_clock h (ticks w)) (store u) (store v)" if "host_ok h"
  proof (rule steps_mono)
    show "steps_upto (db_clock h (ticks v)) (store u) (store v)"
      using uv that by (simp add: guarantee_def)
    show "db_clock h (ticks v) \<le> db_clock h (ticks w)"
      using vw that by (simp add: guarantee_def host_ok_def)
  qed
  with uv vw show "guarantee h u w"
    by (auto simp: guarantee_def intro: steps_trans)
qed

lemmas [keeps_intro] = guar.keeps_rules

lemma keeps_exec:
  assumes st: "\<And>t i d a d'. q t i d = Inr (a, d') \<Longrightarrow> d' = d \<or> db_step t d d'"
  shows "keeps (guarantee h) (exec h q)"
  unfolding keeps_def
proof
  fix w :: world
  let ?n = "ticks w"
  let ?d = "others h ?n (store w)"
  let ?w = "snd (exec h q w)"
  from st have step: "store ?w = ?d \<or> db_step (db_clock h ?n) ?d (store ?w)"
    by (cases rule: exec_cases [of h q w]) auto
  have "steps_upto (db_clock h (Suc ?n)) (store w) (store ?w)" if ok: "host_ok h"
  proof -
    have "db_clock h ?n \<le> db_clock h (Suc ?n)"
      using ok by (simp add: host_ok_def)
    moreover have "steps_upto (db_clock h ?n) (store w) ?d"
      using ok by (simp add: host_ok_def)
    ultimately show ?thesis
      using step by (auto intro: steps_mono steps_more)
  qed
  then show "guarantee h w ?w"
    by (simp add: guarantee_def ticks_exec)
qed

lemma keeps_select [keeps_intro]: "keeps (guarantee h) (exec h (select f))"
  by (rule keeps_exec) (simp add: select_def)

lemma keeps_external [keeps_intro]:
  "keeps (guarantee h) (utc_now h)" "keeps (guarantee h) (system_secs h)"
  "keeps (guarantee h) (fill_random h n)" "keeps (guarantee h) (send_http h r)"
  "keeps (guarantee h) (spawn t)"
  by (simp_all add: keeps_def external_calls guarantee_def steps_none)

section \<open>The repositories keep the guarantee\<close>

lemma keeps_federation [keeps_intro]:
  "keeps (guarantee h) (upsert_federation_node h n u k)"
  "keeps (guarantee h) (get_federation_node h n)"
  "keeps (guarantee h) (claim_nonce h n c)"
  "keeps (guarantee h) (purge_expired_nonces h)"
  "keeps (guarantee h) (enqueue_outbox h n l p)"
  "keeps (guarantee h) (fetch_due_outbox_entries h)"
  "keeps (guarantee h) (mark_outbox_delivered h j)"
  "keeps (guarantee h) (mark_outbox_delivered_by_logical_id h l)"
  "keeps (guarantee h) (record_outbox_failure h j a m)"
  "keeps (guarantee h) (upsert_shadow_user h n f hm)"
  "keeps (guarantee h) (upsert_shadow_device h v us ik)"
  "keeps (guarantee h) (get_local_user_id_by_username h n)"
  unfolding upsert_federation_node_def get_federation_node_def claim_nonce_def
    purge_expired_nonces_def enqueue_outbox_def fetch_due_outbox_entries_def
    mark_outbox_delivered_def mark_outbox_delivered_by_logical_id_def record_outbox_failure_def
    upsert_shadow_user_def upsert_shadow_device_def get_local_user_id_by_username_def
  by (auto intro!: keeps_intro keeps_exec intro: db_step.intros)

lemma keeps_direct_chat [keeps_intro]: "keeps (guarantee h) (get_or_create_direct_chat h x y)"
  unfolding get_or_create_direct_chat_def Let_def
  by (auto intro!: keeps_intro keeps_exec split: prod.split intro: db_step.intros)

lemma keeps_users [keeps_intro]:
  "keeps (guarantee h) (get_all_users h)" "keeps (guarantee h) (insert_user h n)"
  "keeps (guarantee h) (find_user_by_pubkey h k)" "keeps (guarantee h) (find_user_by_id h i)"
  "keeps (guarantee h) (enrollment_token_exists h tok)" "keeps (guarantee h) (add_used_token h tok)"
  unfolding get_all_users_def insert_user_def find_user_by_pubkey_def find_user_by_id_def
    enrollment_token_exists_def add_used_token_def
  by (auto intro!: keeps_intro keeps_exec intro: db_step.intros)

lemma keeps_devices [keeps_intro]:
  "keeps (guarantee h) (insert_new_device h u ik pk sk sg ot lb pt)"
  "keeps (guarantee h) (get_devices_by_user_id h u)"
  "keeps (guarantee h) (get_device_by_identity_key h k)"
  "keeps (guarantee h) (get_device_bundle h u)"
  "keeps (guarantee h) (user_for_device h v)"
  unfolding insert_new_device_def get_devices_by_user_id_def get_device_by_identity_key_def
    get_device_bundle_def user_for_device_def
  by (auto intro!: keeps_intro keeps_exec intro: db_step.intros
      simp: device_by_identity_key_stmt_def device_owner_stmt_def split: list.splits option.splits)

lemma keeps_messages [keeps_intro]:
  "keeps (guarantee h) (insert_message h fd fu msg)"
  "keeps (guarantee h) (insert_federated_message h l c fu fd tu td hdr ct)"
  "keeps (guarantee h) (fetch_pending_messages h v)"
  unfolding insert_message_def insert_federated_message_def fetch_pending_messages_def
  by (auto intro!: keeps_intro keeps_exec intro: db_step.intros)

lemma keeps_sessions [keeps_intro]:
  "keeps (guarantee h) (create_pending_session h s r e p ot ct)"
  "keeps (guarantee h) (get_pending_sessions h v)"
  "keeps (guarantee h) (get_pending_session_by_id h j v')"
  "keeps (guarantee h) (delete_pending_session h j)"
  "keeps (guarantee h) (get_or_create_chat_id h s r)"
  "keeps (guarantee h) (insert_or_update_session h c s r)"
  "keeps (guarantee h) (get_chats_for_device h v)"
  unfolding create_pending_session_def get_pending_sessions_def get_pending_session_by_id_def
    delete_pending_session_def get_or_create_chat_id_def insert_or_update_session_def
    get_chats_for_device_def
  by (auto intro!: keeps_intro keeps_exec intro: db_step.intros)

lemma guarantee_ok:
  "keeps (guarantee h) m \<Longrightarrow> host_ok h \<Longrightarrow> db_ok (store w) \<Longrightarrow> m w = (a, w') \<Longrightarrow> db_ok (store w')"
  by (auto dest!: keepsD simp: guarantee_def intro: steps_ok)

lemma guarantee_evolves:
  "keeps (guarantee h) m \<Longrightarrow> host_ok h \<Longrightarrow> m w = (a, w') \<Longrightarrow> evolves (store w) (store w')"
  by (auto dest!: keepsD simp: guarantee_def intro: steps_evolve)

end
