(* ===== verification/Read_Only.thy ===== *)
theory Read_Only
  imports Guarantee
begin

text \<open>
  Calls that never write: whatever is lost on the way, the database is as the other connections
  left it. The relation is a frame, so a handler that only queries keeps it.
\<close>

definition unshared :: "host \<Rightarrow> bool" where
  "unshared h \<longleftrightarrow> (\<forall>n. others h n = id)"

definition read_only :: "host \<Rightarrow> world \<Rightarrow> world \<Rightarrow> bool" where
  "read_only h w w' \<longleftrightarrow> (unshared h \<longrightarrow> store w' = store w)"

interpretation reads: frame "read_only h" for h
  by unfold_locales (simp_all add: read_only_def)

lemmas [keeps_intro] = reads.keeps_rules

lemma quiet_unshared: "quiet h \<Longrightarrow> unshared h"
  by (simp add: quiet_def well_behaved_def unshared_def)

lemma reads_exec:
  assumes "\<And>t i d a d'. q t i d = Inr (a, d') \<Longrightarrow> d' = d"
  shows "keeps (read_only h) (exec h q)"
  unfolding keeps_def read_only_def
proof (intro allI impI)
  fix w :: world
  assume "unshared h"
  then show "store (snd (exec h q w)) = store w"
    using assms by (cases rule: exec_cases [of h q w]) (auto simp: unshared_def)
qed

lemma reads_select [keeps_intro]: "keeps (read_only h) (exec h (select f))"
  by (rule reads_exec) (simp add: select_def)

lemma reads_external [keeps_intro]:
  "keeps (read_only h) (utc_now h)" "keeps (read_only h) (system_secs h)"
  "keeps (read_only h) (fill_random h n)" "keeps (read_only h) (send_http h r)"
  "keeps (read_only h) (spawn t)"
  by (simp_all add: keeps_def external_calls read_only_def)

lemma reads_repositories [keeps_intro]:
  "keeps (read_only h) (get_federation_node h n)"
  "keeps (read_only h) (fetch_due_outbox_entries h)"
  "keeps (read_only h) (get_local_user_id_by_username h u)"
  "keeps (read_only h) (get_all_users h)" "keeps (read_only h) (find_user_by_pubkey h k)"
  "keeps (read_only h) (find_user_by_id h i)" "keeps (read_only h) (enrollment_token_exists h tok)"
  "keeps (read_only h) (get_devices_by_user_id h i)"
  "keeps (read_only h) (get_device_by_identity_key h k)"
  "keeps (read_only h) (get_device_bundle h i)" "keeps (read_only h) (user_for_device h i)"
  "keeps (read_only h) (get_pending_sessions h v)"
  "keeps (read_only h) (get_pending_session_by_id h i j)"
  "keeps (read_only h) (get_chats_for_device h v)"
  unfolding get_federation_node_def fetch_due_outbox_entries_def get_local_user_id_by_username_def
    get_all_users_def find_user_by_pubkey_def find_user_by_id_def enrollment_token_exists_def
    get_devices_by_user_id_def get_device_by_identity_key_def get_device_bundle_def
    user_for_device_def get_pending_sessions_def get_pending_session_by_id_def
    get_chats_for_device_def
  by (auto intro!: keeps_intro reads_exec
      simp: device_by_identity_key_stmt_def device_owner_stmt_def split: list.splits option.splits)

lemma read_onlyD:
  "keeps (read_only h) m \<Longrightarrow> unshared h \<Longrightarrow> m w = (a, w') \<Longrightarrow> store w' = store w"
  by (auto dest!: keepsD simp: read_only_def)

end
