(* ===== verification/Nonce_Store.thy ===== *)
theory Nonce_Store
  imports Read_Only
begin

text \<open>
  The nonce store as the authentication of peers relies on it: a nonce of a node is claimed once, and
  stays claimed for at least the retention time of \<^verbatim>\<open>purge_expired_nonces\<close>, whatever runs meanwhile.
\<close>

locale nonce_store = insert_once claim id "\<lambda>d. dom (used d)"
  for claim :: "'k \<Rightarrow> bool stmt" and used :: "db \<Rightarrow> 'k \<Rightarrow> timestamp option" +
  fixes retention :: timestamp
  assumes claim_stamps: "claim k t i d = Inr (True, d') \<Longrightarrow> used d' k = Some t"
    and survives: "db_step t d d' \<Longrightarrow> used d k = Some u \<Longrightarrow> t \<le> u + retention \<Longrightarrow> used d' k = Some u"
begin

lemma survives_steps:
  "steps_upto T d d' \<Longrightarrow> used d k = Some u \<Longrightarrow> T \<le> u + retention \<Longrightarrow> used d' k = Some u"
  by (induction rule: steps_upto.induct) (auto intro: survives)

lemma claimed_once:
  assumes h: "host_ok h" and first: "exec h (claim k) w = (Inr True, w1)"
    and between: "guarantee h w1 w2" and second: "exec h (claim k) w2 = (Inr b, w3)"
    and time: "db_clock h (ticks w2) \<le> db_clock h (ticks w) + retention"
  shows "\<not> b"
proof -
  from first have u: "used (store w1) k = Some (db_clock h (ticks w))"
    by (auto simp: exec_Inr_iff dest: claim_stamps)
  have "steps_upto (db_clock h (ticks w2)) (store w1) (others h (ticks w2) (store w2))"
    by (rule steps_trans [where d' = "store w2"])
      (use h between in \<open>simp_all add: host_ok_def guarantee_def\<close>)
  from survives_steps [OF this u] time
  have "used (others h (ticks w2) (store w2)) k = Some (db_clock h (ticks w))"
    by simp
  then have "claim k t i (others h (ticks w2) (store w2)) = Inr (False, others h (ticks w2) (store w2))" for t i
    by (intro ins_again) (simp add: domI)
  with second show ?thesis
    by (auto simp: exec_Inr_iff)
qed

end

definition nonce_used :: "db \<Rightarrow> string \<times> string \<Rightarrow> timestamp option" where
  "nonce_used d k =
     map_option nn_used_at (find (\<lambda>r. nonce_key r = (snd k, fst k)) (t_used_node_nonces d))"

lemma nonce_used_None: "nonce_used d k = None \<longleftrightarrow> (snd k, fst k) \<notin> nonce_key ` set (t_used_node_nonces d)"
  by (auto simp: nonce_used_def find_None_iff image_iff dest: sym)

lemma find_filter: "find P xs = Some x \<Longrightarrow> Q x \<Longrightarrow> find P (filter Q xs) = Some x"
  by (induction xs) (auto split: if_splits)

lemma claim_adds:
  assumes "claim_nonce_stmt n c t i d = Inr (b, d')"
  shows "nonce_used d' = (if b then (nonce_used d)((n, c) \<mapsto> t) else nonce_used d) \<and>
    (b \<longleftrightarrow> nonce_used d (n, c) = None)"
proof (cases "(c, n) \<in> nonce_key ` set (t_used_node_nonces d)")
  case True
  with assms nonce_used_None [of d "(n, c)"] show ?thesis
    by (simp add: claim_nonce_stmt_def)
next
  case False
  then have "find (\<lambda>r. nonce_key r = (c, n)) (t_used_node_nonces d) = None"
    by (auto simp: find_None_iff image_iff dest: sym)
  then have "nonce_used (d\<lparr>t_used_node_nonces := t_used_node_nonces d @
      [\<lparr>nn_nonce = c, nn_node_id = n, nn_used_at = t\<rparr>]\<rparr>) k = ((nonce_used d)((n, c) \<mapsto> t)) k" for k
    by (cases "k = (n, c)") (auto simp: nonce_used_def find_snoc nonce_key_def split: option.split)
  with assms False nonce_used_None [of d "(n, c)"] show ?thesis
    by (auto simp: claim_nonce_stmt_def fun_eq_iff)
qed

lemma nonces_untouched:
  assumes "db_step t d d'"
  shows "t_used_node_nonces d' = t_used_node_nonces d \<or> (\<exists>n c i b. claim_nonce_stmt n c t i d = Inr (b, d')) \<or>
    (\<exists>i m. purge_expired_nonces_stmt t i d = Inr (m, d'))"
  using assms
  by cases (auto simp: stmt_defs Let_def split: if_splits option.splits prod.splits)

interpretation nonces: nonce_store "\<lambda>k. claim_nonce_stmt (fst k) (snd k)" nonce_used "seconds 300"
proof
  fix k :: "string \<times> string" and t i d b d'
  assume "claim_nonce_stmt (fst k) (snd k) t i d = Inr (b, d')"
  from claim_adds [OF this]
  show "b = (id k \<notin> dom (nonce_used d)) \<and> dom (nonce_used d') = insert (id k) (dom (nonce_used d))"
    by auto
next
  fix k :: "string \<times> string" and t i d
  assume "id k \<in> dom (nonce_used d)"
  then have "nonce_used d k \<noteq> None"
    by auto
  then show "claim_nonce_stmt (fst k) (snd k) t i d = Inr (False, d)"
    by (simp add: nonce_used_None claim_nonce_stmt_def)
next
  fix k :: "string \<times> string" and t i d d'
  assume "claim_nonce_stmt (fst k) (snd k) t i d = Inr (True, d')"
  from claim_adds [OF this] show "nonce_used d' k = Some t"
    by simp
next
  fix t d d' and k :: "string \<times> string" and u
  assume st: "db_step t d d'" and k: "nonce_used d k = Some u" and t: "t \<le> u + seconds 300"
  from nonces_untouched [OF st] show "nonce_used d' k = Some u"
  proof (elim disjE exE)
    assume "t_used_node_nonces d' = t_used_node_nonces d"
    with k show ?thesis
      by (simp add: nonce_used_def)
  next
    fix n c i b assume "claim_nonce_stmt n c t i d = Inr (b, d')"
    from claim_adds [OF this] k show ?thesis
      by (auto split: if_splits)
  next
    fix i m assume "purge_expired_nonces_stmt t i d = Inr (m, d')"
    moreover from k obtain r where "find (\<lambda>r. nonce_key r = (snd k, fst k)) (t_used_node_nonces d) = Some r"
        "nn_used_at r = u"
      by (auto simp: nonce_used_def)
    ultimately show ?thesis
      using t by (auto simp: purge_expired_nonces_stmt_def Let_def nonce_used_def find_filter)
  qed
qed

lemma claim_nonce_exec: "claim_nonce h n c = exec h (claim_nonce_stmt (fst (n, c)) (snd (n, c)))"
  by (simp add: claim_nonce_def)

end
