(* ===== verification/Crypto_Utils.thy ===== *)
theory Crypto_Utils
  imports Nonce_Store
begin

text \<open>
  The credentials of devices and nodes: \<^verbatim>\<open>src/utils/crypto_utils.rs\<close> (signature checks of a
  client), \<^verbatim>\<open>src/utils/node_keys.rs\<close> (the key pair of this node) and \<^verbatim>\<open>src/services/auth.rs\<close>
  (enrollment tokens). Base64, Ed25519 and JWT are the host's; \<open>crypto_laws\<close> states what is
  documented of them.
\<close>

section \<open>Fallible pure code\<close>

text \<open>\<^verbatim>\<open>let a = r?; k(a)\<close> without awaiting anything, and a check that fails with an error.\<close>

definition and_then :: "'e + 'a \<Rightarrow> ('a \<Rightarrow> 'e + 'b) \<Rightarrow> 'e + 'b" where
  "and_then r k = (case r of Inl e \<Rightarrow> Inl e | Inr a \<Rightarrow> k a)"

definition ensure :: "'e \<Rightarrow> bool \<Rightarrow> 'e + unit" where
  "ensure e b = (if b then Inr () else Inl e)"

lemma and_then_simps [simp]: "and_then (Inl e) k = Inl e" "and_then (Inr a) k = k a"
  by (simp_all add: and_then_def)

lemma and_then_Inr_iff: "and_then r k = Inr b \<longleftrightarrow> (\<exists>a. r = Inr a \<and> k a = Inr b)"
  by (cases r) auto

lemma ensure_Inr_iff [simp]: "ensure e b = Inr u \<longleftrightarrow> b"
  by (simp add: ensure_def)

lemma ensure_simps [simp]: "ensure e True = Inr ()" "ensure e False = Inl e"
  by (simp_all add: ensure_def)

section \<open>Keys and signatures as bytes\<close>

text \<open>
  \<^verbatim>\<open>VerifyingKey::try_from(&[u8])\<close>, \<^verbatim>\<open>Signature::try_from(&[u8])\<close> and \<^verbatim>\<open>try_into::<[u8; n]>()\<close>:
  a length check, and for a key the validity of the point.
\<close>

definition vk_from_slice :: "host \<Rightarrow> bytes \<Rightarrow> bytes option" where
  "vk_from_slice h bs = (if length bs = 32 \<and> vk_valid h bs then Some bs else None)"

definition to_array :: "nat \<Rightarrow> bytes \<Rightarrow> bytes option" where
  "to_array n bs = (if length bs = n then Some bs else None)"

definition sig_from_slice :: "bytes \<Rightarrow> bytes option" where
  "sig_from_slice bs = to_array 64 bs"

definition verify_signed_prekey_signature :: "host \<Rightarrow> string \<Rightarrow> string \<Rightarrow> string \<Rightarrow> string + unit" where
  "verify_signed_prekey_signature h identity_pubkey_b64 spk_pub_b64 spk_sig_b64 =
     and_then (ok_or ''Invalid Base64 in identity_pubkey'' (b64_decode h identity_pubkey_b64)) (\<lambda>identity_bytes.
     and_then (ok_or ''Invalid Base64 in signed_prekey.key'' (b64_decode h spk_pub_b64)) (\<lambda>spk_pubkey.
     and_then (ok_or ''Invalid Base64 in signed_prekey.signature'' (b64_decode h spk_sig_b64)) (\<lambda>spk_sig.
     and_then (ok_or ''Invalid identity_pubkey bytes'' (vk_from_slice h identity_bytes)) (\<lambda>ik_pub.
     and_then (ok_or ''Invalid signed_prekey.signature bytes'' (sig_from_slice spk_sig)) (\<lambda>signature.
       ensure ''Invalid signed_prekey signature'' (ed_verify h ik_pub spk_pubkey signature))))))"

definition verify_message_signature :: "host \<Rightarrow> string \<Rightarrow> string \<Rightarrow> string \<Rightarrow> string + unit" where
  "verify_message_signature h pubkey_b64 message_b64 signature_b64 =
     and_then (ok_or ''Invalid Base64 in pubkey'' (b64_decode h pubkey_b64)) (\<lambda>identity_bytes.
     and_then (ok_or ''Invalid Base64 in message'' (b64_decode h message_b64)) (\<lambda>message.
     and_then (ok_or ''Invalid Base64 in signature'' (b64_decode h signature_b64)) (\<lambda>signature_dec.
     and_then (ok_or ''Invalid signed_prekey.signature bytes'' (sig_from_slice signature_dec)) (\<lambda>signature.
     and_then (ok_or ''Invalid identity_pubkey bytes'' (vk_from_slice h identity_bytes)) (\<lambda>pubkey.
       ensure ''Invalid signature'' (ed_verify h pubkey message signature))))))"

lemma verify_signed_prekey_ok_iff:
  "verify_signed_prekey_signature h ik spk sg = Inr u \<longleftrightarrow>
     (\<exists>ikb spkb sgb. b64_decode h ik = Some ikb \<and> b64_decode h spk = Some spkb \<and>
        b64_decode h sg = Some sgb \<and> length ikb = 32 \<and> vk_valid h ikb \<and> length sgb = 64 \<and>
        ed_verify h ikb spkb sgb)"
  by (auto simp: verify_signed_prekey_signature_def and_then_Inr_iff vk_from_slice_def
      sig_from_slice_def to_array_def split: if_splits)

section \<open>The key pair of a node\<close>

definition signing_key :: "host \<Rightarrow> node_keys \<Rightarrow> string + bytes" where
  "signing_key h ks =
     and_then (ok_or ''base64'' (b64_decode h (nk_private_b64 ks))) (\<lambda>bs.
       ok_or ''invalid private key length (expected 32 bytes)'' (to_array 32 bs))"

definition verifying_key :: "host \<Rightarrow> node_keys \<Rightarrow> string + bytes" where
  "verifying_key h ks =
     and_then (ok_or ''base64'' (b64_decode h (nk_public_b64 ks))) (\<lambda>bs.
     and_then (ok_or ''invalid public key length (expected 32 bytes)'' (to_array 32 bs)) (\<lambda>key_bytes.
       ok_or ''signature error'' (vk_from_slice h key_bytes)))"

definition sign_message :: "host \<Rightarrow> node_keys \<Rightarrow> bytes \<Rightarrow> string + string" where
  "sign_message h ks message =
     and_then (signing_key h ks) (\<lambda>sk. Inr (b64_encode h (ed_sign h sk message)))"

definition verify_message :: "host \<Rightarrow> node_keys \<Rightarrow> bytes \<Rightarrow> string \<Rightarrow> string + bool" where
  "verify_message h ks message signature_b64 =
     and_then (verifying_key h ks) (\<lambda>vk.
     and_then (ok_or ''base64'' (b64_decode h signature_b64)) (\<lambda>sig_bytes.
     and_then (ok_or ''invalid signature length (expected 64 bytes)'' (to_array 64 sig_bytes)) (\<lambda>sig.
       Inr (ed_verify h vk message sig))))"

text \<open>
  The key file \<^verbatim>\<open>.hushnet/node_keys\<close>: absent, or a text, which serde reads as key material or
  not, or absent from a directory that takes no new file (\<open>Unwritable\<close>), or without its directory, which
  cannot be created either (\<open>No_Directory\<close>). \<open>Stored\<close> is the text \<^verbatim>\<open>generate_and_save\<close> writes for a pair of keys.
\<close>

datatype key_file = Absent | Stored node_keys | Garbled | Unwritable | No_Directory

text \<open>How a call that \<^verbatim>\<open>main\<close> makes while it starts ends early: with an error it returns, or a panic.\<close>

datatype exit = Main_Error string | Main_Panic

text \<open>
  \<^verbatim>\<open>get_node_keys_path\<close> makes the directory where there is none, and panics where it cannot:
  \<^verbatim>\<open>load_or_generate\<close> asks for the path first, \<^verbatim>\<open>generate_and_save\<close> after it has drawn a key.
\<close>

definition get_node_keys_path :: "key_file \<Rightarrow> exit + unit" where
  "get_node_keys_path f = ensure Main_Panic (f \<noteq> No_Directory)"

definition generate_and_save :: "host \<Rightarrow> key_file \<times> world \<Rightarrow> (exit + node_keys) \<times> key_file \<times> world" where
  "generate_and_save h s =
     (case fill_random h 32 (snd s) of
        (secret, w') \<Rightarrow>
          (let ks = \<lparr>nk_public_b64 = b64_encode h (ed_public h secret),
                     nk_private_b64 = b64_encode h secret\<rparr>
           in case get_node_keys_path (fst s) of
                Inl e \<Rightarrow> (Inl e, fst s, w')
              | Inr _ \<Rightarrow>
                  if fst s = Unwritable then (Inl (Main_Error ''cannot write key file''), fst s, w')
                  else (Inr ks, Stored ks, w')))"

definition load_or_generate :: "host \<Rightarrow> key_file \<times> world \<Rightarrow> (exit + node_keys) \<times> key_file \<times> world" where
  "load_or_generate h s =
     (case get_node_keys_path (fst s) of
        Inl e \<Rightarrow> (Inl e, s)
      | Inr _ \<Rightarrow>
          (case fst s of
             Stored ks \<Rightarrow> (Inr ks, s)
           | Garbled \<Rightarrow> (Inl (Main_Error ''invalid key file''), s)
           | _ \<Rightarrow> generate_and_save h s))"

text \<open>
  Documented of the crates: base64 decodes what it encoded; an Ed25519 public key is a valid
  32-byte point and a signature has 64 bytes; a key verifies what its secret signed. The
  generator fills the buffer it is given, and a uuid reads back from its text.
\<close>

definition crypto_laws :: "host \<Rightarrow> bool" where
  "crypto_laws h \<longleftrightarrow>
     (\<forall>bs. b64_decode h (b64_encode h bs) = Some bs) \<and>
     (\<forall>sk. length sk = 32 \<longrightarrow> length (ed_public h sk) = 32 \<and> vk_valid h (ed_public h sk)) \<and>
     (\<forall>sk m. length sk = 32 \<longrightarrow> length (ed_sign h sk m) = 64 \<and>
        ed_verify h (ed_public h sk) m (ed_sign h sk m)) \<and>
     (\<forall>n k. length (os_rng h n k) = k) \<and>
     (\<forall>i. uuid_parse h (uuid_show h i) = Some i)"

text \<open>A pair of keys as \<^verbatim>\<open>generate_and_save\<close> makes it.\<close>

definition key_pair :: "host \<Rightarrow> bytes \<Rightarrow> node_keys" where
  "key_pair h sk = \<lparr>nk_public_b64 = b64_encode h (ed_public h sk), nk_private_b64 = b64_encode h sk\<rparr>"

lemma signing_key_pair:
  "crypto_laws h \<Longrightarrow> length sk = 32 \<Longrightarrow> signing_key h (key_pair h sk) = Inr sk"
  by (simp add: signing_key_def key_pair_def crypto_laws_def to_array_def)

lemma verifying_key_pair:
  "crypto_laws h \<Longrightarrow> length sk = 32 \<Longrightarrow> verifying_key h (key_pair h sk) = Inr (ed_public h sk)"
  by (simp add: verifying_key_def key_pair_def crypto_laws_def to_array_def vk_from_slice_def)

lemma generate_key_pair:
  "crypto_laws h \<Longrightarrow> f \<noteq> Unwritable \<Longrightarrow> f \<noteq> No_Directory \<Longrightarrow> \<exists>sk w'. length sk = 32 \<and>
     generate_and_save h (f, w) = (Inr (key_pair h sk), Stored (key_pair h sk), w')"
  by (intro exI [of _ "os_rng h (ticks w) 32"] exI [of _ "w\<lparr>ticks := Suc (ticks w)\<rparr>"])
    (simp add: generate_and_save_def get_node_keys_path_def fill_random_def key_pair_def crypto_laws_def Let_def)

section \<open>Enrollment tokens\<close>

text \<open>
  \<^verbatim>\<open>encode(..).expect(..)\<close> panics where the crate cannot encode (\<open>None\<close>); a token expires five
  minutes after it was made.
\<close>

definition generate_enrollment_tokens :: "host \<Rightarrow> uuid \<Rightarrow> string \<Rightarrow> world \<Rightarrow> string option \<times> world" where
  "generate_enrollment_tokens h user_id secret =
     await (system_secs h) (\<lambda>now.
       ret (jwt_encode h secret \<lparr>ec_sub = uuid_show h user_id, ec_exp = now + 5 * 60\<rparr>))"

definition verify_enrollment_token :: "host \<Rightarrow> string \<Rightarrow> string \<Rightarrow> world \<Rightarrow> uuid option \<times> world" where
  "verify_enrollment_token h token secret =
     await (system_secs h) (\<lambda>now.
       ret (Option.bind (jwt_decode h now token secret) (\<lambda>claims. uuid_parse h (ec_sub claims))))"

lemma keeps_enrollment [keeps_intro]:
  "keeps (guarantee h) (generate_enrollment_tokens h u s)"
  "keeps (guarantee h) (verify_enrollment_token h tok s)"
  "keeps (read_only h) (generate_enrollment_tokens h u s)"
  "keeps (read_only h) (verify_enrollment_token h tok s)"
  unfolding generate_enrollment_tokens_def verify_enrollment_token_def
  by (auto intro!: keeps_intro)

end
