(* ===== verification/Device_Auth.thy ===== *)
theory Device_Auth
  imports Crypto_Utils
begin

text \<open>
  \<^verbatim>\<open>src/middlewares/auth.rs\<close>: the extractor that authenticates a client device by a signature over
  its timestamp header. A rejection is the status and the message of the reply.
\<close>

text \<open>
  The parts of a request the extractors look at: the method, \<^verbatim>\<open>uri.path_and_query()\<close>, and the value
  of a header as text (\<^verbatim>\<open>headers.get(name).and_then(|v| v.to_str().ok())\<close>).
\<close>

record request_parts =
  rp_method :: string
  rp_path_and_query :: "string option"
  rp_header :: "string \<Rightarrow> string option"

type_synonym rejection = "status_code \<times> string"

definition authenticate_device ::
  "host \<Rightarrow> request_parts \<Rightarrow> world \<Rightarrow> (rejection + devices) \<times> world" where
  "authenticate_device h parts =
     try_await (ret (ok_or (UNAUTHORIZED, ''Missing X-Identity-Key'') (rp_header parts ''X-Identity-Key''))) (\<lambda>ik_b64.
     try_await (ret (ok_or (UNAUTHORIZED, ''Missing X-Signature'') (rp_header parts ''X-Signature''))) (\<lambda>sig_b64.
     try_await (ret (ok_or (UNAUTHORIZED, ''Missing X-Timestamp'') (rp_header parts ''X-Timestamp''))) (\<lambda>ts.
     await (utc_now h) (\<lambda>now.
     let ts_i64 = (case parse_i64 ts of None \<Rightarrow> 0 | Some t \<Rightarrow> t) in
     if outside_window now ts_i64 30 then ret (Inl (UNAUTHORIZED, ''Expired timestamp'')) else
     try_await (ret (ok_or (BAD_REQUEST, ''Bad signature b64'') (b64_decode h sig_b64))) (\<lambda>sig_vec.
     try_await (ret (ok_or (BAD_REQUEST, ''Signature must be 64 bytes'') (to_array 64 sig_vec))) (\<lambda>sig.
     try_await (ret (ok_or (BAD_REQUEST, ''Bad pubkey b64'') (b64_decode h ik_b64))) (\<lambda>vk_bytes.
     try_await (ret (ok_or (BAD_REQUEST, ''Bad pubkey length'') (to_array 32 vk_bytes))) (\<lambda>vk_arr.
     try_await (ret (ok_or (BAD_REQUEST, ''Bad pubkey'') (vk_from_slice h vk_arr))) (\<lambda>vk.
     try_await (ret (ensure (UNAUTHORIZED, ''Signature mismatch'') (ed_verify h vk ts sig))) (\<lambda>_.
       map_err (\<lambda>_. (UNAUTHORIZED, ''Unknown device'')) (get_device_by_identity_key h ik_b64)))))))))))"

lemma keeps_authenticate_device [keeps_intro]:
  "keeps (guarantee h) (authenticate_device h parts)"
  "keeps (read_only h) (authenticate_device h parts)"
  unfolding authenticate_device_def Let_def by (intro keeps_intro)+

text \<open>The newest device among those with one identity key.\<close>

definition newest_device :: "string \<Rightarrow> devices list \<Rightarrow> devices \<Rightarrow> bool" where
  "newest_device ik ds r \<longleftrightarrow> r \<in> set ds \<and> dv_identity_pubkey r = ik \<and>
     (\<forall>q \<in> set ds. dv_identity_pubkey q = ik \<longrightarrow>
        (case dv_created_at r of None \<Rightarrow> True
         | Some t \<Rightarrow> (case dv_created_at q of None \<Rightarrow> False | Some t' \<Rightarrow> t' \<le> t)))"

lemma hd_sort_key_min: "sort_key f xs = y # ys \<Longrightarrow> z \<in> set xs \<Longrightarrow> f y \<le> f z"
proof -
  assume s: "sort_key f xs = y # ys" and z: "z \<in> set xs"
  have "sorted (map f (y # ys))"
    using sorted_sort_key [of f xs] s by simp
  moreover have "z \<in> set (y # ys)"
    using z s by (metis set_sort)
  ultimately show ?thesis
    by auto
qed

lemma sorted_wrt_if_all: "(\<And>x y. x \<in> set xs \<Longrightarrow> y \<in> set xs \<Longrightarrow> P x y) \<Longrightarrow> sorted_wrt P xs"
  by (induction xs) auto

lemma order_desc_hd:
  assumes hd: "order_desc f xs = y # ys" and z: "z \<in> set xs"
  shows "case f y of None \<Rightarrow> True | Some t \<Rightarrow> (case f z of None \<Rightarrow> False | Some t' \<Rightarrow> t' \<le> t)"
proof (cases "f y")
  case None
  then show ?thesis by simp
next
  case (Some t)
  let ?k = "\<lambda>r. if f r = None then 0 else 1 :: nat"
  let ?m = "\<lambda>r. case f r of None \<Rightarrow> 0 | Some t \<Rightarrow> - t"
  let ?s = "sort_key ?m xs"
  have hd': "sort_key ?k ?s = y # ys"
    using hd by (simp add: order_desc_def)
  then have all: "?k y \<le> ?k x" if "x \<in> set xs" for x
    using hd_sort_key_min [OF hd'] that by simp
  with Some have some: "f x \<noteq> None" if "x \<in> set xs" for x
    using all [OF that] Some by (auto split: if_splits)
  have "sorted (map ?k ?s)"
    unfolding sorted_map by (rule sorted_wrt_if_all) (use some in force)
  then have "sort_key ?k ?s = ?s"
    by (rule sort_key_id_if_sorted)
  with hd' have "?s = y # ys"
    by simp
  then have "?m y \<le> ?m z"
    using z by (rule hd_sort_key_min)
  with Some some [OF z] show ?thesis
    by auto
qed

lemma device_by_identity_key_Inr:
  assumes "device_by_identity_key_stmt ik t i d = Inr (r, d')"
  shows "d' = d \<and> newest_device ik (t_devices d) r"
proof -
  let ?rs = "filter (\<lambda>r. dv_identity_pubkey r = ik) (t_devices d)"
  from assms obtain rs where rs: "order_desc dv_created_at ?rs = r # rs" and "d' = d"
    by (auto simp: device_by_identity_key_stmt_def split: list.splits)
  have "r \<in> set (order_desc dv_created_at ?rs)"
    by (simp add: rs)
  then have "r \<in> set ?rs"
    by (simp only: set_order)
  with order_desc_hd [OF rs] \<open>d' = d\<close> show ?thesis
    by (auto simp: newest_device_def)
qed

end
