(* ===== verification/Node_Auth.thy ===== *)
theory Node_Auth
  imports Device_Auth
begin

text \<open>
  \<^verbatim>\<open>src/middlewares/node_auth.rs\<close>: the extractor that authenticates a request of a peer node, with
  the lookup of the peer's public key in the node cache or, failing that, in the registry.
\<close>

section \<open>The extractor\<close>

definition header_str :: "request_parts \<Rightarrow> string \<Rightarrow> rejection + string" where
  "header_str parts name = ok_or (UNAUTHORIZED, ''missing header: '' @ name) (rp_header parts name)"

text \<open>\<^verbatim>\<open>format!("{}/api/registry/nodes/{}", registry_url, node_id)\<close> and the plain GET on it.\<close>

definition registry_request :: "app_state \<Rightarrow> string \<Rightarrow> http_request" where
  "registry_request st node_id =
     \<lparr>hr_method = ''GET'', hr_url = registry_url st @ ''/api/registry/nodes/'' @ node_id,
      hr_headers = [], hr_body = None\<rparr>"

text \<open>\<^verbatim>\<open>Response::error_for_status\<close> turns the 4xx and 5xx statuses into errors.\<close>

definition is_error_status :: "nat \<Rightarrow> bool" where
  "is_error_status s \<longleftrightarrow> 400 \<le> s \<and> s < 600"

text \<open>What becomes of the registry's reply.\<close>

definition peer_of_reply ::
  "host \<Rightarrow> string \<Rightarrow> http_result \<Rightarrow> world \<Rightarrow> (rejection + federation_node) \<times> world" where
  "peer_of_reply h node_id r =
     (case r of
        Http_Error \<Rightarrow> ret (Inl (SERVICE_UNAVAILABLE, ''registry unreachable''))
      | Http_Response status body \<Rightarrow>
          if is_error_status status
          then ret (Inl (UNAUTHORIZED, ''peer node not found in registry''))
          else
            try_await (ret (ok_or (BAD_GATEWAY, ''malformed registry response'') body)) (\<lambda>resp.
            try_await (ret (ok_or (BAD_GATEWAY, ''registry response missing api_url'')
              (as_str (json_index resp ''api_url'')))) (\<lambda>api_url.
            try_await (ret (ok_or (BAD_GATEWAY, ''registry response missing public_key_b64'')
              (as_str (json_index resp ''public_key_b64'')))) (\<lambda>pubkey.
              map_err (\<lambda>_. (INTERNAL_SERVER_ERROR, ''db error''))
                (upsert_federation_node h node_id api_url pubkey)))))"

definition resolve_peer ::
  "host \<Rightarrow> app_state \<Rightarrow> string \<Rightarrow> world \<Rightarrow> (rejection + federation_node) \<times> world" where
  "resolve_peer h st node_id =
     try_await (map_err (\<lambda>_. (INTERNAL_SERVER_ERROR, ''db error'')) (get_federation_node h node_id)) (\<lambda>cached.
     case cached of
       Some node \<Rightarrow> ret (Inr node)
     | None \<Rightarrow> await (send_http h (registry_request st node_id)) (peer_of_reply h node_id))"

text \<open>The path the signature covers: \<^verbatim>\<open>path_and_query\<close>, or \<^verbatim>\<open>"/"\<close>.\<close>

definition signed_path :: "request_parts \<Rightarrow> string" where
  "signed_path parts = (case rp_path_and_query parts of None \<Rightarrow> ''/'' | Some pq \<Rightarrow> pq)"

definition authenticate_node ::
  "host \<Rightarrow> app_state \<Rightarrow> request_parts \<Rightarrow> world \<Rightarrow> (rejection + federation_node) \<times> world" where
  "authenticate_node h st parts =
     try_await (ret (header_str parts ''X-Node-ID'')) (\<lambda>node_id.
     try_await (ret (header_str parts ''X-Timestamp'')) (\<lambda>ts_str.
     try_await (ret (header_str parts ''X-Nonce'')) (\<lambda>nonce.
     try_await (ret (header_str parts ''X-Node-Signature'')) (\<lambda>sig_b64.
     await (utc_now h) (\<lambda>now.
     try_await (ret (ok_or (BAD_REQUEST, ''X-Timestamp must be an integer'') (parse_i64 ts_str))) (\<lambda>ts.
     if outside_window now ts 60
     then ret (Inl (UNAUTHORIZED, ''timestamp outside 60-second window'')) else
     try_await (resolve_peer h st node_id) (\<lambda>node.
     if fn_is_blocked node then ret (Inl (FORBIDDEN, ''node is blocked'')) else
     let canonical = canonical_string (rp_method parts) (signed_path parts) ts_str nonce in
     try_await (ret (ok_or (BAD_REQUEST, ''bad signature base64'') (b64_decode h sig_b64))) (\<lambda>sig_vec.
     try_await (ret (ok_or (BAD_REQUEST, ''signature must be 64 bytes'') (to_array 64 sig_vec))) (\<lambda>sig.
     try_await (ret (ok_or (INTERNAL_SERVER_ERROR, ''bad cached peer pubkey'')
       (b64_decode h (fn_public_key_b64 node)))) (\<lambda>vk_vec.
     try_await (ret (ok_or (INTERNAL_SERVER_ERROR, ''peer pubkey must be 32 bytes'') (to_array 32 vk_vec))) (\<lambda>vk_bytes.
     try_await (ret (ok_or (INTERNAL_SERVER_ERROR, ''invalid peer pubkey'') (vk_from_slice h vk_bytes))) (\<lambda>vk.
     try_await (ret (ensure (UNAUTHORIZED, ''invalid node signature'') (ed_verify h vk canonical sig))) (\<lambda>_.
     try_await (map_err (\<lambda>_. (INTERNAL_SERVER_ERROR, ''db error'')) (claim_nonce h node_id nonce)) (\<lambda>fresh.
     if \<not> fresh then ret (Inl (UNAUTHORIZED, ''replayed nonce''))
     else ret (Inr node)))))))))))))))"

lemma keeps_resolve_peer [keeps_intro]: "keeps (guarantee h) (resolve_peer h st n)"
  unfolding resolve_peer_def peer_of_reply_def
  by (auto intro!: keeps_intro split: http_result.split)

lemma keeps_authenticate_node [keeps_intro]: "keeps (guarantee h) (authenticate_node h st parts)"
  unfolding authenticate_node_def Let_def by (intro keeps_intro)

section \<open>What acceptance means\<close>

text \<open>
  The request carries a valid signature of the node: the canonical string of its method, path,
  timestamp and nonce is signed with the key the record holds.
\<close>

definition signed_by :: "host \<Rightarrow> request_parts \<Rightarrow> federation_node \<Rightarrow> bool" where
  "signed_by h parts node \<longleftrightarrow>
     (\<exists>ts nonce sg sig vk.
        rp_header parts ''X-Timestamp'' = Some ts \<and> rp_header parts ''X-Nonce'' = Some nonce \<and>
        rp_header parts ''X-Node-Signature'' = Some sg \<and> b64_decode h sg = Some sig \<and>
        length sig = 64 \<and> b64_decode h (fn_public_key_b64 node) = Some vk \<and> length vk = 32 \<and>
        vk_valid h vk \<and>
        ed_verify h vk (canonical_string (rp_method parts) (signed_path parts) ts nonce) sig)"

lemma upsert_returns_node_id:
  "upsert_federation_node_stmt n u k t i d = Inr (r, d') \<Longrightarrow> fn_node_id r = n"
  by (auto simp: upsert_federation_node_stmt_def Let_def split: option.splits if_splits
      dest!: find_Some_iff_mem)

lemma find_node_id: "find_node n d = Some r \<Longrightarrow> fn_node_id r = n"
  by (auto simp: find_node_def dest: find_Some_iff_mem)

lemma exec_InrE:
  assumes "exec h q w = (Inr a, w')"
  obtains t i d where "q t i d = Inr (a, store w')"
  using assms by (auto simp: exec_Inr_iff)

lemma get_federation_node_id:
  "get_federation_node h n w = (Inr (Some r), w') \<Longrightarrow> fn_node_id r = n"
  by (auto simp: get_federation_node_def exec_select_Inr_iff intro: find_node_id dest: sym)

lemma upsert_federation_node_id:
  "upsert_federation_node h n u k w = (Inr r, w') \<Longrightarrow> fn_node_id r = n"
  unfolding upsert_federation_node_def by (erule exec_InrE) (rule upsert_returns_node_id)

lemma peer_of_reply_node_id: "peer_of_reply h n r w = (Inr node, w') \<Longrightarrow> fn_node_id node = n"
  by (cases r) (auto simp: peer_of_reply_def try_await_Inr_iff split: if_splits
      dest: upsert_federation_node_id)

lemma resolve_peer_node_id:
  assumes "resolve_peer h st n w = (Inr node, w')"
  shows "fn_node_id node = n"
proof -
  from assms obtain cached w1 where c: "get_federation_node h n w = (Inr cached, w1)"
    and k: "(case cached of Some node \<Rightarrow> ret (Inr node) | None \<Rightarrow>
        await (send_http h (registry_request st n)) (peer_of_reply h n)) w1 = (Inr node, w')"
    by (auto simp: resolve_peer_def try_await_Inr_iff)
  show ?thesis
  proof (cases cached)
    case (Some r)
    with c k show ?thesis
      by (auto dest: get_federation_node_id)
  next
    case None
    with k show ?thesis
      by (auto simp: await_eq_iff dest: peer_of_reply_node_id)
  qed
qed

lemma authenticate_node_Inr_iff:
  "authenticate_node h st parts w = (Inr node, w') \<longleftrightarrow>
     (\<exists>node_id ts nonce t w2.
        rp_header parts ''X-Node-ID'' = Some node_id \<and>
        rp_header parts ''X-Timestamp'' = Some ts \<and> parse_i64 ts = Some t \<and>
        rp_header parts ''X-Nonce'' = Some nonce \<and>
        \<not> outside_window (word_of_nat (unix_secs h (ticks w))) t 60 \<and>
        resolve_peer h st node_id (w\<lparr>ticks := Suc (ticks w)\<rparr>) = (Inr node, w2) \<and>
        \<not> fn_is_blocked node \<and> signed_by h parts node \<and>
        claim_nonce h node_id nonce w2 = (Inr True, w'))" (is "?L \<longleftrightarrow> ?R")
proof
  show "?L \<Longrightarrow> ?R"
    by (auto simp: authenticate_node_def try_await_Inr_iff await_eq_iff header_str_def utc_now_def
        Let_def signed_by_def to_array_def vk_from_slice_def split: if_splits)
next
  assume ?R
  then show ?L
    by (elim exE conjE, unfold signed_by_def, elim exE conjE)
      (simp add: authenticate_node_def try_await_step await_step header_str_def utc_now_def
        to_array_def vk_from_slice_def)
qed

end
