(* ===== verification/Federation_Client.thy ===== *)
theory Federation_Client
  imports Node_Auth
begin

text \<open>
  \<^verbatim>\<open>src/federation/client.rs\<close>: the HTTP client that signs every request to a peer node with this
  node's key. An \<^verbatim>\<open>anyhow\<close> error is the text of its outermost context.
\<close>

section \<open>The client\<close>

record federation_client =
  fc_node_keys :: node_keys
  fc_this_node_id :: string

text \<open>\<^verbatim>\<open>FederationClient::new(state.http_client, state.node_keys, state.this_node_id)\<close>\<close>

definition new_client :: "app_state \<Rightarrow> federation_client" where
  "new_client st = \<lparr>fc_node_keys = app_node_keys st, fc_this_node_id = this_node_id st\<rparr>"

definition sign ::
  "host \<Rightarrow> federation_client \<Rightarrow> string \<Rightarrow> string \<Rightarrow> world \<Rightarrow> (string + string \<times> string \<times> string) \<times> world" where
  "sign h c meth path =
     await (system_secs h) (\<lambda>secs.
     await (fill_random h 16) (\<lambda>buf.
     let ts = show_nat secs; nonce = b64_encode h buf;
         canonical = canonical_string meth path ts nonce
     in try_await (ret (signing_key h (fc_node_keys c))) (\<lambda>sk.
          ret (Inr (ts, nonce, b64_encode h (ed_sign h sk canonical))))))"

definition auth_headers :: "federation_client \<Rightarrow> string \<times> string \<times> string \<Rightarrow> (string \<times> string) list" where
  "auth_headers c s =
     (case s of (ts, nonce, sig) \<Rightarrow>
        [(''X-Node-ID'', fc_this_node_id c), (''X-Timestamp'', ts), (''X-Nonce'', nonce),
         (''X-Node-Signature'', sig)])"

definition or_http_error :: "string \<Rightarrow> http_result \<Rightarrow> string + nat \<times> json option" where
  "or_http_error msg r =
     (case r of Http_Error \<Rightarrow> Inl msg | Http_Response status body \<Rightarrow> Inr (status, body))"

definition signed_get ::
  "host \<Rightarrow> federation_client \<Rightarrow> string \<Rightarrow> world \<Rightarrow> (string + nat \<times> json option) \<times> world" where
  "signed_get h c url =
     try_await (sign h c ''GET'' (url_path url)) (\<lambda>s.
     await (send_http h \<lparr>hr_method = ''GET'', hr_url = url, hr_headers = auth_headers c s,
                         hr_body = None\<rparr>) (\<lambda>r.
       ret (or_http_error ''S2S GET request failed'' r)))"

definition signed_post ::
  "host \<Rightarrow> federation_client \<Rightarrow> string \<Rightarrow> string \<Rightarrow> json \<Rightarrow> world \<Rightarrow>
     (string + nat \<times> json option) \<times> world" where
  "signed_post h c api_url path body =
     try_await (sign h c ''POST'' path) (\<lambda>s.
     await (send_http h \<lparr>hr_method = ''POST'', hr_url = api_url @ path,
                         hr_headers = (''Content-Type'', ''application/json'') # auth_headers c s,
                         hr_body = Some body\<rparr>) (\<lambda>r.
       ret (or_http_error ''S2S POST request failed'' r)))"

text \<open>\<^verbatim>\<open>.error_for_status().context(msg)?\<close> and \<^verbatim>\<open>.json::<T>().await.context(msg)\<close>\<close>

definition error_for_status :: "string \<Rightarrow> nat \<times> json option \<Rightarrow> string + json option" where
  "error_for_status msg resp = (if is_error_status (fst resp) then Inl msg else Inr (snd resp))"

definition json_body :: "string \<Rightarrow> (json \<Rightarrow> 'a option) \<Rightarrow> json option \<Rightarrow> string + 'a" where
  "json_body msg of_json body = ok_or msg (Option.bind body of_json)"

definition fetch_peer_keys ::
  "host \<Rightarrow> federation_client \<Rightarrow> string \<Rightarrow> string \<Rightarrow> world \<Rightarrow> (string + device_bundle list) \<times> world" where
  "fetch_peer_keys h c api_url username =
     try_await (signed_get h c (api_url @ ''/s2s/users/'' @ username @ ''/keys'')) (\<lambda>resp.
     try_await (ret (error_for_status ''peer returned error for key fetch'' resp)) (\<lambda>body.
       ret (json_body ''invalid key bundle in peer response''
         (json_list (bundle_of_json (uuid_parse h))) body)))"

definition forward_session ::
  "host \<Rightarrow> federation_client \<Rightarrow> string \<Rightarrow> s2s_session_payload \<Rightarrow> world \<Rightarrow> (string + unit) \<times> world" where
  "forward_session h c api_url payload =
     try_await (signed_post h c api_url ''/s2s/sessions''
       (session_payload_to_json (uuid_show h) payload)) (\<lambda>resp.
     try_await (ret (error_for_status ''peer rejected session forward'' resp)) (\<lambda>_.
       ret (Inr ())))"

definition forward_messages ::
  "host \<Rightarrow> federation_client \<Rightarrow> string \<Rightarrow> s2s_message_payload \<Rightarrow> world \<Rightarrow> (string + s2s_ack) \<times> world" where
  "forward_messages h c api_url payload =
     try_await (signed_post h c api_url ''/s2s/messages''
       (message_payload_to_json (uuid_show h) payload)) (\<lambda>resp.
     try_await (ret (error_for_status ''peer rejected message forward'' resp)) (\<lambda>body.
       ret (json_body ''invalid ack in peer response'' ack_of_json body)))"

lemma keeps_sign [keeps_intro]:
  "keeps (guarantee h) (sign h c m p)" "keeps (read_only h) (sign h c m p)"
  unfolding sign_def Let_def by (intro keeps_intro)+

lemma keeps_client [keeps_intro]:
  "keeps (guarantee h) (fetch_peer_keys h c u n)"
  "keeps (guarantee h) (forward_session h c u sp)"
  "keeps (guarantee h) (forward_messages h c u mp)"
  "keeps (read_only h) (fetch_peer_keys h c u n)"
  "keeps (read_only h) (forward_session h c u sp)"
  "keeps (read_only h) (forward_messages h c u mp)"
  unfolding fetch_peer_keys_def forward_session_def forward_messages_def signed_get_def signed_post_def
  by (intro keeps_intro)+

section \<open>What the client sends\<close>

lemma sign_outcome:
  assumes "signing_key h (fc_node_keys c) = Inr sk"
  shows "sign h c m p w =
    (Inr (show_nat (unix_secs h (ticks w)), b64_encode h (os_rng h (Suc (ticks w)) 16),
       b64_encode h (ed_sign h sk (canonical_string m p (show_nat (unix_secs h (ticks w)))
         (b64_encode h (os_rng h (Suc (ticks w)) 16))))),
     w\<lparr>ticks := Suc (Suc (ticks w))\<rparr>)"
  using assms by (simp add: sign_def system_secs_def fill_random_def await_def try_await_def ret_def Let_def)

text \<open>The request as a receiving server sees it when nothing rewrites its URL on the way.\<close>

definition received :: "http_request \<Rightarrow> request_parts" where
  "received r = \<lparr>rp_method = hr_method r, rp_path_and_query = Some (url_path (hr_url r)),
     rp_header = map_of (hr_headers r)\<rparr>"

text \<open>The request a client with secret key \<open>sk\<close> makes at time \<open>secs\<close> with nonce bytes \<open>buf\<close>.\<close>

definition signed_request ::
  "host \<Rightarrow> string \<Rightarrow> bytes \<Rightarrow> string \<Rightarrow> string \<Rightarrow> nat \<Rightarrow> bytes \<Rightarrow> request_parts \<Rightarrow> bool" where
  "signed_request h node_id sk meth path secs buf parts \<longleftrightarrow>
     rp_method parts = meth \<and>
     rp_header parts ''X-Node-ID'' = Some node_id \<and>
     rp_header parts ''X-Timestamp'' = Some (show_nat secs) \<and>
     rp_header parts ''X-Nonce'' = Some (b64_encode h buf) \<and>
     rp_header parts ''X-Node-Signature'' =
       Some (b64_encode h (ed_sign h sk
         (canonical_string meth path (show_nat secs) (b64_encode h buf))))"

text \<open>Two nodes run the same crates.\<close>

definition same_crates :: "host \<Rightarrow> host \<Rightarrow> bool" where
  "same_crates a b \<longleftrightarrow> b64_encode a = b64_encode b \<and> ed_sign a = ed_sign b \<and> uuid_show a = uuid_show b"

lemma signed_request_crates:
  "same_crates a b \<Longrightarrow> signed_request a n sk meth path secs buf parts = signed_request b n sk meth path secs buf parts"
  by (simp add: signed_request_def same_crates_def)

lemma signed_get_sends:
  assumes "signing_key h (fc_node_keys c) = Inr sk"
  shows "\<exists>r. sent (snd (signed_get h c url w)) = sent w @ [r] \<and> hr_url r = url \<and>
    signed_request h (fc_this_node_id c) sk ''GET'' (url_path url) (unix_secs h (ticks w))
      (os_rng h (Suc (ticks w)) 16) (received r)"
  by (simp add: signed_get_def try_await_step(1) [OF sign_outcome [OF assms]] await_def send_http_def
      ret_def auth_headers_def received_def signed_request_def)

lemma signed_post_sends:
  assumes "signing_key h (fc_node_keys c) = Inr sk"
  shows "\<exists>r. sent (snd (signed_post h c u p b w)) = sent w @ [r] \<and> hr_url r = u @ p \<and>
    hr_body r = Some b \<and>
    signed_request h (fc_this_node_id c) sk ''POST'' p (unix_secs h (ticks w))
      (os_rng h (Suc (ticks w)) 16) (received r)"
  by (simp add: signed_post_def try_await_step(1) [OF sign_outcome [OF assms]] await_def send_http_def
      ret_def auth_headers_def received_def signed_request_def)

text \<open>A request signed for the path it arrives on is signed by the node whose key is on record.\<close>

lemma signed_request_signed_by:
  assumes "crypto_laws h" "length sk = 32"
    and "signed_request h n sk meth path secs buf parts"
    and "signed_path parts = path"
    and "fn_public_key_b64 node = b64_encode h (ed_public h sk)"
  shows "signed_by h parts node"
  using assms unfolding signed_by_def signed_request_def crypto_laws_def by auto

end
