(* ===== verification/Sample_Host.thy ===== *)
theory Sample_Host
  imports Crypto_Utils
begin

text \<open>
  A concrete host, on which the witnesses of the properties are computed: nothing fails, nobody
  else uses the database, the clocks advance by a second with every external call, the ids are
  numbered, and the crates are replaced by small functions that obey their documented laws.
\<close>

definition sample_sign :: "bytes \<Rightarrow> bytes \<Rightarrow> bytes" where
  "sample_sign sk m = take 64 (sk @ m @ replicate 64 CHR ''.'')"

definition sample_uuid_parse :: "string \<Rightarrow> uuid option" where
  "sample_uuid_parse s =
     (case digits_value 0 s of
        None \<Rightarrow> None
      | Some n \<Rightarrow> if s \<noteq> [] \<and> n < 2 ^ 128 then Some (word_of_nat n) else None)"

definition sample_jwt_encode :: "string \<Rightarrow> enrollment_claims \<Rightarrow> string option" where
  "sample_jwt_encode secret c = Some (secret @ CHR ''.'' # ec_sub c @ CHR ''.'' # show_nat (ec_exp c))"

definition sample_jwt_decode :: "nat \<Rightarrow> string \<Rightarrow> string \<Rightarrow> enrollment_claims option" where
  "sample_jwt_decode now token secret =
     (if take (length secret + 1) token \<noteq> secret @ ''.'' then None
      else
        let rest = drop (length secret + 1) token;
            sub = takeWhile (\<lambda>c. c \<noteq> CHR ''.'') rest
        in case digits_value 0 (drop (length sub + 1) rest) of
             None \<Rightarrow> None
           | Some e \<Rightarrow> if now < e then Some \<lparr>ec_sub = sub, ec_exp = e\<rparr> else None)"

definition sample_host :: "(http_request \<Rightarrow> http_result) \<Rightarrow> host" where
  "sample_host network =
     \<lparr>stmt_fate = (\<lambda>_. Runs), others = (\<lambda>_. id), db_clock = (\<lambda>n. seconds (1000 + int n)),
      unix_secs = (\<lambda>n. 1000 + n), gen_random_uuid = (\<lambda>n. word_of_nat (100 + n)),
      os_rng = (\<lambda>n k. replicate k (char_of n)), http_send = (\<lambda>_. network),
      b64_encode = id, b64_decode = Some, vk_valid = (\<lambda>_. True),
      ed_verify = (\<lambda>pk m s. s = sample_sign pk m), ed_sign = sample_sign, ed_public = id,
      jwt_encode = sample_jwt_encode, jwt_decode = sample_jwt_decode,
      uuid_show = (\<lambda>i. show_nat (unat i)), uuid_parse = sample_uuid_parse\<rparr>"

text \<open>A network on which every peer is down.\<close>

definition no_network :: "http_request \<Rightarrow> http_result" where
  "no_network r = Http_Error"

definition sample_world :: "db \<Rightarrow> world" where
  "sample_world d = \<lparr>ticks = 0, store = d, sent = [], spawned = []\<rparr>"

lemmas sample_defs = sample_host_def sample_world_def no_network_def sample_sign_def

lemma sample_fields [simp]:
  "stmt_fate (sample_host network) n = Runs" "others (sample_host network) n = id"
  "db_clock (sample_host network) n = seconds (1000 + int n)"
  "unix_secs (sample_host network) n = 1000 + n"
  "gen_random_uuid (sample_host network) n = word_of_nat (100 + n)"
  "os_rng (sample_host network) n k = replicate k (char_of n)"
  "http_send (sample_host network) n = network"
  "b64_encode (sample_host network) s = s" "b64_decode (sample_host network) s = Some s"
  "vk_valid (sample_host network) s" "ed_public (sample_host network) s = s"
  "ed_sign (sample_host network) = sample_sign"
  "ed_verify (sample_host network) s m g \<longleftrightarrow> g = sample_sign s m"
  "jwt_encode (sample_host network) = sample_jwt_encode"
  "jwt_decode (sample_host network) = sample_jwt_decode"
  "uuid_show (sample_host network) i = show_nat (unat i)"
  "uuid_parse (sample_host network) = sample_uuid_parse"
  by (simp_all add: sample_host_def)

lemma sample_quiet [simp]: "quiet (sample_host network)"
  by (simp add: quiet_def well_behaved_def)

lemma sample_unshared [simp]: "unshared (sample_host network)"
  by (simp add: quiet_unshared)

lemma sample_host_ok [simp]: "host_ok (sample_host network)"
  by (simp add: host_ok_def steps_none)

lemma sample_uuid_roundtrip: "sample_uuid_parse (show_nat (unat i)) = Some i"
  using unsigned_less [of i, where 'a = nat]
  by (simp add: sample_uuid_parse_def digits_value_show_nat)

lemma sample_crypto_laws [simp]: "crypto_laws (sample_host network)"
  by (auto simp: crypto_laws_def sample_sign_def sample_uuid_roundtrip min_def)

section \<open>A small federation\<close>

text \<open>
  Two nodes, \<^verbatim>\<open>a.net\<close> (this one) and its peer \<^verbatim>\<open>b.net\<close>. Alice is a local user with one device; Bob
  is known as a user of the peer.
\<close>

definition this_key :: bytes where
  "this_key = replicate 32 CHR ''s''"

definition peer_key :: bytes where
  "peer_key = replicate 32 CHR ''p''"

definition sample_state :: app_state where
  "sample_state = \<lparr>jwt_secret = ''secret'', app_node_keys = key_pair (sample_host no_network) this_key,
     this_node_id = ''a.net'', this_api_url = ''https://a.net'', registry_url = ''https://r.net''\<rparr>"

definition sample_node :: federation_node where
  "sample_node = \<lparr>fn_id = 1, fn_node_id = ''b.net'', fn_api_url = ''https://b.net'',
     fn_public_key_b64 = peer_key, fn_last_seen = None, fn_is_blocked = False, fn_created_at = 0\<rparr>"

definition sample_alice :: user_row where
  "sample_alice = \<lparr>us_id = 11, us_username = ''alice'', us_created_at = Some 0,
     us_home_node_id = None, us_federated_address = None\<rparr>"

definition sample_bob :: user_row where
  "sample_bob = \<lparr>us_id = 12, us_username = ''bob'', us_created_at = Some 0,
     us_home_node_id = Some 1, us_federated_address = Some ''bob@b.net''\<rparr>"

definition device_row :: "uuid \<Rightarrow> uuid \<Rightarrow> string \<Rightarrow> devices" where
  "device_row i u key = \<lparr>dv_id = i, dv_user_id = u, dv_identity_pubkey = key, dv_prekey_pubkey = ''pk'',
     dv_signed_prekey_pub = ''spk'', dv_signed_prekey_sig = ''sig'', dv_one_time_prekeys = JArr [JStr ''o1''],
     dv_device_label = None, dv_push_token = None, dv_last_seen = None, dv_created_at = Some 0\<rparr>"

definition alice_key :: bytes where
  "alice_key = replicate 32 CHR ''a''"

definition alice_device :: devices where
  "alice_device = device_row 21 11 alice_key"

definition bob_device :: devices where
  "bob_device = device_row 22 12 (replicate 32 CHR ''b'')"

definition sample_payload :: s2s_message_payload where
  "sample_payload = \<lparr>sm_logical_msg_id = ''m1'', sm_from_federated_address = ''bob@b.net'',
     sm_from_device_id = 22, sm_from_identity_pubkey = replicate 32 CHR ''b'', sm_to_user = ''alice'',
     sm_payloads = [\<lparr>sd_to_device_id = 21, sd_header = JNull, sd_ciphertext = ''c''\<rparr>]\<rparr>"

definition sample_entry :: federation_outbox_entry where
  "sample_entry = \<lparr>ob_id = 5, ob_target_node_id = ''b.net'', ob_logical_msg_id = ''m1'',
     ob_payload = message_payload_to_json (\<lambda>i. show_nat (unat i)) sample_payload,
     ob_attempt_count = 0, ob_last_attempt = None, ob_next_attempt = 0, ob_status = ''pending'',
     ob_created_at = 0\<rparr>"

definition sample_db :: db where
  "sample_db = empty_db\<lparr>t_federation_nodes := [sample_node], t_users := [sample_alice, sample_bob],
     t_devices := [alice_device, bob_device], t_federation_outbox := [sample_entry]\<rparr>"

lemmas sample_rows = sample_db_def empty_db_def sample_node_def sample_alice_def sample_bob_def
  device_row_def alice_device_def bob_device_def sample_entry_def sample_world_def

lemma sample_db_ok [simp]: "db_ok sample_db"
  by (simp add: db_ok_defs sample_rows alice_key_def id_sets device_key_def List.map_filter_simps)

lemma sample_entry_readable:
  "message_payload_of_json (uuid_parse (sample_host network)) (ob_payload sample_entry) = Some sample_payload"
  by (simp add: sample_entry_def message_payload_roundtrip sample_uuid_roundtrip)

end
