(* ===== verification/Handlers.thy ===== *)
theory Handlers
  imports Federation_Client Sample_Host
begin

text \<open>
  What the request handlers share: replies, the extractors in front of a handler, and the early
  returns. A handler is a call that ends in a reply on either side of its sum (an early \<^verbatim>\<open>return\<close>
  or the value of its last expression); \<open>responding\<close> joins the two.
\<close>

type_synonym handler = "world \<Rightarrow> reply \<times> world"

definition responding :: "(world \<Rightarrow> (reply + reply) \<times> world) \<Rightarrow> handler" where
  "responding m = await m (\<lambda>r. ret (case r of Inl p \<Rightarrow> p | Inr p \<Rightarrow> p))"

definition error_reply :: "status_code \<Rightarrow> string \<Rightarrow> reply" where
  "error_reply code msg = Reply code (Error_Body msg)"

definition internal_error :: reply where
  "internal_error = error_reply INTERNAL_SERVER_ERROR ''internal error''"

text \<open>\<^verbatim>\<open>Err((code, msg))\<close>: a rejection of an extractor, or a handler's plain-text error.\<close>

definition plain_error :: "rejection \<Rightarrow> reply" where
  "plain_error r = (case r of (code, msg) \<Rightarrow> Reply code (Text_Body msg))"

text \<open>\<^verbatim>\<open>AuthenticatedDevice(device)\<close> and \<^verbatim>\<open>AuthenticatedNode(peer)\<close> among a handler's arguments.\<close>

definition as_device :: "host \<Rightarrow> request_parts \<Rightarrow> world \<Rightarrow> (reply + devices) \<times> world" where
  "as_device h parts = map_err plain_error (authenticate_device h parts)"

definition as_peer :: "host \<Rightarrow> app_state \<Rightarrow> request_parts \<Rightarrow> world \<Rightarrow> (reply + federation_node) \<times> world" where
  "as_peer h st parts = map_err plain_error (authenticate_node h st parts)"

text \<open>\<^verbatim>\<open>match m.await { Ok(a) => a, Err(_) => return e }\<close>\<close>

definition or_return :: "reply \<Rightarrow> (world \<Rightarrow> ('e + 'a) \<times> world) \<Rightarrow> world \<Rightarrow> (reply + 'a) \<times> world" where
  "or_return e m = map_err (\<lambda>_. e) m"

text \<open>\<^verbatim>\<open>body[key].as_str().unwrap_or("")\<close>\<close>

definition str_field :: "json \<Rightarrow> string \<Rightarrow> string" where
  "str_field body key = (case as_str (json_index body key) of None \<Rightarrow> '''' | Some s \<Rightarrow> s)"

lemma or_return_iff [simp]:
  "or_return p m w = (Inr a, w') \<longleftrightarrow> m w = (Inr a, w')"
  "or_return p m w = (Inl q, w') \<longleftrightarrow> q = p \<and> (\<exists>e. m w = (Inl e, w'))"
  by (auto simp: or_return_def)

lemma responding_eq: "m w = (r, w') \<Longrightarrow> responding m w = (case r of Inl p \<Rightarrow> p | Inr p \<Rightarrow> p, w')"
  by (simp add: responding_def await_def ret_def)

lemma responding_iff:
  "responding m w = (p, w') \<longleftrightarrow> m w = (Inl p, w') \<or> m w = (Inr p, w')"
  by (auto simp: responding_def await_def ret_def split: prod.splits sum.splits)

lemma keeps_responding [keeps_intro]:
  "keeps (guarantee h) m \<Longrightarrow> keeps (guarantee h) (responding m)"
  "keeps (read_only h) m \<Longrightarrow> keeps (read_only h) (responding m)"
  unfolding responding_def by (intro keeps_intro; simp)+

lemma keeps_or_return [keeps_intro]:
  "keeps (guarantee h) m' \<Longrightarrow> keeps (guarantee h) (or_return p m')"
  "keeps (read_only h) m' \<Longrightarrow> keeps (read_only h) (or_return p m')"
  unfolding or_return_def by (intro keeps_intro; simp)+

lemma keeps_extractors [keeps_intro]:
  "keeps (guarantee h) (as_device h parts)" "keeps (read_only h) (as_device h parts)"
  "keeps (guarantee h) (as_peer h st parts)"
  unfolding as_device_def as_peer_def by (intro keeps_intro)+

end
