(* ===== verification/Federation_Controller.thy ===== *)
theory Federation_Controller
  imports Handlers
begin

text \<open>
  \<^verbatim>\<open>src/controllers/federation_controller.rs\<close>: the endpoints a peer node calls, and the proxy that
  serves a client the key bundles of a user of another node.
\<close>

section \<open>Local users\<close>

definition node_info_handler :: "app_state \<Rightarrow> handler" where
  "node_info_handler st =
     ret (Reply OK (Node_Info_Body
       \<lparr>ni_node_id = this_node_id st, ni_api_url = this_api_url st,
        ni_public_key_b64 = nk_public_b64 (app_node_keys st), ni_protocol_version = ''0.0.2''\<rparr>))"

text \<open>\<^verbatim>\<open>match get_local_user_id_by_username(..).await\<close> with its two early returns.\<close>

definition local_user_or_return :: "host \<Rightarrow> string \<Rightarrow> string \<Rightarrow> world \<Rightarrow> (reply + uuid) \<times> world" where
  "local_user_or_return h username not_found =
     try_await (or_return internal_error (get_local_user_id_by_username h username)) (\<lambda>found.
       ret (ok_or (error_reply NOT_FOUND not_found) found))"

definition get_user_devices :: "host \<Rightarrow> app_state \<Rightarrow> request_parts \<Rightarrow> string \<Rightarrow> handler" where
  "get_user_devices h st parts username =
     responding (try_await (as_peer h st parts) (\<lambda>peer.
       try_await (local_user_or_return h username ''user not found or not local to this node'') (\<lambda>user_id.
       try_await (or_return internal_error (get_devices_by_user_id h user_id)) (\<lambda>devices.
         ret (Inr (Reply OK (Devices_Body devices)))))))"

definition s2s_get_user_keys :: "host \<Rightarrow> app_state \<Rightarrow> request_parts \<Rightarrow> string \<Rightarrow> handler" where
  "s2s_get_user_keys h st parts username =
     responding (try_await (as_peer h st parts) (\<lambda>peer.
       try_await (local_user_or_return h username ''user not found or not local to this node'') (\<lambda>user_id.
       try_await (or_return internal_error (get_device_bundle h user_id)) (\<lambda>bundle.
         ret (Inr (Reply OK (Bundles_Body bundle)))))))"

section \<open>Sessions, messages and acknowledgements of a peer\<close>

text \<open>The shadow user and device of the sender, which both S2S posts create first.\<close>

definition shadow_sender ::
  "host \<Rightarrow> federation_node \<Rightarrow> string \<Rightarrow> uuid \<Rightarrow> string \<Rightarrow> world \<Rightarrow> (reply + uuid) \<times> world" where
  "shadow_sender h peer from_federated_address from_device_id from_identity_pubkey =
     try_await (or_return internal_error
       (upsert_shadow_user h (sender_username from_federated_address) from_federated_address (fn_id peer)))
     (\<lambda>sender_local_id.
     try_await (or_return internal_error
       (upsert_shadow_device h from_device_id sender_local_id from_identity_pubkey)) (\<lambda>_.
       ret (Inr sender_local_id)))"

definition receive_session ::
  "host \<Rightarrow> app_state \<Rightarrow> request_parts \<Rightarrow> s2s_session_payload \<Rightarrow> handler" where
  "receive_session h st parts payload =
     responding (try_await (as_peer h st parts) (\<lambda>peer.
       try_await (shadow_sender h peer (sp_from_federated_address payload) (sp_from_device_id payload)
         (sp_from_identity_pubkey payload)) (\<lambda>_.
       try_await (or_return (error_reply INTERNAL_SERVER_ERROR ''failed to store pending session'')
         (for_each (\<lambda>_ init.
            create_pending_session h (sp_from_device_id payload) (si_recipient_device_id init)
              (si_ephemeral_pubkey init) (si_sender_prekey_pub init) (si_otpk_used init)
              (si_ciphertext init)) () (sp_sessions_init payload))) (\<lambda>_.
         ret (Inr (Reply OK (Status_Body ''ok'')))))))"

text \<open>The loop over the device payloads; its accumulator is \<^verbatim>\<open>any_new\<close>.\<close>

definition store_payloads ::
  "host \<Rightarrow> s2s_message_payload \<Rightarrow> uuid \<Rightarrow> uuid \<Rightarrow> uuid \<Rightarrow> bool \<Rightarrow> s2s_device_payload list \<Rightarrow>
     world \<Rightarrow> (sql_error + bool) \<times> world" where
  "store_payloads h payload chat_id sender_local_id recipient_id =
     for_each (\<lambda>any_new dev.
       try_await (insert_federated_message h (sm_logical_msg_id payload) chat_id sender_local_id
         (sm_from_device_id payload) recipient_id (sd_to_device_id dev) (sd_header dev)
         (sd_ciphertext dev)) (\<lambda>is_new. ret (Inr (any_new \<or> is_new))))"

text \<open>The body of \<^verbatim>\<open>receive_messages\<close> for an authenticated peer.\<close>

definition accept_messages ::
  "host \<Rightarrow> federation_node \<Rightarrow> s2s_message_payload \<Rightarrow> world \<Rightarrow> (reply + reply) \<times> world" where
  "accept_messages h peer payload =
     try_await (local_user_or_return h (sm_to_user payload)
       ''recipient not found or not local to this node'') (\<lambda>recipient_id.
     try_await (shadow_sender h peer (sm_from_federated_address payload) (sm_from_device_id payload)
       (sm_from_identity_pubkey payload)) (\<lambda>sender_local_id.
     try_await (or_return internal_error (get_or_create_direct_chat h sender_local_id recipient_id))
     (\<lambda>chat_id.
     try_await (or_return internal_error
       (store_payloads h payload chat_id sender_local_id recipient_id False (sm_payloads payload)))
     (\<lambda>any_new.
       ret (Inr (Reply OK (Ack_Body
         \<lparr>ack_logical_msg_id = sm_logical_msg_id payload,
          ack_status = (if any_new then ''delivered'' else ''duplicate'')\<rparr>)))))))"

definition receive_messages ::
  "host \<Rightarrow> app_state \<Rightarrow> request_parts \<Rightarrow> s2s_message_payload \<Rightarrow> handler" where
  "receive_messages h st parts payload =
     responding (try_await (as_peer h st parts) (\<lambda>peer. accept_messages h peer payload))"

definition receive_ack :: "host \<Rightarrow> app_state \<Rightarrow> request_parts \<Rightarrow> s2s_ack \<Rightarrow> handler" where
  "receive_ack h st parts ack =
     responding (try_await (as_peer h st parts) (\<lambda>peer.
       try_await (or_return internal_error
         (mark_outbox_delivered_by_logical_id h (ack_logical_msg_id ack))) (\<lambda>_.
         ret (Inr (Reply OK (Status_Body ''ack received''))))))"

section \<open>The key proxy\<close>

definition local_keys :: "host \<Rightarrow> string \<Rightarrow> world \<Rightarrow> (reply + reply) \<times> world" where
  "local_keys h username =
     try_await (local_user_or_return h username ''user not found'') (\<lambda>user_id.
     try_await (or_return internal_error (get_device_bundle h user_id)) (\<lambda>bundle.
       ret (Inr (Reply OK (Bundles_Body bundle)))))"

text \<open>
  The registry's answer on a cache miss, where \<^verbatim>\<open>is_success\<close> decides and missing fields read as
  empty strings.
\<close>

definition node_from_registry ::
  "host \<Rightarrow> string \<Rightarrow> http_result \<Rightarrow> world \<Rightarrow> (reply + federation_node) \<times> world" where
  "node_from_registry h node_id r =
     (case r of
        Http_Error \<Rightarrow> ret (Inl (error_reply SERVICE_UNAVAILABLE ''registry unreachable''))
      | Http_Response status body \<Rightarrow>
          if \<not> is_success status
          then ret (Inl (error_reply NOT_FOUND ''target node not found in registry''))
          else
            try_await (ret (ok_or (error_reply BAD_GATEWAY ''malformed registry response'') body)) (\<lambda>b.
              or_return internal_error
                (upsert_federation_node h node_id (str_field b ''api_url'')
                  (str_field b ''public_key_b64''))))"

definition remote_node :: "host \<Rightarrow> app_state \<Rightarrow> string \<Rightarrow> world \<Rightarrow> (reply + federation_node) \<times> world" where
  "remote_node h st node_id =
     try_await (or_return internal_error (get_federation_node h node_id)) (\<lambda>cached.
     case cached of
       Some n \<Rightarrow> ret (Inr n)
     | None \<Rightarrow> await (send_http h (registry_request st node_id)) (node_from_registry h node_id))"

definition federated_keys :: "host \<Rightarrow> app_state \<Rightarrow> request_parts \<Rightarrow> string \<Rightarrow> string \<Rightarrow> handler" where
  "federated_keys h st parts username node_id =
     responding (try_await (as_device h parts) (\<lambda>_.
       if node_id = this_node_id st then local_keys h username
       else
         try_await (remote_node h st node_id) (\<lambda>node.
         if fn_is_blocked node then ret (Inl (error_reply FORBIDDEN ''target node is blocked''))
         else
           await (fetch_peer_keys h (new_client st) (fn_api_url node) username) (\<lambda>r.
           case r of
             Inr bundle \<Rightarrow> ret (Inr (Reply OK (Bundles_Body bundle)))
           | Inl e \<Rightarrow> ret (Inl (error_reply BAD_GATEWAY (''peer returned error: '' @ e)))))))"

section \<open>Frames\<close>

lemma keeps_local_user [keeps_intro]:
  "keeps (guarantee h) (local_user_or_return h u m)" "keeps (read_only h) (local_user_or_return h u m)"
  unfolding local_user_or_return_def by (intro keeps_intro)+

lemma keeps_local_keys [keeps_intro]:
  "keeps (guarantee h) (local_keys h u)" "keeps (read_only h) (local_keys h u)"
  unfolding local_keys_def by (intro keeps_intro)+

lemma keeps_registry [keeps_intro]: "keeps (guarantee h) (node_from_registry h n r)"
  by (cases r) (auto simp: node_from_registry_def intro: keeps_intro)

lemma keeps_remote_node [keeps_intro]: "keeps (guarantee h) (remote_node h st n)"
  unfolding remote_node_def by (intro keeps_intro)

lemma keeps_shadow_sender [keeps_intro]: "keeps (guarantee h) (shadow_sender h p a v k)"
  unfolding shadow_sender_def by (intro keeps_intro)

lemma keeps_store_payloads [keeps_intro]: "keeps (guarantee h) (store_payloads h p c s r b ds)"
  unfolding store_payloads_def by (intro keeps_intro)

lemma keeps_accept_messages [keeps_intro]: "keeps (guarantee h) (accept_messages h peer p)"
  unfolding accept_messages_def by (intro keeps_intro)

lemma keeps_federation_handlers [keeps_intro]:
  "keeps (guarantee h) (node_info_handler st)"
  "keeps (guarantee h) (get_user_devices h st parts u)"
  "keeps (guarantee h) (s2s_get_user_keys h st parts u)"
  "keeps (guarantee h) (receive_session h st parts sp)"
  "keeps (guarantee h) (receive_messages h st parts mp)"
  "keeps (guarantee h) (receive_ack h st parts a)"
  "keeps (guarantee h) (federated_keys h st parts u n)"
  unfolding node_info_handler_def get_user_devices_def s2s_get_user_keys_def receive_session_def
    receive_messages_def receive_ack_def federated_keys_def
  by (intro keeps_intro)+

end
