(* ===== verification/Federation_Outbox.thy ===== *)
theory Federation_Outbox
  imports Federation_Client Sample_Host
begin

text \<open>
  \<^verbatim>\<open>src/federation/outbox.rs\<close>: the worker that delivers queued messages to peer nodes, and the
  immediate delivery that \<^verbatim>\<open>send_message\<close> spawns. A spawned task is run by \<open>run_task\<close>; the worker's
  endless loop is \<open>outbox_iteration\<close>, repeated.
\<close>

section \<open>The worker\<close>

definition MAX_ATTEMPTS :: i32 where
  "MAX_ATTEMPTS = 10"

text \<open>\<^verbatim>\<open>let _ = m.await;\<close>\<close>

definition ignoring :: "(world \<Rightarrow> 'a \<times> world) \<Rightarrow> world \<Rightarrow> unit \<times> world" where
  "ignoring m = await m (\<lambda>_. ret ())"

text \<open>The task for one due entry, as it was when the poll read it.\<close>

definition deliver_entry :: "host \<Rightarrow> federation_client \<Rightarrow> federation_outbox_entry \<Rightarrow> world \<Rightarrow> unit \<times> world" where
  "deliver_entry h c entry =
     (case message_payload_of_json (uuid_parse h) (ob_payload entry) of
        None \<Rightarrow> ignoring (record_outbox_failure h (ob_id entry) MAX_ATTEMPTS MAX_ATTEMPTS)
      | Some payload \<Rightarrow>
          await (get_federation_node h (ob_target_node_id entry)) (\<lambda>found.
          case found of
            Inl e \<Rightarrow> ret ()
          | Inr None \<Rightarrow>
              ignoring (record_outbox_failure h (ob_id entry) (ob_attempt_count entry + 1) MAX_ATTEMPTS)
          | Inr (Some node) \<Rightarrow>
              await (forward_messages h c (fn_api_url node) payload) (\<lambda>r.
              case r of
                Inr ack \<Rightarrow> ignoring (mark_outbox_delivered h (ob_id entry))
              | Inl e \<Rightarrow>
                  ignoring (record_outbox_failure h (ob_id entry) (ob_attempt_count entry + 1)
                    MAX_ATTEMPTS))))"

text \<open>The task that \<^verbatim>\<open>handle_federated_message\<close> spawns: a failure is left to the worker.\<close>

definition deliver_now ::
  "host \<Rightarrow> federation_client \<Rightarrow> string \<Rightarrow> s2s_message_payload \<Rightarrow> uuid \<Rightarrow> world \<Rightarrow> unit \<times> world" where
  "deliver_now h c api_url payload outbox_id =
     await (forward_messages h c api_url payload) (\<lambda>r.
     case r of
       Inr ack \<Rightarrow> ignoring (mark_outbox_delivered h outbox_id)
     | Inl e \<Rightarrow> ret ())"

fun run_task :: "host \<Rightarrow> federation_client \<Rightarrow> task \<Rightarrow> world \<Rightarrow> unit \<times> world" where
  "run_task h c (Deliver_Now api_url payload outbox_id) = deliver_now h c api_url payload outbox_id"
| "run_task h c (Outbox_Entry entry) = deliver_entry h c entry"

fun spawn_all :: "task list \<Rightarrow> world \<Rightarrow> unit \<times> world" where
  "spawn_all [] = ret ()"
| "spawn_all (t # ts) = await (spawn t) (\<lambda>_. spawn_all ts)"

text \<open>One turn of the loop of \<^verbatim>\<open>run\<close>, after the interval's tick.\<close>

definition outbox_iteration :: "host \<Rightarrow> world \<Rightarrow> unit \<times> world" where
  "outbox_iteration h =
     await (purge_expired_nonces h) (\<lambda>_.
     await (fetch_due_outbox_entries h) (\<lambda>r.
     case r of
       Inl e \<Rightarrow> ret ()
     | Inr entries \<Rightarrow> spawn_all (map Outbox_Entry entries)))"

lemma keeps_ignoring [keeps_intro]:
  "keeps (guarantee h) m \<Longrightarrow> keeps (guarantee h) (ignoring m)"
  unfolding ignoring_def by (intro keeps_intro)

lemma keeps_tasks [keeps_intro]:
  "keeps (guarantee h) (deliver_entry h c e)" "keeps (guarantee h) (deliver_now h c u p i)"
  unfolding deliver_entry_def deliver_now_def by (intro keeps_intro)+

lemma keeps_run_task [keeps_intro]: "keeps (guarantee h) (run_task h c t)"
  by (cases t) (auto intro: keeps_intro)

lemma keeps_spawn_all [keeps_intro]: "keeps (guarantee h) (spawn_all ts)"
  by (induction ts) (auto intro: keeps_intro)

lemma keeps_outbox_iteration [keeps_intro]: "keeps (guarantee h) (outbox_iteration h)"
  unfolding outbox_iteration_def by (intro keeps_intro)

section \<open>The backoff schedule\<close>

lemma backoff_secs_below_12:
  "n < 12 \<Longrightarrow> sint (backoff_secs (word_of_nat n)) = min 3600 (10 * 2 ^ n)"
proof -
  assume "n < 12"
  then have "n \<in> {0, 1, 2, 3, 4, 5, 6, 7, 8, 9, 10, 11}"
    unfolding insert_iff empty_iff by arith
  then show ?thesis
    by (elim insertE) (simp_all add: backoff_secs_def Let_def push_bit_eq_mult)
qed

lemma backoff_secs_cap: "12 \<le> sint a \<Longrightarrow> backoff_secs a = 3600"
  by (simp add: backoff_secs_def Let_def push_bit_eq_mult)

lemma backoff_secs_eq:
  assumes "0 \<le> sint a"
  shows "sint (backoff_secs a) = min 3600 (10 * 2 ^ min 12 (nat (sint a)))"
proof (cases "sint a < 12")
  case True
  with assms have "a = word_of_nat (nat (sint a))"
    by (simp add: of_nat_nat)
  with True backoff_secs_below_12 [of "nat (sint a)"] show ?thesis
    by (simp add: min_def)
next
  case False
  then show ?thesis
    by (simp add: backoff_secs_cap)
qed

section \<open>One attempt\<close>

text \<open>How an attempt on an entry ends, on a host where the database answers.\<close>

datatype attempt = Acknowledged | Unreachable | Undecodable

definition attempt_of :: "host \<Rightarrow> federation_client \<Rightarrow> federation_outbox_entry \<Rightarrow> world \<Rightarrow> attempt" where
  "attempt_of h c e w =
     (case message_payload_of_json (uuid_parse h) (ob_payload e) of
        None \<Rightarrow> Undecodable
      | Some p \<Rightarrow>
          (case find_node (ob_target_node_id e) (store w) of
             None \<Rightarrow> Unreachable
           | Some n \<Rightarrow>
               (case fst (forward_messages h c (fn_api_url n) p (w\<lparr>ticks := Suc (ticks w)\<rparr>)) of
                  Inr ack \<Rightarrow> Acknowledged
                | Inl e \<Rightarrow> Unreachable)))"

text \<open>What the attempt writes to the entry's row, at server time \<open>now\<close>; \<open>n\<close> attempts came before.\<close>

fun settle :: "attempt \<Rightarrow> i32 \<Rightarrow> timestamp \<Rightarrow> federation_outbox_entry \<Rightarrow> federation_outbox_entry" where
  "settle Acknowledged n now = (\<lambda>e. e\<lparr>ob_status := ''delivered'', ob_last_attempt := Some now\<rparr>)"
| "settle Undecodable n now =
     (\<lambda>e. e\<lparr>ob_status := ''failed'', ob_last_attempt := Some now, ob_attempt_count := MAX_ATTEMPTS\<rparr>)"
| "settle Unreachable n now =
     (if sint MAX_ATTEMPTS \<le> sint (n + 1)
      then (\<lambda>e. e\<lparr>ob_status := ''failed'', ob_last_attempt := Some now, ob_attempt_count := n + 1\<rparr>)
      else (\<lambda>e. e\<lparr>ob_attempt_count := n + 1, ob_last_attempt := Some now,
                  ob_next_attempt := now + seconds (sint (backoff_secs (n + 1)))\<rparr>))"

definition put_entry :: "uuid \<Rightarrow> (federation_outbox_entry \<Rightarrow> federation_outbox_entry) \<Rightarrow> db \<Rightarrow> db" where
  "put_entry i f d =
     d\<lparr>t_federation_outbox := update_where (\<lambda>e. ob_id e = i) f (t_federation_outbox d)\<rparr>"

lemma record_failure_quiet:
  assumes "quiet h"
  shows "store (snd (record_outbox_failure h i (n + 1) MAX_ATTEMPTS w)) =
    put_entry i (settle Unreachable n (db_clock h (ticks w))) (store w)"
  using assms
  by (simp add: record_outbox_failure_def exec_quiet fail_outbox_stmt_def retry_outbox_stmt_def
      put_entry_def)

lemma give_up_quiet:
  assumes "quiet h"
  shows "store (snd (record_outbox_failure h i MAX_ATTEMPTS MAX_ATTEMPTS w)) =
    put_entry i (settle Undecodable n (db_clock h (ticks w))) (store w)"
  using assms by (simp add: record_outbox_failure_def exec_quiet fail_outbox_stmt_def put_entry_def)

lemma mark_delivered_quiet:
  assumes "quiet h"
  shows "store (snd (mark_outbox_delivered h i w)) =
    put_entry i (settle Acknowledged n (db_clock h (ticks w))) (store w)"
  using assms by (simp add: mark_outbox_delivered_def exec_quiet mark_outbox_delivered_stmt_def put_entry_def)

lemma snd_ignoring [simp]: "snd (ignoring m w) = snd (m w)"
  by (simp add: ignoring_def await_def ret_def split: prod.split)

lemma deliver_entry_quiet:
  assumes "quiet h"
  shows "\<exists>k \<ge> ticks w. store (snd (deliver_entry h c e w)) =
    put_entry (ob_id e) (settle (attempt_of h c e w) (ob_attempt_count e) (db_clock h k)) (store w)"
proof (cases "message_payload_of_json (uuid_parse h) (ob_payload e)")
  case None
  then show ?thesis
    using give_up_quiet [OF assms]
    by (auto simp: deliver_entry_def attempt_of_def intro!: exI [of _ "ticks w"])
next
  case (Some p)
  let ?w1 = "w\<lparr>ticks := Suc (ticks w)\<rparr>"
  have look: "get_federation_node h (ob_target_node_id e) w =
      (Inr (find_node (ob_target_node_id e) (store w)), ?w1)"
    using assms by (simp add: get_federation_node_def exec_select_quiet)
  show ?thesis
  proof (cases "find_node (ob_target_node_id e) (store w)")
    case None
    with Some look show ?thesis
      using record_failure_quiet [OF assms, of "ob_id e" "ob_attempt_count e" ?w1]
      by (auto simp: deliver_entry_def attempt_of_def await_step intro!: exI [of _ "Suc (ticks w)"])
  next
    case (Some n)
    obtain r w2 where fwd: "forward_messages h c (fn_api_url n) p ?w1 = (r, w2)"
      by fastforce
    have st: "store w2 = store w" "ticks w \<le> ticks w2"
      using read_onlyD [OF keeps_client(6) quiet_unshared [OF assms] fwd]
        keepsD [OF keeps_client(3) fwd] by (simp_all add: guarantee_def)
    show ?thesis
    proof (cases r)
      case (Inl x)
      with Some look fwd st \<open>message_payload_of_json _ _ = Some p\<close> show ?thesis
        using record_failure_quiet [OF assms, of "ob_id e" "ob_attempt_count e" w2]
        by (auto simp: deliver_entry_def attempt_of_def await_step intro!: exI [of _ "ticks w2"])
    next
      case (Inr a)
      with Some look fwd st \<open>message_payload_of_json _ _ = Some p\<close> show ?thesis
        using mark_delivered_quiet [OF assms, of "ob_id e" w2]
        by (auto simp: deliver_entry_def attempt_of_def await_step simp del: settle.simps
            intro!: exI [of _ "ticks w2"])
    qed
  qed
qed

section \<open>The life of an entry\<close>

text \<open>
  The abstract machine an entry goes through: a number of failed attempts, then delivered or failed.
\<close>

datatype phase = Pending nat | Delivered | Failed

fun phase_step :: "attempt \<Rightarrow> phase \<Rightarrow> phase" where
  "phase_step Acknowledged _ = Delivered"
| "phase_step Undecodable _ = Failed"
| "phase_step Unreachable (Pending n) = (if n + 1 < 10 then Pending (n + 1) else Failed)"
| "phase_step Unreachable p = p"

definition phase_of :: "federation_outbox_entry \<Rightarrow> phase" where
  "phase_of e =
     (if ob_status e = ''pending'' then Pending (unat (ob_attempt_count e))
      else if ob_status e = ''delivered'' then Delivered else Failed)"

lemma small_count:
  assumes "unat (a :: i32) < 10"
  shows "unat (a + 1) = Suc (unat a)" "sint MAX_ATTEMPTS \<le> sint (a + 1) \<longleftrightarrow> 9 \<le> unat a"
proof -
  have "unat a \<in> {0, 1, 2, 3, 4, 5, 6, 7, 8, 9}"
    using assms unfolding insert_iff empty_iff by arith
  then have "a \<in> word_of_nat ` {0, 1, 2, 3, 4, 5, 6, 7, 8, 9}"
    by (intro image_eqI [of _ _ "unat a"]) simp_all
  then have "unat (a + 1) = Suc (unat a) \<and> (sint MAX_ATTEMPTS \<le> sint (a + 1) \<longleftrightarrow> 9 \<le> unat a)"
    by (auto simp: MAX_ATTEMPTS_def)
  then show "unat (a + 1) = Suc (unat a)" "sint MAX_ATTEMPTS \<le> sint (a + 1) \<longleftrightarrow> 9 \<le> unat a"
    by simp_all
qed

lemma phase_settle:
  assumes "phase_of e = Pending n" "n < 10"
  shows "phase_of (settle a (ob_attempt_count e) t e) = phase_step a (Pending n)"
  using assms small_count [of "ob_attempt_count e"]
  by (cases a) (auto simp: phase_of_def split: if_splits)

lemma settle_same_entry [simp]: "same_entry e (settle a n t e)" "ob_id (settle a n t e) = ob_id e"
  by (cases a; simp add: same_entry_def)+

lemma settle_status: "ob_status (settle a n t e) \<in> {''pending'', ''delivered'', ''failed''} \<or>
    ob_status (settle a n t e) = ob_status e"
  by (cases a) auto

lemma put_settle_ok: "db_ok d \<Longrightarrow> db_ok (put_entry i (settle a n t) d)"
  unfolding put_entry_def
proof (rule db_ok_outbox_update)
  fix e assume "db_ok d" "e \<in> set (t_federation_outbox d)"
  from outbox_status [OF this] settle_status [of a n t e]
  show "ob_status (settle a n t e) \<in> {''pending'', ''delivered'', ''failed''}"
    by auto
qed simp_all

lemma find_put_entry:
  assumes "\<And>e. ob_id (f e) = ob_id e"
  shows "find (\<lambda>e. ob_id e = i) (t_federation_outbox (put_entry i f d)) =
    map_option f (find (\<lambda>e. ob_id e = i) (t_federation_outbox d))"
  unfolding put_entry_def by (simp add: find_update_where assms)

section \<open>Retries end\<close>

locale bounded_retry =
  fixes valid :: "'s \<Rightarrow> bool" and phase :: "'s \<Rightarrow> phase" and attempt_once :: "'s \<Rightarrow> 's"
  assumes valid_step: "valid s \<Longrightarrow> valid (attempt_once s)"
    and unreachable: "valid s \<Longrightarrow> phase s = Pending n \<Longrightarrow> n < 10 \<Longrightarrow>
      phase (attempt_once s) = phase_step Unreachable (Pending n)"
    and settled: "phase s \<in> {Delivered, Failed} \<Longrightarrow> attempt_once s = s"
begin

lemma valid_steps: "valid s \<Longrightarrow> valid ((attempt_once ^^ k) s)"
  by (induction k) (auto intro: valid_step)

lemma counts: "valid s \<Longrightarrow> phase s = Pending 0 \<Longrightarrow> k < 10 \<Longrightarrow> phase ((attempt_once ^^ k) s) = Pending k"
proof (induction k)
  case (Suc k)
  then show ?case
    using unreachable [OF valid_steps [OF Suc.prems(1)], of k] by simp
qed simp

lemma gives_up:
  assumes "valid s" "phase s = Pending 0" "10 \<le> k"
  shows "phase ((attempt_once ^^ k) s) = Failed"
  using assms(3)
proof (induction k rule: dec_induct)
  case base
  then show ?case
    using unreachable [OF valid_steps [OF assms(1)] counts [OF assms(1,2), of 9]]
    by (simp add: eval_nat_numeral)
next
  case (step k)
  then show ?case
    using settled by simp
qed

end

text \<open>
  One more attempt on the entry with id \<open>i\<close>, as a poll that finds it pending and due makes it: the
  row is read, and its task runs to the end.
\<close>

definition entry_of :: "uuid \<Rightarrow> db \<Rightarrow> federation_outbox_entry option" where
  "entry_of i d = find (\<lambda>e. ob_id e = i) (t_federation_outbox d)"

definition attempt_entry :: "host \<Rightarrow> federation_client \<Rightarrow> uuid \<Rightarrow> world \<Rightarrow> world" where
  "attempt_entry h c i w =
     (case entry_of i (store w) of
        None \<Rightarrow> w
      | Some e \<Rightarrow> if ob_status e = ''pending'' then snd (run_task h c (Outbox_Entry e) w) else w)"

definition phase_in :: "uuid \<Rightarrow> world \<Rightarrow> phase" where
  "phase_in i w = (case entry_of i (store w) of None \<Rightarrow> Failed | Some e \<Rightarrow> phase_of e)"

text \<open>The database answers, and no peer does.\<close>

definition peers_down :: "host \<Rightarrow> bool" where
  "peers_down h \<longleftrightarrow> quiet h \<and> (\<forall>n r. http_send h n r = Http_Error)"

definition readable_entry :: "host \<Rightarrow> federation_outbox_entry \<Rightarrow> bool" where
  "readable_entry h e \<longleftrightarrow> message_payload_of_json (uuid_parse h) (ob_payload e) \<noteq> None"

definition retry_valid :: "host \<Rightarrow> uuid \<Rightarrow> world \<Rightarrow> bool" where
  "retry_valid h i w \<longleftrightarrow> peers_down h \<and>
     (case entry_of i (store w) of None \<Rightarrow> False | Some e \<Rightarrow> readable_entry h e)"

lemma entry_of_id: "entry_of i d = Some e \<Longrightarrow> ob_id e = i"
  by (auto simp: entry_of_def dest: find_Some_iff_mem)

lemma run_entry_quiet:
  assumes "quiet h" "entry_of i (store w) = Some e"
  shows "\<exists>t. entry_of i (store (snd (run_task h c (Outbox_Entry e) w))) =
    Some (settle (attempt_of h c e w) (ob_attempt_count e) t e)"
proof -
  obtain k where "store (snd (deliver_entry h c e w)) =
      put_entry (ob_id e) (settle (attempt_of h c e w) (ob_attempt_count e) (db_clock h k)) (store w)"
    using deliver_entry_quiet [OF assms(1)] by blast
  with assms(2) show ?thesis
    by (auto simp: entry_of_def find_put_entry entry_of_id [OF assms(2)] intro!: exI [of _ "db_clock h k"])
qed

lemma forward_down:
  "peers_down h \<Longrightarrow> \<exists>e. fst (forward_messages h c u p w) = Inl e"
proof -
  assume "peers_down h"
  then have "http_send h n r = Http_Error" for n r
    by (simp add: peers_down_def)
  then show ?thesis
    by (auto simp: forward_messages_def signed_post_def try_await_def await_def send_http_def
        or_http_error_def ret_def split: sum.split prod.split)
qed

lemma attempt_down: "peers_down h \<Longrightarrow> readable_entry h e \<Longrightarrow> attempt_of h c e w = Unreachable"
  by (auto simp: attempt_of_def readable_entry_def split: option.split sum.split)
    (metis forward_down sum.distinct(1))

interpretation outbox: bounded_retry "retry_valid h i" "phase_in i" "attempt_entry h c i"
  for h c i
proof
  fix w :: world
  assume "retry_valid h i w"
  then obtain e where e: "entry_of i (store w) = Some e" and h: "peers_down h" "readable_entry h e"
    by (auto simp: retry_valid_def split: option.splits)
  then have q: "quiet h"
    by (simp add: peers_down_def)
  obtain t where t: "entry_of i (store (snd (run_task h c (Outbox_Entry e) w))) =
      Some (settle (attempt_of h c e w) (ob_attempt_count e) t e)"
    using run_entry_quiet [OF q e] by blast
  have r: "readable_entry h (settle a n t e)" for a n t
    using h(2) by (cases a) (simp_all add: readable_entry_def)
  show "retry_valid h i (attempt_entry h c i w)"
    using e h t r by (auto simp: retry_valid_def attempt_entry_def simp del: run_task.simps)
  fix n
  assume n: "phase_in i w = Pending n" "n < 10"
  then have "phase_of e = Pending n" "ob_status e = ''pending''"
    using e by (auto simp: phase_in_def phase_of_def split: if_splits)
  with e t attempt_down [OF h] phase_settle [OF _ n(2), of e Unreachable t]
  show "phase_in i (attempt_entry h c i w) = phase_step Unreachable (Pending n)"
    by (simp add: attempt_entry_def phase_in_def del: run_task.simps settle.simps phase_step.simps)
next
  fix w :: world
  assume "phase_in i w \<in> {Delivered, Failed}"
  then show "attempt_entry h c i w = w"
    by (auto simp: phase_in_def attempt_entry_def phase_of_def split: option.splits if_splits)
qed

section \<open>Properties\<close>

lemma entry_of_put_other:
  assumes "i \<noteq> j" "\<And>e. ob_id (f e) = ob_id e"
  shows "entry_of j (put_entry i f d) = entry_of j d"
proof -
  have "find (\<lambda>e. ob_id e = j) (update_where (\<lambda>e. ob_id e = i) f rs) = find (\<lambda>e. ob_id e = j) rs" for rs
    by (induction rs) (use assms in auto)
  then show ?thesis
    by (simp add: entry_of_def put_entry_def)
qed

lemma run_entry_others:
  assumes "quiet h" "ob_id e \<noteq> j"
  shows "entry_of j (store (snd (run_task h c (Outbox_Entry e) w))) = entry_of j (store w)"
  using deliver_entry_quiet [OF assms(1), of w c e] entry_of_put_other [OF assms(2)]
  by (auto simp del: settle.simps)

lemma attempt_entry_pending:
  assumes "entry_of i (store w) = Some e" "phase_of e = Pending n"
  shows "attempt_entry h c i w = snd (run_task h c (Outbox_Entry e) w)"
  using assms by (auto simp: attempt_entry_def phase_of_def split: if_splits)

text \<open>
  C5: an attempt refines the abstract machine of an entry. Where the database answers, running the
  task of a pending entry that has failed fewer than ten times moves its row exactly as
  \<open>phase_step\<close> says of the attempt's outcome (acknowledged, unreachable or undecodable), keeps its
  target and payload, and leaves every other entry alone.
\<close>

theorem outbox_attempt_refines:
  assumes "quiet h" "entry_of i (store w) = Some e" "phase_of e = Pending n" "n < 10"
  shows "phase_in i (attempt_entry h c i w) = phase_step (attempt_of h c e w) (Pending n) \<and>
    (\<exists>e'. entry_of i (store (attempt_entry h c i w)) = Some e' \<and> same_entry e e') \<and>
    (\<forall>j. j \<noteq> i \<longrightarrow> entry_of j (store (attempt_entry h c i w)) = entry_of j (store w))"
  using run_entry_quiet [OF assms(1,2), of c] phase_settle [OF assms(3,4)]
    run_entry_others [OF assms(1), of e _ c w] entry_of_id [OF assms(2)]
  by (auto simp: attempt_entry_pending [OF assms(2,3)] phase_in_def
      simp del: run_task.simps phase_step.simps)

text \<open>
  C6: retries back off and end. While no peer answers, a queued message that can be read is still
  pending with \<open>k\<close> counted attempts after \<open>k < 10\<close> attempts, and is marked failed by the tenth for good.
\<close>

theorem outbox_gives_up_after_ten:
  assumes "peers_down h" "entry_of i (store w) = Some e" "readable_entry h e" "phase_of e = Pending 0"
  shows "phase_in i ((attempt_entry h c i ^^ k) w) = (if k < 10 then Pending k else Failed)"
proof -
  have "retry_valid h i w" "phase_in i w = Pending 0"
    using assms by (simp_all add: retry_valid_def phase_in_def)
  then show ?thesis
    using outbox.counts [of h i w k c] outbox.gives_up [of h i w k c] by simp
qed

text \<open>
  C27: the schedule of the retries. After the failed attempt number \<open>n + 1 < 10\<close> the entry is due
  \<open>min 3600 (10 * 2 ^ (n + 1))\<close> seconds after that attempt: 20 s after the first failure, then 40 s,
  up to the cap of one hour.
\<close>

theorem outbox_backoff_schedule:
  assumes "quiet h" "entry_of i (store w) = Some e" "phase_of e = Pending n" "n < 9"
    and "attempt_of h c e w = Unreachable"
  shows "\<exists>e' t. entry_of i (store (attempt_entry h c i w)) = Some e' \<and> ob_last_attempt e' = Some t \<and>
    ob_next_attempt e' = t + seconds (min 3600 (10 * 2 ^ (n + 1)))"
proof -
  have n: "unat (ob_attempt_count e) = n"
    using assms(3) by (auto simp: phase_of_def split: if_splits)
  then have count: "unat (ob_attempt_count e + 1) = Suc n"
    and "\<not> sint MAX_ATTEMPTS \<le> sint (ob_attempt_count e + 1)"
    using small_count [of "ob_attempt_count e"] assms(4) by simp_all
  moreover have "ob_attempt_count e + 1 = word_of_nat (Suc n)"
    unfolding count [symmetric] by simp
  ultimately show ?thesis
    using run_entry_quiet [OF assms(1,2), of c] assms(4,5) backoff_secs_below_12 [of "Suc n"]
    by (auto simp: attempt_entry_pending [OF assms(2,3)] simp del: run_task.simps of_nat_Suc)
qed

text \<open>
  An entry that is already delivered can be turned into a failed one. The updates of a row carry
  no guard on its status: when the peer has acknowledged the message while the tenth attempt, made from
  an older snapshot, does not get its answer, the entry ends as failed.
\<close>

theorem late_failure_overwrites_delivery:
  assumes "quiet h" "entry_of i (store w) = Some row" "phase_of row = Delivered"
    and "ob_id stale = i" "phase_of stale = Pending 9" "attempt_of h c stale w = Unreachable"
  shows "phase_in i (snd (run_task h c (Outbox_Entry stale) w)) = Failed"
proof -
  obtain k where st: "store (snd (deliver_entry h c stale w)) =
      put_entry i (settle Unreachable (ob_attempt_count stale) (db_clock h k)) (store w)"
    using deliver_entry_quiet [OF assms(1), of w c stale] assms(4,6) by auto
  have "unat (ob_attempt_count stale) = 9"
    using assms(5) by (auto simp: phase_of_def split: if_splits)
  then have "sint MAX_ATTEMPTS \<le> sint (ob_attempt_count stale + 1)"
    using small_count(2) [of "ob_attempt_count stale"] by simp
  with assms(2) st find_put_entry [of "settle Unreachable (ob_attempt_count stale) (db_clock h k)" i "store w"]
  show ?thesis
    by (simp add: phase_in_def entry_of_def phase_of_def)
qed

lemma spawn_all_eq: "spawn_all ts w = ((), w\<lparr>spawned := spawned w @ ts\<rparr>)"
  by (induction ts arbitrary: w) (simp_all add: ret_def await_def spawn_def)

lemma sorted_take_rest:
  assumes "sorted (map f xs)" "y \<in> set xs" "y \<notin> set (take n xs)" "x \<in> set (take n xs)"
  shows "f x \<le> f y"
proof -
  have "y \<in> set (drop n xs)"
    using assms(2,3) by (metis Un_iff append_take_drop_id set_append)
  moreover have "sorted (map f (take n xs) @ map f (drop n xs))"
    using assms(1) by (metis append_take_drop_id map_append)
  ultimately show ?thesis
    using assms(4) by (auto simp: sorted_append)
qed

lemma due_entries_spec:
  "set (due_entries now d) \<subseteq> {e \<in> set (t_federation_outbox d). outbox_due now e}"
  "length (due_entries now d) \<le> 100" "sorted (map ob_next_attempt (due_entries now d))"
  by (auto simp: due_entries_def take_map [symmetric] sorted_wrt_take dest: in_set_takeD)

lemma due_entries_first:
  assumes "e \<in> set (t_federation_outbox d)" "outbox_due now e" "e \<notin> set (due_entries now d)"
  shows "length (due_entries now d) = 100 \<and>
    (\<forall>e' \<in> set (due_entries now d). ob_next_attempt e' \<le> ob_next_attempt e)"
proof -
  let ?all = "sort_key ob_next_attempt (filter (outbox_due now) (t_federation_outbox d))"
  have e: "e \<in> set ?all" "e \<notin> set (take 100 ?all)"
    using assms by (simp_all add: due_entries_def)
  then have "100 < length ?all"
    by (metis linorder_not_le take_all)
  moreover have "ob_next_attempt e' \<le> ob_next_attempt e" if "e' \<in> set (take 100 ?all)" for e'
    by (rule sorted_take_rest [OF sorted_sort_key e that])
  ultimately show ?thesis
    by (auto simp: due_entries_def simp del: length_sort)
qed

text \<open>
  C28: what a poll takes up. Where the database answers, an iteration spawns a task for each of at
  most a hundred entries; all are pending and due and come in the order of their due times, and an
  entry that is due is left for a later poll only when a hundred others, due no later, are taken.
\<close>

theorem outbox_poll_spawns_due:
  assumes "quiet h"
  shows "\<exists>es. spawned (snd (outbox_iteration h w)) = spawned w @ map Outbox_Entry es \<and>
    set es \<subseteq> {e \<in> set (t_federation_outbox (store w)). outbox_due (db_clock h (Suc (ticks w))) e} \<and>
    length es \<le> 100 \<and> sorted (map ob_next_attempt es) \<and>
    (\<forall>e \<in> set (t_federation_outbox (store w)).
       outbox_due (db_clock h (Suc (ticks w))) e \<longrightarrow> e \<notin> set es \<longrightarrow>
         length es = 100 \<and> (\<forall>e' \<in> set es. ob_next_attempt e' \<le> ob_next_attempt e))"
proof -
  let ?d = "store (snd (purge_expired_nonces h w))"
  let ?es = "due_entries (db_clock h (Suc (ticks w))) ?d"
  have d: "t_federation_outbox ?d = t_federation_outbox (store w)"
    using assms by (simp add: purge_expired_nonces_def exec_quiet purge_expired_nonces_stmt_def Let_def)
  have "spawned (snd (outbox_iteration h w)) = spawned w @ map Outbox_Entry ?es"
    using assms by (simp add: outbox_iteration_def purge_expired_nonces_def exec_quiet await_def
        purge_expired_nonces_stmt_def Let_def fetch_due_outbox_entries_def select_def spawn_all_eq)
  with due_entries_spec [of "db_clock h (Suc (ticks w))" ?d] due_entries_first [of _ ?d] d
  show ?thesis
    by (intro exI [of _ ?es]) auto
qed

section \<open>Witnesses\<close>

lemma sample_entry_of: "entry_of 5 (store (sample_world sample_db)) = Some sample_entry"
  "phase_of sample_entry = Pending 0" "readable_entry (sample_host network) sample_entry"
  using sample_entry_readable
  by (simp_all add: entry_of_def sample_rows phase_of_def readable_entry_def)

lemma sample_down [simp]: "peers_down (sample_host no_network)"
  by (simp add: peers_down_def) (simp add: sample_host_def no_network_def)

lemma sample_attempt:
  "attempt_of (sample_host no_network) (new_client sample_state) sample_entry w = Unreachable"
  by (rule attempt_down) (simp_all add: sample_entry_of)

theorem outbox_attempt_refines_witness:
  "phase_in 5 (attempt_entry (sample_host no_network) (new_client sample_state) 5 (sample_world sample_db)) =
     Pending 1"
  using outbox_attempt_refines [of "sample_host no_network" 5 "sample_world sample_db" sample_entry 0
      "new_client sample_state"]
  by (simp add: sample_entry_of sample_attempt)

theorem outbox_gives_up_witness:
  "phase_in 5 ((attempt_entry (sample_host no_network) (new_client sample_state) 5 ^^ 10)
     (sample_world sample_db)) = Failed"
  by (subst outbox_gives_up_after_ten [where e = sample_entry]) (simp_all add: sample_entry_of)

theorem outbox_backoff_witness:
  "\<exists>e' t. entry_of 5 (store (attempt_entry (sample_host no_network) (new_client sample_state) 5
       (sample_world sample_db))) = Some e' \<and> ob_last_attempt e' = Some t \<and>
     ob_next_attempt e' = t + seconds 20"
  using outbox_backoff_schedule [of "sample_host no_network" 5 "sample_world sample_db" sample_entry 0
      "new_client sample_state"]
  by (simp add: sample_entry_of sample_attempt)

definition delivered_db :: db where
  "delivered_db = sample_db\<lparr>t_federation_outbox := [sample_entry\<lparr>ob_status := ''delivered''\<rparr>]\<rparr>"

theorem late_failure_witness:
  "phase_in 5 (snd (run_task (sample_host no_network) (new_client sample_state)
     (Outbox_Entry (sample_entry\<lparr>ob_attempt_count := 9\<rparr>)) (sample_world delivered_db))) = Failed"
  by (rule late_failure_overwrites_delivery [where row = "sample_entry\<lparr>ob_status := ''delivered''\<rparr>"])
    (use sample_entry_readable in \<open>simp_all add: entry_of_def delivered_db_def phase_of_def
      attempt_down readable_entry_def sample_world_def\<close>, simp_all add: sample_entry_def)

theorem outbox_poll_witness:
  "\<exists>es. spawned (snd (outbox_iteration (sample_host no_network) (sample_world sample_db))) =
     map Outbox_Entry es"
  using outbox_poll_spawns_due [of "sample_host no_network" "sample_world sample_db"]
  by (auto simp: sample_world_def)

end
