(* ===== verification/Messages_Controller.thy ===== *)
theory Messages_Controller
  imports Handlers Federation_Outbox
begin

text \<open>
  \<^verbatim>\<open>src/controllers/messages_controller.rs\<close>: sending a message to local devices or into the outbox,
  collecting the messages of a device, and \<^verbatim>\<open>resolve_node\<close>.
\<close>

section \<open>Finding a peer\<close>

definition resolve_node :: "host \<Rightarrow> app_state \<Rightarrow> string \<Rightarrow> world \<Rightarrow> (reply + federation_node) \<times> world" where
  "resolve_node h st node_id =
     await (get_federation_node h node_id) (\<lambda>found.
     case found of
       Inr (Some n) \<Rightarrow>
         if fn_is_blocked n then ret (Inl (error_reply FORBIDDEN ''target node is blocked''))
         else ret (Inr n)
     | _ \<Rightarrow>
         await (send_http h (registry_request st node_id)) (\<lambda>r.
         case r of
           Http_Error \<Rightarrow> ret (Inl (error_reply SERVICE_UNAVAILABLE ''registry unreachable''))
         | Http_Response status json \<Rightarrow>
             if \<not> is_success status
             then ret (Inl (error_reply NOT_FOUND ''target node not found in registry''))
             else
               try_await (ret (ok_or (error_reply BAD_GATEWAY ''malformed registry response'') json)) (\<lambda>body.
                 or_return internal_error
                   (upsert_federation_node h node_id (str_field body ''api_url'')
                     (str_field body ''public_key_b64'')))))"

section \<open>Sending\<close>

definition s2s_payload_of :: "app_state \<Rightarrow> devices \<Rightarrow> outgoing_message \<Rightarrow> string \<Rightarrow> string \<Rightarrow> s2s_message_payload" where
  "s2s_payload_of st device msg sender_name to_username =
     \<lparr>sm_logical_msg_id = og_logical_msg_id msg,
      sm_from_federated_address = format_address sender_name (this_node_id st),
      sm_from_device_id = dv_id device,
      sm_from_identity_pubkey = dv_identity_pubkey device,
      sm_to_user = to_username,
      sm_payloads = map (\<lambda>p. \<lparr>sd_to_device_id = om_to_device_id p, sd_header = om_header p,
                              sd_ciphertext = om_ciphertext p\<rparr>) (og_payloads msg)\<rparr>"

text \<open>\<^verbatim>\<open>match find_user_by_id(..).await { Ok(Some(u)) => u.username, _ => return e }\<close>\<close>

definition username_or_return :: "'e \<Rightarrow> host \<Rightarrow> uuid \<Rightarrow> world \<Rightarrow> ('e + string) \<times> world" where
  "username_or_return e h user_id =
     await (find_user_by_id h user_id) (\<lambda>found.
       ret (case found of Inr (Some u) \<Rightarrow> Inr (u_username u) | _ \<Rightarrow> Inl e))"

definition handle_federated_message ::
  "host \<Rightarrow> app_state \<Rightarrow> devices \<Rightarrow> outgoing_message \<Rightarrow> uuid \<Rightarrow> string \<Rightarrow> string \<Rightarrow>
     world \<Rightarrow> (reply + reply) \<times> world" where
  "handle_federated_message h st device msg from_user_id to_username target_node_id =
     try_await (username_or_return (error_reply INTERNAL_SERVER_ERROR ''cannot resolve sender identity'')
       h from_user_id) (\<lambda>sender_name.
     try_await (resolve_node h st target_node_id) (\<lambda>node.
     let s2s_payload = s2s_payload_of st device msg sender_name to_username;
         payload_json = message_payload_to_json (uuid_show h) s2s_payload
     in try_await (or_return internal_error
          (enqueue_outbox h target_node_id (og_logical_msg_id msg) payload_json)) (\<lambda>outbox_id.
        await (spawn (Deliver_Now (fn_api_url node) s2s_payload outbox_id)) (\<lambda>_.
          ret (Inr (Reply ACCEPTED (Status_Body ''queued'')))))))"

text \<open>The user and node of an address that points to another node.\<close>

definition remote_address :: "app_state \<Rightarrow> string option \<Rightarrow> (string \<times> string) option" where
  "remote_address st address =
     (case Option.bind address parse_federated_address of
        None \<Rightarrow> None
      | Some (username, node_id) \<Rightarrow>
          if node_id \<noteq> this_node_id st then Some (username, node_id) else None)"

definition send_message_as ::
  "host \<Rightarrow> app_state \<Rightarrow> devices \<Rightarrow> outgoing_message \<Rightarrow> world \<Rightarrow> (reply + reply) \<times> world" where
  "send_message_as h st device msg =
     (case remote_address st (og_to_user_address msg) of
        Some (username, node_id) \<Rightarrow>
          handle_federated_message h st device msg (dv_user_id device) username node_id
      | None \<Rightarrow>
          try_await (or_return (error_reply INTERNAL_SERVER_ERROR ''internal server error'')
            (insert_message h (dv_id device) (dv_user_id device) msg)) (\<lambda>_.
            ret (Inr (Reply OK (Const_Body ''success'' ''true'')))))"

definition send_message :: "host \<Rightarrow> app_state \<Rightarrow> request_parts \<Rightarrow> outgoing_message \<Rightarrow> handler" where
  "send_message h st parts msg =
     responding (try_await (as_device h parts) (\<lambda>device. send_message_as h st device msg))"

section \<open>Collecting\<close>

definition get_pending_messages :: "host \<Rightarrow> request_parts \<Rightarrow> handler" where
  "get_pending_messages h parts =
     responding (try_await (as_device h parts) (\<lambda>device.
       try_await (or_return (error_reply INTERNAL_SERVER_ERROR ''internal server error'')
         (fetch_pending_messages h device)) (\<lambda>messages.
         ret (Inr (Reply OK (Messages_Body messages))))))"

section \<open>Frames\<close>

lemma keeps_resolve_node [keeps_intro]: "keeps (guarantee h) (resolve_node h st n)"
  unfolding resolve_node_def
  by (auto intro!: keeps_intro split: sum.split option.split http_result.split)

lemma keeps_username [keeps_intro]:
  "keeps (guarantee h) (username_or_return e h u)" "keeps (read_only h) (username_or_return e h u)"
  unfolding username_or_return_def by (intro keeps_intro)+

lemma keeps_handle_federated_message [keeps_intro]:
  "keeps (guarantee h) (handle_federated_message h st v m f u n)"
  unfolding handle_federated_message_def by (intro keeps_intro)

lemma keeps_send_message_as [keeps_intro]: "keeps (guarantee h) (send_message_as h st v m)"
  unfolding send_message_as_def by (intro keeps_intro)

lemma keeps_messages_handlers [keeps_intro]:
  "keeps (guarantee h) (send_message h st parts m)"
  "keeps (guarantee h) (get_pending_messages h parts)"
  unfolding send_message_def get_pending_messages_def by (intro keeps_intro)+

end
