(* ===== verification/Peer_Security.thy ===== *)
theory Peer_Security
  imports Federation_Client Sample_Host
begin

text \<open>
  What the authentication of peers achieves: the requests it accepts, the requests of this
  repository's own client it accepts, and that it accepts none twice.
\<close>

section \<open>The timestamp window\<close>

lemma int_less_62: "n < 2 ^ 62 \<Longrightarrow> int n < 2 ^ 62"
  using of_nat_less_iff [of n "2 ^ 62", where 'a = int] by simp

lemma sint_of_secs: "s < 2 ^ 62 \<Longrightarrow> sint (word_of_nat s :: i64) = int s"
proof -
  assume "s < 2 ^ 62"
  then have "int s < 2 ^ 62"
    by (rule int_less_62)
  then have "signed_take_bit 63 (int s) = int s"
    by (intro signed_take_bit_63_id) simp_all
  then show ?thesis
    by (simp add: signed_of_nat)
qed

text \<open>
  The window as the code computes it, on a host clock before the year 146 billion: besides the 60
  seconds around the clock, the subtraction's overflow lets one far timestamp through.
\<close>

lemma outside_window_secs:
  assumes "s < 2 ^ 62" "0 \<le> limit" "limit < 2 ^ 62"
  shows "outside_window (word_of_nat s) ts limit \<longleftrightarrow>
    limit < \<bar>int s - sint ts\<bar> \<and> int s - sint ts \<noteq> 2 ^ 63"
proof -
  have "int s < 2 ^ 62"
    using assms(1) by (rule int_less_62)
  then show ?thesis
    using outside_window_iff [of "word_of_nat s" limit ts] assms by (simp add: sint_of_secs)
qed

section \<open>Acceptance is sound\<close>

lemma claim_recorded:
  "claim_nonce h n c w = (Inr True, w') \<Longrightarrow> nonce_used (store w') (n, c) = Some (db_clock h (ticks w))"
  by (auto simp: claim_nonce_def exec_Inr_iff dest: nonces.claim_stamps [of "(n, c)", simplified])

text \<open>
  C1: a request is accepted as a peer's only with everything the protocol asks for, whatever faults
  and concurrent requests there are: its node id names the peer's record, which is not blocked; its
  timestamp is within 60 seconds of the host's clock (or lies exactly \<open>2 ^ 63\<close> seconds in the past,
  where the subtraction overflows); it carries a signature of its method, path, timestamp and nonce
  that the peer's key verifies; and its nonce is recorded as used from then on.
\<close>

theorem authenticate_node_sound:
  assumes "authenticate_node h st parts w = (Inr peer, w')" and "unix_secs h (ticks w) < 2 ^ 62"
  shows "rp_header parts ''X-Node-ID'' = Some (fn_node_id peer) \<and> \<not> fn_is_blocked peer \<and>
    signed_by h parts peer \<and>
    (\<exists>ts t. rp_header parts ''X-Timestamp'' = Some ts \<and> parse_i64 ts = Some t \<and>
       (\<bar>int (unix_secs h (ticks w)) - sint t\<bar> \<le> 60 \<or> int (unix_secs h (ticks w)) - sint t = 2 ^ 63)) \<and>
    (\<exists>nonce. rp_header parts ''X-Nonce'' = Some nonce \<and>
       nonce_used (store w') (fn_node_id peer, nonce) \<noteq> None)"
proof -
  from assms(1) obtain n ts nonce t w2 where
    "rp_header parts ''X-Node-ID'' = Some n" "rp_header parts ''X-Timestamp'' = Some ts"
    "parse_i64 ts = Some t" "rp_header parts ''X-Nonce'' = Some nonce"
    "\<not> outside_window (word_of_nat (unix_secs h (ticks w))) t 60"
    "resolve_peer h st n (w\<lparr>ticks := Suc (ticks w)\<rparr>) = (Inr peer, w2)"
    "\<not> fn_is_blocked peer" "signed_by h parts peer" "claim_nonce h n nonce w2 = (Inr True, w')"
    unfolding authenticate_node_Inr_iff by blast
  with resolve_peer_node_id [OF this(6)] claim_recorded [OF this(9)] outside_window_secs [OF assms(2), of 60 t]
  show ?thesis
    by auto
qed

section \<open>Acceptance is complete\<close>

lemma resolve_cached:
  assumes "quiet h" "find_node n (store w) = Some node"
  shows "resolve_peer h st n w = (Inr node, w\<lparr>ticks := Suc (ticks w)\<rparr>)"
  using assms by (simp add: resolve_peer_def get_federation_node_def exec_select_quiet try_await_def
      await_def map_err_def ret_def)

lemma claim_unused:
  assumes "quiet h" "nonce_used (store w) (n, c) = None"
  shows "\<exists>ns. claim_nonce h n c w =
    (Inr True, w\<lparr>ticks := Suc (ticks w), store := (store w)\<lparr>t_used_node_nonces := ns\<rparr>\<rparr>)"
  using assms nonce_used_None [of "store w" "(n, c)"]
  by (simp add: claim_nonce_def exec_quiet claim_nonce_stmt_def) blast

text \<open>The world after a peer's request is accepted: three calls and one more nonce.\<close>

definition nonce_kept :: "world \<Rightarrow> world \<Rightarrow> bool" where
  "nonce_kept w w' \<longleftrightarrow>
     (\<exists>ns. w' = w\<lparr>ticks := ticks w + 3, store := (store w)\<lparr>t_used_node_nonces := ns\<rparr>\<rparr>)"

lemma accepts_signed:
  assumes "quiet h" "crypto_laws h" "length sk = 32"
    and "signed_request h n sk meth path secs buf parts" "signed_path parts = path"
    and "find_node n (store w) = Some peer" "\<not> fn_is_blocked peer"
    and "fn_public_key_b64 peer = b64_encode h (ed_public h sk)"
    and "unix_secs h (ticks w) < 2 ^ 62" "secs < 2 ^ 62"
    and "\<bar>int (unix_secs h (ticks w)) - int secs\<bar> \<le> 60"
    and "nonce_used (store w) (n, b64_encode h buf) = None"
  shows "\<exists>w'. authenticate_node h st parts w = (Inr peer, w') \<and> nonce_kept w w'"
proof -
  let ?w = "w\<lparr>ticks := Suc (Suc (ticks w))\<rparr>"
  have "resolve_peer h st n (w\<lparr>ticks := Suc (ticks w)\<rparr>) = (Inr peer, ?w)"
    using resolve_cached [OF assms(1), of n "w\<lparr>ticks := Suc (ticks w)\<rparr>"] assms(6) by simp
  moreover obtain ns where "claim_nonce h n (b64_encode h buf) ?w =
      (Inr True, w\<lparr>ticks := ticks w + 3, store := (store w)\<lparr>t_used_node_nonces := ns\<rparr>\<rparr>)"
    using claim_unused [OF assms(1), of ?w] assms(12) by (auto simp: numeral_3_eq_3)
  moreover have "parse_i64 (show_nat secs) = Some (word_of_nat secs)"
    using assms(10) by (intro parse_i64_show_nat) simp
  moreover have "\<not> outside_window (word_of_nat (unix_secs h (ticks w))) (word_of_nat secs) 60"
    using assms(9-11) by (simp add: outside_window_secs sint_of_secs)
  ultimately have "authenticate_node h st parts w =
      (Inr peer, w\<lparr>ticks := ticks w + 3, store := (store w)\<lparr>t_used_node_nonces := ns\<rparr>\<rparr>)"
    unfolding authenticate_node_Inr_iff
    using assms(4,7) signed_request_signed_by [OF assms(2-5,8)]
    unfolding signed_request_def by blast
  then show ?thesis
    unfolding nonce_kept_def by blast
qed

lemma signed_path_received [simp]: "signed_path (received r) = url_path (hr_url r)"
  by (simp add: signed_path_def received_def)


section \<open>No request is accepted twice\<close>

text \<open>
  The database's clock and the host's clock agree within 90 seconds, over the few calls that one
  authentication makes.
\<close>

definition clocks_agree :: "host \<Rightarrow> bool" where
  "clocks_agree h \<longleftrightarrow>
     (\<forall>m n. m \<le> n \<longrightarrow> n \<le> m + 4 \<longrightarrow> \<bar>db_clock h n - seconds (int (unix_secs h m))\<bar> \<le> seconds 90)"

lemma window_spread:
  fixes a b t :: int
  assumes "\<bar>a - t\<bar> \<le> 60 \<or> a - t = 2 ^ 63" "\<bar>b - t\<bar> \<le> 60 \<or> b - t = 2 ^ 63"
    and "0 \<le> a" "b < 2 ^ 62"
  shows "b - a \<le> 120"
proof -
  have "(2 :: int) ^ 63 = 9223372036854775808" "(2 :: int) ^ 62 = 4611686018427387904"
    by simp_all
  with assms show ?thesis
    by linarith
qed

lemma inside_window:
  assumes "s < 2 ^ 62" "\<not> outside_window (word_of_nat s) t 60"
  shows "\<bar>int s - sint t\<bar> \<le> 60 \<or> int s - sint t = 2 ^ 63"
  using outside_window_secs [OF assms(1), of 60 t] assms(2) by auto

lemma ticks_peer_of_reply:
  "peer_of_reply h n resp v = (r, w') \<Longrightarrow> ticks v \<le> ticks w' \<and> ticks w' \<le> Suc (ticks v)"
  by (cases resp) (auto simp: peer_of_reply_def try_await_def await_def ret_def map_err_def
      upsert_federation_node_def ok_or_def split: if_splits option.splits prod.splits sum.splits dest: exec_other_fields(1))

lemma ticks_resolve_peer:
  assumes "resolve_peer h st n w = (r, w')"
  shows "ticks w < ticks w' \<and> ticks w' \<le> ticks w + 3"
proof -
  obtain c w1 where c: "get_federation_node h n w = (c, w1)"
    by fastforce
  then have t: "ticks w1 = Suc (ticks w)"
    by (simp add: get_federation_node_def exec_other_fields(1))
  consider "w' = w1" | resp v where "peer_of_reply h n resp v = (r, w')" "ticks v = Suc (ticks w1)"
    using assms c
    by (auto simp: resolve_peer_def try_await_def await_def ret_def map_err_def send_http_def
        split: sum.splits option.splits)
  then show ?thesis
    using t by cases (auto dest: ticks_peer_of_reply)
qed

lemma authenticate_node_claims:
  assumes "authenticate_node h st parts w = (Inr peer, w')"
  obtains n ts nonce t v where "rp_header parts ''X-Node-ID'' = Some n"
    "rp_header parts ''X-Timestamp'' = Some ts" "parse_i64 ts = Some t"
    "rp_header parts ''X-Nonce'' = Some nonce"
    "\<not> outside_window (word_of_nat (unix_secs h (ticks w))) t 60"
    "claim_nonce h n nonce v = (Inr True, w')" "guarantee h w v"
    "ticks w \<le> ticks v" "ticks v \<le> ticks w + 4"
proof -
  from assms obtain n ts nonce t v where a: "rp_header parts ''X-Node-ID'' = Some n"
    "rp_header parts ''X-Timestamp'' = Some ts" "parse_i64 ts = Some t"
    "rp_header parts ''X-Nonce'' = Some nonce"
    "\<not> outside_window (word_of_nat (unix_secs h (ticks w))) t 60"
    "claim_nonce h n nonce v = (Inr True, w')"
    and v: "resolve_peer h st n (w\<lparr>ticks := Suc (ticks w)\<rparr>) = (Inr peer, v)"
    unfolding authenticate_node_Inr_iff by blast
  have "guarantee h w (w\<lparr>ticks := Suc (ticks w)\<rparr>)"
    by (simp add: guarantee_def steps_none)
  then have "guarantee h w v"
    using keepsD [OF keeps_resolve_peer v] by (rule guar.frame_trans)
  with that [OF a] ticks_resolve_peer [OF v] show ?thesis
    by simp
qed

text \<open>
  C2: no request is accepted twice. Whatever the faults and other requests between, a request that was
  authenticated once is rejected ever after: within its timestamp window the nonce is still recorded,
  since the purge keeps nonces for 300 seconds and the window allows at most 120, and after it the
  timestamp is refused. The clocks of host and database may differ by 90 seconds.
\<close>

theorem no_replay:
  assumes "host_ok h" "clocks_agree h"
    and "unix_secs h (ticks w) < 2 ^ 62" "unix_secs h (ticks w2) < 2 ^ 62"
    and "authenticate_node h st parts w = (Inr peer, w1)" and "guarantee h w1 w2"
    and "authenticate_node h st parts w2 = (r, w3)"
  shows "\<exists>e. r = Inl e"
proof (rule ccontr)
  assume "\<nexists>e. r = Inl e"
  then obtain peer' where second: "authenticate_node h st parts w2 = (Inr peer', w3)"
    using assms(7) by (cases r) auto
  obtain n ts nonce t v where a: "rp_header parts ''X-Node-ID'' = Some n"
    "rp_header parts ''X-Timestamp'' = Some ts" "parse_i64 ts = Some t"
    "rp_header parts ''X-Nonce'' = Some nonce"
    "\<not> outside_window (word_of_nat (unix_secs h (ticks w))) t 60"
    "claim_nonce h n nonce v = (Inr True, w1)" "ticks w \<le> ticks v" "ticks v \<le> ticks w + 4"
    using authenticate_node_claims [OF assms(5)] by metis
  obtain v2 where b: "\<not> outside_window (word_of_nat (unix_secs h (ticks w2))) t 60"
    "claim_nonce h n nonce v2 = (Inr True, w3)" "guarantee h w2 v2"
    "ticks w2 \<le> ticks v2" "ticks v2 \<le> ticks w2 + 4"
    using authenticate_node_claims [OF second] a(1-4) by (metis option.inject)
  let ?s1 = "int (unix_secs h (ticks w))" and ?s2 = "int (unix_secs h (ticks w2))"
  have s: "?s1 < 2 ^ 62" "?s2 < 2 ^ 62"
    using assms(3,4) by (blast intro: int_less_62)+
  have "\<bar>?s1 - sint t\<bar> \<le> 60 \<or> ?s1 - sint t = 2 ^ 63"
    using assms(3) a(5) by (rule inside_window)
  moreover have "\<bar>?s2 - sint t\<bar> \<le> 60 \<or> ?s2 - sint t = 2 ^ 63"
    using assms(4) b(1) by (rule inside_window)
  ultimately have "?s2 - ?s1 \<le> 120"
    by (rule window_spread) (use s in simp_all)
  moreover have "\<bar>db_clock h (ticks v) - seconds ?s1\<bar> \<le> seconds 90"
      "\<bar>db_clock h (ticks v2) - seconds ?s2\<bar> \<le> seconds 90"
    using assms(2) a(7,8) b(4,5) unfolding clocks_agree_def by blast+
  ultimately have "db_clock h (ticks v2) \<le> db_clock h (ticks v) + seconds 300"
    unfolding seconds_def by linarith
  moreover have "guarantee h w1 v2"
    using assms(6) b(3) by (rule guar.frame_trans)
  ultimately show False
    using nonces.claimed_once [OF assms(1), of "(n, nonce)" v w1 v2 True w3] a(6) b(2)
    by (simp add: claim_nonce_def)
qed

section \<open>Rejected requests leave no trace in the nonce store\<close>

lemma keeps_nonces_resolve:
  assumes "quiet h" "resolve_peer h st n w = (r, w')"
  shows "nonce_used (store w') = nonce_used (store w)"
proof -
  have up: "nonce_used (store (snd (upsert_federation_node h n u k v))) = nonce_used (store v)" for u k v
    using assms(1) by (auto simp: upsert_federation_node_def exec_quiet upsert_federation_node_stmt_def
        Let_def nonce_used_def fun_eq_iff split: option.split)
  have reply: "nonce_used (store v') = nonce_used (store v)" if "peer_of_reply h n resp v = (r, v')" for resp v v'
    using that up
    by (cases resp) (auto simp: peer_of_reply_def try_await_def await_def ret_def map_err_def ok_or_def
        split: if_splits option.splits prod.splits sum.splits, (metis snd_conv)+)
  show ?thesis
  proof (cases "find_node n (store w)")
    case None
    with assms have "peer_of_reply h n (http_send h (Suc (ticks w)) (registry_request st n))
        (w\<lparr>ticks := Suc (Suc (ticks w)), sent := sent w @ [registry_request st n]\<rparr>) = (r, w')"
      by (simp add: resolve_peer_def get_federation_node_def exec_select_quiet try_await_def await_def
          map_err_def ret_def send_http_def)
    from reply [OF this] show ?thesis
      by simp
  next
    case (Some node)
    with resolve_cached [OF assms(1) Some, of st] assms(2) show ?thesis
      by auto
  qed
qed

text \<open>
  C37: a request that is rejected uses up no nonce. Where the database answers, whoever cannot sign for
  a node cannot make that node's later requests fail by claiming their nonces first.
\<close>

theorem rejection_claims_no_nonce:
  assumes "quiet h" "authenticate_node h st parts w = (Inl e, w')"
  shows "nonce_used (store w') = nonce_used (store w)"
proof -
  have seen: "nonce_used (store v') = nonce_used (store v)" if "claim_nonce h n c v = (Inr False, v')" for n c v v'
    using that assms(1) by (auto simp: claim_nonce_def exec_quiet split: sum.splits dest: claim_adds)
  have failed: "nonce_used (store v') = nonce_used (store v)" if "claim_nonce h n c v = (Inl x, v')" for n c v v' x
    using that assms(1) by (auto simp: claim_nonce_def exec_quiet split: sum.splits)
  show ?thesis
    using assms(2)
    by (auto simp: authenticate_node_def try_await_Inl_iff await_eq_iff utc_now_def Let_def
        split: if_splits dest!: keeps_nonces_resolve [OF assms(1)] seen failed)
qed

section \<open>Which path is signed\<close>

text \<open>
  C40: the two halves of the client sign different paths. A GET is signed for the path of its whole
  URL, which is the path the receiver checks; a POST is signed for the endpoint's path alone, which is
  the path the receiver checks only if the peer's API URL has no path of its own. With the base path
  \<^verbatim>\<open>/api\<close> that \<^verbatim>\<open>main.rs\<close> uses by default, the signature of a POST covers a string that differs from
  the one the receiver rebuilds.
\<close>

theorem client_signs_two_paths:
  assumes "signing_key h (fc_node_keys c) = Inr sk"
    and "CHR '':'' \<notin> set scheme" "CHR ''/'' \<notin> set authority" "base = [] \<or> hd base = CHR ''/''"
    and "endpoint = CHR ''/'' # rest" "api_url = scheme @ ''://'' @ authority @ base"
  shows "(\<exists>r buf. sent (snd (signed_get h c (api_url @ endpoint) w)) = sent w @ [r] \<and>
       signed_request h (fc_this_node_id c) sk ''GET'' (base @ endpoint) (unix_secs h (ticks w)) buf (received r) \<and>
       signed_path (received r) = base @ endpoint) \<and>
    (\<exists>r buf. sent (snd (signed_post h c api_url endpoint body w)) = sent w @ [r] \<and>
       signed_request h (fc_this_node_id c) sk ''POST'' endpoint (unix_secs h (ticks w)) buf (received r) \<and>
       signed_path (received r) = base @ endpoint \<and>
       (\<forall>ts nonce. canonical_string ''POST'' endpoint ts nonce =
          canonical_string ''POST'' (signed_path (received r)) ts nonce \<longleftrightarrow> base = []))"
proof -
  obtain p where "base @ endpoint = CHR ''/'' # p"
    using assms(4,5) by (cases base) auto
  with url_path_absolute [OF assms(2,3), of p] have path: "url_path (api_url @ endpoint) = base @ endpoint"
    by (simp add: assms(6))
  have eq: "canonical_string ''POST'' endpoint ts nonce = canonical_string ''POST'' (base @ endpoint) ts nonce \<longleftrightarrow>
      base = []" for ts nonce
    by (auto simp: canonical_string_def)
  show ?thesis
    using signed_get_sends [OF assms(1), of "api_url @ endpoint" w]
      signed_post_sends [OF assms(1), of api_url endpoint body w] path eq
    by auto
qed

section \<open>The cache of peers\<close>

text \<open>
  C26: the registry is asked about a peer once. After a successful look-up the record is in the node
  cache, so the next look-up of that node answers the same record and sends no request.
\<close>

theorem resolve_peer_caches:
  assumes "quiet h" "resolve_peer h st n w = (Inr peer, w')"
  shows "resolve_peer h st n w' = (Inr peer, w'\<lparr>ticks := Suc (ticks w')\<rparr>)"
proof -
  have "find_node n (store w') = Some peer"
  proof (cases "find_node n (store w)")
    case None
    with assms obtain resp v where "peer_of_reply h n resp v = (Inr peer, w')"
      by (auto simp: resolve_peer_def get_federation_node_def exec_select_quiet try_await_def await_def
          map_err_def ret_def send_http_def)
    then obtain u k v2 where "upsert_federation_node h n u k v2 = (Inr peer, w')"
      by (cases resp) (auto simp: peer_of_reply_def try_await_Inr_iff split: if_splits)
    then show ?thesis
      using node_cache.exec_put_lookup [of h n "(u, k)" v2 peer w'] by (simp add: upsert_federation_node_def)
  next
    case (Some node)
    with resolve_cached [OF assms(1) Some, of st] assms(2) show ?thesis
      by auto
  qed
  then show ?thesis
    by (rule resolve_cached [OF assms(1)])
qed

section \<open>Witnesses\<close>

definition sample_parts :: "string \<Rightarrow> string \<Rightarrow> request_parts" where
  "sample_parts meth path =
     \<lparr>rp_method = meth, rp_path_and_query = Some path,
      rp_header = map_of [(''X-Node-ID'', ''b.net''), (''X-Timestamp'', show_nat 1000), (''X-Nonce'', ''n''),
        (''X-Node-Signature'', sample_sign peer_key (canonical_string meth path (show_nat 1000) ''n''))]\<rparr>"

lemma sample_signed:
  "signed_request (sample_host network) ''b.net'' peer_key meth path 1000 ''n'' (sample_parts meth path)"
  by (simp add: signed_request_def sample_parts_def)

lemma sample_find_node: "find_node ''b.net'' (store (sample_world sample_db)) = Some sample_node"
  "\<not> fn_is_blocked sample_node" "fn_public_key_b64 sample_node = peer_key" "fn_id sample_node = 1"
  by (simp_all add: find_node_def sample_rows)

lemma sample_unused:
  "nonce_used (store (sample_world sample_db)) (''b.net'', b64_encode (sample_host network) ''n'') = None"
  by (simp add: nonce_used_def sample_rows)

lemmas sample_acceptance = sample_find_node sample_world_def sample_parts_def signed_path_def peer_key_def

lemma sample_accepted:
  obtains w' where "authenticate_node (sample_host network) sample_state (sample_parts meth path)
      (sample_world sample_db) = (Inr sample_node, w')" "nonce_kept (sample_world sample_db) w'"
proof -
  have "\<exists>w'. authenticate_node (sample_host network) sample_state (sample_parts meth path)
      (sample_world sample_db) = (Inr sample_node, w') \<and> nonce_kept (sample_world sample_db) w'"
    by (rule accepts_signed [OF _ _ _ sample_signed _ sample_find_node(1,2) _ _ _ _ sample_unused])
      (simp_all add: sample_acceptance)
  with that show ?thesis
    by blast
qed


lemma sample_clocks [simp]: "clocks_agree (sample_host network)"
  by (auto simp: clocks_agree_def seconds_def)


theorem no_replay_witness:
  "\<exists>w1. authenticate_node (sample_host no_network) sample_state (sample_parts ''POST'' ''/s2s/messages'')
       (sample_world sample_db) = (Inr sample_node, w1) \<and>
     (\<exists>e. fst (authenticate_node (sample_host no_network) sample_state (sample_parts ''POST'' ''/s2s/messages'') w1) = Inl e)"
proof -
  obtain w1 where w1: "authenticate_node (sample_host no_network) sample_state (sample_parts ''POST'' ''/s2s/messages'')
      (sample_world sample_db) = (Inr sample_node, w1)"
    and "nonce_kept (sample_world sample_db) w1"
    using sample_accepted by blast
  then have "ticks w1 \<le> 5"
    by (auto simp: nonce_kept_def sample_world_def)
  moreover obtain r w3 where
    "authenticate_node (sample_host no_network) sample_state (sample_parts ''POST'' ''/s2s/messages'') w1 = (r, w3)"
    by fastforce
  ultimately show ?thesis
    using w1 no_replay [OF _ _ _ _ w1 guar.frame_refl] by (auto simp: sample_world_def)
qed

theorem authenticate_node_sound_witness:
  "\<exists>w1. authenticate_node (sample_host no_network) sample_state (sample_parts ''POST'' ''/s2s/messages'')
       (sample_world sample_db) = (Inr sample_node, w1) \<and>
     nonce_used (store w1) (''b.net'', ''n'') \<noteq> None"
proof -
  obtain w1 where w1: "authenticate_node (sample_host no_network) sample_state (sample_parts ''POST'' ''/s2s/messages'')
      (sample_world sample_db) = (Inr sample_node, w1)"
    using sample_accepted by blast
  then have "rp_header (sample_parts ''POST'' ''/s2s/messages'') ''X-Nonce'' = Some ''n''"
      "fn_node_id sample_node = ''b.net''"
    by (simp_all add: sample_parts_def sample_node_def)
  with w1 authenticate_node_sound [OF w1] show ?thesis
    by (auto simp: sample_world_def)
qed

theorem rejection_witness:
  "\<exists>e w'. authenticate_node (sample_host no_network) sample_state
       (sample_parts ''POST'' ''/s2s/messages''\<lparr>rp_header := \<lambda>_. None\<rparr>) (sample_world sample_db) = (Inl e, w') \<and>
     nonce_used (store w') = nonce_used sample_db"
proof -
  obtain e w' where r: "authenticate_node (sample_host no_network) sample_state
      (sample_parts ''POST'' ''/s2s/messages''\<lparr>rp_header := \<lambda>_. None\<rparr>) (sample_world sample_db) = (Inl e, w')"
    by (simp add: authenticate_node_def header_str_def)
  with rejection_claims_no_nonce [OF sample_quiet r] show ?thesis
    by (auto simp: sample_world_def)
qed

theorem client_signs_two_paths_witness:
  "\<exists>r. sent (snd (signed_post (sample_host no_network) (new_client sample_state) ''https://b.net/api''
       ''/s2s/messages'' JNull (sample_world sample_db))) = [r] \<and> signed_path (received r) = ''/api/s2s/messages''"
proof -
  have "signing_key (sample_host no_network) (fc_node_keys (new_client sample_state)) = Inr this_key"
    by (simp add: new_client_def sample_state_def signing_key_pair this_key_def)
  from client_signs_two_paths [OF this, of "''https''" "''b.net''" "''/api''" "''/s2s/messages''"
      "''s2s/messages''" "''https://b.net/api''" "sample_world sample_db" JNull]
  show ?thesis
    by (auto simp: sample_world_def)
qed

theorem resolve_peer_caches_witness:
  "resolve_peer (sample_host no_network) sample_state ''b.net'' (sample_world sample_db\<lparr>ticks := 1\<rparr>) =
     (Inr sample_node, sample_world sample_db\<lparr>ticks := 2\<rparr>)"
proof -
  have "resolve_peer (sample_host no_network) sample_state ''b.net'' (sample_world sample_db) =
      (Inr sample_node, sample_world sample_db\<lparr>ticks := 1\<rparr>)"
    using resolve_cached [OF sample_quiet sample_find_node(1)] by (simp add: sample_world_def)
  from resolve_peer_caches [OF sample_quiet this] show ?thesis
    by (simp add: sample_world_def numeral_2_eq_2)
qed

end
