(* ===== verification/Message_Origin.thy ===== *)
theory Message_Origin
  imports Read_Only
begin

text \<open>
  Where the rows of \<^verbatim>\<open>messages\<close> come from. \<open>adds_only h l P\<close> says of a call that every row it leaves with the
  logical id \<open>l\<close> was there before, up to the stamp of its delivery, or is one of those \<open>P\<close> describes. It is
  a frame, so the calls of a handler that do not insert messages keep it for every \<open>P\<close>, and what a
  handler adds is decided at its inserts.
\<close>

text \<open>The other connections store no copy under the logical id \<open>l\<close>.\<close>

definition others_leave :: "host \<Rightarrow> string \<Rightarrow> bool" where
  "others_leave h l \<longleftrightarrow>
     (\<forall>n d. \<forall>m' \<in> set (t_messages (others h n d)). me_logical_msg_id m' = l \<longrightarrow>
        (\<exists>m \<in> set (t_messages d). same_message m m'))"

definition from_rows :: "string \<Rightarrow> (message_row \<Rightarrow> bool) \<Rightarrow> db \<Rightarrow> db \<Rightarrow> bool" where
  "from_rows l P d d' \<longleftrightarrow>
     (\<forall>m' \<in> set (t_messages d'). me_logical_msg_id m' = l \<longrightarrow>
        (\<exists>m \<in> set (t_messages d). same_message m m') \<or> (\<exists>m. P m \<and> same_message m m'))"

definition adds_only :: "host \<Rightarrow> string \<Rightarrow> (message_row \<Rightarrow> bool) \<Rightarrow> world \<Rightarrow> world \<Rightarrow> bool" where
  "adds_only h l P w w' \<longleftrightarrow> (others_leave h l \<longrightarrow> from_rows l P (store w) (store w'))"

lemma unshared_leaves: "unshared h \<Longrightarrow> others_leave h l"
  by (force simp: unshared_def others_leave_def)

lemma same_message_logical: "same_message m m' \<Longrightarrow> me_logical_msg_id m' = me_logical_msg_id m"
  by (auto simp: same_message_def)

lemma same_message_key: "same_message m m' \<Longrightarrow> message_key m' = message_key m"
  by (auto simp: same_message_def message_key_def)

lemma from_rows_same: "t_messages d' = t_messages d \<Longrightarrow> from_rows l P d d'"
  unfolding from_rows_def by (metis same_refl(3))

lemma from_rows_trans: "from_rows l P d d' \<Longrightarrow> from_rows l P d' d'' \<Longrightarrow> from_rows l P d d''"
  unfolding from_rows_def
proof (intro ballI impI)
  fix m''
  assume 1: "\<forall>m' \<in> set (t_messages d'). me_logical_msg_id m' = l \<longrightarrow>
      (\<exists>m \<in> set (t_messages d). same_message m m') \<or> (\<exists>m. P m \<and> same_message m m')"
    and 2: "\<forall>m' \<in> set (t_messages d''). me_logical_msg_id m' = l \<longrightarrow>
      (\<exists>m \<in> set (t_messages d'). same_message m m') \<or> (\<exists>m. P m \<and> same_message m m')"
    and m'': "m'' \<in> set (t_messages d'')" "me_logical_msg_id m'' = l"
  show "(\<exists>m \<in> set (t_messages d). same_message m m'') \<or> (\<exists>m. P m \<and> same_message m m'')"
  proof (cases "\<exists>m. P m \<and> same_message m m''")
    case False
    with 2 m'' obtain m' where m': "m' \<in> set (t_messages d')" "same_message m' m''"
      by blast
    with m''(2) have "me_logical_msg_id m' = l"
      by (simp add: same_message_logical)
    with 1 m'(1) have "(\<exists>m \<in> set (t_messages d). same_message m m') \<or> (\<exists>m. P m \<and> same_message m m')"
      by blast
    with m'(2) show ?thesis
      by (blast intro: same_trans(3))
  qed simp
qed

lemma from_rows_snoc:
  assumes "t_messages d' = t_messages d @ [m]" "P m"
  shows "from_rows l P d d'"
  unfolding from_rows_def assms(1) using assms(2) same_refl(3) by (metis Un_iff empty_iff list.set(1) set_ConsD set_append)

interpretation adds: frame "adds_only h l P" for h l P
  by unfold_locales (auto simp: adds_only_def intro: from_rows_same from_rows_trans)

lemmas [keeps_intro] = adds.keeps_rules

lemma adds_exec:
  assumes "\<And>t i d a d'. q t i d = Inr (a, d') \<Longrightarrow> from_rows l P d d'"
  shows "keeps (adds_only h l P) (exec h q)"
  unfolding keeps_def adds_only_def
proof (intro allI impI)
  fix w :: world
  assume "others_leave h l"
  then have "from_rows l P (store w) (others h (ticks w) (store w))"
    by (auto simp: others_leave_def from_rows_def)
  then show "from_rows l P (store w) (store (snd (exec h q w)))"
    using assms by (cases rule: exec_cases [of h q w]) (auto intro: from_rows_trans)
qed

lemma adds_untouched:
  assumes "\<And>t i d a d'. q t i d = Inr (a, d') \<Longrightarrow> t_messages d' = t_messages d"
  shows "keeps (adds_only h l P) (exec h q)"
  by (rule adds_exec) (use assms in \<open>blast intro: from_rows_same\<close>)

lemma adds_external [keeps_intro]:
  "keeps (adds_only h l P) (exec h (select f))"
  "keeps (adds_only h l P) (utc_now h)" "keeps (adds_only h l P) (system_secs h)"
  "keeps (adds_only h l P) (fill_random h n)" "keeps (adds_only h l P) (send_http h r)"
  "keeps (adds_only h l P) (spawn t)"
  by (rule adds_untouched, simp add: select_def)
    (simp_all add: keeps_def external_calls adds_only_def from_rows_same)

section \<open>The repositories\<close>

lemma adds_federation [keeps_intro]:
  "keeps (adds_only h l P) (upsert_federation_node h n u k)"
  "keeps (adds_only h l P) (get_federation_node h n)"
  "keeps (adds_only h l P) (claim_nonce h n c)"
  "keeps (adds_only h l P) (purge_expired_nonces h)"
  "keeps (adds_only h l P) (enqueue_outbox h n lid p)"
  "keeps (adds_only h l P) (fetch_due_outbox_entries h)"
  "keeps (adds_only h l P) (mark_outbox_delivered h j)"
  "keeps (adds_only h l P) (mark_outbox_delivered_by_logical_id h lid)"
  "keeps (adds_only h l P) (record_outbox_failure h j a m)"
  "keeps (adds_only h l P) (upsert_shadow_user h n f hm)"
  "keeps (adds_only h l P) (upsert_shadow_device h v us ik)"
  "keeps (adds_only h l P) (get_local_user_id_by_username h n)"
  unfolding upsert_federation_node_def get_federation_node_def claim_nonce_def
    purge_expired_nonces_def enqueue_outbox_def fetch_due_outbox_entries_def
    mark_outbox_delivered_def mark_outbox_delivered_by_logical_id_def record_outbox_failure_def
    upsert_shadow_user_def upsert_shadow_device_def get_local_user_id_by_username_def
  by (auto intro!: keeps_intro adds_untouched simp: stmt_defs Let_def split: if_splits option.splits)

lemma adds_direct_chat [keeps_intro]: "keeps (adds_only h l P) (get_or_create_direct_chat h x y)"
  unfolding get_or_create_direct_chat_def Let_def
  by (auto intro!: keeps_intro adds_untouched simp: insert_direct_chat_def Let_def split: prod.split if_splits)

lemma adds_users [keeps_intro]:
  "keeps (adds_only h l P) (get_all_users h)" "keeps (adds_only h l P) (insert_user h n)"
  "keeps (adds_only h l P) (find_user_by_pubkey h k)" "keeps (adds_only h l P) (find_user_by_id h i)"
  "keeps (adds_only h l P) (enrollment_token_exists h tok)" "keeps (adds_only h l P) (add_used_token h tok)"
  unfolding get_all_users_def insert_user_def find_user_by_pubkey_def find_user_by_id_def
    enrollment_token_exists_def add_used_token_def
  by (auto intro!: keeps_intro adds_untouched simp: stmt_defs Let_def split: if_splits)

lemma adds_devices [keeps_intro]:
  "keeps (adds_only h l P) (insert_new_device h u ik pk sk sg ot lb pt)"
  "keeps (adds_only h l P) (get_devices_by_user_id h u)"
  "keeps (adds_only h l P) (get_device_by_identity_key h k)"
  "keeps (adds_only h l P) (get_device_bundle h u)"
  "keeps (adds_only h l P) (user_for_device h v)"
  unfolding insert_new_device_def get_devices_by_user_id_def get_device_by_identity_key_def
    get_device_bundle_def user_for_device_def
  by (auto intro!: keeps_intro adds_untouched simp: stmt_defs Let_def device_by_identity_key_stmt_def
      device_owner_stmt_def split: if_splits list.splits option.splits)

lemma adds_sessions [keeps_intro]:
  "keeps (adds_only h l P) (create_pending_session h s r e p ot ct)"
  "keeps (adds_only h l P) (get_pending_sessions h v)"
  "keeps (adds_only h l P) (get_pending_session_by_id h j v')"
  "keeps (adds_only h l P) (delete_pending_session h j)"
  "keeps (adds_only h l P) (get_or_create_chat_id h s r)"
  "keeps (adds_only h l P) (insert_or_update_session h c s r)"
  "keeps (adds_only h l P) (get_chats_for_device h v)"
  unfolding create_pending_session_def get_pending_sessions_def get_pending_session_by_id_def
    delete_pending_session_def get_or_create_chat_id_def insert_or_update_session_def
    get_chats_for_device_def
  by (auto intro!: keeps_intro adds_untouched simp: stmt_defs Let_def split: if_splits option.splits prod.splits)

text \<open>A collection stamps rows and adds none.\<close>

lemma from_rows_delivered: "mark_delivered_stmt v t i d = Inr (x, d') \<Longrightarrow> from_rows l P d d'"
  by (force simp: mark_delivered_stmt_def from_rows_def set_update_where pending_for_def)

lemma adds_fetch [keeps_intro]: "keeps (adds_only h l P) (fetch_pending_messages h v)"
  unfolding fetch_pending_messages_def
  by (intro keeps_intro adds_exec) (blast intro: from_rows_delivered)

section \<open>The two inserts\<close>

text \<open>The copy of an outgoing message for one of its payloads.\<close>

definition is_copy_of :: "uuid \<Rightarrow> uuid \<Rightarrow> outgoing_message \<Rightarrow> outgoing_message_payload \<Rightarrow> message_row \<Rightarrow> bool" where
  "is_copy_of from_device from_user msg p m \<longleftrightarrow>
     me_logical_msg_id m = og_logical_msg_id msg \<and> me_chat_id m = Some (og_chat_id msg) \<and>
     me_from_user_id m = Some from_user \<and> me_from_device_id m = Some from_device \<and>
     me_to_user_id m = Some (og_to_user_id msg) \<and> me_to_device_id m = Some (om_to_device_id p) \<and>
     me_header m = om_header p \<and> me_ciphertext m = om_ciphertext p"

text \<open>The copy of a peer's message for one of its devices, under the sender's and the recipient's ids here.\<close>

definition is_copy_for :: "s2s_message_payload \<Rightarrow> uuid \<Rightarrow> uuid \<Rightarrow> s2s_device_payload \<Rightarrow> message_row \<Rightarrow> bool" where
  "is_copy_for p sender recipient dev m \<longleftrightarrow>
     me_logical_msg_id m = sm_logical_msg_id p \<and> me_from_user_id m = Some sender \<and>
     me_from_device_id m = Some (sm_from_device_id p) \<and> me_to_user_id m = Some recipient \<and>
     me_to_device_id m = Some (sd_to_device_id dev) \<and> me_header m = sd_header dev \<and> me_ciphertext m = sd_ciphertext dev"

lemma copies_same:
  "same_message m m' \<Longrightarrow> is_copy_of v u msg q m \<Longrightarrow> is_copy_of v u msg q m'"
  "same_message m m' \<Longrightarrow> is_copy_for p s r dev m \<Longrightarrow> is_copy_for p s r dev m'"
  by (auto simp: same_message_def is_copy_of_def is_copy_for_def)

lemma keeps_for_each_mem:
  assumes "frame R" "\<And>s x. x \<in> set xs \<Longrightarrow> keeps R (body s x)"
  shows "keeps R (for_each body s xs)"
  using assms(2)
proof (induction xs arbitrary: s)
  case Nil
  then show ?case
    using frame.keeps_ret [OF assms(1)] by simp
next
  case (Cons x xs)
  then show ?case
    by (auto intro!: frame.keeps_try_await [OF assms(1)])
qed

lemma adds_insert_message:
  "keeps (adds_only h l (\<lambda>m. \<exists>p \<in> set (og_payloads msg). is_copy_of v u msg p m)) (insert_message h v u msg)"
  unfolding insert_message_def
proof (rule keeps_for_each_mem [OF adds.frame_axioms], rule adds_exec)
  fix p :: outgoing_message_payload and t i d a d'
  let ?m = "new_message i t (og_logical_msg_id msg) (og_chat_id msg) u v (og_to_user_id msg) (om_to_device_id p)
    (om_header p) (om_ciphertext p)"
  assume "p \<in> set (og_payloads msg)"
    and "insert_message_stmt (og_logical_msg_id msg) (og_chat_id msg) u v (og_to_user_id msg) (om_to_device_id p)
      (om_header p) (om_ciphertext p) t i d = Inr (a, d')"
  then have "t_messages d' = t_messages d @ [?m]" "\<exists>p \<in> set (og_payloads msg). is_copy_of v u msg p ?m"
    by (auto simp: insert_message_stmt_def Let_def add_message_def is_copy_of_def new_message_def split: if_splits)
  then show "from_rows l (\<lambda>m. \<exists>p \<in> set (og_payloads msg). is_copy_of v u msg p m) d d'"
    by (rule from_rows_snoc)
qed

lemma adds_insert_federated:
  assumes "dev \<in> set (sm_payloads p)"
  shows "keeps (adds_only h l (\<lambda>m. \<exists>dev \<in> set (sm_payloads p). is_copy_for p s r dev m))
    (insert_federated_message h (sm_logical_msg_id p) c s (sm_from_device_id p) r (sd_to_device_id dev) (sd_header dev)
       (sd_ciphertext dev))"
  unfolding insert_federated_message_def
proof (rule adds_exec)
  fix t i d a d'
  let ?m = "new_message i t (sm_logical_msg_id p) c s (sm_from_device_id p) r (sd_to_device_id dev)
    (sd_header dev) (sd_ciphertext dev)"
  assume "insert_federated_message_stmt (sm_logical_msg_id p) c s (sm_from_device_id p) r (sd_to_device_id dev)
    (sd_header dev) (sd_ciphertext dev) t i d = Inr (a, d')"
  then have "d' = d \<or> t_messages d' = t_messages d @ [?m]"
    by (auto simp: insert_federated_message_stmt_def Let_def add_message_def split: if_splits)
  moreover have "\<exists>dev \<in> set (sm_payloads p). is_copy_for p s r dev ?m"
    using assms by (intro bexI) (simp_all add: is_copy_for_def new_message_def)
  ultimately show "from_rows l (\<lambda>m. \<exists>dev \<in> set (sm_payloads p). is_copy_for p s r dev m) d d'"
    by (auto intro: from_rows_same from_rows_snoc)
qed

end
