(* ===== verification/Message_Delivery.thy ===== *)
theory Message_Delivery
  imports Federation_Controller Messages_Controller Peer_Security Message_Origin
begin

text \<open>
  Messages from end to end: what a node has stored when it acknowledges a peer's message, that a
  repeated delivery changes nothing, and what the recipient device then collects.
\<close>

section \<open>Stored once acknowledged\<close>

lemma message_keys_evolve: "evolves d d' \<Longrightarrow> message_keys d \<subseteq> message_keys d'"
proof
  fix k assume "evolves d d'" "k \<in> message_keys d"
  then obtain m m' where m: "m \<in> set (t_messages d)" "message_key m = Some k"
    and m': "m' \<in> set (t_messages d')" "same_message m m'"
    by (auto simp: message_keys_def set_map_filter evolves_def kept_def)
  then have "message_key m' = Some k"
    by (auto simp: same_message_def message_key_def)
  with m'(1) show "k \<in> message_keys d'"
    by (auto simp: message_keys_def set_map_filter)
qed

lemma store_payloads_Cons:
  "store_payloads h p c s r b (dev # devs) w = (Inr b', w') \<longleftrightarrow>
     (\<exists>is_new w1. exec h (ins_copy (sm_logical_msg_id p, c, s, sm_from_device_id p, r, sd_to_device_id dev,
        sd_header dev, sd_ciphertext dev)) w = (Inr is_new, w1) \<and>
        store_payloads h p c s r (b \<or> is_new) devs w1 = (Inr b', w'))"
  by (auto simp: store_payloads_def insert_federated_message_copy try_await_Inr_iff)

lemma store_payloads_Nil [simp]: "store_payloads h p c s r b [] w = (Inr b, w)"
  by (simp add: store_payloads_def ret_def)

lemma store_payloads_keys:
  assumes "host_ok h" "store_payloads h p c s r b devs w = (Inr b', w')" "dev \<in> set devs"
  shows "(sm_logical_msg_id p, sd_to_device_id dev) \<in> message_keys (store w')"
  using assms(2,3)
proof (induction devs arbitrary: b w)
  case (Cons d devs)
  then obtain n w1 where ins: "exec h (ins_copy (sm_logical_msg_id p, c, s, sm_from_device_id p, r,
        sd_to_device_id d, sd_header d, sd_ciphertext d)) w = (Inr n, w1)"
    and rest: "store_payloads h p c s r (b \<or> n) devs w1 = (Inr b', w')"
    by (auto simp: store_payloads_Cons)
  show ?case
  proof (cases "dev = d")
    case True
    with message_table.exec_keys [OF ins] message_keys_evolve
      guarantee_evolves [OF keeps_store_payloads assms(1) rest]
    show ?thesis
      by (auto simp: copy_key_def)
  next
    case False
    with Cons.IH [OF rest] Cons.prems(2) show ?thesis
      by simp
  qed
qed simp

lemma store_payloads_again:
  assumes "quiet h" "\<And>dev. dev \<in> set devs \<Longrightarrow> (sm_logical_msg_id p, sd_to_device_id dev) \<in> message_keys (store w)"
  shows "store_payloads h p c s r b devs w = (Inr b, w\<lparr>ticks := ticks w + length devs\<rparr>)"
  unfolding store_payloads_def insert_federated_message_copy
  by (rule message_table.loop_again [OF assms(1)]) (simp add: copy_key_def assms(2))

lemma accept_messages_OK:
  assumes "accept_messages h peer p w = (Inr reply, w')"
  obtains recipient sender chat w1 w2 w3 b where
    "local_user_or_return h (sm_to_user p) ''recipient not found or not local to this node'' w = (Inr recipient, w1)"
    "shadow_sender h peer (sm_from_federated_address p) (sm_from_device_id p) (sm_from_identity_pubkey p) w1 =
       (Inr sender, w2)"
    "get_or_create_direct_chat h sender recipient w2 = (Inr chat, w3)"
    "store_payloads h p chat sender recipient False (sm_payloads p) w3 = (Inr b, w')"
    "reply = Reply OK (Ack_Body \<lparr>ack_logical_msg_id = sm_logical_msg_id p,
       ack_status = (if b then ''delivered'' else ''duplicate'')\<rparr>)"
  using assms by (auto simp: accept_messages_def try_await_Inr_iff)

text \<open>The frames of what comes before the inserts, and of the inserts themselves.\<close>

lemma adds_extractors [keeps_intro]:
  "keeps (adds_only h l P) (as_device h parts)" "keeps (adds_only h l P) (as_peer h st parts)"
  unfolding as_device_def as_peer_def authenticate_device_def authenticate_node_def resolve_peer_def Let_def
    peer_of_reply_def
  by (auto intro!: keeps_intro split: http_result.split)

lemma adds_sender [keeps_intro]:
  "keeps (adds_only h l P) (local_user_or_return h u msg)" "keeps (adds_only h l P) (shadow_sender h peer f v k)"
  unfolding local_user_or_return_def shadow_sender_def or_return_def by (intro keeps_intro)+

lemma adds_store_payloads:
  "keeps (adds_only h l (\<lambda>m. \<exists>dev \<in> set (sm_payloads p). is_copy_for p s r dev m))
     (store_payloads h p c s r b (sm_payloads p))"
  unfolding store_payloads_def
  by (rule keeps_for_each_mem [OF adds.frame_axioms]) (auto intro!: keeps_intro adds_insert_federated)

text \<open>
  The sender has the federated address; the recipient has an account of this node, which has the name
  (an account with a federated address of its own may be renamed by \<open>upsert_shadow_user\<close>).
\<close>

definition known_as :: "string \<Rightarrow> db \<Rightarrow> uuid \<Rightarrow> bool" where
  "known_as f d i \<longleftrightarrow> (\<exists>u \<in> set (t_users d). us_id u = i \<and> us_federated_address u = Some f)"

definition local_account :: "string \<Rightarrow> db \<Rightarrow> uuid \<Rightarrow> bool" where
  "local_account n d i \<longleftrightarrow> (\<exists>u \<in> set (t_users d). us_id u = i \<and> us_home_node_id u = None \<and>
     (us_federated_address u = None \<longrightarrow> us_username u = n))"

lemma users_evolve:
  assumes "evolves d d'"
  shows "known_as f d i \<Longrightarrow> known_as f d' i" "local_account n d i \<Longrightarrow> local_account n d' i"
  using assms unfolding evolves_def kept_def known_as_def local_account_def same_user_def by metis+

lemma local_user_known:
  assumes "local_user_or_return h u msg w = (Inr r, w')"
  shows "local_account u (store w') r"
  using assms by (auto simp: local_user_or_return_def try_await_Inr_iff get_local_user_id_by_username_def
      exec_select_Inr_iff ok_or_def local_user_id_def local_account_def split: option.splits dest!: find_Some_iff_mem)

lemma shadow_user_known:
  assumes "upsert_shadow_user_stmt n f hm t i d = Inr (u, d')"
  shows "known_as f d' u"
proof (cases "find (\<lambda>r. us_federated_address r = Some f) (t_users d)")
  case None
  with assms show ?thesis
    by (auto simp: upsert_shadow_user_stmt_def known_as_def split: if_splits)
next
  case (Some r)
  with assms have u: "u = us_id r" and d': "t_users d' = update_where (\<lambda>q. us_federated_address q = Some f)
      (\<lambda>q. q\<lparr>us_username := n\<rparr>) (t_users d)"
    by (auto simp: upsert_shadow_user_stmt_def split: if_splits)
  from find_Some_iff_mem [OF Some] have "r\<lparr>us_username := n\<rparr> \<in> set (t_users d')"
    by (force simp: d' update_where_def)
  with find_Some_iff_mem [OF Some] show ?thesis
    unfolding known_as_def u by (intro bexI [of _ "r\<lparr>us_username := n\<rparr>"]) simp_all
qed

lemma shadow_sender_known:
  assumes "host_ok h" "shadow_sender h peer f v k w = (Inr s, w')"
  shows "known_as f (store w') s"
proof -
  obtain w1 where 1: "upsert_shadow_user h (sender_username f) f (fn_id peer) w = (Inr s, w1)"
    and 2: "upsert_shadow_device h v s k w1 = (Inr (), w')"
    using assms(2) by (auto simp: shadow_sender_def try_await_Inr_iff)
  from 1 have "known_as f (store w1) s"
    by (auto simp: upsert_shadow_user_def exec_Inr_iff dest: shadow_user_known)
  moreover have "evolves (store w1) (store w')"
    using guarantee_evolves [OF keeps_federation(11) assms(1) 2] .
  ultimately show ?thesis
    by (rule users_evolve(1) [rotated])
qed

text \<open>What the handler adds, however it ends.\<close>

definition accepted_copy :: "s2s_message_payload \<Rightarrow> db \<Rightarrow> message_row \<Rightarrow> bool" where
  "accepted_copy p d m \<longleftrightarrow> (\<exists>sender recipient. \<exists>dev \<in> set (sm_payloads p). is_copy_for p sender recipient dev m \<and>
     known_as (sm_from_federated_address p) d sender \<and>
     local_account (sm_to_user p) d recipient)"

lemma accepted_copy_same: "same_message m m' \<Longrightarrow> accepted_copy p d m \<Longrightarrow> accepted_copy p d m'"
  unfolding accepted_copy_def by (blast intro: copies_same(2))

lemma accepted_copy_evolves: "evolves d d' \<Longrightarrow> accepted_copy p d m \<Longrightarrow> accepted_copy p d' m"
  unfolding accepted_copy_def by (blast intro: users_evolve)

lemma try_await_cases:
  assumes "try_await m k w = (r, w')"
  obtains e where "m w = (Inl e, w')" | a w1 where "m w = (Inr a, w1)" "k a w1 = (r, w')"
  using assms by (cases "m w"; cases "fst (m w)") (auto simp: try_await_def await_def ret_def)

lemma addsD:
  "keeps (adds_only h l P) m \<Longrightarrow> others_leave h l \<Longrightarrow> m w = (a, w') \<Longrightarrow> from_rows l P (store w) (store w')"
  by (drule (1) keepsD) (simp add: adds_only_def)

lemma accept_messages_adds:
  assumes "host_ok h" "others_leave h l" "accept_messages h peer p w = (r, w')"
    and "m \<in> set (t_messages (store w'))" "me_logical_msg_id m = l"
  shows "(\<exists>m0 \<in> set (t_messages (store w)). same_message m0 m) \<or> accepted_copy p (store w') m"
proof -
  let ?F = "\<lambda>m :: message_row. False"
  let ?sender = "shadow_sender h peer (sm_from_federated_address p) (sm_from_device_id p) (sm_from_identity_pubkey p)"
  let ?add = "\<lambda>c s u. or_return internal_error (store_payloads h p c s u False (sm_payloads p))"
  note leave = assms(2)
  have "from_rows l (accepted_copy p (store w')) (store w) (store w')"
  proof -
    have none: "from_rows l (accepted_copy p (store w')) d d'" if "from_rows l ?F d d'" for d d'
      using that by (auto simp: from_rows_def)
    note pre = none [OF addsD [OF _ leave]]
    show ?thesis
      using assms(3) unfolding accept_messages_def
    proof (cases rule: try_await_cases)
      case (1 e)
      then show ?thesis
        by (rule pre [OF adds_sender(1)])
    next
      case (2 u w1)
      note s1 = pre [OF adds_sender(1) 2(1)]
      from 2(2) show ?thesis
      proof (cases rule: try_await_cases)
        case (1 e)
        then show ?thesis
          by (rule from_rows_trans [OF s1 pre [OF adds_sender(2)]])
      next
        case inner: (2 s w2)
        note s2 = from_rows_trans [OF s1 pre [OF adds_sender(2) inner(1)]]
        have chat: "keeps (adds_only h l ?F) (or_return internal_error (get_or_create_direct_chat h s u))"
          unfolding or_return_def by (intro keeps_intro)
        from inner(2) show ?thesis
        proof (cases rule: try_await_cases)
          case (1 e)
          then show ?thesis
            by (rule from_rows_trans [OF s2 pre [OF chat]])
        next
          case deep: (2 c w3)
          note s3 = from_rows_trans [OF s2 pre [OF chat deep(1)]]
          from deep(2) obtain x where add: "?add c s u w3 = (x, w')"
            by (cases rule: try_await_cases) auto
          have kadd: "keeps (adds_only h l (\<lambda>m. \<exists>dev \<in> set (sm_payloads p). is_copy_for p s u dev m)) (?add c s u)"
            unfolding or_return_def by (intro keeps_intro adds_store_payloads)
          have e13: "evolves (store w1) (store w2)" "evolves (store w2) (store w3)" "evolves (store w3) (store w')"
            using guarantee_evolves [OF keeps_shadow_sender assms(1) inner(1)]
              guarantee_evolves [OF keeps_or_return(1) [OF keeps_direct_chat] assms(1) deep(1)]
              guarantee_evolves [OF keeps_or_return(1) [OF keeps_store_payloads] assms(1) add] .
          have "local_account (sm_to_user p) (store w') u" "known_as (sm_from_federated_address p) (store w') s"
            using local_user_known [OF 2(1)] shadow_sender_known [OF assms(1) inner(1)] e13
            by (blast intro: users_evolve evolves_trans)+
          with addsD [OF kadd leave add] have "from_rows l (accepted_copy p (store w')) (store w3) (store w')"
            unfolding from_rows_def accepted_copy_def by blast
          with s3 show ?thesis
            by (rule from_rows_trans)
        qed
      qed
    qed
  qed
  with assms(4,5) show ?thesis
    unfolding from_rows_def by (blast intro: accepted_copy_same)
qed

lemma acknowledged_copies:
  assumes "host_ok h" "accept_messages h peer p w = (Inr reply, w')" "dev \<in> set (sm_payloads p)"
  shows "\<exists>m \<in> set (t_messages (store w')). message_key m = Some (sm_logical_msg_id p, sd_to_device_id dev) \<and>
    (others_leave h (sm_logical_msg_id p) \<longrightarrow>
       (\<exists>m0 \<in> set (t_messages (store w)). same_message m0 m) \<or> accepted_copy p (store w') m)"
proof -
  obtain c s u b w3 where "store_payloads h p c s u False (sm_payloads p) w3 = (Inr b, w')"
    using assms(2) by (rule accept_messages_OK)
  from store_payloads_keys [OF assms(1) this assms(3)] obtain m where
    m: "m \<in> set (t_messages (store w'))" "message_key m = Some (sm_logical_msg_id p, sd_to_device_id dev)"
    by (auto simp: message_keys_def set_map_filter)
  with accept_messages_adds [OF assms(1) _ assms(2) m(1)] show ?thesis
    by (auto simp: message_key_def intro!: bexI [OF _ m(1)])
qed

text \<open>
  C3: what is acknowledged is stored. When the handler of \<^verbatim>\<open>POST /s2s/messages\<close> answers an
  authenticated peer with an acknowledgement, then whatever statements failed before and whatever
  other requests ran, the acknowledgement names the message, and for each of its recipient devices
  there is a row under the message's logical id. Unless a row with that id was there before (which a
  repeated delivery leaves as it is) or another connection stored one, the row is the message: it has the
  header and the ciphertext the peer sent for that device, the sending device, the user with the
  sender's federated address as its sender and the local account it was addressed to as its recipient.
\<close>

theorem acknowledged_is_stored:
  assumes "host_ok h" "accept_messages h peer p w = (Inr reply, w')"
  shows "(\<exists>ack. reply = Reply OK (Ack_Body ack) \<and> ack_logical_msg_id ack = sm_logical_msg_id p) \<and>
    (\<forall>dev \<in> set (sm_payloads p). \<exists>m \<in> set (t_messages (store w')).
       message_key m = Some (sm_logical_msg_id p, sd_to_device_id dev) \<and>
       (others_leave h (sm_logical_msg_id p) \<longrightarrow>
          (\<exists>m0 \<in> set (t_messages (store w)). same_message m0 m) \<or> accepted_copy p (store w') m))"
proof (intro conjI ballI)
  show "\<exists>ack. reply = Reply OK (Ack_Body ack) \<and> ack_logical_msg_id ack = sm_logical_msg_id p"
    using assms(2) by (rule accept_messages_OK) auto
qed (rule acknowledged_copies [OF assms])

section \<open>Repeated delivery\<close>

lemma local_user_quiet:
  assumes "quiet h"
  shows "local_user_or_return h u msg w =
    (ok_or (error_reply NOT_FOUND msg) (local_user_id u (store w)), w\<lparr>ticks := Suc (ticks w)\<rparr>)"
  using assms by (simp add: local_user_or_return_def or_return_def map_err_def
      get_local_user_id_by_username_def exec_select_quiet try_await_def await_def ret_def)

definition shadow_settled :: "string \<Rightarrow> string \<Rightarrow> uuid \<Rightarrow> db \<Rightarrow> bool" where
  "shadow_settled n f u d \<longleftrightarrow>
     (\<exists>r. find (\<lambda>q. us_federated_address q = Some f) (t_users d) = Some r \<and> us_id r = u) \<and>
     (\<forall>q \<in> set (t_users d). us_federated_address q = Some f \<longrightarrow> us_username q = n) \<and>
     (\<forall>q \<in> set (t_users d). us_username q = n \<longrightarrow> us_id q = u)"

lemma address_unique:
  assumes "db_ok d" "x \<in> set (t_users d)" "y \<in> set (t_users d)"
    and "us_federated_address x = Some f" "us_federated_address y = Some f"
  shows "x = y"
  using assms
  by (auto simp: db_ok_def users_ok_def List.map_filter_def distinct_map inj_on_def)

lemma shadow_user_settles:
  assumes ok: "db_ok d" and st: "upsert_shadow_user_stmt n f hm t i d = Inr (u, d')"
  shows "shadow_settled n f u d'"
proof (cases "find (\<lambda>r. us_federated_address r = Some f) (t_users d)")
  case None
  with st have "n \<notin> us_username ` set (t_users d)" "u = i" and
    d': "d' = d\<lparr>t_users := t_users d @ [\<lparr>us_id = i, us_username = n, us_created_at = Some t,
      us_home_node_id = Some hm, us_federated_address = Some f\<rparr>]\<rparr>"
    by (auto simp: upsert_shadow_user_stmt_def split: if_splits)
  moreover have "find (\<lambda>r. us_federated_address r = Some f) (t_users d') =
      Some \<lparr>us_id = i, us_username = n, us_created_at = Some t, us_home_node_id = Some hm,
        us_federated_address = Some f\<rparr>"
    by (simp add: d' find_snoc None)
  moreover have "\<forall>q \<in> set (t_users d). us_federated_address q \<noteq> Some f"
    using None by (simp add: find_None_iff)
  ultimately show ?thesis
    by (auto simp: shadow_settled_def)
next
  case (Some r)
  with st have "u = us_id r" and fresh: "\<forall>q \<in> set (t_users d). us_username q = n \<longrightarrow> us_id q = us_id r" and
    d': "d' = d\<lparr>t_users := update_where (\<lambda>q. us_federated_address q = Some f)
      (\<lambda>q. q\<lparr>us_username := n\<rparr>) (t_users d)\<rparr>"
    by (simp_all add: upsert_shadow_user_stmt_def split: if_splits, blast+)
  have only: "q = r" if "q \<in> set (t_users d)" "us_federated_address q = Some f" for q
    using address_unique [OF ok that(1)] find_Some_iff_mem [OF Some] that by blast
  have found: "find (\<lambda>q. us_federated_address q = Some f) (t_users d') = Some (r\<lparr>us_username := n\<rparr>)"
    using Some by (simp add: d' find_update_where)
  have rows: "(us_federated_address q = Some f \<longrightarrow> us_username q = n) \<and> (us_username q = n \<longrightarrow> us_id q = u)"
    if q: "q \<in> set (t_users d')" for q
  proof -
    from q obtain x where x: "x \<in> set (t_users d)"
      "q = (if us_federated_address x = Some f then x\<lparr>us_username := n\<rparr> else x)"
      by (auto simp: d' update_where_def)
    show ?thesis
      using x fresh only [OF x(1)] \<open>u = us_id r\<close> by (cases "us_federated_address x = Some f") auto
  qed
  show ?thesis
    unfolding shadow_settled_def using found rows \<open>u = us_id r\<close> by simp
qed

lemma shadow_user_again:
  assumes "shadow_settled n f u d"
  shows "upsert_shadow_user_stmt n f hm t i d = Inr (u, d)"
proof -
  have same: "q\<lparr>us_username := n\<rparr> = q" if "us_username q = n" for q :: user_row
    using that by (cases q) simp
  then have "update_where (\<lambda>q. us_federated_address q = Some f) (\<lambda>q. q\<lparr>us_username := n\<rparr>) (t_users d) = t_users d"
    using assms unfolding update_where_def by (intro map_idI) (auto simp: shadow_settled_def)
  with assms show ?thesis
    by (auto simp: upsert_shadow_user_stmt_def shadow_settled_def)
qed

lemma shadow_device_again:
  assumes "v \<in> device_ids d"
  shows "upsert_shadow_device_stmt v u k t i d = Inr ((), d)"
  using assms by (simp add: upsert_shadow_device_stmt_def)

lemma shadow_device_stored:
  "upsert_shadow_device_stmt v u k t i d = Inr (x, d') \<Longrightarrow> v \<in> device_ids d' \<and> t_users d' = t_users d"
  by (auto simp: upsert_shadow_device_stmt_def insert_device_def device_ids_def split: if_splits)

text \<open>What a successful \<open>shadow_sender\<close> leaves, and that it then has nothing more to do.\<close>

lemma shadow_sender_settles:
  assumes "quiet h" "db_ok (store w)" "shadow_sender h peer f v k w = (Inr u, w')"
  shows "shadow_settled (sender_username f) f u (store w') \<and> v \<in> device_ids (store w')"
proof -
  obtain w1 where 1: "upsert_shadow_user h (sender_username f) f (fn_id peer) w = (Inr u, w1)"
    and 2: "upsert_shadow_device h v u k w1 = (Inr (), w')"
    using assms(3) by (auto simp: shadow_sender_def try_await_Inr_iff)
  from 1 have "shadow_settled (sender_username f) f u (store w1)"
    using assms(1,2) by (auto simp: upsert_shadow_user_def exec_quiet split: sum.splits
        intro: shadow_user_settles)
  with 2 assms(1) show ?thesis
    by (auto simp: upsert_shadow_device_def exec_quiet shadow_settled_def split: sum.splits
        dest!: shadow_device_stored)
qed

lemma shadow_sender_again:
  assumes "quiet h" "shadow_settled (sender_username f) f u (store w)" "v \<in> device_ids (store w)"
  shows "shadow_sender h peer f v k w = (Inr u, w\<lparr>ticks := Suc (Suc (ticks w))\<rparr>)"
  using assms by (simp add: shadow_sender_def or_return_def map_err_def upsert_shadow_user_def
      upsert_shadow_device_def exec_quiet shadow_user_again shadow_device_again try_await_def await_def ret_def)

definition same_directory :: "db \<Rightarrow> db \<Rightarrow> bool" where
  "same_directory d d' \<longleftrightarrow> t_users d' = t_users d \<and> t_devices d' = t_devices d \<and> t_chats d' = t_chats d"

lemma ins_copy_same_directory: "ins_copy m t i d = Inr (b, d') \<Longrightarrow> same_directory d d'"
  by (cases m) (auto simp: ins_copy_def insert_federated_message_stmt_def Let_def add_message_def
      same_directory_def split: if_splits)

lemma store_payloads_same_directory:
  assumes "quiet h" "store_payloads h p c s r b devs w = (Inr b', w')"
  shows "same_directory (store w) (store w')"
  using assms(2)
proof (induction devs arbitrary: b w)
  case (Cons d devs)
  then obtain n w1 where "exec h (ins_copy (sm_logical_msg_id p, c, s, sm_from_device_id p, r,
        sd_to_device_id d, sd_header d, sd_ciphertext d)) w = (Inr n, w1)"
    and rest: "store_payloads h p c s r (b \<or> n) devs w1 = (Inr b', w')"
    by (auto simp: store_payloads_Cons)
  then have "same_directory (store w) (store w1)"
    using assms(1) by (auto simp: exec_quiet split: sum.splits dest: ins_copy_same_directory)
  with Cons.IH [OF rest] show ?case
    by (simp add: same_directory_def)
qed (simp add: same_directory_def)

lemma direct_chat_keeps:
  assumes "quiet h" "get_or_create_direct_chat h x y w = (Inr c, w')"
  shows "t_users (store w') = t_users (store w) \<and> t_devices (store w') = t_devices (store w)"
proof -
  have "t_users d' = t_users d \<and> t_devices d' = t_devices d" if "insert_direct_chat a b t i d = Inr (j, d')" for a b t i d j d'
    using that by (auto simp: insert_direct_chat_def Let_def split: if_splits)
  with assms(2) direct_chat.call_outcome [OF assms(1), of x y w c w']
    direct_chat.call_outcome [OF assms(1), of y x w c w'] show ?thesis
    by (auto simp: get_or_create_direct_chat_call split: if_splits)
qed

lemma direct_chat_again:
  assumes "quiet h" "get_or_create_direct_chat h x y w = (Inr c, w')" "t_chats (store w2) = t_chats (store w')"
  shows "get_or_create_direct_chat h x y w2 = (Inr c, w2\<lparr>ticks := Suc (ticks w2)\<rparr>)"
proof -
  have "find_direct_chat a b (store w2) = find_direct_chat a b (store w')" for a b
    using assms(3) by (simp add: find_direct_chat_def)
  then have "direct_chat.call a b h w2 = (Inr c, w2\<lparr>ticks := Suc (ticks w2)\<rparr>)"
    if "direct_chat.call a b h w = (Inr c, w')" for a b
    using direct_chat.call_found [OF assms(1) that] by (intro direct_chat.call_again [OF assms(1)]) simp
  with assms(2) show ?thesis
    by (simp add: get_or_create_direct_chat_call split: if_splits)
qed

text \<open>An address that is not filed as a local user's.\<close>

definition remote_sender :: "string \<Rightarrow> db \<Rightarrow> bool" where
  "remote_sender f d \<longleftrightarrow>
     (\<forall>q \<in> set (t_users d). us_federated_address q = Some f \<longrightarrow> us_home_node_id q \<noteq> None)"

lemma shadow_user_local:
  assumes "remote_sender f d" "upsert_shadow_user_stmt n f hm t i d = Inr (u, d')"
  shows "local_user_id name d' = local_user_id name d"
proof -
  have "find P (update_where (\<lambda>q. us_federated_address q = Some f) (\<lambda>q. q\<lparr>us_username := n\<rparr>) rs) = find P rs"
    if "P = (\<lambda>r. us_username r = name \<and> us_home_node_id r = None)"
      "\<forall>q \<in> set rs. us_federated_address q = Some f \<longrightarrow> us_home_node_id q \<noteq> None" for P and rs :: "user_row list"
    using that by (induction rs) auto
  with assms show ?thesis
    by (auto simp: upsert_shadow_user_stmt_def local_user_id_def remote_sender_def find_snoc
        split: option.splits if_splits)
qed

lemma shadow_sender_local:
  assumes "quiet h" "remote_sender f (store w)" "shadow_sender h peer f v k w = (Inr u, w')"
  shows "local_user_id name (store w') = local_user_id name (store w)"
proof -
  obtain w1 where 1: "upsert_shadow_user h (sender_username f) f (fn_id peer) w = (Inr u, w1)"
    and 2: "upsert_shadow_device h v u k w1 = (Inr (), w')"
    using assms(3) by (auto simp: shadow_sender_def try_await_Inr_iff)
  from 1 assms(1,2) have "local_user_id name (store w1) = local_user_id name (store w)"
    by (auto simp: upsert_shadow_user_def exec_quiet split: sum.splits dest: shadow_user_local)
  with 2 assms(1) show ?thesis
    by (auto simp: upsert_shadow_device_def exec_quiet local_user_id_def split: sum.splits
        dest!: shadow_device_stored)
qed

text \<open>
  C4: a repeated delivery is answered as a duplicate and changes nothing. When a peer's message has
  been accepted and the peer, having missed the answer, sends it again, the handler answers
  \<open>duplicate\<close> and leaves the database exactly as it was.
\<close>

theorem redelivery_is_duplicate:
  assumes "quiet h" "host_ok h" "db_ok (store w)"
    and "remote_sender (sm_from_federated_address p) (store w)"
    and "accept_messages h peer p w = (Inr reply, w')"
  shows "\<exists>k. accept_messages h peer p w' =
    (Inr (Reply OK (Ack_Body \<lparr>ack_logical_msg_id = sm_logical_msg_id p, ack_status = ''duplicate''\<rparr>)),
     w'\<lparr>ticks := k\<rparr>)"
proof -
  from assms(5) obtain recipient sender chat w1 w2 w3 b where
    1: "local_user_or_return h (sm_to_user p) ''recipient not found or not local to this node'' w = (Inr recipient, w1)"
    and 2: "shadow_sender h peer (sm_from_federated_address p) (sm_from_device_id p) (sm_from_identity_pubkey p) w1 =
       (Inr sender, w2)"
    and 3: "get_or_create_direct_chat h sender recipient w2 = (Inr chat, w3)"
    and 4: "store_payloads h p chat sender recipient False (sm_payloads p) w3 = (Inr b, w')"
    by (rule accept_messages_OK)
  note q = assms(1)
  let ?f = "sm_from_federated_address p" and ?v = "sm_from_device_id p"
  from 1 have rec: "local_user_id (sm_to_user p) (store w) = Some recipient" "store w1 = store w"
    by (auto simp: local_user_quiet [OF q])
  from shadow_sender_settles [OF q _ 2] rec(2) assms(3)
  have set2: "shadow_settled (sender_username ?f) ?f sender (store w2)" "?v \<in> device_ids (store w2)"
    by simp_all
  have rec2: "local_user_id (sm_to_user p) (store w2) = Some recipient"
    using shadow_sender_local [OF q _ 2] assms(4) rec by simp
  note same = direct_chat_keeps [OF q 3] store_payloads_same_directory [OF q 4, unfolded same_directory_def]
  have set4: "shadow_settled (sender_username ?f) ?f sender (store w')" "?v \<in> device_ids (store w')"
      "local_user_id (sm_to_user p) (store w') = Some recipient"
    using set2 rec2 same by (simp_all add: shadow_settled_def device_ids_def local_user_id_def)
  note keys = store_payloads_keys [OF assms(2) 4]
  show ?thesis
    using set4 same keys
    by (simp add: accept_messages_def try_await_def await_def or_return_def map_err_def ret_def
        local_user_quiet [OF q] shadow_sender_again [OF q] direct_chat_again [OF q 3]
        store_payloads_again [OF q]) (rule exI, rule refl)
qed

section \<open>From the peer to the device\<close>

lemma ins_copy_new:
  assumes "ins_copy m t i d = Inr (b, d')" "copy_key m \<notin> message_keys d"
    and "m = (l, c, fu, fd, tu, td, hdr, ct)"
  shows "new_message i t l c fu fd tu td hdr ct \<in> set (t_messages d')"
  using assms by (auto simp: ins_copy_def copy_key_def insert_federated_message_stmt_def Let_def
      add_message_def split: if_splits)

lemma ins_copy_keeps: "ins_copy m t i d = Inr (b, d') \<Longrightarrow> set (t_messages d) \<subseteq> set (t_messages d')"
  by (cases m) (auto simp: ins_copy_def insert_federated_message_stmt_def Let_def add_message_def
      split: if_splits)

lemma store_payloads_rows:
  assumes "quiet h" "store_payloads h p c s r b devs w = (Inr b', w')"
  shows "set (t_messages (store w)) \<subseteq> set (t_messages (store w')) \<and>
    (\<forall>dev \<in> set devs. distinct (map sd_to_device_id devs) \<longrightarrow>
       (sm_logical_msg_id p, sd_to_device_id dev) \<notin> message_keys (store w) \<longrightarrow>
       (\<exists>i t. new_message i t (sm_logical_msg_id p) c s (sm_from_device_id p) r (sd_to_device_id dev)
          (sd_header dev) (sd_ciphertext dev) \<in> set (t_messages (store w'))))"
  using assms(2)
proof (induction devs arbitrary: b w)
  case (Cons d devs)
  let ?m = "(sm_logical_msg_id p, c, s, sm_from_device_id p, r, sd_to_device_id d, sd_header d, sd_ciphertext d)"
  from Cons.prems obtain n w1 where ins: "exec h (ins_copy ?m) w = (Inr n, w1)"
    and rest: "store_payloads h p c s r (b \<or> n) devs w1 = (Inr b', w')"
    by (auto simp: store_payloads_Cons)
  from ins assms(1) obtain t i where st: "ins_copy ?m t i (store w) = Inr (n, store w1)"
    by (auto simp: exec_quiet split: sum.splits)
  note IH = Cons.IH [OF rest]
  have sub: "set (t_messages (store w)) \<subseteq> set (t_messages (store w'))"
    using ins_copy_keeps [OF st] IH by blast
  have keys: "message_keys (store w1) = insert (copy_key ?m) (message_keys (store w))"
    using message_table.ins_keys [OF st] by simp
  show ?case
  proof (intro conjI ballI impI sub)
    fix dev
    assume dev: "dev \<in> set (d # devs)" "distinct (map sd_to_device_id (d # devs))"
      and key: "(sm_logical_msg_id p, sd_to_device_id dev) \<notin> message_keys (store w)"
    show "\<exists>i t. new_message i t (sm_logical_msg_id p) c s (sm_from_device_id p) r (sd_to_device_id dev)
        (sd_header dev) (sd_ciphertext dev) \<in> set (t_messages (store w'))"
    proof (cases "dev = d")
      case True
      with key ins_copy_new [OF st _ refl] IH show ?thesis
        by (auto simp: copy_key_def)
    next
      case False
      with dev have "dev \<in> set devs" "sd_to_device_id dev \<noteq> sd_to_device_id d"
        by (auto simp: image_iff)
      with dev(2) key keys IH show ?thesis
        by (auto simp: copy_key_def)
    qed
  qed
qed simp

lemma shadow_sender_messages:
  assumes "quiet h" "shadow_sender h peer f v k w = (Inr u, w')"
  shows "t_messages (store w') = t_messages (store w)"
proof -
  obtain w1 where 1: "upsert_shadow_user h (sender_username f) f (fn_id peer) w = (Inr u, w1)"
    and 2: "upsert_shadow_device h v u k w1 = (Inr (), w')"
    using assms(2) by (auto simp: shadow_sender_def try_await_Inr_iff)
  from 1 assms(1) have "t_messages (store w1) = t_messages (store w)"
    by (auto simp: upsert_shadow_user_def exec_quiet upsert_shadow_user_stmt_def
        split: sum.splits option.splits if_splits)
  moreover from 2 assms(1) have "t_messages (store w') = t_messages (store w1)"
    by (auto simp: upsert_shadow_device_def exec_quiet upsert_shadow_device_stmt_def insert_device_def
        split: sum.splits if_splits)
  ultimately show ?thesis
    by simp
qed

lemma direct_chat_messages:
  assumes "quiet h" "get_or_create_direct_chat h x y w = (Inr c, w')"
  shows "t_messages (store w') = t_messages (store w)"
proof -
  have "t_messages d' = t_messages d" if "insert_direct_chat a b t i d = Inr (j, d')" for a b t i d j d'
    using that by (auto simp: insert_direct_chat_def Let_def split: if_splits)
  with assms(2) direct_chat.call_outcome [OF assms(1), of x y w c w']
    direct_chat.call_outcome [OF assms(1), of y x w c w'] show ?thesis
    by (auto simp: get_or_create_direct_chat_call split: if_splits)
qed

lemma pending_view:
  "m \<in> set (t_messages d) \<Longrightarrow> pending_for v m \<Longrightarrow> as_message_view m \<in> set (pending_messages v d)"
  by (simp add: pending_messages_def)

text \<open>
  C14: what a peer delivers is what the device collects. When a message with one ciphertext per device
  is accepted and a device has no copy of it yet, the device's next collection contains the message
  with exactly the header and the ciphertext the peer sent for that device.
\<close>

theorem delivered_payload_is_pending:
  assumes "quiet h" "accept_messages h peer p w = (Inr reply, w')"
    and "dev \<in> set (sm_payloads p)" "distinct (map sd_to_device_id (sm_payloads p))"
    and "(sm_logical_msg_id p, sd_to_device_id dev) \<notin> message_keys (store w)"
  shows "\<exists>v \<in> set (pending_messages (sd_to_device_id dev) (store w')).
    mv_logical_msg_id v = sm_logical_msg_id p \<and> mv_from_device_id v = Some (sm_from_device_id p) \<and>
    mv_header v = sd_header dev \<and> mv_ciphertext v = sd_ciphertext dev"
proof -
  note q = assms(1)
  from assms(2) obtain recipient sender chat w1 w2 w3 b where
    1: "local_user_or_return h (sm_to_user p) ''recipient not found or not local to this node'' w = (Inr recipient, w1)"
    and 2: "shadow_sender h peer (sm_from_federated_address p) (sm_from_device_id p) (sm_from_identity_pubkey p) w1 =
       (Inr sender, w2)"
    and 3: "get_or_create_direct_chat h sender recipient w2 = (Inr chat, w3)"
    and 4: "store_payloads h p chat sender recipient False (sm_payloads p) w3 = (Inr b, w')"
    by (rule accept_messages_OK)
  have "t_messages (store w3) = t_messages (store w)"
    using 1 shadow_sender_messages [OF q 2] direct_chat_messages [OF q 3] by (auto simp: local_user_quiet [OF q])
  with assms(3-5) store_payloads_rows [OF q 4] obtain i t where
    m: "new_message i t (sm_logical_msg_id p) chat sender (sm_from_device_id p) recipient (sd_to_device_id dev)
      (sd_header dev) (sd_ciphertext dev) \<in> set (t_messages (store w'))"
    by (auto simp: message_keys_def)
  show ?thesis
    by (rule bexI [OF _ pending_view [OF m]]) (simp_all add: as_message_view_def new_message_def pending_for_def)
qed

section \<open>Collecting\<close>

lemma fetch_pending_quiet:
  assumes "quiet h"
  shows "fetch_pending_messages h v w =
    (Inr (pending_messages (dv_id v) (store w)),
     w\<lparr>ticks := Suc (Suc (ticks w)),
       store := (store w)\<lparr>t_messages := update_where (pending_for (dv_id v))
         (\<lambda>m. m\<lparr>me_delivered_at := Some (db_clock h (Suc (ticks w)))\<rparr>) (t_messages (store w))\<rparr>\<rparr>)"
  using assms by (simp add: fetch_pending_messages_def exec_quiet select_def mark_delivered_stmt_def
      try_await_def await_def ret_def)

lemma filter_pending_update:
  "filter (pending_for u) (update_where (pending_for v) (\<lambda>m. m\<lparr>me_delivered_at := Some t\<rparr>) ms) =
     (if u = v then [] else filter (pending_for u) ms)"
proof (induction ms)
  case (Cons m ms)
  have "\<not> pending_for u (m\<lparr>me_delivered_at := Some t\<rparr>)" "pending_for v m \<Longrightarrow> pending_for u m \<Longrightarrow> u = v"
    by (simp_all add: pending_for_def)
  with Cons show ?case
    by auto
qed simp

text \<open>
  C15: a device collects its messages once. Where the database answers and nobody interferes, a
  collection returns every undelivered copy for the device and nothing else, the next one returns
  nothing, and what other devices can collect does not change.
\<close>

theorem collect_once:
  assumes "quiet h"
  shows "\<exists>ms w'. fetch_pending_messages h v w = (Inr ms, w') \<and>
    mset ms = mset (map as_message_view (filter (pending_for (dv_id v)) (t_messages (store w)))) \<and>
    fst (fetch_pending_messages h v w') = Inr [] \<and>
    (\<forall>u. u \<noteq> dv_id v \<longrightarrow> pending_messages u (store w') = pending_messages u (store w))"
  by (auto simp: fetch_pending_quiet [OF assms] pending_messages_def filter_pending_update mset_map
      order_asc_def)

text \<open>What the two statements of a collection see and leave, with other requests around them.\<close>

lemma fetch_effect:
  assumes "fetch_pending_messages h v w = (Inr ms, w')"
  shows "ms = pending_messages (dv_id v) (others h (ticks w) (store w))"
    and "\<exists>t. t_messages (store w') = update_where (pending_for (dv_id v)) (\<lambda>m. m\<lparr>me_delivered_at := Some t\<rparr>)
      (t_messages (others h (Suc (ticks w)) (others h (ticks w) (store w))))"
  using assms by (auto simp: fetch_pending_messages_def try_await_Inr_iff exec_select_Inr_iff exec_Inr_iff
      mark_delivered_stmt_def select_def)

definition delivered_row :: "uuid \<Rightarrow> db \<Rightarrow> bool" where
  "delivered_row i d \<longleftrightarrow> (\<exists>m \<in> set (t_messages d). me_id m = i \<and> me_delivered_at m \<noteq> None)"

lemma delivered_evolves: "evolves d d' \<Longrightarrow> delivered_row i d \<Longrightarrow> delivered_row i d'"
proof -
  assume "evolves d d'" "delivered_row i d"
  then obtain m m' where "me_id m = i" "me_delivered_at m \<noteq> None" "m' \<in> set (t_messages d')" "same_message m m'"
    unfolding evolves_def kept_def delivered_row_def by blast
  then show ?thesis
    unfolding delivered_row_def by (intro bexI [of _ m']) (auto simp: same_message_def)
qed

lemma others_evolve: "host_ok h \<Longrightarrow> evolves d (others h n d)"
  unfolding host_ok_def by (blast intro: steps_evolve)

lemma pending_not_delivered:
  assumes "db_ok d" "delivered_row i d"
  shows "i \<notin> mv_id ` set (pending_messages v d)"
proof
  assume "i \<in> mv_id ` set (pending_messages v d)"
  then obtain m where m: "m \<in> set (t_messages d)" "me_delivered_at m = None" "me_id m = i"
    by (auto simp: pending_messages_def as_message_view_def pending_for_def)
  from assms(2) obtain m' where m': "m' \<in> set (t_messages d)" "me_delivered_at m' \<noteq> None" "me_id m' = i"
    by (auto simp: delivered_row_def)
  have "inj_on me_id (set (t_messages d))"
    using assms(1) by (simp add: db_ok_def messages_ok_def distinct_map)
  with m m' have "m = m'"
    by (auto dest: inj_onD)
  with m m' show False
    by simp
qed

lemma delivered_not_fetched:
  assumes "host_ok h" "db_ok (store w)" "delivered_row i (store w)" "guarantee h w w2"
    and "fetch_pending_messages h v w2 = (Inr ms, w3)"
  shows "i \<notin> mv_id ` set ms"
proof -
  let ?d = "others h (ticks w2) (store w2)"
  have steps: "steps_upto (db_clock h (ticks w2)) (store w) (store w2)" "steps_upto (db_clock h (ticks w2)) (store w2) ?d"
    using assms(1,4) by (simp_all add: guarantee_def host_ok_def)
  then have "db_ok ?d" "delivered_row i ?d"
    using assms(2,3) by (blast intro: steps_ok steps_evolve delivered_evolves)+
  then show ?thesis
    unfolding fetch_effect(1) [OF assms(5)] by (rule pending_not_delivered)
qed

lemma fetched_is_delivered:
  assumes "host_ok h" "fetch_pending_messages h v w = (Inr ms, w')" "x \<in> set ms"
  shows "delivered_row (mv_id x) (store w')"
proof -
  let ?d = "others h (ticks w) (store w)"
  from assms(3) obtain m where m: "m \<in> set (t_messages ?d)" "pending_for (dv_id v) m" "mv_id x = me_id m"
    unfolding fetch_effect(1) [OF assms(2)] by (auto simp: pending_messages_def as_message_view_def)
  from others_evolve [OF assms(1), of ?d "Suc (ticks w)"] m(1) obtain m' where
    m': "m' \<in> set (t_messages (others h (Suc (ticks w)) ?d))" "same_message m m'"
    unfolding evolves_def kept_def by blast
  obtain t where t: "t_messages (store w') = update_where (pending_for (dv_id v)) (\<lambda>m. m\<lparr>me_delivered_at := Some t\<rparr>)
      (t_messages (others h (Suc (ticks w)) ?d))"
    using fetch_effect(2) [OF assms(2)] by blast
  show ?thesis
  proof (cases "me_delivered_at m'")
    case None
    with m'(2) m(2) have "pending_for (dv_id v) m'"
      by (auto simp: same_message_def pending_for_def)
    with m' m(3) show ?thesis
      unfolding delivered_row_def t
      by (intro bexI [of _ "m'\<lparr>me_delivered_at := Some t\<rparr>"]) (auto simp: set_update_where same_message_def)
  next
    case (Some s)
    then have "\<not> pending_for (dv_id v) m'"
      by (simp add: pending_for_def)
    with m' m(3) Some show ?thesis
      unfolding delivered_row_def t
      by (intro bexI [of _ m']) (auto simp: set_update_where same_message_def)
  qed
qed

text \<open>
  C32: what was collected is not collected again. Once a device's collection has been answered, no
  collection that begins later, of this device or another, returns any of its messages again, whatever
  requests and faults there are in between and during the collections. (Two collections that overlap may
  both return a message.)
\<close>

theorem collected_only_once:
  assumes "host_ok h" "db_ok (store w)" "fetch_pending_messages h v w = (Inr ms, w')"
    and "guarantee h w' w2" "fetch_pending_messages h v' w2 = (Inr ms', w3)"
  shows "mv_id ` set ms \<inter> mv_id ` set ms' = {}"
proof -
  have "guarantee h w w'"
    by (rule keepsD [OF keeps_messages(3) assms(3)])
  then have "db_ok (store w')"
    using assms(1,2) by (auto simp: guarantee_def intro: steps_ok)
  from delivered_not_fetched [OF assms(1) this _ assms(4,5)] fetched_is_delivered [OF assms(1,3)]
  show ?thesis
    by auto
qed

text \<open>
  C39: a message that is stored during a collection is lost. The collection reads the undelivered copies
  and marks them delivered in two statements, so a copy that another request stores between the two is
  not in the reply, is marked as delivered all the same, and no later collection returns it.
\<close>

theorem interleaved_message_is_lost:
  assumes "host_ok h" "db_ok (store w)" "fetch_pending_messages h v w = (Inr ms, w')"
    and "me_id m \<notin> me_id ` set (t_messages (others h (ticks w) (store w)))"
    and "m \<in> set (t_messages (others h (Suc (ticks w)) (others h (ticks w) (store w))))"
    and "pending_for (dv_id v) m"
  shows "me_id m \<notin> mv_id ` set ms \<and> (\<exists>t. m\<lparr>me_delivered_at := Some t\<rparr> \<in> set (t_messages (store w'))) \<and>
    (\<forall>w2 v' ms' w3. guarantee h w' w2 \<longrightarrow> fetch_pending_messages h v' w2 = (Inr ms', w3) \<longrightarrow>
       me_id m \<notin> mv_id ` set ms')"
proof -
  have "me_id m \<notin> mv_id ` set ms"
    unfolding fetch_effect(1) [OF assms(3)] using assms(4)
    by (auto simp: pending_messages_def as_message_view_def)
  moreover have marked: "\<exists>t. m\<lparr>me_delivered_at := Some t\<rparr> \<in> set (t_messages (store w'))"
  proof -
    obtain t where t: "t_messages (store w') = update_where (pending_for (dv_id v)) (\<lambda>m. m\<lparr>me_delivered_at := Some t\<rparr>)
        (t_messages (others h (Suc (ticks w)) (others h (ticks w) (store w))))"
      using fetch_effect(2) [OF assms(3)] by blast
    have "m\<lparr>me_delivered_at := Some t\<rparr> \<in> set (t_messages (store w'))"
      unfolding t set_update_where using assms(5,6) by blast
    then show ?thesis ..
  qed
  moreover have "db_ok (store w')"
    using guarantee_ok [OF keeps_messages(3) assms(1,2,3)] .
  moreover from marked obtain t where "m\<lparr>me_delivered_at := Some t\<rparr> \<in> set (t_messages (store w'))" ..
  then have "delivered_row (me_id m) (store w')"
    unfolding delivered_row_def by (intro bexI [of _ "m\<lparr>me_delivered_at := Some t\<rparr>"]) simp_all
  ultimately show ?thesis
    using delivered_not_fetched [OF assms(1)] by blast
qed

section \<open>Witnesses\<close>

lemma sample_accept_later:
  "\<exists>w'. accept_messages (sample_host network) sample_node sample_payload
     \<lparr>ticks = k, store = sample_db\<lparr>t_used_node_nonces := ns\<rparr>, sent = [], spawned = []\<rparr> =
     (Inr (Reply OK (Ack_Body \<lparr>ack_logical_msg_id = ''m1'', ack_status = ''delivered''\<rparr>)), w')"
proof -
  let ?h = "sample_host network"
  let ?w = "\<lambda>k. \<lparr>ticks = k, store = sample_db\<lparr>t_used_node_nonces := ns\<rparr>, sent = [], spawned = []\<rparr>"
  let ?c = "gen_random_uuid ?h (Suc (Suc (Suc (Suc k))))"
  have 1: "local_user_or_return ?h ''alice'' m (?w k) = (Inr 11, ?w (Suc k))" for m
    by (simp add: local_user_quiet local_user_id_def sample_rows)
  have 2: "shadow_sender ?h sample_node ''bob@b.net'' 22 key (?w (Suc k)) = (Inr 12, ?w (Suc (Suc (Suc k))))" for key
    using shadow_sender_again [of ?h "''bob@b.net''" 12 "?w (Suc k)" 22 sample_node key]
    by (simp add: shadow_settled_def sample_rows device_ids_def sender_username_def split_first_def)
  have "\<exists>d. insert_direct_chat (Some 11) (Some 12) t i (sample_db\<lparr>t_used_node_nonces := ns\<rparr>) = Inr (i, d) \<and>
      t_users d = t_users sample_db \<and> t_devices d = t_devices sample_db \<and> chat_ids d = {i} \<and> t_messages d = []" for t i
    by (simp add: insert_direct_chat_def direct_shape_def sample_rows user_ids_def chat_ids_def)
  then obtain d where d: "insert_direct_chat (Some 11) (Some 12) (db_clock ?h (Suc (Suc (Suc (Suc k))))) ?c (sample_db\<lparr>t_used_node_nonces := ns\<rparr>) = Inr (?c, d)"
    "t_users d = t_users sample_db" "t_devices d = t_devices sample_db" "chat_ids d = {?c}" "t_messages d = []"
    by blast
  let ?v = "\<lparr>ticks = Suc (Suc (Suc (Suc (Suc k)))), store = d, sent = [], spawned = []\<rparr>"
  have "find_direct_chat 11 12 (sample_db\<lparr>t_used_node_nonces := ns\<rparr>) = None"
    by (simp add: find_direct_chat_def sample_rows)
  with d(1) have 3: "get_or_create_direct_chat ?h 12 11 (?w (Suc (Suc (Suc k)))) = (Inr ?c, ?v)"
    by (simp add: get_or_create_direct_chat_def try_await_def await_def exec_quiet select_def)
  have 4: "\<exists>w'. store_payloads ?h sample_payload ?c 12 11 False (sm_payloads sample_payload) ?v = (Inr True, w')"
    using d(2-5)
    by (simp add: sample_payload_def store_payloads_Cons exec_quiet ins_copy_def insert_federated_message_stmt_def
        message_keys_def message_fks_def new_message_def user_ids_def device_ids_def)
      (auto simp: sample_rows List.map_filter_def)
  with 1 2 3 show ?thesis
    by (auto simp: accept_messages_def try_await_def await_def or_return_def map_err_def ret_def
        sample_payload_def simp del: sample_fields)
qed

lemma sample_accept:
  "\<exists>w'. accept_messages (sample_host network) sample_node sample_payload (sample_world sample_db) =
     (Inr (Reply OK (Ack_Body \<lparr>ack_logical_msg_id = ''m1'', ack_status = ''delivered''\<rparr>)), w')"
proof -
  have "sample_db\<lparr>t_used_node_nonces := []\<rparr> = sample_db"
    by (simp add: sample_db_def empty_db_def)
  with sample_accept_later [of network 0 "[]"] show ?thesis
    by (simp add: sample_world_def)
qed

lemma sample_remote: "remote_sender (sm_from_federated_address sample_payload) (store (sample_world sample_db))"
  by (simp add: remote_sender_def sample_payload_def sample_rows)

theorem acknowledged_is_stored_witness:
  "\<exists>w'. fst (accept_messages (sample_host no_network) sample_node sample_payload (sample_world sample_db)) =
       Inr (Reply OK (Ack_Body \<lparr>ack_logical_msg_id = ''m1'', ack_status = ''delivered''\<rparr>)) \<and>
     w' = snd (accept_messages (sample_host no_network) sample_node sample_payload (sample_world sample_db)) \<and>
     (\<exists>m \<in> set (t_messages (store w')). message_key m = Some (''m1'', 21) \<and> me_ciphertext m = ''c'')"
proof -
  obtain w' where w': "accept_messages (sample_host no_network) sample_node sample_payload (sample_world sample_db) =
      (Inr (Reply OK (Ack_Body \<lparr>ack_logical_msg_id = ''m1'', ack_status = ''delivered''\<rparr>)), w')"
    using sample_accept by blast
  have "t_messages (store (sample_world sample_db)) = []"
    by (simp add: sample_rows)
  with acknowledged_is_stored [OF sample_host_ok w'] unshared_leaves [OF sample_unshared] w' show ?thesis
    by (fastforce simp: sample_payload_def accepted_copy_def is_copy_for_def)
qed

theorem redelivery_witness:
  "\<exists>w' k. snd (accept_messages (sample_host no_network) sample_node sample_payload (sample_world sample_db)) = w' \<and>
     accept_messages (sample_host no_network) sample_node sample_payload w' =
       (Inr (Reply OK (Ack_Body \<lparr>ack_logical_msg_id = ''m1'', ack_status = ''duplicate''\<rparr>)), w'\<lparr>ticks := k\<rparr>)"
proof -
  obtain w' where w': "accept_messages (sample_host no_network) sample_node sample_payload (sample_world sample_db) =
      (Inr (Reply OK (Ack_Body \<lparr>ack_logical_msg_id = ''m1'', ack_status = ''delivered''\<rparr>)), w')"
    using sample_accept by blast
  have "db_ok (store (sample_world sample_db))"
    by (simp add: sample_world_def)
  from redelivery_is_duplicate [OF sample_quiet sample_host_ok this sample_remote w'] w' show ?thesis
    by (simp add: sample_payload_def)
qed

theorem delivered_payload_witness:
  "\<exists>v \<in> set (pending_messages 21 (store (snd (accept_messages (sample_host no_network) sample_node
     sample_payload (sample_world sample_db))))). mv_ciphertext v = ''c''"
proof -
  obtain w' where w': "accept_messages (sample_host no_network) sample_node sample_payload (sample_world sample_db) =
      (Inr (Reply OK (Ack_Body \<lparr>ack_logical_msg_id = ''m1'', ack_status = ''delivered''\<rparr>)), w')"
    using sample_accept by blast
  have "message_keys (store (sample_world sample_db)) = {}"
    by (simp add: message_keys_def sample_rows List.map_filter_simps)
  with delivered_payload_is_pending [OF sample_quiet w', of "\<lparr>sd_to_device_id = 21, sd_header = JNull, sd_ciphertext = ''c''\<rparr>"]
  show ?thesis
    using w' by (auto simp: sample_payload_def)
qed

definition waiting_copy :: message_copy where
  "waiting_copy = (''m1'', 104, 12, 22, 11, 21, JNull, ''c'')"

definition chat_db :: db where
  "chat_db = sample_db\<lparr>t_chats := [\<lparr>ch_id = 104, ch_chat_type = Some ''direct'', ch_user_a = Some 11,
     ch_user_b = Some 12, ch_name = None, ch_owner_id = None, ch_last_message_id = None,
     ch_created_at = Some 0, ch_updated_at = Some 0\<rparr>]\<rparr>"

definition waiting_row :: message_row where
  "waiting_row = new_message 900 (seconds 1001) ''m1'' 104 12 22 11 21 JNull ''c''"

lemma waiting_stored: "ins_copy waiting_copy (seconds 1001) 900 chat_db = Inr (True, add_message waiting_row chat_db)"
  by (simp add: ins_copy_def waiting_copy_def insert_federated_message_stmt_def Let_def message_keys_def
      message_fks_def user_ids_def device_ids_def chat_ids_def new_message_def waiting_row_def)
    (simp add: chat_db_def sample_rows List.map_filter_simps)

theorem collect_once_witness:
  "\<exists>ms. fst (fetch_pending_messages (sample_host no_network) alice_device
       (sample_world (add_message waiting_row chat_db))) = Inr ms \<and> mset ms = {#as_message_view waiting_row#}"
proof -
  have "pending_for (dv_id alice_device) waiting_row"
    by (simp add: pending_for_def waiting_row_def new_message_def alice_device_def device_row_def)
  with collect_once [OF sample_quiet, of no_network alice_device "sample_world (add_message waiting_row chat_db)"]
  show ?thesis
    by (auto simp: sample_world_def add_message_def chat_db_def sample_rows)
qed

lemma chat_db_ok: "db_ok chat_db"
  using sample_db_ok
  by (simp add: chat_db_def db_ok_def id_sets chats_ok_def chat_type_check_def direct_shape_def opt_fk_def
      messages_ok_def sessions_ok_def)
    (simp add: sample_rows List.map_filter_simps)

lemma waiting_ok: "db_ok (add_message waiting_row chat_db)"
proof -
  have "db_step (seconds 1001) chat_db (add_message waiting_row chat_db)"
    using waiting_stored unfolding ins_copy_def waiting_copy_def prod.case by (rule step_federated_message)
  then show ?thesis
    using chat_db_ok by (rule db_step_ok)
qed

text \<open>A host on which another request stores the copy between the first two statements.\<close>

definition racing_host :: host where
  "racing_host = (sample_host no_network)\<lparr>others := \<lambda>n d.
     if n = 1 then (case ins_copy waiting_copy (seconds 1001) 900 d of Inl e \<Rightarrow> d | Inr (b, d') \<Rightarrow> d') else d\<rparr>"

lemma racing_host_ok: "host_ok racing_host"
proof -
  have step: "db_step (seconds 1001) d d'" if "ins_copy waiting_copy (seconds 1001) 900 d = Inr (b, d')" for d d' b
    using that unfolding ins_copy_def waiting_copy_def prod.case by (rule step_federated_message)
  have clock: "db_clock racing_host n = seconds (1000 + int n)" for n
    by (simp add: racing_host_def)
  have "steps_upto (db_clock racing_host n) d (others racing_host n d)" for n d
  proof (cases "n = 1")
    case True
    then have "others racing_host n d = (case ins_copy waiting_copy (seconds 1001) 900 d of Inl e \<Rightarrow> d | Inr (b, d') \<Rightarrow> d')"
      by (simp add: racing_host_def)
    then show ?thesis
      using True step [of d] steps_one [of "seconds 1001"]
      by (auto simp: clock steps_none split: sum.split)
  next
    case False
    then have "others racing_host n d = d"
      by (simp add: racing_host_def)
    then show ?thesis
      by (simp add: steps_none)
  qed
  then show ?thesis
    unfolding host_ok_def by (simp add: clock)
qed

lemma racing_others [simp]: "stmt_fate racing_host n = Runs" "others racing_host 0 d = d"
    "others racing_host (Suc 0) chat_db = add_message waiting_row chat_db"
  using waiting_stored by (simp_all add: racing_host_def)

theorem interleaved_message_witness:
  "host_ok racing_host \<and>
   (\<exists>w' t. fetch_pending_messages racing_host alice_device (sample_world chat_db) = (Inr [], w') \<and>
      waiting_row\<lparr>me_delivered_at := Some t\<rparr> \<in> set (t_messages (store w')))"
proof -
  have "pending_messages (dv_id alice_device) chat_db = []"
    by (simp add: pending_messages_def chat_db_def sample_db_def empty_db_def order_asc_def)
  then have "exec racing_host (select (\<lambda>now. pending_messages (dv_id alice_device))) (sample_world chat_db) =
      (Inr [], (sample_world chat_db)\<lparr>ticks := 1\<rparr>)"
    by (simp add: exec_select_Inr_iff sample_world_def)
  moreover obtain w' where "exec racing_host (mark_delivered_stmt (dv_id alice_device))
      ((sample_world chat_db)\<lparr>ticks := 1\<rparr>) = (Inr (), w')"
    by (simp add: exec_Inr_iff mark_delivered_stmt_def)
  ultimately have w': "fetch_pending_messages racing_host alice_device (sample_world chat_db) = (Inr [], w')"
    by (simp add: fetch_pending_messages_def try_await_step)
  have pending: "pending_for (dv_id alice_device) waiting_row"
    by (simp add: pending_for_def waiting_row_def new_message_def alice_device_def device_row_def)
  have start: "db_ok (store (sample_world chat_db))" "t_messages chat_db = []" "ticks (sample_world chat_db) = 0"
    "store (sample_world chat_db) = chat_db"
    using chat_db_ok by (simp_all add: sample_world_def chat_db_def sample_db_def empty_db_def)
  have rows: "me_id waiting_row \<notin> me_id ` set (t_messages (others racing_host (ticks (sample_world chat_db))
        (store (sample_world chat_db))))"
    "waiting_row \<in> set (t_messages (others racing_host (Suc (ticks (sample_world chat_db)))
        (others racing_host (ticks (sample_world chat_db)) (store (sample_world chat_db)))))"
    by (simp_all add: start add_message_def)
  have "\<exists>t. waiting_row\<lparr>me_delivered_at := Some t\<rparr> \<in> set (t_messages (store w'))"
    using interleaved_message_is_lost [OF racing_host_ok start(1) w' rows pending] by blast
  with w' racing_host_ok show ?thesis
    by blast
qed

lemma sample_fetch: "\<exists>ms w'. fetch_pending_messages (sample_host no_network) v w = (Inr ms, w')"
  using fetch_pending_quiet [OF sample_quiet] by blast

theorem collected_only_once_witness:
  "\<exists>ms w' ms' w3. fetch_pending_messages (sample_host no_network) alice_device
       (sample_world (add_message waiting_row chat_db)) = (Inr ms, w') \<and> ms = [as_message_view waiting_row] \<and>
     fetch_pending_messages (sample_host no_network) alice_device w' = (Inr ms', w3) \<and>
     as_message_view waiting_row \<notin> set ms'"
proof -
  let ?h = "sample_host no_network" and ?w = "sample_world (add_message waiting_row chat_db)"
  obtain ms w' where f: "fetch_pending_messages ?h alice_device ?w = (Inr ms, w')"
    using sample_fetch by blast
  obtain ms' w3 where f': "fetch_pending_messages ?h alice_device w' = (Inr ms', w3)"
    using sample_fetch by blast
  have ms: "ms = [as_message_view waiting_row]"
    unfolding fetch_effect(1) [OF f]
    by (simp add: sample_world_def pending_messages_def add_message_def chat_db_def sample_db_def empty_db_def
        pending_for_def waiting_row_def new_message_def alice_device_def device_row_def order_asc_def)
  have "db_ok (store ?w)"
    using waiting_ok by (simp add: sample_world_def)
  from collected_only_once [OF sample_host_ok this f guar.frame_refl f'] f f' ms show ?thesis
    by auto
qed

end
