(* ===== verification/Device_Security.thy ===== *)
theory Device_Security
  imports Handlers Peer_Security
begin

text \<open>
  What the authentication of a client's device achieves: the requests it accepts, and which part of
  a request the device's signature covers.
\<close>

section \<open>Acceptance\<close>

lemma get_device_Inr:
  "get_device_by_identity_key h k w = (Inr r, w') \<Longrightarrow> newest_device k (t_devices (store w')) r"
  by (auto simp: get_device_by_identity_key_def exec_Inr_iff dest!: device_by_identity_key_Inr)

text \<open>The headers of a device's request, and the signature over the timestamp's text.\<close>

definition device_signed :: "host \<Rightarrow> request_parts \<Rightarrow> string \<Rightarrow> string \<Rightarrow> bool" where
  "device_signed h parts ik ts \<longleftrightarrow>
     rp_header parts ''X-Identity-Key'' = Some ik \<and> rp_header parts ''X-Timestamp'' = Some ts \<and>
     (\<exists>sig_b64 sig vk. rp_header parts ''X-Signature'' = Some sig_b64 \<and> b64_decode h sig_b64 = Some sig \<and>
        length sig = 64 \<and> b64_decode h ik = Some vk \<and> length vk = 32 \<and> vk_valid h vk \<and> ed_verify h vk ts sig)"

text \<open>A timestamp that does not parse reads as 0.\<close>

definition read_ts :: "string \<Rightarrow> i64" where
  "read_ts ts = (case parse_i64 ts of None \<Rightarrow> 0 | Some t \<Rightarrow> t)"

lemma authenticate_device_Inr_iff:
  "authenticate_device h parts w = (Inr r, w') \<longleftrightarrow>
     (\<exists>ik ts. device_signed h parts ik ts \<and>
        \<not> outside_window (word_of_nat (unix_secs h (ticks w))) (read_ts ts) 30 \<and>
        get_device_by_identity_key h ik (w\<lparr>ticks := Suc (ticks w)\<rparr>) = (Inr r, w'))"
proof
  assume "authenticate_device h parts w = (Inr r, w')"
  then show "\<exists>ik ts. device_signed h parts ik ts \<and>
      \<not> outside_window (word_of_nat (unix_secs h (ticks w))) (read_ts ts) 30 \<and>
      get_device_by_identity_key h ik (w\<lparr>ticks := Suc (ticks w)\<rparr>) = (Inr r, w')"
    by (simp add: authenticate_device_def device_signed_def read_ts_def try_await_Inr_iff await_eq_iff
        utc_now_def Let_def to_array_def vk_from_slice_def split: if_splits)
next
  assume "\<exists>ik ts. device_signed h parts ik ts \<and>
      \<not> outside_window (word_of_nat (unix_secs h (ticks w))) (read_ts ts) 30 \<and>
      get_device_by_identity_key h ik (w\<lparr>ticks := Suc (ticks w)\<rparr>) = (Inr r, w')"
  then show "authenticate_device h parts w = (Inr r, w')"
    by (elim exE conjE) (simp add: authenticate_device_def device_signed_def read_ts_def await_eq_iff
        utc_now_def to_array_def vk_from_slice_def split: option.splits)
qed

text \<open>
  C7: a request is accepted as a device's only when it carries the device's identity key, a signature
  of its timestamp that this key verifies, and a timestamp within 30 seconds of the host's clock (or
  exactly \<open>2 ^ 63\<close> seconds before it, where the subtraction overflows); the device is then the newest
  one that has this key. This holds whatever faults and concurrent requests there are.
\<close>

theorem authenticate_device_sound:
  assumes "authenticate_device h parts w = (Inr r, w')" and "unix_secs h (ticks w) < 2 ^ 62"
  shows "\<exists>ts. device_signed h parts (dv_identity_pubkey r) ts \<and>
    (\<bar>int (unix_secs h (ticks w)) - sint (read_ts ts)\<bar> \<le> 30 \<or>
       int (unix_secs h (ticks w)) - sint (read_ts ts) = 2 ^ 63) \<and>
    newest_device (dv_identity_pubkey r) (t_devices (store w')) r"
proof -
  from assms(1) obtain ik ts where ts: "device_signed h parts ik ts"
    "\<not> outside_window (word_of_nat (unix_secs h (ticks w))) (read_ts ts) 30"
    and "get_device_by_identity_key h ik (w\<lparr>ticks := Suc (ticks w)\<rparr>) = (Inr r, w')"
    unfolding authenticate_device_Inr_iff by blast
  from get_device_Inr [OF this(3)] have "newest_device ik (t_devices (store w')) r" "dv_identity_pubkey r = ik"
    by (simp_all add: newest_device_def)
  with ts outside_window_secs [OF assms(2), of 30 "read_ts ts"] show ?thesis
    by auto
qed

section \<open>What the signature covers\<close>

lemma device_signed_headers: "rp_header parts' = rp_header parts \<Longrightarrow> device_signed h parts' ik ts = device_signed h parts ik ts"
  by (simp add: device_signed_def)

text \<open>
  The credentials of a device's request are good for any request. The signature covers neither
  method nor path and no nonce is kept, so whoever sees the three headers of an accepted request can
  put them on another request, and as long as the timestamp is in the window it is accepted as the
  same device's.
\<close>

theorem device_headers_are_reusable:
  assumes "quiet h" "authenticate_device h parts w = (Inr r, w1)" "rp_header parts' = rp_header parts"
    and "rp_header parts ''X-Timestamp'' = Some (show_nat secs)" "secs < 2 ^ 62"
    and "unix_secs h (ticks w2) < 2 ^ 62" "\<bar>int (unix_secs h (ticks w2)) - int secs\<bar> \<le> 30"
    and "t_devices (store w2) = t_devices (store w)"
  shows "\<exists>w3. authenticate_device h parts' w2 = (Inr r, w3)"
proof -
  from assms(2) obtain ik ts where signed: "device_signed h parts ik ts"
    and found: "get_device_by_identity_key h ik (w\<lparr>ticks := Suc (ticks w)\<rparr>) = (Inr r, w1)"
    unfolding authenticate_device_Inr_iff by blast
  from signed assms(4) have ts: "ts = show_nat secs"
    by (simp add: device_signed_def)
  have "read_ts ts = word_of_nat secs"
    using assms(5) by (simp add: ts read_ts_def parse_i64_show_nat)
  with assms(5-7) have "\<not> outside_window (word_of_nat (unix_secs h (ticks w2))) (read_ts ts) 30"
    by (simp add: outside_window_secs sint_of_secs)
  moreover have "\<exists>w3. get_device_by_identity_key h ik (w2\<lparr>ticks := Suc (ticks w2)\<rparr>) = (Inr r, w3)"
    using found assms(1,8)
    by (auto simp: get_device_by_identity_key_def exec_quiet device_by_identity_key_stmt_def
        split: sum.splits prod.splits list.splits)
  ultimately show ?thesis
    unfolding authenticate_device_Inr_iff device_signed_headers [OF assms(3)] using signed by blast
qed

section \<open>Witnesses\<close>

definition sample_device_parts :: "string \<Rightarrow> string \<Rightarrow> request_parts" where
  "sample_device_parts meth path =
     \<lparr>rp_method = meth, rp_path_and_query = Some path,
      rp_header = map_of [(''X-Identity-Key'', alice_key), (''X-Timestamp'', show_nat 1000),
        (''X-Signature'', sample_sign alice_key (show_nat 1000))]\<rparr>"

lemma sample_device_signed:
  "device_signed (sample_host network) (sample_device_parts meth path) alice_key (show_nat 1000)"
  by (simp add: device_signed_def sample_device_parts_def sample_sign_def alice_key_def)

text \<open>Alice's request is accepted in any state of the sample host whose devices are the sample's.\<close>

lemma sample_authenticated:
  assumes "t_devices (store w) = t_devices sample_db" "ticks w \<le> 30"
  shows "\<exists>w'. authenticate_device (sample_host network) (sample_device_parts meth path) w = (Inr alice_device, w') \<and>
    store w' = store w \<and> ticks w' = Suc (Suc (ticks w)) \<and> sent w' = sent w \<and> spawned w' = spawned w"
proof -
  have r: "read_ts (show_nat 1000) = word_of_nat 1000"
    unfolding read_ts_def by (subst parse_i64_show_nat) simp_all
  have "\<not> outside_window (word_of_nat (1000 + ticks w)) (read_ts (show_nat 1000)) 30"
    unfolding r using assms(2) by (subst outside_window_secs) (simp_all add: sint_of_secs)
  moreover have "order_desc dv_created_at (filter (\<lambda>r. dv_identity_pubkey r = alice_key) (t_devices sample_db)) = [alice_device]"
    by (simp add: sample_rows alice_key_def order_desc_def)
  then have "get_device_by_identity_key (sample_host network) alice_key (w\<lparr>ticks := Suc (ticks w)\<rparr>) =
      (Inr alice_device, w\<lparr>ticks := Suc (Suc (ticks w))\<rparr>)"
    using assms(1) by (simp add: get_device_by_identity_key_def exec_quiet device_by_identity_key_stmt_def)
  ultimately show ?thesis
    unfolding authenticate_device_Inr_iff
    by (intro exI [of _ "w\<lparr>ticks := Suc (Suc (ticks w))\<rparr>"] conjI exI [of _ alice_key] exI [of _ "show_nat 1000"]
        sample_device_signed) simp_all
qed

lemma sample_as_device:
  assumes "t_devices (store w) = t_devices sample_db" "ticks w \<le> 30"
  shows "\<exists>w'. as_device (sample_host network) (sample_device_parts meth path) w = (Inr alice_device, w') \<and>
    store w' = store w \<and> ticks w' = Suc (Suc (ticks w)) \<and> sent w' = sent w \<and> spawned w' = spawned w"
  using sample_authenticated [OF assms, of network meth path] by (auto simp: as_device_def)

theorem authenticate_device_sound_witness:
  "\<exists>r w'. authenticate_device (sample_host no_network) (sample_device_parts ''GET'' ''/chats'') (sample_world sample_db) = (Inr r, w') \<and>
     newest_device alice_key (t_devices (store w')) r"
proof -
  obtain w' where w': "authenticate_device (sample_host no_network) (sample_device_parts ''GET'' ''/chats'')
      (sample_world sample_db) = (Inr alice_device, w')"
    using sample_authenticated [of "sample_world sample_db" no_network "''GET''" "''/chats''"] by (auto simp: sample_world_def)
  with authenticate_device_sound [OF w'] show ?thesis
    by (auto simp: sample_world_def alice_device_def device_row_def)
qed

theorem device_headers_witness:
  "\<exists>w1 w3. authenticate_device (sample_host no_network) (sample_device_parts ''GET'' ''/chats'') (sample_world sample_db) =
       (Inr alice_device, w1) \<and>
     authenticate_device (sample_host no_network) (sample_device_parts ''POST'' ''/messages'') w1 = (Inr alice_device, w3)"
proof -
  obtain w1 where w1: "authenticate_device (sample_host no_network) (sample_device_parts ''GET'' ''/chats'')
      (sample_world sample_db) = (Inr alice_device, w1)" "store w1 = sample_db" "ticks w1 = 2"
    using sample_authenticated [of "sample_world sample_db" no_network "''GET''" "''/chats''"]
    by (auto simp: sample_world_def)
  have "\<exists>w3. authenticate_device (sample_host no_network) (sample_device_parts ''POST'' ''/messages'') w1 = (Inr alice_device, w3)"
    by (rule device_headers_are_reusable [OF sample_quiet w1(1), of _ 1000])
      (simp_all add: sample_device_parts_def w1 sample_world_def)
  with w1(1) show ?thesis
    by blast
qed

end
