(* ===== verification/Federation_Limits.thy ===== *)
theory Federation_Limits
  imports Message_Delivery Device_Security
begin

text \<open>
  What the federation endpoints do at their edges: whose addresses a peer may use, whose entries an
  acknowledgement settles, and when a blocked node is refused.
\<close>

section \<open>The sender's address\<close>

lemma responding_as_peer:
  assumes "as_peer h st parts w = (Inr peer, w1)"
  shows "responding (try_await (as_peer h st parts) k) w = responding (k peer) w1"
  using assms by (simp add: responding_def await_def try_await_step)

text \<open>
  A remote sender whose user name is taken cannot be received. Shadow users share the table and the
  unique user names of local accounts, so when the local part of a new sender's address is already a
  user name here, the message is answered with an internal error and not stored.
\<close>

theorem username_collision_rejects:
  assumes "quiet h" "local_user_id (sm_to_user p) (store w) = Some recipient"
    and "\<forall>q \<in> set (t_users (store w)). us_federated_address q \<noteq> Some (sm_from_federated_address p)"
    and "q \<in> set (t_users (store w))" "us_username q = sender_username (sm_from_federated_address p)"
  shows "\<exists>w'. accept_messages h peer p w = (Inl internal_error, w') \<and> store w' = store w"
proof -
  let ?w1 = "w\<lparr>ticks := Suc (ticks w)\<rparr>"
  have "find (\<lambda>r. us_federated_address r = Some (sm_from_federated_address p)) (t_users (store w)) = None"
    using assms(3) by (simp add: find_None_iff)
  moreover have "sender_username (sm_from_federated_address p) \<in> us_username ` set (t_users (store w))"
    using assms(4,5) by (metis image_eqI)
  ultimately have "shadow_sender h peer (sm_from_federated_address p) (sm_from_device_id p)
      (sm_from_identity_pubkey p) ?w1 = (Inl internal_error, ?w1\<lparr>ticks := Suc (Suc (ticks w))\<rparr>)"
    using assms(1) by (simp add: shadow_sender_def or_return_def map_err_def upsert_shadow_user_def exec_quiet
        upsert_shadow_user_stmt_def try_await_def await_def ret_def)
  with assms(1,2) show ?thesis
    by (simp add: accept_messages_def local_user_quiet try_await_step)
qed

text \<open>
  Nothing ties a sender's address to the peer that sends it. Whatever node the address names, an
  unknown address with a free user name is filed as a user of the authenticated peer, and the message
  goes on as that user's.
\<close>

theorem sender_node_not_checked:
  assumes "quiet h" "fn_id peer \<in> node_ids (store w)"
    and "\<forall>q \<in> set (t_users (store w)). us_federated_address q \<noteq> Some f \<and> us_username q \<noteq> sender_username f"
    and "gen_random_uuid h (ticks w) \<notin> user_ids (store w)"
    and "v \<in> device_ids (store w)"
  shows "\<exists>w'. shadow_sender h peer f v k w = (Inr (gen_random_uuid h (ticks w)), w') \<and>
    (\<exists>r \<in> set (t_users (store w')). us_id r = gen_random_uuid h (ticks w) \<and>
       us_federated_address r = Some f \<and> us_home_node_id r = Some (fn_id peer))"
proof -
  have "find (\<lambda>r. us_federated_address r = Some f) (t_users (store w)) = None"
    using assms(3) by (auto simp: find_None_iff)
  moreover have "sender_username f \<notin> us_username ` set (t_users (store w))"
    using assms(3) by auto
  ultimately show ?thesis
    using assms(1,2,4,5)
    by (simp add: shadow_sender_def or_return_def map_err_def upsert_shadow_user_def exec_quiet
        upsert_shadow_user_stmt_def upsert_shadow_device_def upsert_shadow_device_stmt_def device_ids_def
        try_await_def await_def ret_def)
qed

text \<open>
  A peer can speak for a local user. When a local account has its own federated address on record,
  as the migration's backfill gives it, a peer that names this address as the sender is given the
  local account as the sender of the message.
\<close>

theorem peer_can_name_local_user:
  assumes "quiet h" "db_ok (store w)" "q \<in> set (t_users (store w))"
    and "us_home_node_id q = None" "us_federated_address q = Some f" "us_username q = sender_username f"
    and "v \<in> device_ids (store w)"
  shows "\<exists>w'. shadow_sender h peer f v k w = (Inr (us_id q), w')"
proof -
  have "find (\<lambda>r. us_federated_address r = Some f) (t_users (store w)) \<noteq> None"
    using assms(3,5) by (auto simp: find_None_iff)
  then obtain r where r: "find (\<lambda>r. us_federated_address r = Some f) (t_users (store w)) = Some r"
    by blast
  then have "r = q"
    using find_Some_iff_mem [OF r] address_unique [OF assms(2)] assms(3,5) by blast
  moreover have "distinct (map us_username (t_users (store w)))"
    using assms(2) by (simp add: db_ok_def users_ok_def)
  then have "\<forall>x \<in> set (t_users (store w)). us_username x = sender_username f \<longrightarrow> us_id x = us_id q"
    using assms(3,6) by (metis distinct_map_eqD)
  moreover have "\<forall>x \<in> set (t_users (store w)). us_federated_address x = Some f \<longrightarrow> us_username x = sender_username f"
    using address_unique [OF assms(2)] assms(3,5,6) by metis
  ultimately have "shadow_settled (sender_username f) f (us_id q) (store w)"
    using r by (simp add: shadow_settled_def)
  then show ?thesis
    using shadow_sender_again [OF assms(1) _ assms(7)] by blast
qed

section \<open>Acknowledgements\<close>

text \<open>
  An acknowledgement settles the message's entries for every target. The handler matches the
  logical id alone, so any authenticated peer, also one the message was never meant for, turns the
  pending entries with that id into delivered ones.
\<close>

theorem ack_settles_every_target:
  assumes "quiet h" "as_peer h st parts w = (Inr peer, w1)"
    and "e \<in> set (t_federation_outbox (store w1))" "ob_logical_msg_id e = ack_logical_msg_id a"
    and "ob_status e = ''pending''"
  shows "\<exists>w'. receive_ack h st parts a w = (Reply OK (Status_Body ''ack received''), w') \<and>
    (\<exists>e' \<in> set (t_federation_outbox (store w')). ob_id e' = ob_id e \<and>
       ob_target_node_id e' = ob_target_node_id e \<and> ob_status e' = ''delivered'')"
proof -
  let ?now = "db_clock h (ticks w1)"
  let ?rows = "update_where (\<lambda>e. ob_logical_msg_id e = ack_logical_msg_id a \<and> ob_status e = ''pending'')
    (\<lambda>e. e\<lparr>ob_status := ''delivered'', ob_last_attempt := Some ?now\<rparr>) (t_federation_outbox (store w1))"
  have row: "e\<lparr>ob_status := ''delivered'', ob_last_attempt := Some ?now\<rparr> \<in> set ?rows"
    using assms(3-5) by (auto simp: set_update_where)
  let ?w' = "w1\<lparr>ticks := Suc (ticks w1), store := (store w1)\<lparr>t_federation_outbox := ?rows\<rparr>\<rparr>"
  have "receive_ack h st parts a w = (Reply OK (Status_Body ''ack received''), ?w')"
    using assms(1) unfolding receive_ack_def responding_as_peer [OF assms(2)]
    by (simp add: responding_def or_return_def map_err_def
        mark_outbox_delivered_by_logical_id_def mark_outbox_delivered_by_logical_id_stmt_def exec_quiet
        try_await_def await_def ret_def)
  moreover have "e\<lparr>ob_status := ''delivered'', ob_last_attempt := Some ?now\<rparr> \<in> set (t_federation_outbox (store ?w'))"
    using row by simp
  then have "\<exists>e' \<in> set (t_federation_outbox (store ?w')). ob_id e' = ob_id e \<and>
       ob_target_node_id e' = ob_target_node_id e \<and> ob_status e' = ''delivered''"
    by (rule bexI [rotated]) simp
  ultimately show ?thesis
    by blast
qed

section \<open>Blocked nodes\<close>

text \<open>
  C36: a blocked node is not contacted for keys. A client that asks for the keys of a user of a node the
  operator has blocked is refused, and no request leaves this node.
\<close>

theorem blocked_node_not_contacted:
  assumes "quiet h" "as_device h parts w = (Inr device, w1)" "node_id \<noteq> this_node_id st"
    and "find_node node_id (store w1) = Some node" "fn_is_blocked node"
  shows "\<exists>w'. federated_keys h st parts username node_id w =
      (error_reply FORBIDDEN ''target node is blocked'', w') \<and> sent w' = sent w1 \<and> store w' = store w1"
proof -
  have "remote_node h st node_id w1 = (Inr node, w1\<lparr>ticks := Suc (ticks w1)\<rparr>)"
    using assms(1,4) by (simp add: remote_node_def or_return_def map_err_def get_federation_node_def
        exec_select_quiet try_await_def await_def ret_def)
  with assms(2,3,5) show ?thesis
    by (simp add: federated_keys_def responding_def try_await_step await_def ret_def)
qed

lemma exec_lost:
  assumes "others h (ticks w) = id" "stmt_fate h (ticks w) = Lost"
  shows "exec h q w = (Inl Io, w\<lparr>ticks := Suc (ticks w)\<rparr>)"
proof -
  have "w\<lparr>ticks := Suc (ticks w), store := store w\<rparr> = w\<lparr>ticks := Suc (ticks w)\<rparr>"
    by (cases w) simp
  with assms show ?thesis
    by (simp only: exec_def Let_def fate.case id_apply)
qed

lemma exec_runs:
  assumes "others h (ticks w) = id" "stmt_fate h (ticks w) = Runs"
    and "q (db_clock h (ticks w)) (gen_random_uuid h (ticks w)) (store w) = Inr (a, d)"
  shows "exec h q w = (Inr a, w\<lparr>ticks := Suc (ticks w), store := d\<rparr>)"
  using assms by (simp add: exec_Inr_iff)

text \<open>
  Sending falls open when the cache cannot be read. If the look-up of the target node fails once,
  \<^verbatim>\<open>resolve_node\<close> asks the registry and returns the refreshed record without looking at its block, so a
  message for a blocked node is queued.
\<close>

theorem resolve_node_fails_open:
  assumes "\<forall>n. others h n = id" "stmt_fate h (ticks w) = Lost" "stmt_fate h (Suc (Suc (ticks w))) = Runs"
    and "find_node node_id (store w) = Some node" "fn_is_blocked node"
    and "http_send h (Suc (ticks w)) (registry_request st node_id) = Http_Response 200 (Some body)"
  shows "\<exists>peer w'. resolve_node h st node_id w = (Inr peer, w') \<and> fn_is_blocked peer \<and>
    fn_node_id peer = node_id"
proof -
  let ?w1 = "w\<lparr>ticks := Suc (ticks w)\<rparr>"
  let ?r = "registry_request st node_id"
  let ?w2 = "w\<lparr>ticks := Suc (Suc (ticks w)), sent := sent w @ [?r]\<rparr>"
  let ?u = "\<lambda>t r. r\<lparr>fn_api_url := str_field body ''api_url'',
    fn_public_key_b64 := str_field body ''public_key_b64'', fn_last_seen := Some t\<rparr>"
  have 1: "get_federation_node h node_id w = (Inl Io, ?w1)"
    unfolding get_federation_node_def by (rule exec_lost) (simp_all add: assms(1,2))
  have 2: "send_http h ?r ?w1 = (Http_Response 200 (Some body), ?w2)"
    by (simp add: send_http_def assms(6))
  have n: "find (\<lambda>r. fn_node_id r = node_id) (t_federation_nodes (store w)) = Some node"
    using assms(4) by (simp add: find_node_def)
  have "\<exists>d. upsert_federation_node_stmt node_id (str_field body ''api_url'')
      (str_field body ''public_key_b64'') t i (store w) = Inr (?u t node, d)" for t i
    by (simp add: upsert_federation_node_stmt_def n)
  from this [of "db_clock h (ticks ?w2)" "gen_random_uuid h (ticks ?w2)"]
  obtain d where d: "upsert_federation_node_stmt node_id (str_field body ''api_url'')
      (str_field body ''public_key_b64'') (db_clock h (ticks ?w2)) (gen_random_uuid h (ticks ?w2))
      (store ?w2) = Inr (?u (db_clock h (ticks ?w2)) node, d)"
    by auto
  have "upsert_federation_node h node_id (str_field body ''api_url'') (str_field body ''public_key_b64'') ?w2
      = (Inr (?u (db_clock h (ticks ?w2)) node), ?w2\<lparr>ticks := Suc (ticks ?w2), store := d\<rparr>)"
    unfolding upsert_federation_node_def by (rule exec_runs) (simp_all add: assms(1,3) d [simplified])
  then have "resolve_node h st node_id w =
      (Inr (?u (db_clock h (ticks ?w2)) node), ?w2\<lparr>ticks := Suc (ticks ?w2), store := d\<rparr>)"
    by (simp add: resolve_node_def await_step [where m = "get_federation_node h node_id" and w = w, OF 1]
        await_step [where m = "send_http h ?r" and w = ?w1, OF 2] is_success_def)
  moreover have "fn_node_id node = node_id"
    by (rule find_node_id [OF assms(4)])
  ultimately show ?thesis
    using assms(5) by simp
qed

section \<open>Witnesses\<close>

theorem username_collision_witness:
  "\<exists>w'. accept_messages (sample_host no_network) sample_node
       (sample_payload\<lparr>sm_from_federated_address := ''alice@b.net''\<rparr>) (sample_world sample_db) =
     (Inl internal_error, w') \<and> store w' = sample_db"
proof -
  have "sender_username ''alice@b.net'' = ''alice''"
    by (simp add: sender_username_def split_first_def)
  then have "us_username sample_alice = sender_username (sm_from_federated_address
      (sample_payload\<lparr>sm_from_federated_address := ''alice@b.net''\<rparr>))"
    by (simp add: sample_rows)
  from username_collision_rejects [OF sample_quiet _ _ _ this, of "sample_world sample_db" 11 no_network sample_node]
  show ?thesis
    by (simp add: sample_rows sample_payload_def local_user_id_def)
qed

theorem sender_node_witness:
  "\<exists>u w'. shadow_sender (sample_host no_network) sample_node ''carol@c.net'' 22 ''k'' (sample_world sample_db) = (Inr u, w') \<and>
     (\<exists>r \<in> set (t_users (store w')). us_federated_address r = Some ''carol@c.net'' \<and> us_home_node_id r = Some 1)"
proof -
  have "sender_username ''carol@c.net'' = ''carol''"
    by (simp add: sender_username_def split_first_def)
  with sender_node_not_checked [OF sample_quiet, of sample_node "sample_world sample_db" "''carol@c.net''" no_network 22 "''k''"]
  show ?thesis
    by (force simp: sample_rows id_sets)
qed

definition backfilled_db :: db where
  "backfilled_db = sample_db\<lparr>t_users := [sample_alice\<lparr>us_federated_address := Some ''alice@a.net''\<rparr>, sample_bob]\<rparr>"

lemma backfilled_db_ok: "db_ok backfilled_db"
  by (simp add: backfilled_db_def db_ok_defs sample_rows alice_key_def id_sets device_key_def List.map_filter_simps)

theorem peer_can_name_local_user_witness:
  "\<exists>w'. shadow_sender (sample_host no_network) sample_node ''alice@a.net'' 21 ''k'' (sample_world backfilled_db) =
     (Inr 11, w')"
proof -
  have "sender_username ''alice@a.net'' = ''alice''"
    by (simp add: sender_username_def split_first_def)
  with peer_can_name_local_user [OF sample_quiet, of "sample_world backfilled_db"
      "sample_alice\<lparr>us_federated_address := Some ''alice@a.net''\<rparr>" "''alice@a.net''" 21 no_network sample_node "''k''"]
    backfilled_db_ok
  show ?thesis
    by (simp add: sample_world_def backfilled_db_def id_sets sample_alice_def sample_db_def alice_device_def device_row_def)
qed

theorem ack_settles_witness:
  "\<exists>w'. receive_ack (sample_host no_network) sample_state (sample_parts ''POST'' ''/s2s/ack'')
       \<lparr>ack_logical_msg_id = ''m1'', ack_status = ''delivered''\<rparr> (sample_world sample_db) =
       (Reply OK (Status_Body ''ack received''), w') \<and>
     (\<exists>e \<in> set (t_federation_outbox (store w')). ob_id e = 5 \<and> ob_status e = ''delivered'')"
proof -
  obtain w1 where w1: "authenticate_node (sample_host no_network) sample_state (sample_parts ''POST'' ''/s2s/ack'')
      (sample_world sample_db) = (Inr sample_node, w1)"
    and "nonce_kept (sample_world sample_db) w1"
    using sample_accepted by blast
  then have "t_federation_outbox (store w1) = t_federation_outbox sample_db"
    by (auto simp: nonce_kept_def sample_world_def)
  with w1 ack_settles_every_target [OF sample_quiet, of no_network sample_state "sample_parts ''POST'' ''/s2s/ack''"
      "sample_world sample_db" sample_node w1 sample_entry
      "\<lparr>ack_logical_msg_id = ''m1'', ack_status = ''delivered''\<rparr>"]
  show ?thesis
    by (auto simp: as_peer_def sample_db_def sample_entry_def)
qed

theorem blocked_node_witness:
  "\<exists>w'. federated_keys (sample_host no_network) sample_state (sample_device_parts ''GET'' ''/keys'') ''bob'' ''b.net''
       (sample_world (sample_db\<lparr>t_federation_nodes := [sample_node\<lparr>fn_is_blocked := True\<rparr>]\<rparr>)) =
     (error_reply FORBIDDEN ''target node is blocked'', w') \<and> sent w' = []"
proof -
  let ?w = "sample_world (sample_db\<lparr>t_federation_nodes := [sample_node\<lparr>fn_is_blocked := True\<rparr>]\<rparr>)"
  obtain w1 where w1: "as_device (sample_host no_network) (sample_device_parts ''GET'' ''/keys'') ?w = (Inr alice_device, w1)"
    "store w1 = store ?w" "sent w1 = []"
    using sample_as_device [of ?w no_network "''GET''" "''/keys''"] by (auto simp: sample_world_def)
  with blocked_node_not_contacted [OF sample_quiet w1(1), of "''b.net''" sample_state "sample_node\<lparr>fn_is_blocked := True\<rparr>" "''bob''"]
  show ?thesis
    by (auto simp: sample_state_def sample_world_def sample_node_def find_node_def)
qed

theorem resolve_node_fails_open_witness:
  "\<exists>peer w'. resolve_node ((sample_host (\<lambda>_. Http_Response 200 (Some JNull)))\<lparr>stmt_fate := \<lambda>n. if n = 0 then Lost else Runs\<rparr>)
       sample_state ''b.net'' (sample_world (sample_db\<lparr>t_federation_nodes := [sample_node\<lparr>fn_is_blocked := True\<rparr>]\<rparr>)) =
     (Inr peer, w') \<and> fn_is_blocked peer"
  using resolve_node_fails_open [of "(sample_host (\<lambda>_. Http_Response 200 (Some JNull)))\<lparr>stmt_fate := \<lambda>n. if n = 0 then Lost else Runs\<rparr>"
      "sample_world (sample_db\<lparr>t_federation_nodes := [sample_node\<lparr>fn_is_blocked := True\<rparr>]\<rparr>)" "''b.net''"
      "sample_node\<lparr>fn_is_blocked := True\<rparr>" sample_state JNull]
  by (auto simp: sample_world_def find_node_def sample_node_def)

end
