(* ===== verification/Sending.thy ===== *)
theory Sending
  imports Message_Delivery Device_Security
begin

text \<open>
  Sending a message: what the reply to the client promises, for a recipient of another node (the message
  is in the outbox) and for a local one (the copies are stored), and what becomes of a second try.
\<close>

section \<open>To another node\<close>

lemma enqueue_stored:
  "enqueue_outbox h n l p w = (Inr i, w') \<Longrightarrow>
     \<exists>e \<in> set (t_federation_outbox (store w')). ob_id e = i \<and> ob_target_node_id e = n \<and>
       ob_logical_msg_id e = l \<and> ob_payload e = p \<and> ob_status e = ''pending'' \<and> ob_attempt_count e = 0"
  by (auto simp: enqueue_outbox_def exec_Inr_iff enqueue_outbox_stmt_def split: if_splits)

lemma handle_federated_OK:
  assumes "handle_federated_message h st v m user to node_id w = (Inr reply, w')"
  obtains name node w1 w2 i w3 where
    "username_or_return (error_reply INTERNAL_SERVER_ERROR ''cannot resolve sender identity'') h user w = (Inr name, w1)"
    "resolve_node h st node_id w1 = (Inr node, w2)"
    "enqueue_outbox h node_id (og_logical_msg_id m)
       (message_payload_to_json (uuid_show h) (s2s_payload_of st v m name to)) w2 = (Inr i, w3)"
    "w' = w3\<lparr>spawned := spawned w3 @ [Deliver_Now (fn_api_url node) (s2s_payload_of st v m name to) i]\<rparr>"
    "reply = Reply ACCEPTED (Status_Body ''queued'')"
  using assms
  by (auto simp: handle_federated_message_def try_await_Inr_iff await_eq_iff Let_def spawn_def)

lemma queued_entry:
  assumes "crypto_laws h" "remote_address st (og_to_user_address m) = Some (to, node_id)"
    and "send_message_as h st v m w = (Inr reply, w')"
  shows "reply = Reply ACCEPTED (Status_Body ''queued'') \<and>
    (\<exists>e \<in> set (t_federation_outbox (store w')). \<exists>name url.
       ob_target_node_id e = node_id \<and> ob_logical_msg_id e = og_logical_msg_id m \<and> ob_status e = ''pending'' \<and>
       message_payload_of_json (uuid_parse h) (ob_payload e) = Some (s2s_payload_of st v m name to) \<and>
       Deliver_Now url (s2s_payload_of st v m name to) (ob_id e) \<in> set (spawned w'))"
proof -
  have "handle_federated_message h st v m (dv_user_id v) to node_id w = (Inr reply, w')"
    using assms(2,3) by (simp add: send_message_as_def)
  then show ?thesis
  proof (rule handle_federated_OK)
    fix name node w1 w2 i w3
    let ?p = "s2s_payload_of st v m name to"
    assume enq: "enqueue_outbox h node_id (og_logical_msg_id m) (message_payload_to_json (uuid_show h) ?p) w2 = (Inr i, w3)"
      and w': "w' = w3\<lparr>spawned := spawned w3 @ [Deliver_Now (fn_api_url node) ?p i]\<rparr>"
      and reply: "reply = Reply ACCEPTED (Status_Body ''queued'')"
    have "message_payload_of_json (uuid_parse h) (message_payload_to_json (uuid_show h) ?p) = Some ?p"
      using assms(1) by (intro message_payload_roundtrip) (simp add: crypto_laws_def)
    with enqueue_stored [OF enq] reply show ?thesis
      unfolding w' by fastforce
  qed
qed

text \<open>
  An accepted message is in the outbox. When a message for a user of another node is answered with
  ACCEPTED, then whatever failed and whatever else ran, there is a pending entry for that node whose
  payload reads back as the message, under the sender's federated address and device, and a task to
  deliver it at once is spawned.
\<close>

theorem accepted_is_queued:
  assumes "crypto_laws h" "remote_address st (og_to_user_address m) = Some (to, node_id)"
    and "send_message_as h st v m w = (Inr reply, w')"
  shows "reply = Reply ACCEPTED (Status_Body ''queued'') \<and>
    (\<exists>e \<in> set (t_federation_outbox (store w')). \<exists>name url.
       ob_target_node_id e = node_id \<and> ob_logical_msg_id e = og_logical_msg_id m \<and> ob_status e = ''pending'' \<and>
       message_payload_of_json (uuid_parse h) (ob_payload e) = Some (s2s_payload_of st v m name to) \<and>
       Deliver_Now url (s2s_payload_of st v m name to) (ob_id e) \<in> set (spawned w'))"
  by (rule queued_entry [OF assms])

section \<open>To a user of this node\<close>

lemma copies_evolve:
  assumes "evolves d d'" "m \<in> set (t_messages d)" "is_copy_of v u msg p m"
  shows "\<exists>m' \<in> set (t_messages d'). is_copy_of v u msg p m'"
  using assms by (auto simp: evolves_def kept_def dest!: bspec dest: copies_same(1))

lemma insert_message_copies:
  assumes "host_ok h" "for_each (\<lambda>_ p. exec h (insert_message_stmt (og_logical_msg_id msg) (og_chat_id msg) fu fd
      (og_to_user_id msg) (om_to_device_id p) (om_header p) (om_ciphertext p))) u ps w = (Inr u', w')" "p \<in> set ps"
  shows "\<exists>m \<in> set (t_messages (store w')). is_copy_of fd fu msg p m"
  using assms(2,3)
proof (induction ps arbitrary: u w)
  case (Cons q ps)
  let ?call = "\<lambda>_ p. exec h (insert_message_stmt (og_logical_msg_id msg) (og_chat_id msg) fu fd (og_to_user_id msg)
    (om_to_device_id p) (om_header p) (om_ciphertext p))"
  from Cons.prems obtain x w1 where q: "?call u q w = (Inr x, w1)"
    and rest: "for_each ?call x ps w1 = (Inr u', w')"
    by (auto simp: try_await_Inr_iff)
  have "keeps (guarantee h) (for_each ?call x ps)"
    by (intro guar.keeps_for_each keeps_exec) (blast intro: db_step.intros)
  note later = guarantee_evolves [OF this assms(1) rest]
  have "\<exists>m \<in> set (t_messages (store w1)). is_copy_of fd fu msg q m"
    using q by (auto simp: exec_Inr_iff insert_message_stmt_def Let_def add_message_def is_copy_of_def
        new_message_def split: if_splits)
  with later have "\<exists>m \<in> set (t_messages (store w')). is_copy_of fd fu msg q m"
    by (blast intro: copies_evolve)
  with Cons.IH [OF rest] Cons.prems(2) show ?case
    by auto
qed simp

lemma sent_copies:
  assumes "host_ok h" "remote_address st (og_to_user_address m) = None"
    and "send_message_as h st v m w = (Inr reply, w')"
  shows "reply = Reply OK (Const_Body ''success'' ''true'') \<and>
    (\<forall>p \<in> set (og_payloads m). \<exists>r \<in> set (t_messages (store w')). is_copy_of (dv_id v) (dv_user_id v) m p r)"
  using assms(2,3) insert_message_copies [OF assms(1)]
  by (auto simp: send_message_as_def try_await_Inr_iff insert_message_def)

text \<open>
  C23: a message that is reported as sent is stored, whole, for every device it names. Whatever failed
  before and whatever else ran, there is for each of its payloads a row with the payload's header and
  ciphertext, to that device and the message's recipient, from the authenticated device and its user,
  under the message's logical id and chat.
\<close>

theorem sent_is_stored:
  assumes "host_ok h" "remote_address st (og_to_user_address m) = None"
    and "send_message_as h st v m w = (Inr reply, w')"
  shows "reply = Reply OK (Const_Body ''success'' ''true'') \<and>
    (\<forall>p \<in> set (og_payloads m). \<exists>r \<in> set (t_messages (store w')).
       me_logical_msg_id r = og_logical_msg_id m \<and> me_chat_id r = Some (og_chat_id m) \<and>
       me_from_user_id r = Some (dv_user_id v) \<and> me_from_device_id r = Some (dv_id v) \<and>
       me_to_user_id r = Some (og_to_user_id m) \<and> me_to_device_id r = Some (om_to_device_id p) \<and>
       me_header r = om_header p \<and> me_ciphertext r = om_ciphertext p)"
  using sent_copies [OF assms] by (simp add: is_copy_of_def)

text \<open>
  A partly stored message cannot be sent again. The copies of a message are inserted one by one,
  outside a transaction and without skipping those that are there; so when a first try failed after its
  first copy, every repetition fails at that copy, and the other devices never get theirs.
\<close>

theorem resend_is_refused:
  assumes "quiet h" "remote_address st (og_to_user_address m) = None" "og_payloads m = p # ps"
    and "(og_logical_msg_id m, om_to_device_id p) \<in> message_keys (store w)"
  shows "send_message_as h st v m w =
    (Inl (error_reply INTERNAL_SERVER_ERROR ''internal server error''), w\<lparr>ticks := Suc (ticks w)\<rparr>)"
  using assms by (simp add: send_message_as_def insert_message_def or_return_def map_err_def exec_quiet
      insert_message_stmt_def Let_def try_await_def await_def ret_def)

section \<open>The two look-ups of a node\<close>

text \<open>
  C31: the two copies of the look-up of a target node agree. Where the cache answers and does not hold a
  blocked record, the look-up before a message and the one before a key request do the same, over the
  cache, the registry and every failure of it.
\<close>

theorem lookups_agree:
  assumes "get_federation_node h n w = (Inr found, w1)" "\<And>r. found = Some r \<Longrightarrow> \<not> fn_is_blocked r"
  shows "resolve_node h st n w = remote_node h st n w"
  using assms
  by (cases found) (simp_all add: resolve_node_def remote_node_def await_def try_await_def or_return_def map_err_def
      ret_def node_from_registry_def cong: http_result.case_cong)

section \<open>Witnesses\<close>

definition alice_message :: "string option \<Rightarrow> outgoing_message" where
  "alice_message address = \<lparr>og_chat_id = 104, og_logical_msg_id = ''m1'', og_to_user_id = 12, og_to_user_address = address,
     og_payloads = [\<lparr>om_to_device_id = 22, om_header = JNull, om_ciphertext = ''c''\<rparr>]\<rparr>"

lemma bob_remote: "remote_address sample_state (Some ''bob@b.net'') = Some (''bob'', ''b.net'')"
proof -
  have "parse_federated_address ''bob@b.net'' = Some (''bob'', ''b.net'')"
    by (simp add: parse_Some_iff format_address_def)
  then show ?thesis
    by (simp add: remote_address_def sample_state_def)
qed

lemma sample_resolve_node:
  assumes "quiet h" "find_node n (store w) = Some node" "\<not> fn_is_blocked node"
  shows "resolve_node h st n w = (Inr node, w\<lparr>ticks := Suc (ticks w)\<rparr>)"
  using assms by (simp add: resolve_node_def get_federation_node_def exec_select_quiet await_def ret_def)

lemma sample_username:
  "user_by_id i (store w) = Some u \<Longrightarrow> quiet h \<Longrightarrow>
     username_or_return e h i w = (Inr (u_username u), w\<lparr>ticks := Suc (ticks w)\<rparr>)"
  by (simp add: username_or_return_def find_user_by_id_def exec_select_quiet await_def ret_def)

lemma alice_sends:
  "\<exists>w'. send_message_as (sample_host no_network) sample_state alice_device (alice_message (Some ''bob@b.net''))
     (sample_world sample_db) = (Inr (Reply ACCEPTED (Status_Body ''queued'')), w')"
proof -
  let ?w = "\<lambda>k. \<lparr>ticks = k, store = sample_db, sent = [], spawned = []\<rparr>"
  have name: "username_or_return e (sample_host no_network) 11 (?w 0) = (Inr ''alice'', ?w (Suc 0))" for e :: reply
  proof -
    have "user_by_id 11 (store (?w 0)) = Some (as_user sample_alice)" "u_username (as_user sample_alice) = ''alice''"
      by (simp_all add: user_by_id_def sample_rows as_user_def)
    with sample_username [OF this(1) sample_quiet] show ?thesis
      by simp
  qed
  have node: "resolve_node (sample_host no_network) sample_state ''b.net'' (?w (Suc 0)) = (Inr sample_node, ?w (Suc (Suc 0)))"
  proof -
    have "find_node ''b.net'' (store (?w (Suc 0))) = Some sample_node" "\<not> fn_is_blocked sample_node"
      by (simp_all add: find_node_def sample_rows)
    with sample_resolve_node [OF sample_quiet this] show ?thesis
      by simp
  qed
  have "\<exists>d. enqueue_outbox_stmt ''b.net'' l p t 102 sample_db = Inr (102, d)" for l p t
    by (simp add: enqueue_outbox_stmt_def sample_rows)
  then have "\<exists>w'. enqueue_outbox (sample_host no_network) ''b.net'' l p (?w (Suc (Suc 0))) = (Inr 102, w')" for l p
    by (auto simp: enqueue_outbox_def exec_quiet split: sum.split) (metis Inl_Inr_False Inr_inject prod.inject)+
  then obtain w' where "enqueue_outbox (sample_host no_network) ''b.net'' ''m1''
      (message_payload_to_json (uuid_show (sample_host no_network)) (s2s_payload_of sample_state alice_device
        (alice_message (Some ''bob@b.net'')) ''alice'' ''bob'')) (?w (Suc (Suc 0))) = (Inr 102, w')"
    by blast
  then have "\<exists>w'. handle_federated_message (sample_host no_network) sample_state alice_device
      (alice_message (Some ''bob@b.net'')) 11 ''bob'' ''b.net'' (?w 0) =
      (Inr (Reply ACCEPTED (Status_Body ''queued'')), w')"
    by (simp add: handle_federated_message_def try_await_def await_def ret_def or_return_def map_err_def name node
        alice_message_def spawn_def Let_def)
  then show ?thesis
    by (simp add: send_message_as_def alice_message_def bob_remote sample_world_def)
      (simp add: alice_device_def device_row_def)
qed

theorem accepted_is_queued_witness:
  "\<exists>e \<in> set (t_federation_outbox (store (snd (send_message_as (sample_host no_network) sample_state alice_device
     (alice_message (Some ''bob@b.net'')) (sample_world sample_db))))).
     ob_target_node_id e = ''b.net'' \<and> ob_logical_msg_id e = ''m1'' \<and> ob_status e = ''pending''"
proof -
  obtain w' where w': "send_message_as (sample_host no_network) sample_state alice_device
      (alice_message (Some ''bob@b.net'')) (sample_world sample_db) = (Inr (Reply ACCEPTED (Status_Body ''queued'')), w')"
    using alice_sends by blast
  have "remote_address sample_state (og_to_user_address (alice_message (Some ''bob@b.net''))) = Some (''bob'', ''b.net'')"
    by (simp add: alice_message_def bob_remote)
  from accepted_is_queued [OF sample_crypto_laws this w'] w' show ?thesis
    by (auto simp: alice_message_def)
qed

text \<open>A direct message to Bob's device, in the chat of Alice and Bob.\<close>

lemma alice_local: "remote_address st (og_to_user_address (alice_message None)) = None"
  by (simp add: remote_address_def alice_message_def)

lemma alice_writes:
  "\<exists>w'. send_message_as (sample_host no_network) sample_state alice_device (alice_message None)
     (sample_world chat_db) = (Inr (Reply OK (Const_Body ''success'' ''true'')), w')"
  unfolding send_message_as_def alice_local
  by (simp add: alice_message_def insert_message_def or_return_def map_err_def exec_quiet insert_message_stmt_def Let_def
      try_await_def await_def ret_def message_keys_def message_fks_def new_message_def user_ids_def device_ids_def
      chat_ids_def)
    (simp add: chat_db_def sample_rows List.map_filter_simps)

theorem sent_is_stored_witness:
  "\<exists>r \<in> set (t_messages (store (snd (send_message_as (sample_host no_network) sample_state alice_device
     (alice_message None) (sample_world chat_db))))).
     me_to_device_id r = Some 22 \<and> me_from_user_id r = Some 11 \<and> me_ciphertext r = ''c''"
proof -
  obtain w' where w': "send_message_as (sample_host no_network) sample_state alice_device (alice_message None)
     (sample_world chat_db) = (Inr (Reply OK (Const_Body ''success'' ''true'')), w')"
    using alice_writes by blast
  from sent_is_stored [OF sample_host_ok alice_local w'] w' show ?thesis
    by (auto simp: alice_message_def alice_device_def device_row_def)
qed

theorem resend_is_refused_witness:
  "\<exists>w' k. snd (send_message_as (sample_host no_network) sample_state alice_device (alice_message None)
       (sample_world chat_db)) = w' \<and>
     send_message_as (sample_host no_network) sample_state alice_device (alice_message None) w' =
       (Inl (error_reply INTERNAL_SERVER_ERROR ''internal server error''), w'\<lparr>ticks := k\<rparr>)"
proof -
  obtain w' where w': "send_message_as (sample_host no_network) sample_state alice_device (alice_message None)
     (sample_world chat_db) = (Inr (Reply OK (Const_Body ''success'' ''true'')), w')"
    using alice_writes by blast
  let ?p = "\<lparr>om_to_device_id = 22, om_header = JNull, om_ciphertext = ''c''\<rparr>"
  have key: "(og_logical_msg_id (alice_message None), om_to_device_id ?p) \<in> message_keys (store w')"
  proof -
    have "?p \<in> set (og_payloads (alice_message None))"
      by (simp add: alice_message_def)
    then obtain r where "r \<in> set (t_messages (store w'))"
      "is_copy_of (dv_id alice_device) (dv_user_id alice_device) (alice_message None) ?p r"
      using sent_copies [OF sample_host_ok alice_local w'] by blast
    then show ?thesis
      by (force simp: message_keys_def set_map_filter message_key_def is_copy_of_def)
  qed
  have "og_payloads (alice_message None) = [\<lparr>om_to_device_id = 22, om_header = JNull, om_ciphertext = ''c''\<rparr>]"
    by (simp add: alice_message_def)
  from resend_is_refused [OF sample_quiet alice_local this key] w' show ?thesis
    by simp blast
qed

theorem lookups_agree_witness:
  "resolve_node (sample_host no_network) sample_state ''c.net'' (sample_world sample_db) =
   remote_node (sample_host no_network) sample_state ''c.net'' (sample_world sample_db)"
proof (rule lookups_agree)
  show "get_federation_node (sample_host no_network) ''c.net'' (sample_world sample_db) =
      (Inr None, (sample_world sample_db)\<lparr>ticks := 1\<rparr>)"
    by (simp add: get_federation_node_def exec_select_quiet find_node_def) (simp add: sample_rows)
qed simp

end
