(* ===== verification/Session_Controller.thy ===== *)
theory Session_Controller
  imports Messages_Controller
begin

text \<open>
  \<^verbatim>\<open>src/controllers/session_controller.rs\<close>: starting X3DH sessions (locally or on a peer node),
  listing the pending ones of a device and confirming one.
\<close>

record session_init =
  in_recipient_device_id :: uuid
  in_ephemeral_pubkey :: string
  in_sender_prekey_pub :: string
  in_otpk_used :: string
  in_ciphertext :: string

record create_session_body =
  cs_recipient_user_id :: uuid
  cs_recipient_user_address :: "string option"
  cs_sessions_init :: "session_init list"

record confirm_session_body =
  cf_pending_session_id :: uuid
  cf_sender_device_id :: uuid
  cf_receiver_device_id :: uuid

definition s2s_session_of ::
  "app_state \<Rightarrow> devices \<Rightarrow> create_session_body \<Rightarrow> string \<Rightarrow> string \<Rightarrow> s2s_session_payload" where
  "s2s_session_of st sender payload sender_name to_username =
     \<lparr>sp_from_federated_address = format_address sender_name (this_node_id st),
      sp_from_device_id = dv_id sender,
      sp_from_identity_pubkey = dv_identity_pubkey sender,
      sp_to_user = to_username,
      sp_sessions_init = map (\<lambda>i. \<lparr>si_recipient_device_id = in_recipient_device_id i,
          si_ephemeral_pubkey = in_ephemeral_pubkey i, si_sender_prekey_pub = in_sender_prekey_pub i,
          si_otpk_used = in_otpk_used i, si_ciphertext = in_ciphertext i\<rparr>) (cs_sessions_init payload)\<rparr>"

text \<open>\<^verbatim>\<open>Result<Response, ()>\<close>: every failure after the sender is found is itself a response.\<close>

definition handle_federated_session ::
  "host \<Rightarrow> app_state \<Rightarrow> devices \<Rightarrow> create_session_body \<Rightarrow> string \<Rightarrow> string \<Rightarrow> world \<Rightarrow> (unit + reply) \<times> world" where
  "handle_federated_session h st sender payload to_username target_node_id =
     try_await (username_or_return () h (dv_user_id sender)) (\<lambda>sender_name.
     await (resolve_node h st target_node_id) (\<lambda>found.
     case found of
       Inl resp \<Rightarrow> ret (Inr resp)
     | Inr node \<Rightarrow>
         await (forward_session h (new_client st) (fn_api_url node)
           (s2s_session_of st sender payload sender_name to_username)) (\<lambda>r.
         case r of
           Inl e \<Rightarrow> ret (Inr (error_reply BAD_GATEWAY ''failed to reach target node''))
         | Inr _ \<Rightarrow> ret (Inr (Reply ACCEPTED (Status_Body ''forwarded''))))))"

text \<open>
  The transaction is begun and committed but the inserts run on the pool, each on its own; begin
  and commit are statements that change nothing.
\<close>

definition transaction_stmt :: "unit stmt" where
  "transaction_stmt = select (\<lambda>_ _. ())"

definition create_local_session ::
  "host \<Rightarrow> devices \<Rightarrow> create_session_body \<Rightarrow> world \<Rightarrow> (reply + reply) \<times> world" where
  "create_local_session h sender payload =
     (if dv_user_id sender = cs_recipient_user_id payload
      then ret (Inl (plain_error (BAD_REQUEST, ''Cannot create session with self'')))
      else
        try_await (or_return (plain_error (INTERNAL_SERVER_ERROR, ''Failed to start transaction''))
          (exec h transaction_stmt)) (\<lambda>_.
        try_await (or_return (plain_error (INTERNAL_SERVER_ERROR, ''Failed to insert pending session''))
          (for_each (\<lambda>_ i.
             create_pending_session h (dv_id sender) (in_recipient_device_id i) (in_ephemeral_pubkey i)
               (in_sender_prekey_pub i) (in_otpk_used i) (in_ciphertext i)) ()
             (cs_sessions_init payload))) (\<lambda>_.
        try_await (or_return (plain_error (INTERNAL_SERVER_ERROR, ''Failed to commit''))
          (exec h transaction_stmt)) (\<lambda>_.
          ret (Inr (Reply CREATED (Status_Body ''ok'')))))))"

definition create_session :: "host \<Rightarrow> app_state \<Rightarrow> request_parts \<Rightarrow> create_session_body \<Rightarrow> handler" where
  "create_session h st parts payload =
     responding (try_await (as_device h parts) (\<lambda>sender.
       case remote_address st (cs_recipient_user_address payload) of
         Some (username, node_id) \<Rightarrow>
           or_return (plain_error (BAD_GATEWAY, ''failed to forward session''))
             (handle_federated_session h st sender payload username node_id)
       | None \<Rightarrow> create_local_session h sender payload))"

definition get_pending_sessions_handler :: "host \<Rightarrow> request_parts \<Rightarrow> handler" where
  "get_pending_sessions_handler h parts =
     responding (try_await (as_device h parts) (\<lambda>device.
       try_await (or_return (plain_error (INTERNAL_SERVER_ERROR, ''Failed to fetch pending sessions''))
         (get_pending_sessions h device)) (\<lambda>sessions.
         ret (Inr (Reply OK (Sessions_Body sessions))))))"

definition confirm_session_as ::
  "host \<Rightarrow> devices \<Rightarrow> confirm_session_body \<Rightarrow> world \<Rightarrow> (reply + reply) \<times> world" where
  "confirm_session_as h device payload =
     try_await (or_return (plain_error (INTERNAL_SERVER_ERROR, ''DB error''))
       (get_pending_session_by_id h (cf_pending_session_id payload) (dv_id device))) (\<lambda>pending.
     case pending of
       None \<Rightarrow> ret (Inl (plain_error (NOT_FOUND, ''Pending session not found or not owned by device'')))
     | Some ps \<Rightarrow>
         try_await (or_return (plain_error (INTERNAL_SERVER_ERROR, ''Failed to get or create chat''))
           (get_or_create_chat_id h (cf_sender_device_id payload) (cf_receiver_device_id payload)))
         (\<lambda>chat_id.
         try_await (or_return (plain_error (INTERNAL_SERVER_ERROR, ''Failed to insert session''))
           (insert_or_update_session h chat_id (cf_sender_device_id payload)
             (cf_receiver_device_id payload))) (\<lambda>_.
         try_await (or_return (plain_error (INTERNAL_SERVER_ERROR, ''Failed to delete pending session''))
           (delete_pending_session h (cf_pending_session_id payload))) (\<lambda>_.
           ret (Inr (Reply CREATED (Status_Body ''session confirmed'')))))))"

definition confirm_session :: "host \<Rightarrow> request_parts \<Rightarrow> confirm_session_body \<Rightarrow> handler" where
  "confirm_session h parts payload =
     responding (try_await (as_device h parts) (\<lambda>device. confirm_session_as h device payload))"

section \<open>Frames\<close>

lemma keeps_handle_federated_session [keeps_intro]:
  "keeps (guarantee h) (handle_federated_session h st v p u n)"
  unfolding handle_federated_session_def by (intro keeps_intro)

lemma keeps_create_local_session [keeps_intro]: "keeps (guarantee h) (create_local_session h v p)"
  unfolding create_local_session_def transaction_stmt_def by (intro keeps_intro)

lemma keeps_confirm_session_as [keeps_intro]: "keeps (guarantee h) (confirm_session_as h v p)"
  unfolding confirm_session_as_def by (intro keeps_intro)

lemma keeps_session_handlers [keeps_intro]:
  "keeps (guarantee h) (create_session h st parts p)"
  "keeps (guarantee h) (get_pending_sessions_handler h parts)"
  "keeps (guarantee h) (confirm_session h parts q)"
  "keeps (read_only h) (get_pending_sessions_handler h parts)"
  unfolding create_session_def get_pending_sessions_handler_def confirm_session_def
  by (intro keeps_intro)+

end
