(* ===== verification/User_Controller.thy ===== *)
theory User_Controller
  imports Handlers
begin

text \<open>
  \<^verbatim>\<open>src/controllers/user_controller.rs\<close>, \<^verbatim>\<open>chats_controller.rs\<close> and \<^verbatim>\<open>root_controller.rs\<close>: accounts,
  the chat list, and the two greetings.
\<close>

record login_user_body =
  lg_identity_pubkey :: string
  lg_message :: string
  lg_signature :: string

text \<open>\<^verbatim>\<open>get_all_users(..).await.unwrap()\<close>\<close>

definition list_users :: "host \<Rightarrow> handler" where
  "list_users h =
     await (get_all_users h) (\<lambda>r.
       ret (case r of Inl e \<Rightarrow> Panic | Inr users \<Rightarrow> Reply OK (Users_Body users)))"

definition create_user_error :: "sql_error \<Rightarrow> reply" where
  "create_user_error e =
     (if e = unique_violation then error_reply CONFLICT ''User already exists''
      else error_reply INTERNAL_SERVER_ERROR ''Error creating user'')"

definition create_user :: "host \<Rightarrow> app_state \<Rightarrow> string \<Rightarrow> handler" where
  "create_user h st username =
     responding (try_await (map_err create_user_error (insert_user h username)) (\<lambda>user.
       await (generate_enrollment_tokens h (u_id user) (jwt_secret st)) (\<lambda>token.
         ret (Inr (case token of None \<Rightarrow> Panic | Some t \<Rightarrow> Reply CREATED (New_User_Body user t))))))"

definition login_user :: "host \<Rightarrow> login_user_body \<Rightarrow> handler" where
  "login_user h payload =
     responding (
       try_await (or_return (error_reply UNAUTHORIZED ''Invalid signature'')
         (ret (verify_message_signature h (lg_identity_pubkey payload) (lg_message payload)
           (lg_signature payload)))) (\<lambda>_.
       try_await (or_return (error_reply UNAUTHORIZED ''Unauthorized'')
         (find_user_by_pubkey h (lg_identity_pubkey payload))) (\<lambda>user.
         ret (Inr (Reply OK (User_Body user))))))"

definition get_user_by_id :: "host \<Rightarrow> uuid \<Rightarrow> handler" where
  "get_user_by_id h user_id =
     responding (try_await (or_return (error_reply INTERNAL_SERVER_ERROR ''Internal server error'')
       (find_user_by_id h user_id)) (\<lambda>data. ret (Inr (Reply OK (User_Body data)))))"

definition get_all_chats :: "host \<Rightarrow> request_parts \<Rightarrow> handler" where
  "get_all_chats h parts =
     responding (try_await (as_device h parts) (\<lambda>sender.
       try_await (or_return (error_reply INTERNAL_SERVER_ERROR ''Internal server error'')
         (get_chats_for_device h sender)) (\<lambda>data.
         ret (Inr (Reply OK (Chats_Body data))))))"

definition root :: handler where
  "root = ret (Reply OK (Const_Body ''message'' ''Welcome to the HushNet API''))"

definition health_check :: handler where
  "health_check = ret (Reply OK (Status_Body ''ok''))"

lemma keeps_user_handlers [keeps_intro]:
  "keeps (guarantee h) (list_users h)" "keeps (guarantee h) (create_user h st n)"
  "keeps (guarantee h) (login_user h b)" "keeps (guarantee h) (get_user_by_id h i)"
  "keeps (guarantee h) (get_all_chats h parts)"
  "keeps (guarantee h) root" "keeps (guarantee h) health_check"
  "keeps (read_only h) (list_users h)" "keeps (read_only h) (login_user h b)"
  "keeps (read_only h) (get_user_by_id h i)" "keeps (read_only h) (get_all_chats h parts)"
  "keeps (read_only h) root" "keeps (read_only h) health_check"
  unfolding list_users_def create_user_def login_user_def get_user_by_id_def get_all_chats_def
    root_def health_check_def
  by (intro keeps_intro)+

end
