(* ===== verification/Device_Controller.thy ===== *)
theory Device_Controller
  imports Handlers
begin

text \<open>
  \<^verbatim>\<open>src/controllers/device_controller.rs\<close>: registering a device with an enrollment token and a signed
  prekey, and the public lookups of devices, key bundles and owners.
\<close>

record create_device_body =
  cd_user_id :: uuid
  cd_identity_pubkey :: string
  cd_prekey_pubkey :: string
  cd_signed_prekey :: signed_prekey
  cd_one_time_prekeys :: "string list"  \<comment> \<open>\<^verbatim>\<open>OneTimePrekeys\<close> has the one field \<^verbatim>\<open>key\<close>\<close>
  cd_device_label :: string
  cd_push_token :: string
  cd_enrollment_token :: string

definition get_devices_for_user :: "host \<Rightarrow> uuid \<Rightarrow> handler" where
  "get_devices_for_user h user_id =
     responding (try_await (or_return (error_reply INTERNAL_SERVER_ERROR ''Internal server error'')
       (get_devices_by_user_id h user_id)) (\<lambda>data. ret (Inr (Reply OK (Devices_Body data)))))"

definition wrong_token :: reply where
  "wrong_token = error_reply UNAUTHORIZED ''Wrong or expired enrollment token for user''"

definition create_device_error :: "sql_error \<Rightarrow> reply" where
  "create_device_error e =
     (if e = foreign_key_violation then error_reply BAD_REQUEST ''User ID does not exist''
      else error_reply INTERNAL_SERVER_ERROR ''Error creating device'')"

text \<open>
  The checks before the insert. \<^verbatim>\<open>verify_enrollment_token\<close> answers \<^verbatim>\<open>None\<close> for a token it cannot
  verify; the handler compares the user only when it answers \<^verbatim>\<open>Some\<close>.
\<close>

definition check_enrollment :: "host \<Rightarrow> app_state \<Rightarrow> create_device_body \<Rightarrow> world \<Rightarrow> (reply + unit) \<times> world" where
  "check_enrollment h st payload =
     try_await (or_return (error_reply INTERNAL_SERVER_ERROR ''Database error'')
       (enrollment_token_exists h (cd_enrollment_token payload))) (\<lambda>used.
     if used then ret (Inl wrong_token) else
     await (verify_enrollment_token h (cd_enrollment_token payload) (jwt_secret st)) (\<lambda>user.
     try_await (or_return (error_reply UNAUTHORIZED ''Signature check failed.'')
       (ret (verify_signed_prekey_signature h (cd_identity_pubkey payload)
         (spk_key (cd_signed_prekey payload)) (spk_signature (cd_signed_prekey payload))))) (\<lambda>_.
     case user of
       Some i \<Rightarrow> if i \<noteq> cd_user_id payload then ret (Inl wrong_token) else ret (Inr ())
     | None \<Rightarrow> ret (Inr ()))))"

definition create_device :: "host \<Rightarrow> app_state \<Rightarrow> create_device_body \<Rightarrow> handler" where
  "create_device h st payload =
     responding (try_await (check_enrollment h st payload) (\<lambda>_.
       let prekeys_json = JArr (map JStr (cd_one_time_prekeys payload))
       in try_await (map_err create_device_error
            (insert_new_device h (cd_user_id payload) (cd_identity_pubkey payload)
              (cd_prekey_pubkey payload) (spk_key (cd_signed_prekey payload))
              (spk_signature (cd_signed_prekey payload)) prekeys_json (cd_device_label payload)
              (cd_push_token payload))) (\<lambda>device.
          try_await (or_return (error_reply INTERNAL_SERVER_ERROR ''Error creating device'')
            (add_used_token h (cd_enrollment_token payload))) (\<lambda>_.
            ret (Inr (Reply CREATED (Device_Body device)))))))"

definition get_user_keys :: "host \<Rightarrow> uuid \<Rightarrow> handler" where
  "get_user_keys h user_id =
     responding (try_await (or_return (error_reply NOT_FOUND ''User not found or has no active devices'')
       (get_device_bundle h user_id)) (\<lambda>bundle. ret (Inr (Reply OK (Bundles_Body bundle)))))"

definition get_user_for_device :: "host \<Rightarrow> uuid \<Rightarrow> handler" where
  "get_user_for_device h device_id =
     responding (try_await (or_return (error_reply NOT_FOUND ''User not found for device'')
       (user_for_device h device_id)) (\<lambda>user. ret (Inr (Reply OK (User_Body user)))))"

lemma keeps_check_enrollment [keeps_intro]:
  "keeps (guarantee h) (check_enrollment h st p)" "keeps (read_only h) (check_enrollment h st p)"
  unfolding check_enrollment_def by (intro keeps_intro)+

lemma keeps_device_handlers [keeps_intro]:
  "keeps (guarantee h) (get_devices_for_user h u)" "keeps (guarantee h) (create_device h st p)"
  "keeps (guarantee h) (get_user_keys h u)" "keeps (guarantee h) (get_user_for_device h v)"
  "keeps (read_only h) (get_devices_for_user h u)" "keeps (read_only h) (get_user_keys h u)"
  "keeps (read_only h) (get_user_for_device h v)"
  unfolding get_devices_for_user_def create_device_def get_user_keys_def get_user_for_device_def
  by (intro keeps_intro)+

end
