(* ===== verification/Registry.thy ===== *)
theory Registry
  imports Federation_Client Sample_Host
begin

text \<open>
  \<^verbatim>\<open>src/registry/register.rs\<close>: a node announces itself to the central registry, which first gives it
  a nonce to sign. \<^verbatim>\<open>env::var\<close> is a parameter (an unset variable, or one that is not Unicode, is
  \<open>None\<close>), and so is \<^verbatim>\<open>serde_json::to_string\<close> (\<open>json_text\<close>).
\<close>

type_synonym environment = "string \<Rightarrow> string option"

text \<open>\<^verbatim>\<open>env::var(k).unwrap_or_else(|_| d)\<close>\<close>

definition env_or :: "environment \<Rightarrow> string \<Rightarrow> string \<Rightarrow> string" where
  "env_or env k d = (case env k of None \<Rightarrow> d | Some v \<Rightarrow> v)"

definition node_host_of :: "environment \<Rightarrow> string" where
  "node_host_of env = env_or env ''NODE_HOST'' ''node-unknown.hushnet.net''"

definition node_api_url_of :: "environment \<Rightarrow> string" where
  "node_api_url_of env = env_or env ''NODE_API_URL'' (''https://'' @ node_host_of env @ ''/api'')"

text \<open>The members of a \<^verbatim>\<open>json!\<close> object, which serde keeps sorted by key.\<close>

definition registration_payload :: "environment \<Rightarrow> json" where
  "registration_payload env =
     JObj [(''api_base_url'', JStr (node_api_url_of env)),
           (''contact_email'', JStr (env_or env ''CONTACT_EMAIL'' ''ops@hushnet.net'')),
           (''features'', JObj []),
           (''host'', JStr (node_host_of env)),
           (''name'', JStr (env_or env ''NODE_NAME'' ''node-unknown'')),
           (''protocol_version'', JStr ''0.0.1'')]"

definition json_post :: "string \<Rightarrow> json \<Rightarrow> http_request" where
  "json_post url body =
     \<lparr>hr_method = ''POST'', hr_url = url, hr_headers = [(''Content-Type'', ''application/json'')],
      hr_body = Some body\<rparr>"

definition challenge_request :: "string \<Rightarrow> node_keys \<Rightarrow> http_request" where
  "challenge_request url keys =
     json_post (url @ ''/api/registry/challenge'') (JObj [(''pubkey_b64'', JStr (nk_public_b64 keys))])"

text \<open>
  \<^verbatim>\<open>.send().await?.error_for_status()?.json::<Value>().await?\<close>, then
  \<^verbatim>\<open>challenge_res["nonce"].as_str().unwrap()\<close>.
\<close>

definition or_exit :: "string + 'a \<Rightarrow> exit + 'a" where
  "or_exit = map_sum Main_Error id"

definition challenge_nonce :: "http_result \<Rightarrow> exit + string" where
  "challenge_nonce r =
     and_then (or_exit (or_http_error ''error sending request'' r)) (\<lambda>resp.
     and_then (or_exit (error_for_status ''HTTP status error'' resp)) (\<lambda>body.
     and_then (ok_or (Main_Error ''error decoding response body'') body) (\<lambda>challenge_res.
       ok_or Main_Panic (as_str (json_index challenge_res ''nonce'')))))"

definition register_request :: "string \<Rightarrow> node_keys \<Rightarrow> string \<Rightarrow> string \<Rightarrow> json \<Rightarrow> http_request" where
  "register_request url keys nonce sig_b64 payload =
     json_post (url @ ''/api/registry/register'')
       (JObj [(''nonce'', JStr nonce), (''payload'', payload),
              (''pubkey_b64'', JStr (nk_public_b64 keys)), (''signature_b64'', JStr sig_b64)])"

text \<open>A call that leaves the key file alone.\<close>

definition on_world :: "('w \<Rightarrow> 'a \<times> 'w) \<Rightarrow> 'f \<times> 'w \<Rightarrow> 'a \<times> 'f \<times> 'w" where
  "on_world m s = (case m (snd s) of (a, w') \<Rightarrow> (a, fst s, w'))"

definition register_with_registry ::
  "host \<Rightarrow> (json \<Rightarrow> string) \<Rightarrow> environment \<Rightarrow> string \<Rightarrow> key_file \<times> world \<Rightarrow>
     (exit + unit) \<times> key_file \<times> world" where
  "register_with_registry h json_text env url =
     try_await (load_or_generate h) (\<lambda>keys.
     await (on_world (send_http h (challenge_request url keys))) (\<lambda>challenge_res.
     try_await (ret (challenge_nonce challenge_res)) (\<lambda>nonce.
     let payload = registration_payload env; message = json_text payload @ nonce in
     try_await (ret (or_exit (signing_key h keys))) (\<lambda>sk.
     let sig_b64 = b64_encode h (ed_sign h sk message) in
     await (on_world (send_http h (register_request url keys nonce sig_b64 payload))) (\<lambda>register_res.
       ret (case register_res of
              Http_Error \<Rightarrow> Inl (Main_Error ''error sending request'')
            | Http_Response status text \<Rightarrow> Inr ()))))))"

section \<open>What a registration proves\<close>

lemma on_world_step: "m w = (a, w') \<Longrightarrow> on_world m (f, w) = (a, f, w')"
  by (simp add: on_world_def)

lemma load_stored [simp]: "load_or_generate h (Stored ks, w) = (Inr ks, Stored ks, w)"
  by (simp add: load_or_generate_def get_node_keys_path_def)

text \<open>
  C33: a registration proves possession of the node's key. With the node's key on disk, a registration
  that succeeds has sent the registry two requests, and the second carries a signature of the
  announced record and of the registry's nonce that verifies under the announced public key; the key
  on disk is unchanged.
\<close>

theorem registration_proves_key:
  assumes "crypto_laws h" "length sk = 32"
    and "register_with_registry h json_text env url (Stored (key_pair h sk), w) = (Inr u, f', w')"
  shows "\<exists>nonce sig.
    sent w' = sent w @ [challenge_request url (key_pair h sk),
      register_request url (key_pair h sk) nonce (b64_encode h sig) (registration_payload env)] \<and>
    challenge_nonce (http_send h (ticks w) (challenge_request url (key_pair h sk))) = Inr nonce \<and>
    ed_verify h (ed_public h sk) (json_text (registration_payload env) @ nonce) sig \<and>
    f' = Stored (key_pair h sk)"
proof -
  let ?ks = "key_pair h sk"
  obtain nonce where nonce: "challenge_nonce (http_send h (ticks w) (challenge_request url ?ks)) = Inr nonce"
    using assms(3) by (cases "challenge_nonce (http_send h (ticks w) (challenge_request url ?ks))")
      (auto simp: register_with_registry_def try_await_def await_def map_err_def ret_def on_world_def send_http_def)
  let ?msg = "json_text (registration_payload env) @ nonce"
  have "ed_verify h (ed_public h sk) ?msg (ed_sign h sk ?msg)"
    using assms(1,2) by (simp add: crypto_laws_def)
  with assms(3) nonce signing_key_pair [OF assms(1,2)] show ?thesis
    by (intro exI [of _ nonce] exI [of _ "ed_sign h sk ?msg"])
      (auto simp: register_with_registry_def try_await_def await_def map_err_def ret_def on_world_def
        send_http_def or_exit_def Let_def split: http_result.splits)
qed

text \<open>
  A refused registration counts as done. The status of the registry's second reply is not looked
  at, so whatever it is, the registration succeeds once the registry has answered.
\<close>

theorem refused_registration_succeeds:
  assumes "crypto_laws h" "length sk = 32"
    and "challenge_nonce (http_send h (ticks w) (challenge_request url (key_pair h sk))) = Inr nonce"
    and "\<forall>r. hr_url r = url @ ''/api/registry/register'' \<longrightarrow>
      http_send h (Suc (ticks w)) r = Http_Response status body"
  shows "\<exists>s'. register_with_registry h json_text env url (Stored (key_pair h sk), w) = (Inr (), s')"
proof -
  have "http_send h (Suc (ticks w)) (register_request url ks n sg p) = Http_Response status body" for ks n sg p
    using assms(4) by (simp add: register_request_def json_post_def)
  with assms(3) signing_key_pair [OF assms(1,2)] show ?thesis
    by (simp add: register_with_registry_def try_await_def await_def map_err_def ret_def on_world_def
        send_http_def or_exit_def Let_def)
qed

section \<open>Witnesses\<close>

text \<open>A registry that hands out the nonce and then refuses.\<close>

definition refusing_registry :: "http_request \<Rightarrow> http_result" where
  "refusing_registry r =
     (if hr_url r = ''https://r.net/api/registry/challenge''
      then Http_Response 200 (Some (JObj [(''nonce'', JStr ''n1'')])) else Http_Response 403 None)"

abbreviation refusing_host :: host where
  "refusing_host \<equiv> sample_host refusing_registry"

lemma refusing_challenge:
  "challenge_nonce (refusing_registry (challenge_request ''https://r.net'' ks)) = Inr ''n1''"
  by (simp add: challenge_nonce_def refusing_registry_def challenge_request_def json_post_def or_http_error_def
      error_for_status_def is_error_status_def or_exit_def json_index_def)

lemma refusing_register:
  "hr_url r = ''https://r.net'' @ ''/api/registry/register'' \<Longrightarrow> refusing_registry r = Http_Response 403 None"
  by (simp add: refusing_registry_def)

theorem refused_registration_witness:
  "\<exists>s'. register_with_registry refusing_host (\<lambda>_. ''{}'') (\<lambda>_. None) ''https://r.net''
     (Stored (key_pair refusing_host this_key), sample_world empty_db) = (Inr (), s')"
  by (rule refused_registration_succeeds [where nonce = "''n1''" and status = 403 and body = None])
    (simp_all add: refusing_challenge refusing_register this_key_def)

lemma refused_run:
  "\<exists>f' w'. register_with_registry refusing_host (\<lambda>_. ''{}'') (\<lambda>_. None) ''https://r.net''
     (Stored (key_pair refusing_host this_key), sample_world empty_db) = (Inr (), f', w')"
  using signing_key_pair [OF sample_crypto_laws, of this_key refusing_registry]
  by (simp add: register_with_registry_def try_await_def await_def map_err_def ret_def on_world_def
      send_http_def or_exit_def Let_def refusing_challenge this_key_def sample_world_def)
    (simp add: register_request_def json_post_def refusing_registry_def)

theorem registration_witness:
  "\<exists>nonce sig (w' :: world). sent w' = [challenge_request ''https://r.net'' (key_pair refusing_host this_key),
       register_request ''https://r.net'' (key_pair refusing_host this_key) nonce sig
         (registration_payload (\<lambda>_. None))] \<and>
     ed_verify refusing_host (ed_public refusing_host this_key) (''{}'' @ nonce) sig"
proof -
  obtain f' w' where run: "register_with_registry refusing_host (\<lambda>_. ''{}'') (\<lambda>_. None) ''https://r.net''
      (Stored (key_pair refusing_host this_key), sample_world empty_db) = (Inr (), f', w')"
    using refused_run by blast
  have "length this_key = 32"
    by (simp add: this_key_def)
  from registration_proves_key [OF sample_crypto_laws this run] obtain nonce sig where
    "sent w' = [challenge_request ''https://r.net'' (key_pair refusing_host this_key),
       register_request ''https://r.net'' (key_pair refusing_host this_key) nonce sig
         (registration_payload (\<lambda>_. None))]"
    "ed_verify refusing_host (ed_public refusing_host this_key) (''{}'' @ nonce) sig"
    by (auto simp: sample_world_def)
  then show ?thesis
    by blast
qed

end
