(* ===== verification/Startup.thy ===== *)
theory Startup
  imports Registry
begin

text \<open>
  \<^verbatim>\<open>src/main.rs\<close> and \<^verbatim>\<open>src/routes\<close>: the configuration read from the environment, the order of the
  start-up, and the table of routes. What the process finds around it is a \<open>platform\<close>.
\<close>

section \<open>Routes\<close>

datatype endpoint =
    List_Users | Get_User | Create_User | Login_User
  | Create_Device | Get_Devices | Get_User_Keys | Get_Device_User
  | Root | Health
  | Create_Session | Pending_Sessions | Confirm_Session
  | All_Chats
  | Send_Message | Pending_Messages
  | Node_Info | S2S_Devices | S2S_Keys | S2S_Session | S2S_Message | S2S_Ack | Federated_Keys
  | Websocket

record route =
  rt_path :: string
  rt_method :: string
  rt_endpoint :: endpoint

abbreviation get_route :: "string \<Rightarrow> endpoint \<Rightarrow> route" where
  "get_route p e \<equiv> \<lparr>rt_path = p, rt_method = ''GET'', rt_endpoint = e\<rparr>"

abbreviation post_route :: "string \<Rightarrow> endpoint \<Rightarrow> route" where
  "post_route p e \<equiv> \<lparr>rt_path = p, rt_method = ''POST'', rt_endpoint = e\<rparr>"

definition users_routes :: "route list" where
  "users_routes =
     [get_route ''/users'' List_Users,
      get_route ''/users/:id'' Get_User,
      post_route ''/users/create'' Create_User,
      post_route ''/users/login'' Login_User]"

definition devices_routes :: "route list" where
  "devices_routes =
     [post_route ''/users/:id/devices'' Create_Device,
      get_route ''/users/:id/devices'' Get_Devices,
      get_route ''/users/:id/keys'' Get_User_Keys,
      get_route ''/devices/:id/user'' Get_Device_User]"

definition root_routes :: "route list" where
  "root_routes = [get_route ''/'' Root, get_route ''/health'' Health]"

definition sessions_routes :: "route list" where
  "sessions_routes =
     [post_route ''/sessions'' Create_Session,
      get_route ''/sessions/pending'' Pending_Sessions,
      post_route ''/sessions/confirm'' Confirm_Session]"

definition chats_routes :: "route list" where
  "chats_routes = [get_route ''/chats'' All_Chats, get_route ''/chats/:id'' All_Chats]"

definition messages_routes :: "route list" where
  "messages_routes =
     [post_route ''/messages'' Send_Message, get_route ''/messages/pending'' Pending_Messages]"

definition federation_routes :: "route list" where
  "federation_routes =
     [get_route ''/s2s/info'' Node_Info,
      get_route ''/s2s/users/:username/devices'' S2S_Devices,
      get_route ''/s2s/users/:username/keys'' S2S_Keys,
      post_route ''/s2s/sessions'' S2S_Session,
      post_route ''/s2s/messages'' S2S_Message,
      post_route ''/s2s/ack'' S2S_Ack,
      get_route ''/s2s/federated/:username/:node_id/keys'' Federated_Keys]"

definition websocket_routes :: "route list" where
  "websocket_routes = [get_route ''/ws/:user_id'' Websocket]"

text \<open>The routers \<^verbatim>\<open>main\<close> merges, in its order.\<close>

definition app_routes :: "route list" where
  "app_routes = users_routes @ devices_routes @ root_routes @ sessions_routes @ chats_routes @
     messages_routes @ federation_routes @ websocket_routes"

lemmas route_tables = app_routes_def users_routes_def devices_routes_def root_routes_def
  sessions_routes_def chats_routes_def messages_routes_def federation_routes_def websocket_routes_def

text \<open>
  \<^verbatim>\<open>Router::route\<close> and \<^verbatim>\<open>merge\<close> panic (\<open>None\<close>) for a path the router does not accept beside the paths it
  has, and for a method that already has a handler on the path. Which paths are accepted, with the conflicts
  between them, is axum's: \<open>accepts\<close>.
\<close>

definition add_route :: "(string list \<Rightarrow> string \<Rightarrow> bool) \<Rightarrow> route \<Rightarrow> route list \<Rightarrow> route list option" where
  "add_route accepts r table =
     (if accepts (map rt_path table) (rt_path r) \<and>
         (rt_path r, rt_method r) \<notin> (\<lambda>q. (rt_path q, rt_method q)) ` set table
      then Some (table @ [r]) else None)"

fun build_router :: "(string list \<Rightarrow> string \<Rightarrow> bool) \<Rightarrow> route list \<Rightarrow> route list \<Rightarrow> route list option" where
  "build_router accepts table [] = Some table"
| "build_router accepts table (r # rs) = Option.bind (add_route accepts r table) (\<lambda>t. build_router accepts t rs)"

text \<open>Documented of axum 0.8, the version the lock file pins: a segment must not start with a colon.\<close>

definition axum_0_8 :: "(string list \<Rightarrow> string \<Rightarrow> bool) \<Rightarrow> bool" where
  "axum_0_8 accepts \<longleftrightarrow> (\<forall>ps p. find_str ''/:'' p \<noteq> None \<longrightarrow> \<not> accepts ps p)"

section \<open>Start-up\<close>

text \<open>
  The environment variables; whether the database accepts a connection for a URL, the HTTP client can
  be built and a socket address can be bound; \<^verbatim>\<open>IpAddr::from_str\<close> (the octets); the router's
  paths; and \<^verbatim>\<open>serde_json::to_string\<close>.
\<close>

record platform =
  pl_env :: environment
  pl_connects :: "string \<Rightarrow> bool"
  pl_client_builds :: bool
  pl_parse_ip :: "string \<Rightarrow> bytes option"
  pl_binds :: "bytes \<Rightarrow> nat \<Rightarrow> bool"
  pl_accepts :: "string list \<Rightarrow> string \<Rightarrow> bool"
  pl_json_text :: "json \<Rightarrow> string"

datatype background = Pg_Listeners | Outbox_Worker

record boot =
  bo_keys :: key_file
  bo_world :: world
  bo_tasks :: "background list"

record server =
  sv_state :: app_state
  sv_ip :: bytes
  sv_port :: nat
  sv_routes :: "route list"

definition on_files :: "(key_file \<times> world \<Rightarrow> 'a \<times> key_file \<times> world) \<Rightarrow> boot \<Rightarrow> 'a \<times> boot" where
  "on_files m b = (case m (bo_keys b, bo_world b) of (a, f, w) \<Rightarrow> (a, b\<lparr>bo_keys := f, bo_world := w\<rparr>))"

definition start_task :: "background \<Rightarrow> boot \<Rightarrow> unit \<times> boot" where
  "start_task t b = ((), b\<lparr>bo_tasks := bo_tasks b @ [t]\<rparr>)"

text \<open>\<^verbatim>\<open>o.unwrap()\<close>, and \<^verbatim>\<open>s.parse::<u16>()\<close>.\<close>

definition unwrap :: "'a option \<Rightarrow> exit + 'a" where
  "unwrap m = ok_or Main_Panic m"

definition parse_u16 :: "string \<Rightarrow> nat option" where
  "parse_u16 s =
     (let ds = (case s of [] \<Rightarrow> [] | c # r \<Rightarrow> if c = CHR ''+'' then r else s)
      in if ds = [] then None
         else case digits_value 0 ds of None \<Rightarrow> None | Some n \<Rightarrow> if n < 65536 then Some n else None)"

text \<open>\<^verbatim>\<open>to_lowercase\<close> of a text that is compared with an ASCII one.\<close>

definition lower_char :: "char \<Rightarrow> char" where
  "lower_char c = (let n = of_char c in if 65 \<le> n \<and> n \<le> (90 :: nat) then char_of (n + 32) else c)"

definition registers :: "environment \<Rightarrow> bool" where
  "registers env \<longleftrightarrow> map lower_char (env_or env ''REGISTER_TO_REGISTRY'' ''false'') = ''true''"

definition registry_url_of :: "environment \<Rightarrow> string" where
  "registry_url_of env = env_or env ''REGISTRY_URL'' ''https://registry.hushnet.net''"

definition app_state_of :: "environment \<Rightarrow> string \<Rightarrow> node_keys \<Rightarrow> app_state" where
  "app_state_of env secret keys =
     \<lparr>jwt_secret = secret, app_node_keys = keys, this_node_id = node_host_of env,
      this_api_url = node_api_url_of env, registry_url = registry_url_of env\<rparr>"

text \<open>From the router on: the two background tasks already run.\<close>

definition serve :: "platform \<Rightarrow> app_state \<Rightarrow> boot \<Rightarrow> (exit + server) \<times> boot" where
  "serve pl state =
     (let server_host = env_or (pl_env pl) ''SERVER_HOST'' ''0.0.0.0'';
          server_port = env_or (pl_env pl) ''SERVER_PORT'' ''8080''
      in try_await (ret (unwrap (build_router (pl_accepts pl) [] app_routes))) (\<lambda>app.
         try_await (ret (unwrap (pl_parse_ip pl server_host))) (\<lambda>ip.
         try_await (ret (unwrap (parse_u16 server_port))) (\<lambda>port.
         if pl_binds pl ip port
         then ret (Inr \<lparr>sv_state = state, sv_ip = ip, sv_port = port, sv_routes = app\<rparr>)
         else ret (Inl Main_Panic)))))"

definition main :: "platform \<Rightarrow> host \<Rightarrow> boot \<Rightarrow> (exit + server) \<times> boot" where
  "main pl h =
     (let env = pl_env pl in
      try_await (ret (unwrap (env ''DATABASE_URL''))) (\<lambda>database_url.
      try_await (ret (unwrap (env ''JWT_SECRET''))) (\<lambda>secret.
      try_await (ret (ensure (Main_Error ''connection failed'') (pl_connects pl database_url))) (\<lambda>_.
      try_await (on_files (load_or_generate h)) (\<lambda>keys.
      try_await (if registers env
                 then on_files (register_with_registry h (pl_json_text pl) env (registry_url_of env))
                 else ret (Inr ())) (\<lambda>_.
      try_await (ret (ensure (Main_Error ''builder error'') (pl_client_builds pl))) (\<lambda>_.
      await (start_task Pg_Listeners) (\<lambda>_.
      await (start_task Outbox_Worker) (\<lambda>_.
        serve pl (app_state_of env secret keys))))))))))"

section \<open>The table of routes\<close>

lemma build_router_all:
  assumes "build_router accepts table rs = Some t"
  shows "\<forall>r \<in> set rs. \<exists>ps. accepts ps (rt_path r)"
  using assms
proof (induction rs arbitrary: table)
  case (Cons r rs)
  then show ?case
    by (cases "add_route accepts r table") (auto simp: add_route_def split: if_splits)
qed simp

text \<open>Nothing but the paths can stop the router: no method of a path is given twice.\<close>

lemma build_router_distinct:
  assumes "\<And>ps p. accepts ps p" and "distinct (map (\<lambda>q. (rt_path q, rt_method q)) (table @ rs))"
  shows "build_router accepts table rs = Some (table @ rs)"
  using assms(2)
proof (induction rs arbitrary: table)
  case (Cons r rs)
  then have "add_route accepts r table = Some (table @ [r])"
    by (auto simp: add_route_def image_iff assms(1))
  with Cons.IH [of "table @ [r]"] Cons.prems show ?case
    by simp
qed simp

section \<open>The server does not start\<close>

lemma colon_route: "\<exists>r \<in> set app_routes. find_str ''/:'' (rt_path r) \<noteq> None"
  by (intro bexI [of _ "get_route ''/users/:id'' Get_User"]) (simp_all add: route_tables)

lemma router_panics:
  assumes "axum_0_8 accepts"
  shows "build_router accepts [] app_routes = None"
proof (cases "build_router accepts [] app_routes")
  case (Some t)
  from build_router_all [OF this] colon_route obtain p ps where "find_str ''/:'' p \<noteq> None" "accepts ps p"
    by blast
  with assms show ?thesis
    by (simp add: axum_0_8_def)
qed

text \<open>
  C34: with the pinned router the process never serves a request. The routes write their captures in the
  syntax of axum 0.7, which axum 0.8 refuses, so whatever the environment, \<^verbatim>\<open>main\<close> ends early.
\<close>

theorem main_never_serves:
  assumes "axum_0_8 (pl_accepts pl)"
  shows "\<exists>e b'. main pl h b = (Inl e, b')"
proof -
  have serve: "\<exists>e b'. serve pl st b = (Inl e, b')" for st and b :: boot
    by (simp add: serve_def Let_def router_panics [OF assms] unwrap_def ret_def)
  obtain r b' where r: "main pl h b = (r, b')"
    by fastforce
  then show ?thesis
  proof (cases r)
    case (Inr s)
    with r obtain st b1 where "serve pl st b1 = (Inr s, b')"
      by (auto simp: main_def Let_def try_await_Inr_iff await_eq_iff)
    with serve [of st b1] show ?thesis
      by simp
  qed simp
qed

section \<open>The configuration of a running server\<close>

lemma load_saves: "load_or_generate h s = (Inr ks, s') \<Longrightarrow> fst s' = Stored ks"
  by (cases s) (auto simp: load_or_generate_def generate_and_save_def get_node_keys_path_def ensure_def Let_def
      split: key_file.splits prod.splits sum.splits if_splits)

lemma register_keeps_file:
  "register_with_registry h jt env url (Stored ks, w) = (r, s') \<Longrightarrow> fst s' = Stored ks"
  by (auto simp: register_with_registry_def try_await_def await_def map_err_def ret_def on_world_def
      send_http_def Let_def split: sum.splits)

lemma on_files_Inr:
  "on_files m b = (Inr a, b') \<longleftrightarrow>
     (\<exists>f w. m (bo_keys b, bo_world b) = (Inr a, f, w) \<and> b' = b\<lparr>bo_keys := f, bo_world := w\<rparr>)"
  by (auto simp: on_files_def split: prod.splits)

text \<open>
  A server that runs is configured by its environment. With a router that accepts the paths, which the
  pinned one does not (C34), \<^verbatim>\<open>main\<close> can get to serving; then its
  secret is the JWT_SECRET, its node id, URLs, address and port are the variables' values or their
  defaults, the key it signs with is the one on disk, and both background tasks are running.
\<close>

theorem main_configures:
  assumes "main pl h b = (Inr s, b')"
  shows "pl_env pl ''JWT_SECRET'' = Some (jwt_secret (sv_state s)) \<and>
    this_node_id (sv_state s) = env_or (pl_env pl) ''NODE_HOST'' ''node-unknown.hushnet.net'' \<and>
    this_api_url (sv_state s) = env_or (pl_env pl) ''NODE_API_URL'' (''https://'' @ this_node_id (sv_state s) @ ''/api'') \<and>
    registry_url (sv_state s) = env_or (pl_env pl) ''REGISTRY_URL'' ''https://registry.hushnet.net'' \<and>
    pl_parse_ip pl (env_or (pl_env pl) ''SERVER_HOST'' ''0.0.0.0'') = Some (sv_ip s) \<and>
    parse_u16 (env_or (pl_env pl) ''SERVER_PORT'' ''8080'') = Some (sv_port s) \<and>
    bo_keys b' = Stored (app_node_keys (sv_state s)) \<and>
    bo_tasks b' = bo_tasks b @ [Pg_Listeners, Outbox_Worker]"
proof -
  let ?env = "pl_env pl"
  from assms obtain secret keys b1 b2 where
    secret: "?env ''JWT_SECRET'' = Some secret"
    and load: "on_files (load_or_generate h) b = (Inr keys, b1)"
    and reg: "(if registers ?env
       then on_files (register_with_registry h (pl_json_text pl) ?env (registry_url_of ?env))
       else ret (Inr ())) b1 = (Inr (), b2)"
    and serve: "serve pl (app_state_of ?env secret keys)
       (b2\<lparr>bo_tasks := bo_tasks b2 @ [Pg_Listeners, Outbox_Worker]\<rparr>) = (Inr s, b')"
    by (auto simp: main_def Let_def try_await_Inr_iff await_eq_iff unwrap_def start_task_def)
  from load have 1: "bo_keys b1 = Stored keys" "bo_tasks b1 = bo_tasks b"
    by (auto simp: on_files_Inr dest: load_saves)
  with reg have 2: "bo_keys b2 = Stored keys \<and> bo_tasks b2 = bo_tasks b"
    by (auto simp: on_files_Inr split: if_splits dest: register_keeps_file)
  from serve have "sv_state s = app_state_of ?env secret keys"
    "pl_parse_ip pl (env_or ?env ''SERVER_HOST'' ''0.0.0.0'') = Some (sv_ip s)"
    "parse_u16 (env_or ?env ''SERVER_PORT'' ''8080'') = Some (sv_port s)"
    "b' = b2\<lparr>bo_tasks := bo_tasks b2 @ [Pg_Listeners, Outbox_Worker]\<rparr>"
    by (auto simp: serve_def Let_def try_await_Inr_iff unwrap_def split: if_splits)
  with secret 2 show ?thesis
    by (simp add: app_state_of_def node_host_of_def node_api_url_of_def registry_url_of_def)
qed

section \<open>Witnesses\<close>

text \<open>A machine on which everything works; \<open>accepts\<close> is its router's.\<close>

definition sample_env :: environment where
  "sample_env = map_of [(''DATABASE_URL'', ''postgres://db''), (''JWT_SECRET'', ''secret''), (''NODE_HOST'', ''a.net'')]"

definition sample_platform :: "(string list \<Rightarrow> string \<Rightarrow> bool) \<Rightarrow> platform" where
  "sample_platform accepts =
     \<lparr>pl_env = sample_env, pl_connects = \<lambda>_. True, pl_client_builds = True,
      pl_parse_ip = \<lambda>s. if s = ''0.0.0.0'' then Some (replicate 4 (CHR 0x00)) else None,
      pl_binds = \<lambda>_ _. True, pl_accepts = accepts, pl_json_text = \<lambda>_. ''{}''\<rparr>"

definition sample_boot :: boot where
  "sample_boot = \<lparr>bo_keys = Stored (key_pair (sample_host no_network) this_key),
     bo_world = sample_world empty_db, bo_tasks = []\<rparr>"

theorem main_never_serves_witness:
  "\<exists>e b'. main (sample_platform (\<lambda>ps p. find_str ''/:'' p = None)) (sample_host no_network) sample_boot = (Inl e, b')"
  by (rule main_never_serves) (simp add: axum_0_8_def sample_platform_def)

lemma sample_port: "parse_u16 ''8080'' = Some 8080"
  by (simp add: parse_u16_def digit_value_def)

lemma sample_serves:
  "\<exists>s b'. main (sample_platform (\<lambda>_ _. True)) (sample_host no_network) sample_boot = (Inr s, b')"
proof -
  have "build_router (\<lambda>_ _. True) [] app_routes = Some ([] @ app_routes)"
    by (rule build_router_distinct) (simp_all add: route_tables)
  then show ?thesis
    by (simp add: main_def serve_def sample_platform_def sample_env_def sample_boot_def env_or_def registers_def
        unwrap_def on_files_def map_err_def start_task_def sample_port try_await_def await_def ret_def
        lower_char_def del: build_router.simps)
qed

theorem main_configures_witness:
  "\<exists>s b'. main (sample_platform (\<lambda>_ _. True)) (sample_host no_network) sample_boot = (Inr s, b') \<and>
     this_node_id (sv_state s) = ''a.net'' \<and> this_api_url (sv_state s) = ''https://a.net/api'' \<and>
     bo_keys b' = Stored (app_node_keys (sv_state s))"
proof -
  obtain s b' where s: "main (sample_platform (\<lambda>_ _. True)) (sample_host no_network) sample_boot = (Inr s, b')"
    using sample_serves by blast
  from main_configures [OF this] s show ?thesis
    by (simp add: sample_platform_def sample_env_def env_or_def)
qed

end
