(* ===== verification/Server.thy ===== *)
theory Server
  imports Sending Session_Controller User_Controller Device_Controller Startup
    "HOL-Library.Transitive_Closure_Table"
begin

text \<open>
  The running server: the handler behind each endpoint, the outbox worker's loop and the spawned
  tasks as one step relation, in any order, beside the other connections of the database. What holds
  in every state a run reaches, and what a caller without an identity can do.
\<close>

section \<open>Requests\<close>

text \<open>A request after the extractors of path and body have succeeded, with the handler's arguments.\<close>

datatype api_request =
    Req_List_Users
  | Req_Get_User uuid
  | Req_Create_User string
  | Req_Login login_user_body
  | Req_Create_Device create_device_body
  | Req_Get_Devices uuid
  | Req_User_Keys uuid
  | Req_Device_User uuid
  | Req_Root
  | Req_Health
  | Req_Create_Session request_parts create_session_body
  | Req_Pending_Sessions request_parts
  | Req_Confirm_Session request_parts confirm_session_body
  | Req_All_Chats request_parts
  | Req_Send_Message request_parts outgoing_message
  | Req_Pending_Messages request_parts
  | Req_Node_Info
  | Req_S2S_Devices request_parts string
  | Req_S2S_Keys request_parts string
  | Req_S2S_Session request_parts s2s_session_payload
  | Req_S2S_Message request_parts s2s_message_payload
  | Req_S2S_Ack request_parts s2s_ack
  | Req_Federated_Keys request_parts string string

fun endpoint_of :: "api_request \<Rightarrow> endpoint" where
  "endpoint_of Req_List_Users = List_Users"
| "endpoint_of (Req_Get_User i) = Get_User"
| "endpoint_of (Req_Create_User n) = Create_User"
| "endpoint_of (Req_Login b) = Login_User"
| "endpoint_of (Req_Create_Device b) = Create_Device"
| "endpoint_of (Req_Get_Devices i) = Get_Devices"
| "endpoint_of (Req_User_Keys i) = Get_User_Keys"
| "endpoint_of (Req_Device_User i) = Get_Device_User"
| "endpoint_of Req_Root = Root"
| "endpoint_of Req_Health = Health"
| "endpoint_of (Req_Create_Session p b) = Create_Session"
| "endpoint_of (Req_Pending_Sessions p) = Pending_Sessions"
| "endpoint_of (Req_Confirm_Session p b) = Confirm_Session"
| "endpoint_of (Req_All_Chats p) = All_Chats"
| "endpoint_of (Req_Send_Message p b) = Send_Message"
| "endpoint_of (Req_Pending_Messages p) = Pending_Messages"
| "endpoint_of Req_Node_Info = Node_Info"
| "endpoint_of (Req_S2S_Devices p u) = S2S_Devices"
| "endpoint_of (Req_S2S_Keys p u) = S2S_Keys"
| "endpoint_of (Req_S2S_Session p b) = S2S_Session"
| "endpoint_of (Req_S2S_Message p b) = S2S_Message"
| "endpoint_of (Req_S2S_Ack p b) = S2S_Ack"
| "endpoint_of (Req_Federated_Keys p u n) = Federated_Keys"

text \<open>The handler the routes give the endpoint.\<close>

fun respond :: "host \<Rightarrow> app_state \<Rightarrow> api_request \<Rightarrow> handler" where
  "respond h st Req_List_Users = list_users h"
| "respond h st (Req_Get_User i) = get_user_by_id h i"
| "respond h st (Req_Create_User n) = create_user h st n"
| "respond h st (Req_Login b) = login_user h b"
| "respond h st (Req_Create_Device b) = create_device h st b"
| "respond h st (Req_Get_Devices i) = get_devices_for_user h i"
| "respond h st (Req_User_Keys i) = get_user_keys h i"
| "respond h st (Req_Device_User i) = get_user_for_device h i"
| "respond h st Req_Root = root"
| "respond h st Req_Health = health_check"
| "respond h st (Req_Create_Session p b) = create_session h st p b"
| "respond h st (Req_Pending_Sessions p) = get_pending_sessions_handler h p"
| "respond h st (Req_Confirm_Session p b) = confirm_session h p b"
| "respond h st (Req_All_Chats p) = get_all_chats h p"
| "respond h st (Req_Send_Message p b) = send_message h st p b"
| "respond h st (Req_Pending_Messages p) = get_pending_messages h p"
| "respond h st Req_Node_Info = node_info_handler st"
| "respond h st (Req_S2S_Devices p u) = get_user_devices h st p u"
| "respond h st (Req_S2S_Keys p u) = s2s_get_user_keys h st p u"
| "respond h st (Req_S2S_Session p b) = receive_session h st p b"
| "respond h st (Req_S2S_Message p b) = receive_messages h st p b"
| "respond h st (Req_S2S_Ack p b) = receive_ack h st p b"
| "respond h st (Req_Federated_Keys p u n) = federated_keys h st p u n"

lemma endpoint_served: "e \<noteq> Websocket \<Longrightarrow> \<exists>q. endpoint_of q = e"
proof (cases e)
  case List_Users show ?thesis unfolding List_Users by (metis endpoint_of.simps(1))
next
  case Get_User show ?thesis unfolding Get_User by (metis endpoint_of.simps(2))
next
  case Create_User show ?thesis unfolding Create_User by (metis endpoint_of.simps(3))
qed (metis endpoint_of.simps)+

lemma keeps_respond [keeps_intro]: "keeps (guarantee h) (respond h st q)"
  by (cases q) (simp_all add: keeps_intro)

section \<open>Runs\<close>

inductive server_step :: "host \<Rightarrow> app_state \<Rightarrow> world \<Rightarrow> world \<Rightarrow> bool" for h st where
  on_request: "respond h st q w = (r, w') \<Longrightarrow> server_step h st w w'"
| on_poll: "outbox_iteration h w = (u, w') \<Longrightarrow> server_step h st w w'"
| on_task: "t \<in> set (spawned w) \<Longrightarrow>
    run_task h (new_client st) t (w\<lparr>spawned := remove1 t (spawned w)\<rparr>) = (u, w') \<Longrightarrow> server_step h st w w'"

inductive_cases server_stepE: "server_step h st w w'"

abbreviation server_run :: "host \<Rightarrow> app_state \<Rightarrow> world \<Rightarrow> world \<Rightarrow> bool" where
  "server_run h st \<equiv> (server_step h st)\<^sup>*\<^sup>*"

lemma server_step_guarantee: "server_step h st w w' \<Longrightarrow> guarantee h w w'"
proof (induction rule: server_step.induct)
  case (on_request q w r w')
  then show ?case
    by (rule keepsD [OF keeps_respond])
next
  case (on_poll w u w')
  then show ?case
    by (rule keepsD [OF keeps_outbox_iteration])
next
  case (on_task t w u w')
  from keepsD [OF keeps_run_task on_task(2)] show ?case
    by (simp add: guarantee_def)
qed

lemma server_run_guarantee: "server_run h st w w' \<Longrightarrow> guarantee h w w'"
  by (induction rule: rtranclp_induct)
    (blast intro: guar.frame_refl guar.frame_trans server_step_guarantee)+

lemma server_run_evolves: "host_ok h \<Longrightarrow> server_run h st w w' \<Longrightarrow> evolves (store w) (store w')"
  using server_run_guarantee [of h st w w'] by (auto simp: guarantee_def intro: steps_evolve)

section \<open>What every run keeps\<close>

text \<open>The constraints of the schema, which the database enforces statement by statement, hold along a run.\<close>

lemma server_run_ok:
  assumes "host_ok h" "db_ok (store w)" "server_run h st w w'"
  shows "db_ok (store w')"
  using server_run_guarantee [OF assms(3)] assms(1,2) by (auto simp: guarantee_def intro: steps_ok)

text \<open>
  C16: nothing that was stored is taken back in a run: no device, chat or used token disappears, no user
  changes its id, its home node, its federated address or, having none, its name, no peer's block is lifted, no message disappears
  or changes but for the time of its delivery, which is set at most once, and no outbox entry disappears or
  changes its target, its logical id or its payload.
\<close>

theorem server_keeps_history:
  assumes "host_ok h" "server_run h st w w'"
  shows "set (t_devices (store w)) \<subseteq> set (t_devices (store w')) \<and>
    set (t_chats (store w)) \<subseteq> set (t_chats (store w')) \<and>
    set (t_used_tokens (store w)) \<subseteq> set (t_used_tokens (store w')) \<and>
    kept same_user (t_users (store w)) (t_users (store w')) \<and>
    kept same_node (t_federation_nodes (store w)) (t_federation_nodes (store w')) \<and>
    kept same_message (t_messages (store w)) (t_messages (store w')) \<and>
    kept same_entry (t_federation_outbox (store w)) (t_federation_outbox (store w'))"
  using server_run_evolves [OF assms] by (simp add: evolves_def)

text \<open>
  C9: an accepted message is never lost. Once a message for a user of another node has been accepted, the
  outbox holds, in every later state of the server, an entry for that node that reads back as the message.
\<close>

theorem accepted_stays_queued:
  assumes "crypto_laws h" "host_ok h" "remote_address st (og_to_user_address m) = Some (to, node_id)"
    and "send_message_as h st v m w = (Inr reply, w1)" "server_run h st w1 w2"
  shows "\<exists>e \<in> set (t_federation_outbox (store w2)). \<exists>name.
     ob_target_node_id e = node_id \<and> ob_logical_msg_id e = og_logical_msg_id m \<and>
     message_payload_of_json (uuid_parse h) (ob_payload e) = Some (s2s_payload_of st v m name to)"
proof -
  from queued_entry [OF assms(1,3,4)] obtain e name where e: "e \<in> set (t_federation_outbox (store w1))"
    "ob_target_node_id e = node_id" "ob_logical_msg_id e = og_logical_msg_id m"
    "message_payload_of_json (uuid_parse h) (ob_payload e) = Some (s2s_payload_of st v m name to)"
    by blast
  from e(1) have "e \<in> set (t_federation_outbox (store w1))" .
  moreover have "kept same_entry (t_federation_outbox (store w1)) (t_federation_outbox (store w2))"
    using server_run_evolves [OF assms(2,5)] by (simp add: evolves_def)
  ultimately obtain e' where "e' \<in> set (t_federation_outbox (store w2))" "same_entry e e'"
    unfolding kept_def by blast
  moreover from \<open>same_entry e e'\<close> have "ob_target_node_id e' = ob_target_node_id e"
    "ob_logical_msg_id e' = ob_logical_msg_id e" "ob_payload e' = ob_payload e"
    by (simp_all add: same_entry_def)
  ultimately show ?thesis
    using e(2-4) by (intro bexI [of _ e'] exI [of _ name]) simp_all
qed

section \<open>Callers without an identity\<close>

text \<open>
  Calls that write at most what authenticating a peer writes: the cache of peers and the used nonces.
\<close>

definition without_peers :: "db \<Rightarrow> db" where
  "without_peers d = d\<lparr>t_federation_nodes := [], t_used_node_nonces := []\<rparr>"

definition only_peers :: "host \<Rightarrow> world \<Rightarrow> world \<Rightarrow> bool" where
  "only_peers h w w' \<longleftrightarrow> spawned w' = spawned w \<and>
     (unshared h \<longrightarrow> without_peers (store w') = without_peers (store w))"

interpretation peers: frame "only_peers h" for h
  by unfold_locales (simp_all add: only_peers_def)

lemmas [keeps_intro] = peers.keeps_rules

lemma peers_exec:
  assumes "\<And>t i d a d'. q t i d = Inr (a, d') \<Longrightarrow> without_peers d' = without_peers d"
  shows "keeps (only_peers h) (exec h q)"
  unfolding keeps_def
proof
  fix w :: world
  have "spawned (snd (exec h q w)) = spawned w"
    by (cases "exec h q w") (auto dest: exec_other_fields(3))
  moreover have "unshared h \<longrightarrow> without_peers (store (snd (exec h q w))) = without_peers (store w)"
    using assms by (cases rule: exec_cases [of h q w]) (auto simp: unshared_def)
  ultimately show "only_peers h w (snd (exec h q w))"
    by (simp add: only_peers_def)
qed

lemma peers_calls [keeps_intro]:
  "keeps (only_peers h) (exec h (select f))" "keeps (only_peers h) (utc_now h)" "keeps (only_peers h) (send_http h r)"
  by (rule peers_exec) (auto simp: select_def keeps_def external_calls only_peers_def)

lemma peers_repositories [keeps_intro]:
  "keeps (only_peers h) (upsert_federation_node h n u k)" "keeps (only_peers h) (claim_nonce h n c)"
  "keeps (only_peers h) (get_federation_node h n)" "keeps (only_peers h) (get_device_by_identity_key h k)"
  unfolding upsert_federation_node_def claim_nonce_def get_federation_node_def get_device_by_identity_key_def
  by (auto intro!: peers_exec simp: select_def without_peers_def upsert_federation_node_stmt_def Let_def
      claim_nonce_stmt_def device_by_identity_key_stmt_def split: if_splits option.splits list.splits)

lemma peers_extractors [keeps_intro]:
  "keeps (only_peers h) (as_device h parts)" "keeps (only_peers h) (as_peer h st parts)"
  unfolding as_device_def as_peer_def authenticate_device_def authenticate_node_def resolve_peer_def Let_def
    peer_of_reply_def
  by (auto intro!: keeps_intro split: http_result.split)

lemma peers_open_handlers:
  "keeps (only_peers h) (list_users h)" "keeps (only_peers h) (get_user_by_id h i)"
  "keeps (only_peers h) (login_user h b)" "keeps (only_peers h) (get_devices_for_user h i)"
  "keeps (only_peers h) (get_user_keys h i)" "keeps (only_peers h) (get_user_for_device h i)"
  "keeps (only_peers h) root" "keeps (only_peers h) health_check" "keeps (only_peers h) (node_info_handler st)"
  unfolding list_users_def get_user_by_id_def login_user_def get_devices_for_user_def get_user_keys_def
    get_user_for_device_def root_def health_check_def node_info_handler_def responding_def or_return_def
    get_all_users_def find_user_by_id_def find_user_by_pubkey_def get_devices_by_user_id_def get_device_bundle_def
    user_for_device_def
  by (auto intro!: keeps_intro peers_exec simp: device_owner_stmt_def split: sum.split option.splits)

datatype caller = Anyone | As_Device request_parts | As_Peer request_parts

fun caller_of :: "api_request \<Rightarrow> caller" where
  "caller_of (Req_Create_Session p b) = As_Device p"
| "caller_of (Req_Pending_Sessions p) = As_Device p"
| "caller_of (Req_Confirm_Session p b) = As_Device p"
| "caller_of (Req_All_Chats p) = As_Device p"
| "caller_of (Req_Send_Message p b) = As_Device p"
| "caller_of (Req_Pending_Messages p) = As_Device p"
| "caller_of (Req_Federated_Keys p u n) = As_Device p"
| "caller_of (Req_S2S_Devices p u) = As_Peer p"
| "caller_of (Req_S2S_Keys p u) = As_Peer p"
| "caller_of (Req_S2S_Session p b) = As_Peer p"
| "caller_of (Req_S2S_Message p b) = As_Peer p"
| "caller_of (Req_S2S_Ack p b) = As_Peer p"
| "caller_of q = Anyone"

text \<open>No identity is established: the extractor rejects, or the handler has none.\<close>

definition anonymous :: "host \<Rightarrow> app_state \<Rightarrow> api_request \<Rightarrow> world \<Rightarrow> bool" where
  "anonymous h st q w =
     (case caller_of q of
        Anyone \<Rightarrow> True
      | As_Device p \<Rightarrow> isl (fst (as_device h p w))
      | As_Peer p \<Rightarrow> isl (fst (as_peer h st p w)))"

lemma responding_rejected: "m w = (Inl r, w') \<Longrightarrow> responding (try_await m k) w = (r, w')"
  by (simp add: responding_def try_await_def await_def ret_def)

lemma rejected_device: "caller_of q = As_Device p \<Longrightarrow> as_device h p w = (Inl r, w') \<Longrightarrow> respond h st q w = (r, w')"
  by (cases q) (simp_all add: create_session_def get_pending_sessions_handler_def confirm_session_def
      get_all_chats_def send_message_def get_pending_messages_def federated_keys_def responding_rejected)

lemma rejected_peer: "caller_of q = As_Peer p \<Longrightarrow> as_peer h st p w = (Inl r, w') \<Longrightarrow> respond h st q w = (r, w')"
  by (cases q) (simp_all add: get_user_devices_def s2s_get_user_keys_def receive_session_def
      receive_messages_def receive_ack_def responding_rejected)

lemma open_request:
  assumes "caller_of q = Anyone" "endpoint_of q \<notin> {Create_User, Create_Device}"
  shows "keeps (only_peers h) (respond h st q)"
  using assms by (cases q) (simp_all add: peers_open_handlers)

text \<open>
  C17: a request without an identity writes nothing. Unless it registers a user or a device, a request whose
  extractor rejects it, or whose handler has none, leaves every table but the cache of peers and the used
  nonces as it was, and starts no delivery; where the extractor rejects, its error is the reply.
\<close>

theorem anonymous_requests_write_nothing:
  assumes "unshared h" "anonymous h st q w" "endpoint_of q \<notin> {Create_User, Create_Device}"
    and "respond h st q w = (r, w')"
  shows "without_peers (store w') = without_peers (store w) \<and> spawned w' = spawned w \<and>
    (caller_of q \<noteq> Anyone \<longrightarrow> (\<exists>code msg. r = Reply code (Text_Body msg)))"
proof -
  have "only_peers h w w' \<and> (caller_of q \<noteq> Anyone \<longrightarrow> (\<exists>code msg. r = Reply code (Text_Body msg)))"
  proof (cases "caller_of q")
    case Anyone
    with keepsD [OF open_request [OF Anyone assms(3)] assms(4)] show ?thesis
      by simp
  next
    case (As_Device p)
    with assms(2) obtain e w1 where e: "as_device h p w = (Inl e, w1)"
      by (cases "as_device h p w") (auto simp: anonymous_def isl_def)
    with rejected_device [OF As_Device e] assms(4) keepsD [OF peers_extractors(1) e] show ?thesis
      by (auto simp: as_device_def plain_error_def split: prod.splits)
  next
    case (As_Peer p)
    with assms(2) obtain e w1 where e: "as_peer h st p w = (Inl e, w1)"
      by (cases "as_peer h st p w") (auto simp: anonymous_def isl_def)
    with rejected_peer [OF As_Peer e] assms(4) keepsD [OF peers_extractors(2) e] show ?thesis
      by (auto simp: as_peer_def plain_error_def split: prod.splits)
  qed
  with assms(1) show ?thesis
    by (simp add: only_peers_def)
qed

section \<open>Witnesses\<close>

abbreviation after_carol :: world where
  "after_carol \<equiv> snd (respond (sample_host no_network) sample_state (Req_Create_User ''carol'') (sample_world sample_db))"

lemma carol_run: "server_run (sample_host no_network) sample_state (sample_world sample_db) after_carol"
  by (rule r_into_rtranclp, rule on_request) (rule prod.collapse [symmetric])

theorem server_keeps_history_witness: "alice_device \<in> set (t_devices (store after_carol))"
  using server_keeps_history [OF sample_host_ok carol_run] by (auto simp: sample_world_def sample_db_def empty_db_def)

theorem accepted_stays_queued_witness:
  "\<exists>e \<in> set (t_federation_outbox (store (snd (outbox_iteration (sample_host no_network)
     (snd (send_message_as (sample_host no_network) sample_state alice_device
       (alice_message (Some ''bob@b.net'')) (sample_world sample_db))))))).
     ob_target_node_id e = ''b.net'' \<and> ob_logical_msg_id e = ''m1''"
proof -
  let ?h = "sample_host no_network"
  obtain w1 where w1: "send_message_as ?h sample_state alice_device (alice_message (Some ''bob@b.net''))
      (sample_world sample_db) = (Inr (Reply ACCEPTED (Status_Body ''queued'')), w1)"
    using alice_sends by blast
  have remote: "remote_address sample_state (og_to_user_address (alice_message (Some ''bob@b.net''))) = Some (''bob'', ''b.net'')"
    by (simp add: alice_message_def bob_remote)
  have "server_run ?h sample_state w1 (snd (outbox_iteration ?h w1))"
    by (rule r_into_rtranclp, rule on_poll) (rule prod.collapse [symmetric])
  from accepted_stays_queued [OF sample_crypto_laws sample_host_ok remote w1 this] w1 show ?thesis
    by (auto simp: alice_message_def)
qed

text \<open>A peer's acknowledgement without its headers.\<close>

definition bare_parts :: request_parts where
  "bare_parts = \<lparr>rp_method = ''POST'', rp_path_and_query = Some ''/s2s/ack'', rp_header = (\<lambda>_. None)\<rparr>"

theorem anonymous_requests_witness:
  "\<exists>code msg. fst (respond (sample_host no_network) sample_state
       (Req_S2S_Ack bare_parts \<lparr>ack_logical_msg_id = ''m1'', ack_status = ''delivered''\<rparr>) (sample_world sample_db)) =
     Reply code (Text_Body msg)"
proof -
  let ?h = "sample_host no_network"
  let ?q = "Req_S2S_Ack bare_parts \<lparr>ack_logical_msg_id = ''m1'', ack_status = ''delivered''\<rparr>"
  let ?w = "sample_world sample_db"
  have "anonymous ?h sample_state ?q ?w"
    by (simp add: anonymous_def as_peer_def authenticate_node_def header_str_def bare_parts_def try_await_def
        await_def ret_def map_err_def)
  from anonymous_requests_write_nothing [OF sample_unshared this _ prod.collapse [symmetric]] show ?thesis
    by simp
qed

end
