(* ===== verification/Provenance.thy ===== *)
theory Provenance
  imports Server
begin

text \<open>
  Who put a message into the database: over whole runs of the server, every new row of \<^verbatim>\<open>messages\<close> is the
  work of an authenticated request. The frame \<open>adds_only\<close> is carried through every handler, the worker and
  its tasks; the two handlers that insert are treated on their own.
\<close>

section \<open>Handlers that store no message\<close>

abbreviation stores_none :: "host \<Rightarrow> string \<Rightarrow> world \<Rightarrow> world \<Rightarrow> bool" where
  "stores_none h l \<equiv> adds_only h l (\<lambda>_. False)"

lemma adds_wrappers [keeps_intro]:
  "keeps (adds_only h l P) m \<Longrightarrow> keeps (adds_only h l P) (responding m)"
  "keeps (adds_only h l P) m' \<Longrightarrow> keeps (adds_only h l P) (or_return e m')"
  "keeps (adds_only h l P) m'' \<Longrightarrow> keeps (adds_only h l P) (ignoring m'')"
  unfolding responding_def or_return_def ignoring_def by (intro keeps_intro; simp)+

lemma adds_client [keeps_intro]:
  "keeps (adds_only h l P) (fetch_peer_keys h c u n)" "keeps (adds_only h l P) (forward_session h c u sp)"
  "keeps (adds_only h l P) (forward_messages h c u mp)"
  unfolding fetch_peer_keys_def forward_session_def forward_messages_def signed_get_def signed_post_def sign_def Let_def
  by (intro keeps_intro)+

lemma adds_lookups [keeps_intro]:
  "keeps (adds_only h l P) (resolve_node h st n)" "keeps (adds_only h l P) (remote_node h st n)"
  "keeps (adds_only h l P) (local_keys h u)" "keeps (adds_only h l P) (username_or_return e h i)"
  unfolding resolve_node_def remote_node_def node_from_registry_def local_keys_def username_or_return_def
  by (auto intro!: keeps_intro split: sum.split option.split http_result.split)

lemma adds_accounts [keeps_intro]:
  "keeps (adds_only h l P) (create_user h st n)" "keeps (adds_only h l P) (login_user h b)"
  "keeps (adds_only h l P) (create_device h st cd)"
  unfolding create_user_def login_user_def create_device_def check_enrollment_def generate_enrollment_tokens_def
    verify_enrollment_token_def Let_def
  by (intro keeps_intro)+

lemma adds_readers [keeps_intro]:
  "keeps (adds_only h l P) (list_users h)" "keeps (adds_only h l P) (get_user_by_id h i)"
  "keeps (adds_only h l P) (get_devices_for_user h i)" "keeps (adds_only h l P) (get_user_keys h i)"
  "keeps (adds_only h l P) (get_user_for_device h i)" "keeps (adds_only h l P) root"
  "keeps (adds_only h l P) health_check" "keeps (adds_only h l P) (node_info_handler st)"
  "keeps (adds_only h l P) (get_all_chats h parts)" "keeps (adds_only h l P) (get_pending_messages h parts)"
  "keeps (adds_only h l P) (federated_keys h st parts u n)"
  unfolding list_users_def get_user_by_id_def get_devices_for_user_def get_user_keys_def get_user_for_device_def
    root_def health_check_def node_info_handler_def get_all_chats_def get_pending_messages_def federated_keys_def
  by (intro keeps_intro)+

lemma adds_session_handlers [keeps_intro]:
  "keeps (adds_only h l P) (create_session h st parts cs)" "keeps (adds_only h l P) (get_pending_sessions_handler h parts)"
  "keeps (adds_only h l P) (confirm_session h parts cf)"
  unfolding create_session_def handle_federated_session_def create_local_session_def transaction_stmt_def
    get_pending_sessions_handler_def confirm_session_def confirm_session_as_def
  by (intro keeps_intro)+

lemma adds_peer_handlers [keeps_intro]:
  "keeps (adds_only h l P) (get_user_devices h st parts u)" "keeps (adds_only h l P) (s2s_get_user_keys h st parts u)"
  "keeps (adds_only h l P) (receive_session h st parts sp)" "keeps (adds_only h l P) (receive_ack h st parts a)"
  "keeps (adds_only h l P) (handle_federated_message h st v msg i u n)"
  unfolding get_user_devices_def s2s_get_user_keys_def receive_session_def receive_ack_def
    handle_federated_message_def Let_def
  by (intro keeps_intro)+

lemma adds_worker:
  "keeps (adds_only h l P) (outbox_iteration h)" "keeps (adds_only h l P) (run_task h c t)"
proof -
  have "keeps (adds_only h l P) (spawn_all ts)" for ts
    by (induction ts) (simp_all add: keeps_intro)
  then show "keeps (adds_only h l P) (outbox_iteration h)"
    unfolding outbox_iteration_def by (intro keeps_intro)
  show "keeps (adds_only h l P) (run_task h c t)"
    by (cases t) (simp_all add: deliver_entry_def deliver_now_def keeps_intro)
qed

section \<open>The two handlers that store messages\<close>

text \<open>
  The request \<open>q\<close>, taken in world \<open>w\<close> and answered in \<open>w'\<close>, is where row \<open>m\<close> comes from: a device authenticated
  and sent a local message with this payload, which is stored as from that device and its user; or a peer
  authenticated and forwarded the message, stored as from the federated address it names.
\<close>

definition authored :: "host \<Rightarrow> app_state \<Rightarrow> api_request \<Rightarrow> world \<Rightarrow> world \<Rightarrow> message_row \<Rightarrow> bool" where
  "authored h st q w w' m \<longleftrightarrow>
     (\<exists>parts msg v w1. q = Req_Send_Message parts msg \<and> as_device h parts w = (Inr v, w1) \<and>
        remote_address st (og_to_user_address msg) = None \<and>
        (\<exists>p \<in> set (og_payloads msg). is_copy_of (dv_id v) (dv_user_id v) msg p m)) \<or>
     (\<exists>parts p peer w1. q = Req_S2S_Message parts p \<and> as_peer h st parts w = (Inr peer, w1) \<and>
        accepted_copy p (store w') m)"

lemma authored_same: "same_message m m' \<Longrightarrow> authored h st q w w' m \<Longrightarrow> authored h st q w w' m'"
  unfolding authored_def by (blast intro: copies_same(1) accepted_copy_same)

definition traced :: "host \<Rightarrow> app_state \<Rightarrow> string \<Rightarrow> world \<Rightarrow> world \<Rightarrow> bool" where
  "traced h st l w w' \<longleftrightarrow>
     (\<forall>m \<in> set (t_messages (store w')). me_logical_msg_id m = l \<longrightarrow>
        (\<exists>m0 \<in> set (t_messages (store w)). same_message m0 m) \<or>
        (\<exists>q w1 r w2. server_run h st w w1 \<and> respond h st q w1 = (r, w2) \<and> server_run h st w2 w' \<and>
           authored h st q w1 w2 m))"

lemma responding_cases:
  assumes "responding (try_await m k) w = (r, w')"
  obtains "m w = (Inl r, w')" | a w1 x where "m w = (Inr a, w1)" "k a w1 = (x, w')"
proof (cases "m w")
  case (Pair y w1)
  with assms that show ?thesis
    by (cases y; cases "k (projr y) w1") (auto simp: responding_def try_await_def await_def ret_def)
qed

lemma sending_adds:
  "keeps (adds_only h l (\<lambda>m. remote_address st (og_to_user_address msg) = None \<and>
      (\<exists>p \<in> set (og_payloads msg). is_copy_of (dv_id v) (dv_user_id v) msg p m))) (send_message_as h st v msg)"
proof (cases "remote_address st (og_to_user_address msg)")
  case None
  then show ?thesis
    unfolding send_message_as_def by simp (intro keeps_intro adds_insert_message)
next
  case (Some a)
  then show ?thesis
    unfolding send_message_as_def by (cases a) (simp add: keeps_intro)
qed

lemma none_stored:
  assumes "keeps (stores_none h l) c" "others_leave h l" "c w = (x, w1)"
    and "m1 \<in> set (t_messages (store w1))" "same_message m1 m" "me_logical_msg_id m = l"
  shows "\<exists>m0 \<in> set (t_messages (store w)). same_message m0 m"
proof -
  from addsD [OF assms(1-3)] assms(4,6) same_message_logical [OF assms(5)]
  obtain m0 where "m0 \<in> set (t_messages (store w))" "same_message m0 m1"
    by (auto simp: from_rows_def)
  with assms(5) show ?thesis
    by (blast intro: same_trans(3))
qed

lemma authored_step:
  assumes "host_ok h" "others_leave h l" "respond h st q w = (r, w')"
    and m: "m \<in> set (t_messages (store w'))" "me_logical_msg_id m = l"
  shows "(\<exists>m0 \<in> set (t_messages (store w)). same_message m0 m) \<or> authored h st q w w' m"
proof -
  note none = none_stored [OF _ assms(2) _ _ _ m(2)]
  consider (send) parts msg where "q = Req_Send_Message parts msg"
    | (peer) parts p where "q = Req_S2S_Message parts p"
    | (other) "\<forall>parts msg. q \<noteq> Req_Send_Message parts msg" "\<forall>parts p. q \<noteq> Req_S2S_Message parts p"
    by blast
  then show ?thesis
  proof cases
    case send
    with assms(3) have "responding (try_await (as_device h parts) (\<lambda>v. send_message_as h st v msg)) w = (r, w')"
      by (simp add: send_message_def)
    then show ?thesis
    proof (cases rule: responding_cases)
      case 1
      from none [OF adds_extractors(1) this m(1) same_refl(3)] show ?thesis ..
    next
      case (2 v w1 x)
      show ?thesis
      proof (cases "\<exists>m1 \<in> set (t_messages (store w1)). same_message m1 m")
        case True
        then show ?thesis
          using none [OF adds_extractors(1) 2(1)] by blast
      next
        case False
        with addsD [OF sending_adds assms(2) 2(2)] m have "remote_address st (og_to_user_address msg) = None"
          "\<exists>p \<in> set (og_payloads msg). is_copy_of (dv_id v) (dv_user_id v) msg p m"
          unfolding from_rows_def by (blast intro: copies_same(1))+
        with send 2(1) show ?thesis
          unfolding authored_def by blast
      qed
    qed
  next
    case peer
    with assms(3) have "responding (try_await (as_peer h st parts) (\<lambda>n. accept_messages h n p)) w = (r, w')"
      by (simp add: receive_messages_def)
    then show ?thesis
    proof (cases rule: responding_cases)
      case 1
      from none [OF adds_extractors(2) this m(1) same_refl(3)] show ?thesis ..
    next
      case (2 n w1 x)
      from accept_messages_adds [OF assms(1,2) 2(2) m] show ?thesis
        using none [OF adds_extractors(2) 2(1)] peer 2(1) unfolding authored_def by blast
    qed
  next
    case other
    then have "keeps (stores_none h l) (respond h st q)"
      by (cases q) (simp_all add: keeps_intro)
    from none [OF this assms(3) m(1) same_refl(3)] show ?thesis ..
  qed
qed

lemma traced_refl: "traced h st l w w"
  unfolding traced_def using same_refl(3) by blast

lemma traced_step:
  assumes "host_ok h" "others_leave h l" "server_run h st w v" "traced h st l w v" "server_step h st v v'"
  shows "traced h st l w v'"
  unfolding traced_def
proof (intro ballI impI)
  fix m assume m: "m \<in> set (t_messages (store v'))" "me_logical_msg_id m = l"
  have here: "(\<exists>m0 \<in> set (t_messages (store v)). same_message m0 m) \<or>
      (\<exists>q r. respond h st q v = (r, v') \<and> authored h st q v v' m)"
    using assms(5)
  proof cases
    case (on_request q r)
    then show ?thesis
      using authored_step [OF assms(1,2) _ m] by blast
  next
    case (on_poll u)
    from none_stored [OF adds_worker(1) assms(2) this m(1) same_refl(3) m(2)] show ?thesis ..
  next
    case (on_task t u)
    from none_stored [OF adds_worker(2) assms(2) on_task(2) m(1) same_refl(3) m(2)] show ?thesis
      by simp
  qed
  let ?traced = "\<lambda>w'. \<lambda>m. (\<exists>m0 \<in> set (t_messages (store w)). same_message m0 m) \<or>
    (\<exists>q w1 r w2. server_run h st w w1 \<and> respond h st q w1 = (r, w2) \<and> server_run h st w2 w' \<and>
       authored h st q w1 w2 m)"
  from here show "?traced v' m"
  proof
    assume "\<exists>m1 \<in> set (t_messages (store v)). same_message m1 m"
    then obtain m1 where m1: "m1 \<in> set (t_messages (store v))" "same_message m1 m"
      by blast
    with m(2) assms(4) have "?traced v m1"
      by (simp add: traced_def same_message_logical)
    then show ?thesis
      using m1(2) assms(5) by (blast intro: same_trans(3) authored_same rtranclp.rtrancl_into_rtrancl)
  qed (use assms(3) in blast)
qed

lemma run_traced:
  assumes "server_run h st w w'" "host_ok h" "others_leave h l"
  shows "traced h st l w w'"
  using assms(1)
proof (induction rule: rtranclp_induct)
  case base
  show ?case
    by (rule traced_refl)
next
  case (step v v')
  from traced_step [OF assms(2,3) step.hyps(1) step.IH step.hyps(2)] show ?case .
qed

text \<open>
  C10: every stored message has an authenticated author. In whatever order the requests, the worker and its
  tasks run and whatever statements fail, a row that is in the table after a run and was not there before was
  put there by one request of the run: either a device authenticated, and the row is one of the payloads it
  sent, under its own device and user id; or a peer authenticated, and the row is one of the payloads it
  forwarded, under the user with the federated address it named, for the local account it named. No other endpoint, no
  task of the worker and no request that failed to authenticate stores a message. The other connections of the
  database are assumed to store none under this logical id.
\<close>

theorem stored_messages_are_authentic:
  assumes "host_ok h" "others_leave h (me_logical_msg_id m)" "server_run h st w w'"
    and "m \<in> set (t_messages (store w'))" "\<And>m0. m0 \<in> set (t_messages (store w)) \<Longrightarrow> \<not> same_message m0 m"
  shows "\<exists>q w1 r w2. server_run h st w w1 \<and> respond h st q w1 = (r, w2) \<and> server_run h st w2 w' \<and>
    authored h st q w1 w2 m"
  using run_traced [OF assms(3,1,2)] assms(4,5) unfolding traced_def by blast

section \<open>Witness\<close>

text \<open>The run in which Bob's node delivers the sample message.\<close>

abbreviation bob_delivers :: api_request where
  "bob_delivers \<equiv> Req_S2S_Message (sample_parts ''POST'' ''/s2s/messages'') sample_payload"

theorem authentic_witness:
  "\<exists>m w'. server_run (sample_host no_network) sample_state (sample_world sample_db) w' \<and>
     m \<in> set (t_messages (store w')) \<and> me_ciphertext m = ''c'' \<and>
     (\<exists>q w1 r w2. respond (sample_host no_network) sample_state q w1 = (r, w2) \<and>
        authored (sample_host no_network) sample_state q w1 w2 m)"
proof -
  let ?h = "sample_host no_network" and ?w = "sample_world sample_db"
  let ?parts = "sample_parts ''POST'' ''/s2s/messages''"
  obtain w1 where auth: "authenticate_node ?h sample_state ?parts ?w = (Inr sample_node, w1)" and kept: "nonce_kept ?w w1"
    by (rule sample_accepted)
  from kept obtain ns where "w1 = \<lparr>ticks = 3, store = sample_db\<lparr>t_used_node_nonces := ns\<rparr>, sent = [], spawned = []\<rparr>"
    by (auto simp: nonce_kept_def sample_world_def)
  then obtain reply w' where accept: "accept_messages ?h sample_node sample_payload w1 = (Inr reply, w')"
    using sample_accept_later [of no_network 3 ns] by blast
  have answer: "respond ?h sample_state bob_delivers ?w = (reply, w')"
    using auth accept by (simp add: receive_messages_def responding_def try_await_def await_def ret_def as_peer_def
        map_err_def)
  then have run: "server_run ?h sample_state ?w w'"
    by (intro r_into_rtranclp on_request)
  have "\<lparr>sd_to_device_id = 21, sd_header = JNull, sd_ciphertext = ''c''\<rparr> \<in> set (sm_payloads sample_payload)"
    by (simp add: sample_payload_def)
  from acknowledged_copies [OF sample_host_ok accept this] obtain m where m: "m \<in> set (t_messages (store w'))"
    "(\<exists>m0 \<in> set (t_messages (store w1)). same_message m0 m) \<or> accepted_copy sample_payload (store w') m"
    by (auto simp: unshared_leaves [OF sample_unshared])
  moreover have none: "t_messages (store w1) = []" "t_messages (store ?w) = []"
    using kept by (auto simp: nonce_kept_def sample_world_def sample_db_def empty_db_def)
  ultimately have "me_ciphertext m = ''c''"
    by (auto simp: accepted_copy_def is_copy_for_def sample_payload_def)
  moreover have "\<not> same_message m0 m" if "m0 \<in> set (t_messages (store ?w))" for m0
    using that none(2) by simp
  note stored_messages_are_authentic [OF sample_host_ok unshared_leaves [OF sample_unshared] run m(1) this]
  ultimately show ?thesis
    using run m(1) by blast
qed

end
