(* ===== verification/Accounts.thy ===== *)
theory Accounts
  imports Device_Controller User_Controller Device_Security
begin

text \<open>
  The registration of devices: what a registered device has shown, and that an enrollment token works
  once.
\<close>

section \<open>Registering a device\<close>

text \<open>The row \<^verbatim>\<open>create_device\<close> asks for.\<close>

definition describes :: "create_device_body \<Rightarrow> devices \<Rightarrow> bool" where
  "describes p r \<longleftrightarrow> dv_user_id r = cd_user_id p \<and> dv_identity_pubkey r = cd_identity_pubkey p \<and>
     dv_prekey_pubkey r = cd_prekey_pubkey p \<and> dv_signed_prekey_pub r = spk_key (cd_signed_prekey p) \<and>
     dv_signed_prekey_sig r = spk_signature (cd_signed_prekey p) \<and>
     dv_one_time_prekeys r = JArr (map JStr (cd_one_time_prekeys p)) \<and>
     dv_device_label r = Some (cd_device_label p) \<and> dv_push_token r = Some (cd_push_token p)"

text \<open>What the token says of its user at clock \<open>t\<close>; \<open>None\<close> when it cannot be verified.\<close>

definition token_user :: "host \<Rightarrow> app_state \<Rightarrow> create_device_body \<Rightarrow> nat \<Rightarrow> uuid option" where
  "token_user h st p t =
     Option.bind (jwt_decode h t (cd_enrollment_token p) (jwt_secret st)) (\<lambda>c. uuid_parse h (ec_sub c))"

definition prekey_signed :: "host \<Rightarrow> create_device_body \<Rightarrow> bool" where
  "prekey_signed h p \<longleftrightarrow> verify_signed_prekey_signature h (cd_identity_pubkey p)
     (spk_key (cd_signed_prekey p)) (spk_signature (cd_signed_prekey p)) = Inr ()"

lemma check_enrollment_Inr_iff:
  "check_enrollment h st p w = (Inr u, w') \<longleftrightarrow>
     (\<exists>w1. enrollment_token_exists h (cd_enrollment_token p) w = (Inr False, w1) \<and>
        prekey_signed h p \<and> token_user h st p (unix_secs h (ticks w1)) \<in> {None, Some (cd_user_id p)} \<and>
        w' = w1\<lparr>ticks := Suc (ticks w1)\<rparr>)"
proof -
  obtain r w1 where e: "enrollment_token_exists h (cd_enrollment_token p) w = (r, w1)"
    by fastforce
  show ?thesis
  proof (cases r)
    case (Inl x)
    with e show ?thesis
      by (simp add: check_enrollment_def or_return_def map_err_def try_await_def await_def ret_def)
  next
    case (Inr used)
    have "check_enrollment h st p w =
        (if used then (Inl wrong_token, w1)
         else if \<not> prekey_signed h p
         then (Inl (error_reply UNAUTHORIZED ''Signature check failed.''), w1\<lparr>ticks := Suc (ticks w1)\<rparr>)
         else if token_user h st p (unix_secs h (ticks w1)) \<in> {None, Some (cd_user_id p)}
         then (Inr (), w1\<lparr>ticks := Suc (ticks w1)\<rparr>)
         else (Inl wrong_token, w1\<lparr>ticks := Suc (ticks w1)\<rparr>))"
      using e Inr
      by (cases "verify_signed_prekey_signature h (cd_identity_pubkey p) (spk_key (cd_signed_prekey p))
          (spk_signature (cd_signed_prekey p))")
        (simp_all add: check_enrollment_def or_return_def map_err_def try_await_def await_def ret_def
          prekey_signed_def token_user_def verify_enrollment_token_def system_secs_def split: option.split)
    with e Inr show ?thesis
      by auto
  qed
qed

lemma create_device_stored:
  "insert_new_device h (cd_user_id p) (cd_identity_pubkey p) (cd_prekey_pubkey p) (spk_key (cd_signed_prekey p))
     (spk_signature (cd_signed_prekey p)) (JArr (map JStr (cd_one_time_prekeys p))) (cd_device_label p)
     (cd_push_token p) w = (Inr r, w') \<Longrightarrow> describes p r \<and> r \<in> set (t_devices (store w'))"
  by (auto simp: insert_new_device_def exec_Inr_iff create_device_stmt_def insert_device_def describes_def
      Let_def split: if_splits)

lemma add_used_token_stored: "add_used_token h tok w = (Inr u, w') \<Longrightarrow> token_used tok (store w')"
  by (auto simp: add_used_token_def exec_Inr_iff add_used_token_stmt_def token_used_def split: if_splits)

lemma create_device_CREATED:
  assumes "create_device h st p w = (Reply CREATED b, w')"
  obtains r w1 w2 w3 where "check_enrollment h st p w = (Inr (), w1)" "b = Device_Body r"
    "insert_new_device h (cd_user_id p) (cd_identity_pubkey p) (cd_prekey_pubkey p) (spk_key (cd_signed_prekey p))
       (spk_signature (cd_signed_prekey p)) (JArr (map JStr (cd_one_time_prekeys p))) (cd_device_label p)
       (cd_push_token p) w1 = (Inr r, w2)"
    "add_used_token h (cd_enrollment_token p) w2 = (Inr (), w')"
proof -
  have err: "check_enrollment h st p w = (Inl (Reply CREATED b), v) \<Longrightarrow> False" for v
    by (auto simp: check_enrollment_def try_await_Inl_iff await_eq_iff wrong_token_def error_reply_def
        split: option.splits if_splits)
  from assms that show ?thesis
    by (auto simp: create_device_def responding_iff try_await_Inr_iff try_await_Inl_iff Let_def
        create_device_error_def error_reply_def dest: err split: if_splits)
qed

text \<open>
  C11: a device is registered only with a signed prekey and an unused token. When the registration is
  answered with CREATED, then whatever statements failed elsewhere and whatever else ran, the prekey
  carries a valid signature of the identity key, the token had not been used and is used from then on,
  at the clock of this registration it verified as a token of the device's user or did not verify at all,
  and the device is stored as described. The clock is read after the one statement that looks the token up.
\<close>

theorem create_device_sound:
  assumes "host_ok h" "create_device h st p w = (Reply CREATED b, w')"
  shows "prekey_signed h p \<and> \<not> token_used (cd_enrollment_token p) (others h (ticks w) (store w)) \<and>
    token_used (cd_enrollment_token p) (store w') \<and>
    token_user h st p (unix_secs h (Suc (ticks w))) \<in> {None, Some (cd_user_id p)} \<and>
    (\<exists>r. b = Device_Body r \<and> describes p r \<and> r \<in> set (t_devices (store w')))"
proof -
  from assms(2) obtain r w1 w2 where check: "check_enrollment h st p w = (Inr (), w1)" "b = Device_Body r"
    and ins: "insert_new_device h (cd_user_id p) (cd_identity_pubkey p) (cd_prekey_pubkey p)
       (spk_key (cd_signed_prekey p)) (spk_signature (cd_signed_prekey p))
       (JArr (map JStr (cd_one_time_prekeys p))) (cd_device_label p) (cd_push_token p) w1 = (Inr r, w2)"
    and use: "add_used_token h (cd_enrollment_token p) w2 = (Inr (), w')"
    by (rule create_device_CREATED)
  have "set (t_devices (store w2)) \<subseteq> set (t_devices (store w'))"
    using guarantee_evolves [OF keeps_users(6) assms(1) use] by (simp add: evolves_def)
  with create_device_stored [OF ins] check(2) have "\<exists>r. b = Device_Body r \<and> describes p r \<and> r \<in> set (t_devices (store w'))"
    by blast
  moreover from check(1) obtain w0 where w0: "enrollment_token_exists h (cd_enrollment_token p) w = (Inr False, w0)"
    "prekey_signed h p" "token_user h st p (unix_secs h (ticks w0)) \<in> {None, Some (cd_user_id p)}"
    unfolding check_enrollment_Inr_iff by blast
  moreover from w0(1) have "ticks w0 = Suc (ticks w)" "\<not> token_used (cd_enrollment_token p) (others h (ticks w) (store w))"
    by (auto simp: enrollment_token_exists_def exec_select_Inr_iff)
  ultimately show ?thesis
    using add_used_token_stored [OF use] by simp
qed

lemma token_used_evolves: "evolves d d' \<Longrightarrow> token_used tok d \<Longrightarrow> token_used tok d'"
  by (auto simp: evolves_def token_used_def)

lemma used_token_refused:
  assumes "host_ok h" "token_used (cd_enrollment_token p) (store w)"
  shows "fst (create_device h st p w) \<in> {wrong_token, error_reply INTERNAL_SERVER_ERROR ''Database error''} \<and>
    store (snd (create_device h st p w)) = others h (ticks w) (store w)"
proof -
  have "steps_upto (db_clock h (ticks w)) (store w) (others h (ticks w) (store w))"
    using assms(1) by (simp add: host_ok_def)
  from token_used_evolves [OF steps_evolve [OF this] assms(2)]
  have "fst (enrollment_token_exists h (cd_enrollment_token p) w) \<in> {Inl Io, Inr True}"
    by (cases "stmt_fate h (ticks w)") (simp_all add: enrollment_token_exists_def exec_def Let_def select_def)
  moreover have "store (snd (enrollment_token_exists h (cd_enrollment_token p) w)) = others h (ticks w) (store w)"
    by (cases "stmt_fate h (ticks w)") (simp_all add: enrollment_token_exists_def exec_def Let_def select_def)
  ultimately show ?thesis
    by (cases "enrollment_token_exists h (cd_enrollment_token p) w")
      (auto simp: create_device_def check_enrollment_def responding_def or_return_def map_err_def
        try_await_def await_def ret_def)
qed

text \<open>
  C12: an enrollment token registers one device. After a registration was answered with CREATED, every
  later request with the same token is refused without touching the devices, whatever it contains and
  whatever ran in between.
\<close>

theorem token_registers_once:
  assumes "host_ok h" "create_device h st p w = (Reply CREATED b, w')" "guarantee h w' w2"
    and "cd_enrollment_token q = cd_enrollment_token p"
  shows "fst (create_device h st q w2) \<in> {wrong_token, error_reply INTERNAL_SERVER_ERROR ''Database error''} \<and>
    store (snd (create_device h st q w2)) = others h (ticks w2) (store w2)"
proof -
  obtain v where "add_used_token h (cd_enrollment_token p) v = (Inr (), w')"
    using assms(2) by (rule create_device_CREATED)
  then have "token_used (cd_enrollment_token p) (store w')"
    by (rule add_used_token_stored)
  moreover have "evolves (store w') (store w2)"
    using assms(1,3) by (auto simp: guarantee_def intro: steps_evolve)
  ultimately show ?thesis
    using used_token_refused [OF assms(1), of q w2] assms(4) token_used_evolves by simp
qed

end
