(* ===== verification/Enrollment.thy ===== *)
theory Enrollment
  imports Accounts
begin

text \<open>
  Enrollment end to end: a new account's token registers a device of that account and no other, and
  what a token is worth that cannot be verified.
\<close>

text \<open>
  Documented of \<^verbatim>\<open>jsonwebtoken\<close>: a token decodes under the secret it was made with to its claims as
  long as it has not expired.
\<close>

definition jwt_laws :: "host \<Rightarrow> bool" where
  "jwt_laws h \<longleftrightarrow>
     (\<forall>secret i e token now. jwt_encode h secret \<lparr>ec_sub = uuid_show h i, ec_exp = e\<rparr> = Some token \<longrightarrow>
        now < e \<longrightarrow> jwt_decode h now token secret = Some \<lparr>ec_sub = uuid_show h i, ec_exp = e\<rparr>)"

section \<open>A registration that is due\<close>

text \<open>What the database needs for the insert of a device.\<close>

definition insertable :: "host \<Rightarrow> nat \<Rightarrow> create_device_body \<Rightarrow> db \<Rightarrow> bool" where
  "insertable h n p d \<longleftrightarrow> gen_random_uuid h n \<notin> device_ids d \<and> cd_user_id p \<in> user_ids d \<and>
     (cd_user_id p, cd_identity_pubkey p) \<notin> device_key ` set (t_devices d)"

lemma check_enrollment_quiet:
  assumes "quiet h" "\<not> token_used (cd_enrollment_token p) (store w)" "prekey_signed h p"
  shows "check_enrollment h st p w =
    (if token_user h st p (unix_secs h (Suc (ticks w))) \<in> {None, Some (cd_user_id p)} then Inr () else Inl wrong_token,
     w\<lparr>ticks := Suc (Suc (ticks w))\<rparr>)"
  using assms
  by (simp add: check_enrollment_def or_return_def map_err_def try_await_def await_def ret_def
      enrollment_token_exists_def exec_select_quiet prekey_signed_def token_user_def
      verify_enrollment_token_def system_secs_def split: option.split)

lemma insert_new_device_quiet:
  assumes "quiet h" "insertable h (ticks w) p (store w)"
  shows "\<exists>r d. insert_new_device h (cd_user_id p) (cd_identity_pubkey p) (cd_prekey_pubkey p)
     (spk_key (cd_signed_prekey p)) (spk_signature (cd_signed_prekey p))
     (JArr (map JStr (cd_one_time_prekeys p))) (cd_device_label p) (cd_push_token p) w =
     (Inr r, w\<lparr>ticks := Suc (ticks w), store := d\<rparr>)"
  using assms by (simp add: insert_new_device_def exec_quiet create_device_stmt_def insert_device_def
      insertable_def device_key_def Let_def) (intro exI, rule refl)

lemma add_used_token_quiet:
  "quiet h \<Longrightarrow> \<exists>w'. add_used_token h tok w = (Inr (), w')"
  by (simp add: add_used_token_def exec_quiet add_used_token_stmt_def)

lemma create_device_quiet:
  assumes "quiet h" "\<not> token_used (cd_enrollment_token p) (store w)" "prekey_signed h p"
    and "token_user h st p (unix_secs h (Suc (ticks w))) \<in> {None, Some (cd_user_id p)}"
    and "insertable h (Suc (Suc (ticks w))) p (store w)"
  shows "\<exists>r w'. create_device h st p w = (Reply CREATED (Device_Body r), w')"
proof -
  let ?w = "w\<lparr>ticks := Suc (Suc (ticks w))\<rparr>"
  have "check_enrollment h st p w = (Inr (), ?w)"
    using check_enrollment_quiet [OF assms(1-3), of st] assms(4) by simp
  moreover obtain r d where "insert_new_device h (cd_user_id p) (cd_identity_pubkey p) (cd_prekey_pubkey p)
     (spk_key (cd_signed_prekey p)) (spk_signature (cd_signed_prekey p))
     (JArr (map JStr (cd_one_time_prekeys p))) (cd_device_label p) (cd_push_token p) ?w =
     (Inr r, ?w\<lparr>ticks := Suc (ticks ?w), store := d\<rparr>)"
    using insert_new_device_quiet [OF assms(1), of ?w p] assms(5) by auto
  moreover obtain w' where "add_used_token h (cd_enrollment_token p) (?w\<lparr>ticks := Suc (ticks ?w), store := d\<rparr>) = (Inr (), w')"
    using add_used_token_quiet [OF assms(1)] by blast
  ultimately show ?thesis
    by (simp add: create_device_def responding_def or_return_def map_err_def try_await_def await_def ret_def)
qed

section \<open>The token of a new account\<close>

lemma create_user_CREATED:
  assumes "create_user h st n w = (Reply CREATED (New_User_Body user token), w')"
  obtains w1 where "insert_user h n w = (Inr user, w1)" "w' = w1\<lparr>ticks := Suc (ticks w1)\<rparr>"
    "jwt_encode h (jwt_secret st) \<lparr>ec_sub = uuid_show h (u_id user), ec_exp = unix_secs h (ticks w1) + 300\<rparr> = Some token"
proof -
  obtain r v where v: "insert_user h n w = (r, v)"
    by fastforce
  show ?thesis
  proof (cases r)
    case (Inl e)
    with v assms show ?thesis
      by (auto simp: create_user_def responding_def map_err_def try_await_def await_def ret_def
          create_user_error_def error_reply_def split: if_splits)
  next
    case (Inr u)
    let ?enc = "jwt_encode h (jwt_secret st) \<lparr>ec_sub = uuid_show h (u_id u), ec_exp = unix_secs h (ticks v) + 300\<rparr>"
    have "create_user h st n w =
        (case ?enc of None \<Rightarrow> Panic | Some t \<Rightarrow> Reply CREATED (New_User_Body u t), v\<lparr>ticks := Suc (ticks v)\<rparr>)"
      using v Inr by (simp add: create_user_def responding_def map_err_def try_await_def await_def ret_def
          generate_enrollment_tokens_def system_secs_def)
    then have "(case ?enc of None \<Rightarrow> Panic | Some t \<Rightarrow> Reply CREATED (New_User_Body u t), v\<lparr>ticks := Suc (ticks v)\<rparr>) =
        (Reply CREATED (New_User_Body user token), w')"
      using assms by (rule trans [OF sym])
    then have "(case ?enc of None \<Rightarrow> Panic | Some t \<Rightarrow> Reply CREATED (New_User_Body u t)) =
        Reply CREATED (New_User_Body user token)" and "v\<lparr>ticks := Suc (ticks v)\<rparr> = w'"
      by simp_all
    then have "u = user" "?enc = Some token"
      by (cases "?enc"; simp)+
    with that [of v] v Inr \<open>_ = w'\<close> show ?thesis
      by blast
  qed
qed

lemma insert_user_stored: "insert_user h n w = (Inr user, w') \<Longrightarrow> u_id user \<in> user_ids (store w')"
  by (auto simp: insert_user_def exec_Inr_iff create_user_stmt_def as_user_def user_ids_def Let_def split: if_splits)

lemma user_ids_evolve: "evolves d d' \<Longrightarrow> user_ids d \<subseteq> user_ids d'"
proof
  fix i assume "evolves d d'" "i \<in> user_ids d"
  then obtain u u' where "u \<in> set (t_users d)" "us_id u = i" "u' \<in> set (t_users d')" "same_user u u'"
    unfolding evolves_def kept_def user_ids_def by blast
  then show "i \<in> user_ids d'"
    by (metis same_user_def user_ids_def image_eqI)
qed

text \<open>
  C20: the token of a new account registers a device of that account, and of no other. Within five
  minutes of the account's creation a well-formed registration with its token is answered with
  CREATED when it names the account, whatever ran in between, and refused when it names another.
\<close>

theorem enrollment_roundtrip:
  assumes "quiet h" "host_ok h" "crypto_laws h" "jwt_laws h"
    and "create_user h st n w = (Reply CREATED (New_User_Body user token), w1)" "guarantee h w1 w2"
    and "cd_enrollment_token p = token" "prekey_signed h p" "\<not> token_used token (store w2)"
    and "unix_secs h (Suc (ticks w2)) < unix_secs h (Suc (ticks w)) + 300"
    and "gen_random_uuid h (Suc (Suc (ticks w2))) \<notin> device_ids (store w2)"
    and "(cd_user_id p, cd_identity_pubkey p) \<notin> device_key ` set (t_devices (store w2))"
  shows "(cd_user_id p = u_id user \<longrightarrow> (\<exists>r w3. create_device h st p w2 = (Reply CREATED (Device_Body r), w3))) \<and>
    (cd_user_id p \<noteq> u_id user \<longrightarrow> fst (create_device h st p w2) = wrong_token)"
proof -
  from assms(5) obtain v where v: "insert_user h n w = (Inr user, v)" "w1 = v\<lparr>ticks := Suc (ticks v)\<rparr>"
    and enc: "jwt_encode h (jwt_secret st) \<lparr>ec_sub = uuid_show h (u_id user), ec_exp = unix_secs h (ticks v) + 300\<rparr> = Some token"
    by (rule create_user_CREATED)
  have "ticks v = Suc (ticks w)"
    using v(1) exec_other_fields(1) by (simp add: insert_user_def)
  with assms(10) have t: "unix_secs h (Suc (ticks w2)) < unix_secs h (ticks v) + 300"
    by simp
  have user: "token_user h st p (unix_secs h (Suc (ticks w2))) = Some (u_id user)"
    using assms(4) enc t assms(3) by (simp add: token_user_def assms(7) jwt_laws_def crypto_laws_def)
  have "evolves (store w1) (store w2)"
    using assms(2,6) by (auto simp: guarantee_def intro: steps_evolve)
  moreover have "u_id user \<in> user_ids (store w1)"
    using insert_user_stored [OF v(1)] v(2) by simp
  ultimately have known: "u_id user \<in> user_ids (store w2)"
    using user_ids_evolve by blast
  show ?thesis
  proof (intro conjI impI)
    assume "cd_user_id p = u_id user"
    with known assms(11,12) have "insertable h (Suc (Suc (ticks w2))) p (store w2)"
      by (simp add: insertable_def)
    then show "\<exists>r w3. create_device h st p w2 = (Reply CREATED (Device_Body r), w3)"
      using user \<open>cd_user_id p = u_id user\<close> assms(7,9)
      by (intro create_device_quiet assms(1,8)) simp_all
  next
    assume "cd_user_id p \<noteq> u_id user"
    with user assms(7,9) check_enrollment_quiet [OF assms(1) _ assms(8), of w2 st]
    show "fst (create_device h st p w2) = wrong_token"
      by (simp add: create_device_def responding_def try_await_def await_def ret_def)
  qed
qed

text \<open>
  C38: a token that cannot be verified is as good as a valid one. When the token decodes to nothing, as
  any invented or expired one does, the comparison with the device's user is skipped, and the device is
  registered for whatever existing user the request names.
\<close>

theorem unverifiable_token_registers:
  assumes "quiet h" "jwt_decode h (unix_secs h (Suc (ticks w))) (cd_enrollment_token p) (jwt_secret st) = None"
    and "\<not> token_used (cd_enrollment_token p) (store w)" "prekey_signed h p"
    and "insertable h (Suc (Suc (ticks w))) p (store w)"
  shows "\<exists>r w'. create_device h st p w = (Reply CREATED (Device_Body r), w')"
  using assms(2) by (intro create_device_quiet assms(1,3-5)) (simp add: token_user_def)

section \<open>Witnesses\<close>

lemma dot_no_digit: "CHR ''.'' \<notin> set (show_nat n)"
  by (rule show_nat_no_char) (simp add: digit_value_def)

lemma takeWhile_until: "c \<notin> set xs \<Longrightarrow> takeWhile (\<lambda>x. x \<noteq> c) (xs @ c # ys) = xs"
  by (induction xs) auto

lemma sample_jwt_laws [simp]: "jwt_laws (sample_host network)"
  unfolding jwt_laws_def
proof (intro allI impI)
  fix secret token :: string and i :: uuid and e now :: nat
  let ?sub = "show_nat (unat i)"
  assume "jwt_encode (sample_host network) secret \<lparr>ec_sub = uuid_show (sample_host network) i, ec_exp = e\<rparr> = Some token"
    and now: "now < e"
  then have "token = secret @ ''.'' @ ?sub @ ''.'' @ show_nat e"
    by (simp add: sample_jwt_encode_def)
  with now show "jwt_decode (sample_host network) now token secret =
      Some \<lparr>ec_sub = uuid_show (sample_host network) i, ec_exp = e\<rparr>"
    by (simp add: sample_jwt_decode_def takeWhile_until [OF dot_no_digit] digits_value_show_nat Let_def)
qed

definition carol_key :: bytes where
  "carol_key = replicate 32 CHR ''c''"

text \<open>A registration of a third device, with a token.\<close>

definition carol_body :: "uuid \<Rightarrow> string \<Rightarrow> create_device_body" where
  "carol_body user token =
     \<lparr>cd_user_id = user, cd_identity_pubkey = carol_key, cd_prekey_pubkey = ''pk'',
      cd_signed_prekey = \<lparr>spk_key = ''spk'', spk_signature = sample_sign carol_key ''spk''\<rparr>,
      cd_one_time_prekeys = [''o1''], cd_device_label = ''phone'', cd_push_token = [],
      cd_enrollment_token = token\<rparr>"

lemma carol_signed: "prekey_signed (sample_host network) (carol_body user token)"
  by (simp add: prekey_signed_def carol_body_def verify_signed_prekey_signature_def vk_from_slice_def
      sig_from_slice_def to_array_def carol_key_def sample_sign_def)

lemma carol_insertable:
  assumes "t_devices d = t_devices sample_db" "user \<in> user_ids d" "n < 100"
  shows "insertable (sample_host network) n (carol_body user token) d"
proof -
  have "unat (word_of_nat k :: uuid) = k" if "k < 200" for k
    using that by (simp add: unat_of_nat)
  from this [of "100 + n"] assms(3) have n: "unat (word_of_nat (100 + n) :: uuid) = 100 + n"
    by simp
  have "word_of_nat (100 + n) \<noteq> i" if "unat (i :: uuid) < 100" for i
    using n that by (metis not_add_less1)
  from this [of 21] this [of 22] have "word_of_nat (100 + n) \<notin> {21, 22 :: uuid}"
    by simp
  with assms(1,2) show ?thesis
    by (simp add: insertable_def device_ids_def device_key_def carol_body_def sample_rows carol_key_def
        alice_key_def)
qed

theorem unverifiable_token_witness:
  "\<exists>r w'. create_device (sample_host no_network) sample_state (carol_body 11 ''made up'') (sample_world sample_db) =
     (Reply CREATED (Device_Body r), w')"
proof (rule unverifiable_token_registers)
  show "jwt_decode (sample_host no_network) (unix_secs (sample_host no_network) (Suc (ticks (sample_world sample_db))))
      (cd_enrollment_token (carol_body 11 ''made up'')) (jwt_secret sample_state) = None"
    by (simp add: sample_jwt_decode_def carol_body_def sample_state_def)
  show "insertable (sample_host no_network) (Suc (Suc (ticks (sample_world sample_db)))) (carol_body 11 ''made up'')
      (store (sample_world sample_db))"
    by (rule carol_insertable) (simp_all add: sample_world_def sample_db_def user_ids_def sample_alice_def)
qed (simp_all add: carol_signed token_used_def sample_rows)

text \<open>The token carol gets for her new account, and the world then.\<close>

definition carol_token :: string where
  "carol_token = ''secret'' @ ''.'' @ show_nat 100 @ ''.'' @ show_nat 1301"

lemma carol_created:
  obtains w1 where "create_user (sample_host network) sample_state ''carol'' (sample_world sample_db) =
      (Reply CREATED (New_User_Body \<lparr>u_id = 100, u_username = ''carol'', u_created_at = Some (seconds 1000)\<rparr> carol_token), w1)"
    "ticks w1 = Suc (Suc 0)" "t_devices (store w1) = t_devices sample_db" "t_used_tokens (store w1) = []" "100 \<in> user_ids (store w1)"
proof -
  have "create_user_stmt ''carol'' (seconds 1000) 100 sample_db =
      Inr (\<lparr>u_id = 100, u_username = ''carol'', u_created_at = Some (seconds 1000)\<rparr>,
        sample_db\<lparr>t_users := t_users sample_db @ [\<lparr>us_id = 100, us_username = ''carol'',
          us_created_at = Some (seconds 1000), us_home_node_id = None, us_federated_address = None\<rparr>]\<rparr>)"
    by (simp add: create_user_stmt_def as_user_def user_ids_def sample_rows)
  with that show ?thesis
    by (simp add: create_user_def responding_def map_err_def try_await_def await_def ret_def insert_user_def
        exec_quiet sample_world_def generate_enrollment_tokens_def system_secs_def sample_jwt_encode_def
        sample_state_def carol_token_def user_ids_def)
      (simp add: sample_db_def empty_db_def)
qed

theorem enrollment_witness:
  "\<exists>w1 r w3. fst (create_user (sample_host no_network) sample_state ''carol'' (sample_world sample_db)) =
       Reply CREATED (New_User_Body \<lparr>u_id = 100, u_username = ''carol'', u_created_at = Some (seconds 1000)\<rparr> carol_token) \<and>
     w1 = snd (create_user (sample_host no_network) sample_state ''carol'' (sample_world sample_db)) \<and>
     create_device (sample_host no_network) sample_state (carol_body 100 carol_token) w1 = (Reply CREATED (Device_Body r), w3)"
proof -
  obtain w1 where w1: "create_user (sample_host no_network) sample_state ''carol'' (sample_world sample_db) =
      (Reply CREATED (New_User_Body \<lparr>u_id = 100, u_username = ''carol'', u_created_at = Some (seconds 1000)\<rparr> carol_token), w1)"
    "ticks w1 = Suc (Suc 0)" "t_devices (store w1) = t_devices sample_db" "t_used_tokens (store w1) = []" "100 \<in> user_ids (store w1)"
    by (rule carol_created)
  have "insertable (sample_host no_network) 4 (carol_body 100 carol_token) (store w1)"
    by (rule carol_insertable [OF w1(3,5)]) simp
  then have "\<exists>r w3. create_device (sample_host no_network) sample_state (carol_body 100 carol_token) w1 = (Reply CREATED (Device_Body r), w3)"
    using enrollment_roundtrip [OF sample_quiet sample_host_ok sample_crypto_laws sample_jwt_laws w1(1) guar.frame_refl,
        of "carol_body 100 carol_token"] carol_signed w1(2,4)
    by (simp add: insertable_def token_used_def sample_world_def carol_body_def)
  with w1(1) show ?thesis
    by auto
qed

lemma carol_registers:
  obtains r w' where "create_device (sample_host network) sample_state (carol_body 11 ''made up'') (sample_world sample_db) =
     (Reply CREATED (Device_Body r), w')"
proof -
  have "insertable (sample_host network) (Suc (Suc 0)) (carol_body 11 ''made up'') sample_db"
    by (rule carol_insertable) (simp_all add: sample_db_def user_ids_def sample_alice_def)
  then have "\<exists>r w'. create_device (sample_host network) sample_state (carol_body 11 ''made up'') (sample_world sample_db) =
     (Reply CREATED (Device_Body r), w')"
    by (intro create_device_quiet sample_quiet carol_signed)
      (simp_all add: token_used_def token_user_def sample_jwt_decode_def carol_body_def sample_state_def
        sample_world_def sample_db_def empty_db_def)
  with that show ?thesis
    by blast
qed

theorem create_device_sound_witness:
  "\<exists>r w'. create_device (sample_host no_network) sample_state (carol_body 11 ''made up'') (sample_world sample_db) =
       (Reply CREATED (Device_Body r), w') \<and> r \<in> set (t_devices (store w')) \<and> dv_user_id r = 11"
proof -
  obtain r w' where r: "create_device (sample_host no_network) sample_state (carol_body 11 ''made up'')
      (sample_world sample_db) = (Reply CREATED (Device_Body r), w')"
    by (rule carol_registers)
  from create_device_sound [OF sample_host_ok r] r show ?thesis
    by (auto simp: describes_def carol_body_def)
qed

theorem token_registers_once_witness:
  "\<exists>r w'. create_device (sample_host no_network) sample_state (carol_body 11 ''made up'') (sample_world sample_db) =
       (Reply CREATED (Device_Body r), w') \<and>
     fst (create_device (sample_host no_network) sample_state (carol_body 12 ''made up'') w') \<in>
       {wrong_token, error_reply INTERNAL_SERVER_ERROR ''Database error''}"
proof -
  obtain r w' where r: "create_device (sample_host no_network) sample_state (carol_body 11 ''made up'')
      (sample_world sample_db) = (Reply CREATED (Device_Body r), w')"
    by (rule carol_registers)
  from token_registers_once [OF sample_host_ok r guar.frame_refl, of "carol_body 12 ''made up''"] r show ?thesis
    by (simp add: carol_body_def)
qed

end
