(* ===== verification/Key_Material.thy ===== *)
theory Key_Material
  imports Accounts Federation_Controller
begin

text \<open>
  The keys the server holds and hands out: its own pair across restarts, the key bundles of its users,
  and the identity keys that name devices.
\<close>

section \<open>The node's own pair\<close>

text \<open>
  C21: a node keeps its key across restarts, and what it signs verifies. The first start makes a pair and
  every later one loads the same; for each of them, the pair signs any message, and its public half
  verifies the signature and is what peers are given.
\<close>

theorem node_keys_survive:
  assumes "crypto_laws h" "f \<noteq> Garbled" "\<forall>ks. f = Stored ks \<longrightarrow> (\<exists>sk. length sk = 32 \<and> ks = key_pair h sk)"
    and "load_or_generate h (f, w) = (Inr ks, f', w')"
  shows "load_or_generate h (f', w2) = (Inr ks, f', w2) \<and>
    (\<exists>sig. sign_message h ks m = Inr sig \<and> verify_message h ks m sig = Inr True)"
proof -
  from assms(4) have f': "f' = Stored ks"
    by (auto simp: load_or_generate_def generate_and_save_def get_node_keys_path_def Let_def split: key_file.splits prod.splits if_splits)
  have "\<exists>sk. length sk = 32 \<and> ks = key_pair h sk"
  proof (cases f)
    case (Stored k)
    with assms(3,4) show ?thesis
      by (simp add: load_or_generate_def get_node_keys_path_def)
  qed (use assms(1,2,4) generate_key_pair [OF assms(1), of f w] in \<open>auto simp: load_or_generate_def generate_and_save_def get_node_keys_path_def Let_def split: prod.splits\<close>)
  then obtain sk where sk: "length sk = 32" "ks = key_pair h sk"
    by blast
  let ?sig = "b64_encode h (ed_sign h sk m)"
  have "sign_message h ks m = Inr ?sig"
    using signing_key_pair [OF assms(1) sk(1)] by (simp add: sign_message_def sk(2))
  moreover have "verify_message h ks m ?sig = Inr True"
    using verifying_key_pair [OF assms(1) sk(1)] assms(1) sk(1)
    by (simp add: verify_message_def sk(2) crypto_laws_def to_array_def)
  ultimately show ?thesis
    by (auto simp: f' load_or_generate_def get_node_keys_path_def)
qed

theorem node_keys_survive_witness:
  "\<exists>ks f' w'. load_or_generate (sample_host no_network) (Absent, sample_world empty_db) = (Inr ks, f', w') \<and>
     (\<exists>sig. sign_message (sample_host no_network) ks ''m'' = Inr sig \<and>
        verify_message (sample_host no_network) ks ''m'' sig = Inr True)"
proof -
  obtain ks f' w' where l: "load_or_generate (sample_host no_network) (Absent, sample_world empty_db) = (Inr ks, f', w')"
    by (simp add: load_or_generate_def generate_and_save_def get_node_keys_path_def fill_random_def Let_def)
  from node_keys_survive [OF sample_crypto_laws _ _ l, of "sample_world empty_db" "''m''"] l show ?thesis
    by auto
qed

section \<open>Key bundles\<close>

text \<open>
  Handing out a key bundle consumes nothing. Whatever fails, a request for a user's keys leaves the
  database as it was; so where the database answers, a second request is given the same bundles, with
  the same one-time prekeys.
\<close>

theorem one_time_prekeys_not_consumed:
  assumes "unshared h" "get_user_keys h u w = (r, w')"
  shows "store w' = store w \<and> (quiet h \<longrightarrow> fst (get_user_keys h u w') = r)"
proof -
  have "store w' = store w"
    using read_onlyD [OF keeps_device_handlers(6) assms] .
  moreover have "fst (get_user_keys h u v) = fst (get_user_keys h u w)" if "quiet h" "store v = store w" for v
    using that by (simp add: get_user_keys_def get_device_bundle_def responding_def or_return_def map_err_def
        try_await_def await_def ret_def exec_select_quiet split: sum.split prod.split)
  ultimately show ?thesis
    using assms(2) by (metis fst_conv)
qed

theorem one_time_prekeys_witness:
  "fst (get_user_keys (sample_host no_network) 11 (sample_world sample_db)) =
     fst (get_user_keys (sample_host no_network) 11 (snd (get_user_keys (sample_host no_network) 11 (sample_world sample_db))))"
  using one_time_prekeys_not_consumed [OF sample_unshared, of no_network 11 "sample_world sample_db"]
  by (cases "get_user_keys (sample_host no_network) 11 (sample_world sample_db)") simp

section \<open>Identity keys\<close>

lemma shadow_device_row:
  assumes "quiet h" "shadow_sender h peer f v k w = (Inr u, w')" "v \<notin> device_ids (store w)"
  shows "\<exists>r. t_devices (store w') = t_devices (store w) @ [r] \<and> dv_id r = v \<and> dv_user_id r = u \<and>
    dv_identity_pubkey r = k \<and> dv_created_at r = Some (db_clock h (Suc (ticks w)))"
proof -
  obtain w1 where 1: "upsert_shadow_user h (sender_username f) f (fn_id peer) w = (Inr u, w1)"
    and 2: "upsert_shadow_device h v u k w1 = (Inr (), w')"
    using assms(2) by (auto simp: shadow_sender_def try_await_Inr_iff)
  from 1 assms(1) have "t_devices (store w1) = t_devices (store w)" "ticks w1 = Suc (ticks w)"
    by (auto simp: upsert_shadow_user_def exec_quiet upsert_shadow_user_stmt_def
        split: sum.splits option.splits if_splits)
  with 2 assms(1,3) show ?thesis
    by (auto simp: upsert_shadow_device_def exec_quiet upsert_shadow_device_stmt_def insert_device_def
        device_ids_def split: if_splits)
qed

text \<open>
  A peer can take over a device's identity. Identity keys are unique per user only, and a request
  is attributed to the newest device with its key; so when a peer sends a message from a new device id
  under the key of a device of this node, the requests that device signs from then on are taken as the
  shadow user's.
\<close>

theorem shadow_device_takes_identity:
  assumes "quiet h" "shadow_sender h peer f v k w = (Inr u, w1)" "v \<notin> device_ids (store w)"
    and "\<forall>q \<in> set (t_devices (store w)). dv_identity_pubkey q = k \<longrightarrow>
      (\<exists>t < db_clock h (Suc (ticks w)). dv_created_at q = Some t)"
    and "t_devices (store w2) = t_devices (store w1)"
    and "authenticate_device h parts w2 = (Inr r, w3)" "rp_header parts ''X-Identity-Key'' = Some k"
  shows "dv_id r = v \<and> dv_user_id r = u"
proof -
  obtain s where s: "t_devices (store w1) = t_devices (store w) @ [s]" "dv_id s = v" "dv_user_id s = u"
    "dv_identity_pubkey s = k" "dv_created_at s = Some (db_clock h (Suc (ticks w)))"
    using shadow_device_row [OF assms(1-3)] by blast
  have "store w3 = store w2"
    using read_onlyD [OF keeps_authenticate_device(2) quiet_unshared [OF assms(1)] assms(6)] .
  moreover have "newest_device k (t_devices (store w3)) r"
    using assms(6,7) unfolding authenticate_device_Inr_iff by (auto simp: device_signed_def dest: get_device_Inr)
  ultimately have "newest_device k (t_devices (store w) @ [s]) r"
    using assms(5) s(1) by simp
  then have "r \<notin> set (t_devices (store w))" "r \<in> set (t_devices (store w) @ [s])"
    using assms(4) s(4,5) by (fastforce simp: newest_device_def)+
  with s show ?thesis
    by auto
qed

lemma get_device_known:
  assumes "quiet h" "q \<in> set (t_devices (store w))" "dv_identity_pubkey q = k"
  shows "\<exists>r w'. get_device_by_identity_key h k w = (Inr r, w')"
proof -
  have "q \<in> set (order_desc dv_created_at (filter (\<lambda>r. dv_identity_pubkey r = k) (t_devices (store w))))"
    using assms(2,3) by simp
  then obtain r rs where "order_desc dv_created_at (filter (\<lambda>r. dv_identity_pubkey r = k) (t_devices (store w))) = r # rs"
    by (cases "order_desc dv_created_at (filter (\<lambda>r. dv_identity_pubkey r = k) (t_devices (store w)))") auto
  then show ?thesis
    using assms(1) by (simp add: get_device_by_identity_key_def exec_quiet device_by_identity_key_stmt_def)
qed

lemma sample_shadow:
  obtains w1 where "shadow_sender (sample_host network) sample_node ''eve@b.net'' 77 alice_key (sample_world sample_db) =
     (Inr 100, w1)" "ticks w1 = Suc (Suc 0)"
proof -
  have "sender_username ''eve@b.net'' = ''eve''"
    by (simp add: sender_username_def split_first_def)
  then have "\<exists>d. upsert_shadow_user_stmt (sender_username ''eve@b.net'') ''eve@b.net'' 1 t 100 sample_db = Inr (100, d) \<and>
      t_devices d = t_devices sample_db \<and> user_ids d = insert 100 (user_ids sample_db)" for t
    by (simp add: upsert_shadow_user_stmt_def sample_rows id_sets insert_commute)
  then obtain d where d: "upsert_shadow_user_stmt (sender_username ''eve@b.net'') ''eve@b.net'' 1 (seconds 1000) 100 sample_db =
      Inr (100, d)" "t_devices d = t_devices sample_db" "user_ids d = insert 100 (user_ids sample_db)"
    by blast
  moreover have "\<exists>e. upsert_shadow_device_stmt 77 100 alice_key (seconds 1001) 101 d = Inr ((), e)"
    using d(2,3) by (simp add: upsert_shadow_device_stmt_def insert_device_def device_ids_def device_key_def
        sample_rows)
  ultimately show ?thesis
    using that by (auto simp: shadow_sender_def or_return_def map_err_def upsert_shadow_user_def
        upsert_shadow_device_def exec_quiet try_await_def await_def ret_def sample_world_def sample_node_def)
qed

theorem shadow_device_witness:
  "\<exists>w1 r w3. shadow_sender (sample_host no_network) sample_node ''eve@b.net'' 77 alice_key (sample_world sample_db) =
       (Inr 100, w1) \<and>
     authenticate_device (sample_host no_network) (sample_device_parts ''POST'' ''/messages'') w1 = (Inr r, w3) \<and>
     dv_id r = 77 \<and> dv_user_id r = 100"
proof -
  let ?h = "sample_host no_network" and ?parts = "sample_device_parts ''POST'' ''/messages''"
  obtain w1 where w1: "shadow_sender ?h sample_node ''eve@b.net'' 77 alice_key (sample_world sample_db) = (Inr 100, w1)"
    "ticks w1 = Suc (Suc 0)"
    by (rule sample_shadow)
  have fresh: "77 \<notin> device_ids (store (sample_world sample_db))"
    by (simp add: device_ids_def sample_rows)
  obtain q where q: "q \<in> set (t_devices (store w1))" "dv_identity_pubkey q = alice_key"
    using shadow_device_row [OF sample_quiet w1(1) fresh] by (metis in_set_conv_decomp)
  have "read_ts (show_nat 1000) = word_of_nat 1000"
    unfolding read_ts_def by (subst parse_i64_show_nat) simp_all
  then have "\<not> outside_window (word_of_nat 1002) (read_ts (show_nat 1000)) 30"
    by (simp only: outside_window_secs sint_of_secs) (subst outside_window_secs, simp_all)
  then obtain r w3 where r: "authenticate_device ?h ?parts w1 = (Inr r, w3)"
    using get_device_known [OF sample_quiet, of q "w1\<lparr>ticks := Suc (ticks w1)\<rparr>" alice_key no_network] q w1(2)
      sample_device_signed [of no_network "''POST''" "''/messages''"]
    unfolding authenticate_device_Inr_iff by auto
  have "dv_id r = 77 \<and> dv_user_id r = 100"
    by (rule shadow_device_takes_identity [OF sample_quiet w1(1) fresh _ refl r])
      (simp_all add: sample_rows sample_device_parts_def seconds_def)
  with w1(1) r show ?thesis
    by blast
qed

section \<open>Logging in\<close>

text \<open>
  What a login answers. A login with a signature that the given key does not verify is refused; any
  other is answered with the first user that has a device with this key, and with a null user, but
  still OK, where there is none. Nothing is written.
\<close>

theorem login_answers:
  assumes "quiet h"
  shows "fst (login_user h b w) =
    (if verify_message_signature h (lg_identity_pubkey b) (lg_message b) (lg_signature b) = Inr ()
     then Reply OK (User_Body (user_by_pubkey (lg_identity_pubkey b) (store w)))
     else error_reply UNAUTHORIZED ''Invalid signature'') \<and>
    store (snd (login_user h b w)) = store w"
  using assms
  by (cases "verify_message_signature h (lg_identity_pubkey b) (lg_message b) (lg_signature b)")
    (simp_all add: login_user_def responding_def or_return_def map_err_def try_await_def await_def ret_def
      find_user_by_pubkey_def exec_select_quiet)

theorem login_witness:
  "fst (login_user (sample_host no_network) \<lparr>lg_identity_pubkey = replicate 32 CHR ''z'', lg_message = ''m'',
     lg_signature = sample_sign (replicate 32 CHR ''z'') ''m''\<rparr> (sample_world sample_db)) = Reply OK (User_Body None)"
proof -
  let ?b = "\<lparr>lg_identity_pubkey = replicate 32 CHR ''z'', lg_message = ''m'',
     lg_signature = sample_sign (replicate 32 CHR ''z'') ''m''\<rparr>"
  have "user_by_pubkey (lg_identity_pubkey ?b) sample_db = None"
    by (simp add: user_by_pubkey_def find_None_iff sample_rows alice_key_def)
  moreover have "verify_message_signature (sample_host no_network) (lg_identity_pubkey ?b) (lg_message ?b) (lg_signature ?b) = Inr ()"
    by (simp add: verify_message_signature_def vk_from_slice_def sig_from_slice_def to_array_def sample_sign_def)
  ultimately show ?thesis
    using login_answers [OF sample_quiet, of no_network ?b "sample_world sample_db"] by (simp add: sample_world_def)
qed

end
