(* ===== verification/Sessions_Chats.thy ===== *)
theory Sessions_Chats
  imports Session_Controller Device_Security
begin

text \<open>
  Sessions and chats from end to end: an initiation reaches the recipient device's list, what a
  confirmation does and does not check, and the one direct chat of two users.
\<close>

section \<open>Direct chats\<close>

text \<open>
  C24: two users have one direct chat. Whoever asks first, the chat that is found or created for a pair
  is found again for the pair in either order, without another change.
\<close>

theorem direct_chat_symmetric:
  assumes "quiet h" "get_or_create_direct_chat h x y w = (Inr c, w')"
  shows "get_or_create_direct_chat h x y w' = (Inr c, w'\<lparr>ticks := Suc (ticks w')\<rparr>) \<and>
    get_or_create_direct_chat h y x w' = (Inr c, w'\<lparr>ticks := Suc (ticks w')\<rparr>)"
proof -
  have again: "direct_chat.call a b h w' = (Inr c, w'\<lparr>ticks := Suc (ticks w')\<rparr>)"
    if "direct_chat.call a b h w = (Inr c, w')" for a b
    by (rule direct_chat.call_again [OF assms(1) direct_chat.call_found [OF assms(1) that]])
  show ?thesis
    using assms(2) again [of x y] again [of y x]
    by (cases x y rule: linorder_cases) (auto simp: get_or_create_direct_chat_call)
qed

theorem direct_chat_witness:
  "\<exists>w'. get_or_create_direct_chat (sample_host no_network) 11 12 (sample_world sample_db) = (Inr 101, w') \<and>
     fst (get_or_create_direct_chat (sample_host no_network) 12 11 w') = Inr 101"
proof -
  obtain d where "insert_direct_chat (Some 11) (Some 12) (seconds 1001) 101 sample_db = Inr (101, d)"
    by (simp add: insert_direct_chat_def direct_shape_def chat_ids_def user_ids_def sample_rows)
  moreover have "find_direct_chat 11 12 sample_db = None"
    by (simp add: find_direct_chat_def sample_rows)
  ultimately obtain w' where w': "direct_chat.call 11 12 (sample_host no_network) (sample_world sample_db) = (Inr 101, w')"
    by (simp add: direct_chat.call_def exec_quiet select_def try_await_def await_def sample_world_def)
  then have w': "get_or_create_direct_chat (sample_host no_network) 11 12 (sample_world sample_db) = (Inr 101, w')"
    by (simp add: get_or_create_direct_chat_call)
  with direct_chat_symmetric [OF sample_quiet w'] show ?thesis
    by simp
qed

section \<open>The chat list\<close>

definition newest_first :: "('a \<Rightarrow> timestamp option) \<Rightarrow> 'a list \<Rightarrow> bool" where
  "newest_first f xs \<longleftrightarrow>
     sorted_wrt (\<lambda>x y. case f x of None \<Rightarrow> True | Some t \<Rightarrow> (case f y of None \<Rightarrow> False | Some t' \<Rightarrow> t' \<le> t)) xs"

lemma newest_first_map: "newest_first f (map g xs) \<longleftrightarrow> newest_first (f \<circ> g) xs"
  unfolding newest_first_def sorted_wrt_map comp_def by (rule refl)

lemma sort_key_two: "sort_key (\<lambda>r. if P r then 0 else 1 :: nat) xs = filter P xs @ filter (\<lambda>r. \<not> P r) xs"
proof (rule properties_for_sort_key)
  show "sorted (map (\<lambda>r. if P r then 0 else 1 :: nat) (filter P xs @ filter (\<lambda>r. \<not> P r) xs))"
    unfolding sorted_map sorted_wrt_append by (auto intro!: sorted_wrt_if_all)
qed (auto simp: filter_empty_conv intro!: filter_cong)

lemma order_desc_newest_first: "newest_first f (order_desc f xs)"
proof -
  let ?s = "sort_key (\<lambda>r. case f r of None \<Rightarrow> 0 | Some t \<Rightarrow> - t) xs"
  have "sorted_wrt (\<lambda>x y. (case f x of None \<Rightarrow> 0 | Some t \<Rightarrow> - t) \<le> (case f y of None \<Rightarrow> 0 | Some t \<Rightarrow> - t)) (filter (\<lambda>r. f r \<noteq> None) ?s)"
    using sorted_sort_key [of "\<lambda>r. case f r of None \<Rightarrow> 0 | Some t \<Rightarrow> - t" xs]
    unfolding sorted_map by (rule sorted_wrt_filter)
  then have "newest_first f (filter (\<lambda>r. f r \<noteq> None) ?s)"
    unfolding newest_first_def by (rule sorted_wrt_mono_rel [rotated]) (auto split: option.splits)
  moreover have "newest_first f (filter (\<lambda>r. f r = None) ?s)"
    unfolding newest_first_def by (rule sorted_wrt_if_all) simp
  moreover have "order_desc f xs = filter (\<lambda>r. f r = None) ?s @ filter (\<lambda>r. f r \<noteq> None) ?s"
    unfolding order_desc_def by (rule sort_key_two)
  ultimately show ?thesis
    by (auto simp: newest_first_def sorted_wrt_append)
qed

text \<open>The users of a chat: the two ends of a direct chat, the members of a group.\<close>

definition participants :: "db \<Rightarrow> chat \<Rightarrow> uuid set" where
  "participants d c =
     (if ch_chat_type c = Some ''direct'' then set_option (ch_user_a c) \<union> set_option (ch_user_b c)
      else if ch_chat_type c = Some ''group''
        then cm_user_id ` {m \<in> set (t_chat_members d). cm_chat_id m = ch_id c}
      else {})"

lemma visible_to_participants: "chat_visible u d c \<longleftrightarrow> u \<in> participants d c"
  by (auto simp: chat_visible_def participants_def elem_set)

lemma direct_partner:
  assumes "db_ok d" "c \<in> set (t_chats d)" "chat_visible u d c" "is_direct c"
  obtains p row where "chat_partner u c = Some p" "p \<noteq> u" "{ch_user_a c, ch_user_b c} = {Some u, Some p}"
    "find (\<lambda>r. Some (us_id r) = Some p) (t_users d) = Some row"
proof -
  have c: "direct_shape c" "opt_fk (user_ids d) (ch_user_a c)" "opt_fk (user_ids d) (ch_user_b c)"
    using assms(1,2) by (auto simp: db_ok_def chats_ok_def)
  with assms(4) obtain a b where ab: "ch_user_a c = Some a" "ch_user_b c = Some b" "a < b" "a \<in> user_ids d" "b \<in> user_ids d"
    by (auto simp: direct_shape_def is_direct_def opt_fk_def split: option.splits)
  define p where "p = (if u = a then b else a)"
  have "u = a \<or> u = b"
    using assms(3,4) ab by (auto simp: chat_visible_def is_direct_def)
  then have "p \<noteq> u" "chat_partner u c = Some p" "{ch_user_a c, ch_user_b c} = {Some u, Some p}" "p \<in> user_ids d"
    using ab by (auto simp: p_def chat_partner_def)
  moreover from \<open>p \<in> user_ids d\<close> obtain row where "find (\<lambda>r. Some (us_id r) = Some p) (t_users d) = Some row"
    by (cases "find (\<lambda>r. Some (us_id r) = Some p) (t_users d)") (auto simp: find_None_iff user_ids_def)
  ultimately show ?thesis
    using that by blast
qed

text \<open>
  C25: a device's chat list. It has one entry for each chat its user is a participant of, as an end of a
  direct chat or a member of a group, and no other, with the latest changes first; the entry of a direct chat
  names the other of its two users, with the name and the address that user is stored under.
\<close>

theorem chat_list_exact:
  assumes "quiet h" "db_ok (store w)" "user_of_device (store w) (dv_id v) = Some u"
    and "get_chats_for_device h v w = (Inr cs, w')"
  shows "mset (map cv_id cs) = mset (map ch_id (filter (\<lambda>c. u \<in> participants (store w) c) (t_chats (store w)))) \<and>
    newest_first cv_updated_at cs \<and>
    (\<forall>x \<in> set cs. cv_chat_type x = Some ''direct'' \<longrightarrow>
       (\<exists>r \<in> set (t_users (store w)). cv_partner_user_id x = Some (us_id r) \<and> us_id r \<noteq> u \<and>
          cv_partner_username x = Some (us_username r) \<and> cv_partner_federated_address x = us_federated_address r \<and>
          (\<exists>c \<in> set (t_chats (store w)). ch_id c = cv_id x \<and> participants (store w) c = {u, us_id r})))"
proof -
  let ?d = "store w"
  let ?cs = "order_desc ch_updated_at (filter (chat_visible u ?d) (t_chats ?d))"
  have cs: "cs = map (as_chat_view u ?d) ?cs"
    using assms(1,3,4) by (simp add: get_chats_for_device_def try_await_def await_def exec_select_quiet ret_def chats_of_user_def)
  have ids: "cv_id (as_chat_view u ?d c) = ch_id c" "cv_updated_at (as_chat_view u ?d c) = ch_updated_at c"
    "cv_chat_type (as_chat_view u ?d c) = ch_chat_type c" for c
    by (simp_all add: as_chat_view_def Let_def)
  have "mset (map cv_id cs) = mset (map ch_id (filter (\<lambda>c. u \<in> participants ?d c) (t_chats ?d)))"
    unfolding cs by (simp add: comp_def ids visible_to_participants)
  moreover have "newest_first cv_updated_at cs"
  proof -
    have "cv_updated_at \<circ> as_chat_view u ?d = ch_updated_at"
      by (simp add: fun_eq_iff ids)
    then show ?thesis
      unfolding cs newest_first_map by (simp add: order_desc_newest_first)
  qed
  moreover have "\<exists>r \<in> set (t_users ?d). cv_partner_user_id (as_chat_view u ?d c) = Some (us_id r) \<and> us_id r \<noteq> u \<and>
      cv_partner_username (as_chat_view u ?d c) = Some (us_username r) \<and>
      cv_partner_federated_address (as_chat_view u ?d c) = us_federated_address r \<and> participants ?d c = {u, us_id r}"
    if c: "c \<in> set (t_chats ?d)" "chat_visible u ?d c" "ch_chat_type c = Some ''direct''" for c
  proof -
    have "is_direct c"
      using c(3) by (simp add: is_direct_def)
    with direct_partner [OF assms(2) c(1,2)] obtain p row where p: "chat_partner u c = Some p" "p \<noteq> u"
      "{ch_user_a c, ch_user_b c} = {Some u, Some p}" "find (\<lambda>r. Some (us_id r) = Some p) (t_users ?d) = Some row"
      by blast
    then have "participants ?d c = {u, p}"
      using c(3) by (auto simp: participants_def doubleton_eq_iff)
    with p find_Some_iff_mem [OF p(4)] show ?thesis
      by (auto simp: as_chat_view_def)
  qed
  moreover have "\<exists>c \<in> set (t_chats ?d). chat_visible u ?d c \<and> x = as_chat_view u ?d c" if "x \<in> set cs" for x
    using that unfolding cs by auto
  ultimately show ?thesis
    by (metis ids(1,3))
qed

definition chatting_db :: db where
  "chatting_db = sample_db\<lparr>t_chats := [\<lparr>ch_id = 104, ch_chat_type = Some ''direct'', ch_user_a = Some 11,
     ch_user_b = Some 12, ch_name = None, ch_owner_id = None, ch_last_message_id = None,
     ch_created_at = Some 0, ch_updated_at = Some 0\<rparr>]\<rparr>"

lemma chatting_db_ok: "db_ok chatting_db"
  using sample_db_ok
  by (simp add: chatting_db_def db_ok_def id_sets chats_ok_def chat_type_check_def direct_shape_def opt_fk_def
      messages_ok_def sessions_ok_def)
    (simp add: sample_rows List.map_filter_simps)

theorem chat_list_witness:
  "\<exists>x. fst (get_chats_for_device (sample_host no_network) alice_device (sample_world chatting_db)) = Inr [x] \<and>
     cv_id x = 104 \<and> cv_partner_user_id x = Some 12"
proof -
  let ?w = "sample_world chatting_db"
  have user: "user_of_device (store ?w) (dv_id alice_device) = Some 11" and ok: "db_ok (store ?w)"
    using chatting_db_ok by (simp_all add: user_of_device_def chatting_db_def sample_rows)
  define cs where "cs = chats_of_user 11 (store ?w)"
  have cs: "get_chats_for_device (sample_host no_network) alice_device ?w =
      (Inr cs, ?w\<lparr>ticks := Suc (Suc (ticks ?w))\<rparr>)"
    using user by (simp add: get_chats_for_device_def try_await_def await_def exec_select_quiet ret_def cs_def)
  note list = chat_list_exact [OF sample_quiet ok user cs]
  have "mset (map cv_id cs) = {#104#}"
    using list by (simp add: chatting_db_def sample_world_def participants_def)
  then obtain x where x: "cs = [x]" "cv_id x = 104"
    by (cases cs) auto
  have "cv_partner_user_id y = Some 12" if "y \<in> set cs" for y
    using that by (auto simp: cs_def chats_of_user_def as_chat_view_def chat_partner_def chatting_db_def sample_world_def
        Let_def split: if_splits)
  with cs x show ?thesis
    by simp
qed

section \<open>Starting a session\<close>

text \<open>A pending session that carries what an initiation says.\<close>

definition carries :: "uuid \<Rightarrow> session_init \<Rightarrow> pending_session \<Rightarrow> bool" where
  "carries sender i r \<longleftrightarrow> pse_sender_device_id r = sender \<and> pse_recipient_device_id r = in_recipient_device_id i \<and>
     pse_ephemeral_pubkey r = in_ephemeral_pubkey i \<and> pse_sender_prekey_pub r = in_sender_prekey_pub i \<and>
     pse_otpk_used r = in_otpk_used i \<and> pse_ciphertext r = in_ciphertext i"

text \<open>The next \<open>k\<close> ids the server draws are distinct and new among the pending sessions.\<close>

definition fresh_pending :: "host \<Rightarrow> nat \<Rightarrow> world \<Rightarrow> bool" where
  "fresh_pending h k w \<longleftrightarrow> inj_on (gen_random_uuid h) {ticks w..<ticks w + k} \<and>
     (\<forall>n \<in> {ticks w..<ticks w + k}. gen_random_uuid h n \<notin> pse_id ` set (t_pending_sessions (store w)))"

definition init_call :: "host \<Rightarrow> uuid \<Rightarrow> session_init \<Rightarrow> world \<Rightarrow> (sql_error + unit) \<times> world" where
  "init_call h sender i =
     create_pending_session h sender (in_recipient_device_id i) (in_ephemeral_pubkey i)
       (in_sender_prekey_pub i) (in_otpk_used i) (in_ciphertext i)"

lemma init_loop:
  "(\<lambda>_ i. create_pending_session h sender (in_recipient_device_id i) (in_ephemeral_pubkey i)
     (in_sender_prekey_pub i) (in_otpk_used i) (in_ciphertext i)) = (\<lambda>_. init_call h sender)"
  by (simp add: fun_eq_iff init_call_def)

definition pending_row :: "uuid \<Rightarrow> session_init \<Rightarrow> timestamp \<Rightarrow> uuid \<Rightarrow> pending_session" where
  "pending_row sender i now new_id =
     \<lparr>pse_id = new_id, pse_sender_device_id = sender, pse_recipient_device_id = in_recipient_device_id i,
      pse_ephemeral_pubkey = in_ephemeral_pubkey i, pse_sender_prekey_pub = in_sender_prekey_pub i,
      pse_otpk_used = in_otpk_used i, pse_ciphertext = in_ciphertext i, pse_created_at = Some now\<rparr>"

definition add_pending :: "pending_session \<Rightarrow> db \<Rightarrow> db" where
  "add_pending r d = d\<lparr>t_pending_sessions := t_pending_sessions d @ [r],
     t_notifications := t_notifications d @
       (case user_of_device d (pse_recipient_device_id r) of None \<Rightarrow> [] | Some u \<Rightarrow> [Pending_Session_Notif u r])\<rparr>"

lemma carries_row [simp]: "carries sender i (pending_row sender i now new_id)"
  by (simp add: carries_def pending_row_def)

lemma add_pending_fields [simp]:
  "t_pending_sessions (add_pending r d) = t_pending_sessions d @ [r]"
  "device_ids (add_pending r d) = device_ids d"
  by (simp_all add: add_pending_def device_ids_def)

definition deliverable :: "uuid \<Rightarrow> db \<Rightarrow> session_init \<Rightarrow> bool" where
  "deliverable sender d i \<longleftrightarrow> sender \<in> device_ids d \<and> in_recipient_device_id i \<in> device_ids d"

lemma deliverable_add [simp]: "deliverable sender (add_pending r d) = deliverable sender d"
  by (simp add: deliverable_def fun_eq_iff)

lemma init_call_quiet:
  assumes "quiet h" "fresh_pending h (Suc k) w"
  shows "init_call h sender i w =
    (if deliverable sender (store w) i
     then (Inr (), w\<lparr>ticks := Suc (ticks w), store :=
       add_pending (pending_row sender i (db_clock h (ticks w)) (gen_random_uuid h (ticks w))) (store w)\<rparr>)
     else (Inl foreign_key_violation, w\<lparr>ticks := Suc (ticks w)\<rparr>))"
  using assms
  by (auto simp: init_call_def create_pending_session_def exec_quiet create_pending_session_stmt_def Let_def
      fresh_pending_def deliverable_def add_pending_def pending_row_def)

lemma fresh_pending_next:
  assumes "fresh_pending h (Suc k) w"
  shows "fresh_pending h k (w\<lparr>ticks := Suc (ticks w), store :=
    add_pending (pending_row sender i now (gen_random_uuid h (ticks w))) (store w)\<rparr>)"
  using assms
  by (force simp: fresh_pending_def pending_row_def inj_on_def)

text \<open>The loop appends a row for each initiation, up to the first that names an unknown device.\<close>

lemma inits_quiet:
  assumes "quiet h" "fresh_pending h (length inits) w"
  shows "\<exists>rs. list_all2 (carries sender) (takeWhile (deliverable sender (store w)) inits) rs \<and>
    t_pending_sessions (store (snd (for_each (\<lambda>_. init_call h sender) () inits w))) = t_pending_sessions (store w) @ rs \<and>
    fst (for_each (\<lambda>_. init_call h sender) () inits w) =
      (if list_all (deliverable sender (store w)) inits then Inr () else Inl foreign_key_violation)"
  using assms(2)
proof (induction inits arbitrary: w)
  case Nil
  then show ?case
    by (simp add: ret_def)
next
  case (Cons i inits)
  have fresh: "fresh_pending h (Suc (length inits)) w"
    using Cons.prems by simp
  note call = init_call_quiet [OF assms(1) fresh, of sender i]
  show ?case
  proof (cases "deliverable sender (store w) i")
    case True
    let ?r = "pending_row sender i (db_clock h (ticks w)) (gen_random_uuid h (ticks w))"
    let ?w = "w\<lparr>ticks := Suc (ticks w), store := add_pending ?r (store w)\<rparr>"
    from Cons.IH [OF fresh_pending_next [OF fresh, of sender i "db_clock h (ticks w)"]]
    obtain rs where "list_all2 (carries sender) (takeWhile (deliverable sender (store w)) inits) rs"
      "t_pending_sessions (store (snd (for_each (\<lambda>_. init_call h sender) () inits ?w))) = t_pending_sessions (store w) @ ?r # rs"
      "fst (for_each (\<lambda>_. init_call h sender) () inits ?w) =
        (if list_all (deliverable sender (store w)) inits then Inr () else Inl foreign_key_violation)"
      by auto
    with True call show ?thesis
      by (intro exI [of _ "?r # rs"]) (simp add: try_await_step)
  next
    case False
    with call show ?thesis
      by (simp add: try_await_step)
  qed
qed

text \<open>
  C35: starting a session on this node. Where the database answers, a request by one user's device for
  another user's devices stores a pending session for each initiation, which the recipient device's list then shows
  as it was sent, and is answered with CREATED, exactly when it names known devices only. Otherwise it is answered with an
  error, and the initiations before the first unknown device stay stored: the transaction that the
  handler opens does not cover them.
\<close>

theorem create_session_stores:
  assumes "quiet h" "fresh_pending h (Suc (length (cs_sessions_init p))) w" "dv_user_id sender \<noteq> cs_recipient_user_id p" "dv_id sender \<in> device_ids (store w)"
    and "create_local_session h sender p w = (r, w')"
  shows "(\<exists>rs. list_all2 (carries (dv_id sender)) (takeWhile (\<lambda>i. in_recipient_device_id i \<in> device_ids (store w)) (cs_sessions_init p)) rs \<and>
      t_pending_sessions (store w') = t_pending_sessions (store w) @ rs \<and>
      (\<forall>x \<in> set rs. x \<in> set (pending_sessions_of (pse_recipient_device_id x) (store w')))) \<and>
    r = (if \<forall>i \<in> set (cs_sessions_init p). in_recipient_device_id i \<in> device_ids (store w)
         then Inr (Reply CREATED (Status_Body ''ok''))
         else Inl (plain_error (INTERNAL_SERVER_ERROR, ''Failed to insert pending session'')))"
proof -
  let ?w = "w\<lparr>ticks := Suc (ticks w)\<rparr>"
  have fresh: "fresh_pending h (length (cs_sessions_init p)) ?w"
    using assms(2) by (force simp: fresh_pending_def inj_on_def)
  have d: "deliverable (dv_id sender) (store ?w) = (\<lambda>i. in_recipient_device_id i \<in> device_ids (store w))"
    using assms(4) by (simp add: deliverable_def fun_eq_iff)
  obtain rs where rs: "list_all2 (carries (dv_id sender)) (takeWhile (\<lambda>i. in_recipient_device_id i \<in> device_ids (store w)) (cs_sessions_init p)) rs"
    "t_pending_sessions (store (snd (for_each (\<lambda>_. init_call h (dv_id sender)) () (cs_sessions_init p) ?w))) = t_pending_sessions (store w) @ rs"
    "fst (for_each (\<lambda>_. init_call h (dv_id sender)) () (cs_sessions_init p) ?w) =
      (if list_all (\<lambda>i. in_recipient_device_id i \<in> device_ids (store w)) (cs_sessions_init p) then Inr () else Inl foreign_key_violation)"
    using inits_quiet [OF assms(1) fresh, of "dv_id sender"] unfolding d by auto
  obtain e v where e: "for_each (\<lambda>_. init_call h (dv_id sender)) () (cs_sessions_init p) ?w = (e, v)"
    by fastforce
  have "r = (case e of Inl _ \<Rightarrow> Inl (plain_error (INTERNAL_SERVER_ERROR, ''Failed to insert pending session''))
      | Inr _ \<Rightarrow> Inr (Reply CREATED (Status_Body ''ok''))) \<and> store w' = store v"
    using assms(1,3,5) e unfolding create_local_session_def init_loop
    by (cases e) (auto simp: or_return_def map_err_def transaction_stmt_def exec_select_quiet
        try_await_def await_def ret_def)
  with rs e show ?thesis
    by (auto simp: list_all_iff pending_sessions_of_def)
qed

definition sample_init :: "uuid \<Rightarrow> session_init" where
  "sample_init v = \<lparr>in_recipient_device_id = v, in_ephemeral_pubkey = ''e'', in_sender_prekey_pub = ''p'',
     in_otpk_used = ''o1'', in_ciphertext = ''c''\<rparr>"

definition sample_create :: create_session_body where
  "sample_create = \<lparr>cs_recipient_user_id = 12, cs_recipient_user_address = None,
     cs_sessions_init = [sample_init 22, sample_init 99]\<rparr>"

lemma sample_fresh: "fresh_pending (sample_host network) 3 (sample_world sample_db)"
proof -
  have "{0..<3 :: nat} = {0, 1, 2}"
    by auto
  then show ?thesis
    by (simp add: fresh_pending_def sample_rows)
qed

theorem create_session_witness:
  "\<exists>w' rs. create_local_session (sample_host no_network) alice_device sample_create (sample_world sample_db) =
       (Inl (plain_error (INTERNAL_SERVER_ERROR, ''Failed to insert pending session'')), w') \<and>
     t_pending_sessions (store w') = rs \<and> list_all2 (carries 21) [sample_init 22] rs"
proof -
  obtain r w' where w': "create_local_session (sample_host no_network) alice_device sample_create (sample_world sample_db) = (r, w')"
    by fastforce
  have "fresh_pending (sample_host no_network) (Suc (length (cs_sessions_init sample_create))) (sample_world sample_db)"
    using sample_fresh by (simp add: sample_create_def numeral_3_eq_3)
  from create_session_stores [OF sample_quiet this _ _ w'] w' show ?thesis
    by (auto simp: sample_create_def sample_init_def device_ids_def sample_rows)
qed

section \<open>Confirming a session\<close>

lemma session_key_stored:
  "insert_or_update_session h c s r w = (Inr u, w') \<Longrightarrow> (s, r) \<in> session_key ` set (t_sessions (store w'))"
proof -
  have keep: "session_key ` set (update_where P (\<lambda>x. x\<lparr>ss_updated_at := t\<rparr>) rows) = session_key ` set rows" for P t rows
    by (rule image_update_where_same) (simp add: session_key_def)
  assume "insert_or_update_session h c s r w = (Inr u, w')"
  then show ?thesis
    by (auto simp: insert_or_update_session_def exec_Inr_iff insert_or_update_session_stmt_def
        keep split: if_splits) (simp add: session_key_def)
qed

lemma session_keys_evolve:
  assumes "evolves d d'"
  shows "session_key ` set (t_sessions d) \<subseteq> session_key ` set (t_sessions d')"
proof (rule image_subsetI)
  fix x assume "x \<in> set (t_sessions d)"
  with assms obtain y where "y \<in> set (t_sessions d')" "same_session x y"
    by (auto simp: evolves_def kept_def)
  then show "session_key x \<in> session_key ` set (t_sessions d')"
    by (intro image_eqI [of _ _ y]) (auto simp: same_session_def session_key_def)
qed

lemma confirm_session_OK:
  assumes "confirm_session_as h v p w = (Inr reply, w')"
  obtains ps c w1 w2 w3 where
    "get_pending_session_by_id h (cf_pending_session_id p) (dv_id v) w = (Inr (Some ps), w1)"
    "get_or_create_chat_id h (cf_sender_device_id p) (cf_receiver_device_id p) w1 = (Inr c, w2)"
    "insert_or_update_session h c (cf_sender_device_id p) (cf_receiver_device_id p) w2 = (Inr (), w3)"
    "delete_pending_session h (cf_pending_session_id p) w3 = (Inr (), w')"
    "reply = Reply CREATED (Status_Body ''session confirmed'')"
  using assms by (auto simp: confirm_session_as_def try_await_Inr_iff split: option.splits)

text \<open>
  C22: a confirmation turns a pending session of the caller into a session. When it is answered with
  CREATED, then whatever else ran, the named pending session was the calling device's, it is gone, and
  there is a session for the two devices the request names.
\<close>

theorem confirm_session_sound:
  assumes "host_ok h" "confirm_session_as h v p w = (Inr reply, w')"
  shows "(\<exists>ps \<in> set (t_pending_sessions (others h (ticks w) (store w))).
      pse_id ps = cf_pending_session_id p \<and> pse_recipient_device_id ps = dv_id v) \<and>
    cf_pending_session_id p \<notin> pse_id ` set (t_pending_sessions (store w')) \<and>
    (cf_sender_device_id p, cf_receiver_device_id p) \<in> session_key ` set (t_sessions (store w')) \<and>
    reply = Reply CREATED (Status_Body ''session confirmed'')"
proof -
  from assms(2) obtain ps c w1 w2 w3 where
    found: "get_pending_session_by_id h (cf_pending_session_id p) (dv_id v) w = (Inr (Some ps), w1)" and
    ins: "insert_or_update_session h c (cf_sender_device_id p) (cf_receiver_device_id p) w2 = (Inr (), w3)" and
    del: "delete_pending_session h (cf_pending_session_id p) w3 = (Inr (), w')" and
    reply: "reply = Reply CREATED (Status_Body ''session confirmed'')"
    by (rule confirm_session_OK)
  have "ps \<in> set (t_pending_sessions (others h (ticks w) (store w))) \<and>
      pse_id ps = cf_pending_session_id p \<and> pse_recipient_device_id ps = dv_id v"
    using found by (auto simp: get_pending_session_by_id_def exec_select_Inr_iff pending_session_by_id_def
        dest!: sym [of "Some ps"] find_Some_iff_mem)
  moreover have "cf_pending_session_id p \<notin> pse_id ` set (t_pending_sessions (store w'))"
    using del by (auto simp: delete_pending_session_def exec_Inr_iff delete_pending_session_stmt_def)
  moreover have "(cf_sender_device_id p, cf_receiver_device_id p) \<in> session_key ` set (t_sessions (store w'))"
    using session_key_stored [OF ins] session_keys_evolve [OF guarantee_evolves [OF keeps_sessions(4) assms(1) del]] by blast
  ultimately show ?thesis
    using reply by blast
qed

lemma confirm_session_runs:
  assumes "quiet h" "pending_session_by_id (cf_pending_session_id p) (dv_id v) (store w) = Some ps"
    and "find_chat_of_devices (cf_sender_device_id p) (cf_receiver_device_id p) (store w) = Some c" "c \<in> chat_ids (store w)"
    and "cf_sender_device_id p \<in> device_ids (store w)" "cf_receiver_device_id p \<in> device_ids (store w)"
    and "gen_random_uuid h (Suc (Suc (ticks w))) \<notin> ss_id ` set (t_sessions (store w))"
  shows "\<exists>w'. confirm_session_as h v p w = (Inr (Reply CREATED (Status_Body ''session confirmed'')), w') \<and>
    (cf_sender_device_id p, cf_receiver_device_id p) \<in> session_key ` set (t_sessions (store w'))"
proof -
  let ?w1 = "w\<lparr>ticks := Suc (ticks w)\<rparr>" and ?w2 = "w\<lparr>ticks := Suc (Suc (ticks w))\<rparr>"
  have "get_pending_session_by_id h (cf_pending_session_id p) (dv_id v) w = (Inr (Some ps), ?w1)"
    using assms(1,2) by (simp add: get_pending_session_by_id_def exec_select_quiet)
  moreover have "get_or_create_chat_id h (cf_sender_device_id p) (cf_receiver_device_id p) ?w1 = (Inr c, ?w2)"
    using chat_of_devices.call_again [OF assms(1), of "cf_sender_device_id p" "cf_receiver_device_id p" ?w1 c] assms(3)
    by (simp add: get_or_create_chat_call)
  moreover have "\<exists>w3. insert_or_update_session h c (cf_sender_device_id p) (cf_receiver_device_id p) ?w2 = (Inr (), w3)"
    using assms(1,4-7) by (auto simp: insert_or_update_session_def exec_quiet insert_or_update_session_stmt_def)
  then obtain w3 where w3: "insert_or_update_session h c (cf_sender_device_id p) (cf_receiver_device_id p) ?w2 = (Inr (), w3)"
    by blast
  moreover have "delete_pending_session h (cf_pending_session_id p) w3 =
      (Inr (), w3\<lparr>ticks := Suc (ticks w3), store := (store w3)\<lparr>t_pending_sessions :=
        filter (\<lambda>r. pse_id r \<noteq> cf_pending_session_id p) (t_pending_sessions (store w3))\<rparr>\<rparr>)"
    using assms(1) by (simp add: delete_pending_session_def exec_quiet delete_pending_session_stmt_def)
  ultimately show ?thesis
    using session_key_stored [OF w3]
    by (simp add: confirm_session_as_def or_return_def map_err_def try_await_def await_def ret_def)
qed

text \<open>
  The devices of a confirmation are not checked. A device with a pending session can confirm it
  with any two devices of different users, and the session of those two is created, although neither
  need be the device itself or the sender of the initiation.
\<close>

theorem confirm_session_unchecked:
  assumes "quiet h" "pending_session_by_id (cf_pending_session_id p) (dv_id v) (store w) = Some ps"
    and "find_chat_of_devices (cf_sender_device_id p) (cf_receiver_device_id p) (store w) = Some c" "c \<in> chat_ids (store w)"
    and "cf_sender_device_id p \<in> device_ids (store w)" "cf_receiver_device_id p \<in> device_ids (store w)"
    and "gen_random_uuid h (Suc (Suc (ticks w))) \<notin> ss_id ` set (t_sessions (store w))"
  shows "\<exists>w'. confirm_session_as h v p w = (Inr (Reply CREATED (Status_Body ''session confirmed'')), w') \<and>
    (cf_sender_device_id p, cf_receiver_device_id p) \<in> session_key ` set (t_sessions (store w'))"
  by (rule confirm_session_runs [OF assms])

text \<open>A third user with a device and a chat with bob, and an initiation of bob's device for alice's.\<close>

definition session_db :: db where
  "session_db = sample_db
     \<lparr>t_users := [sample_alice, sample_bob, \<lparr>us_id = 13, us_username = ''dan'', us_created_at = Some 0,
        us_home_node_id = None, us_federated_address = None\<rparr>],
      t_devices := [alice_device, bob_device, device_row 23 13 (replicate 32 CHR ''d'')],
      t_chats := [\<lparr>ch_id = 105, ch_chat_type = Some ''direct'', ch_user_a = Some 12, ch_user_b = Some 13,
        ch_name = None, ch_owner_id = None, ch_last_message_id = None, ch_created_at = Some 0, ch_updated_at = Some 0\<rparr>],
      t_pending_sessions := [pending_row 22 (sample_init 21) 0 7]\<rparr>"

definition stray_confirmation :: confirm_session_body where
  "stray_confirmation = \<lparr>cf_pending_session_id = 7, cf_sender_device_id = 22, cf_receiver_device_id = 23\<rparr>"

lemma stray_found:
  "pending_session_by_id 7 21 session_db = Some (pending_row 22 (sample_init 21) 0 7)"
  "find_chat_of_devices 22 23 session_db = Some 105" "105 \<in> chat_ids session_db"
  "22 \<in> device_ids session_db" "23 \<in> device_ids session_db" "t_sessions session_db = []"
  by (simp_all add: pending_session_by_id_def find_chat_of_devices_def device_pair_def user_of_device_def
      chat_ids_def device_ids_def session_db_def sample_rows pending_row_def sample_init_def)

lemma alice_id: "dv_id alice_device = 21"
  by (simp add: alice_device_def device_row_def)

theorem confirm_session_unchecked_witness:
  "\<exists>w'. confirm_session_as (sample_host no_network) alice_device stray_confirmation (sample_world session_db) =
       (Inr (Reply CREATED (Status_Body ''session confirmed'')), w') \<and>
     (22, 23) \<in> session_key ` set (t_sessions (store w'))"
  using confirm_session_unchecked [OF sample_quiet, of stray_confirmation alice_device "sample_world session_db"
      "pending_row 22 (sample_init 21) 0 7" 105 no_network]
  by (simp add: stray_confirmation_def stray_found alice_id sample_world_def)

lemma stray_confirmed:
  obtains w' where "confirm_session_as (sample_host network) alice_device stray_confirmation (sample_world session_db) =
    (Inr (Reply CREATED (Status_Body ''session confirmed'')), w')"
proof -
  have "\<exists>w'. confirm_session_as (sample_host network) alice_device stray_confirmation (sample_world session_db) =
    (Inr (Reply CREATED (Status_Body ''session confirmed'')), w')"
    using confirm_session_runs [OF sample_quiet, of stray_confirmation alice_device "sample_world session_db"
      "pending_row 22 (sample_init 21) 0 7" 105 network]
    by (auto simp: stray_confirmation_def stray_found alice_id sample_world_def)
  with that show ?thesis
    by blast
qed

theorem confirm_session_witness:
  "\<exists>w'. confirm_session_as (sample_host no_network) alice_device stray_confirmation (sample_world session_db) =
       (Inr (Reply CREATED (Status_Body ''session confirmed'')), w') \<and>
     7 \<notin> pse_id ` set (t_pending_sessions (store w'))"
proof -
  obtain w' where w': "confirm_session_as (sample_host no_network) alice_device stray_confirmation (sample_world session_db) =
    (Inr (Reply CREATED (Status_Body ''session confirmed'')), w')"
    by (rule stray_confirmed)
  from confirm_session_sound [OF sample_host_ok w'] w' show ?thesis
    by (simp add: stray_confirmation_def)
qed

end
