(* ===== verification/Two_Nodes.thy ===== *)
theory Two_Nodes
  imports Message_Delivery Federation_Outbox
begin

text \<open>
  Two nodes: the sender's federation client joined to the peer's \<^verbatim>\<open>POST /s2s/messages\<close> endpoint by an
  HTTP connection, so that what the sender's outbox records can be compared with what the peer's
  database holds.
\<close>

section \<open>The peer as the sender sees it\<close>

fun status_number :: "status_code \<Rightarrow> nat" where
  "status_number OK = 200"
| "status_number CREATED = 201"
| "status_number ACCEPTED = 202"
| "status_number BAD_REQUEST = 400"
| "status_number UNAUTHORIZED = 401"
| "status_number FORBIDDEN = 403"
| "status_number NOT_FOUND = 404"
| "status_number CONFLICT = 409"
| "status_number INTERNAL_SERVER_ERROR = 500"
| "status_number BAD_GATEWAY = 502"
| "status_number SERVICE_UNAVAILABLE = 503"

text \<open>The JSON of the bodies this endpoint replies with; a rejection of an extractor is plain text.\<close>

fun body_json :: "body \<Rightarrow> json option" where
  "body_json (Error_Body s) = Some (JObj [(''error'', JStr s)])"
| "body_json (Ack_Body a) = Some (ack_to_json a)"
| "body_json _ = None"

fun http_of_reply :: "reply \<Rightarrow> http_result" where
  "http_of_reply (Reply c b) = Http_Response (status_number c) (body_json b)"
| "http_of_reply Panic = Http_Error"

text \<open>
  The endpoint with its extractors, in their order: the peer is authenticated first, then axum's \<^verbatim>\<open>Json\<close>
  reads the body and rejects one it cannot read with 422.
\<close>

definition post_messages :: "host \<Rightarrow> app_state \<Rightarrow> http_request \<Rightarrow> world \<Rightarrow> http_result \<times> world" where
  "post_messages h st r =
     (case Option.bind (hr_body r) (message_payload_of_json (uuid_parse h)) of
        None \<Rightarrow>
          await (as_peer h st (received r)) (\<lambda>p.
            ret (case p of Inl rejection \<Rightarrow> http_of_reply rejection | Inr _ \<Rightarrow> Http_Response 422 None))
      | Some payload \<Rightarrow>
          await (receive_messages h st (received r) payload) (\<lambda>reply. ret (http_of_reply reply)))"

section \<open>Delivered means stored\<close>

lemma accept_rejects_without_ack:
  "accept_messages h peer p w = (Inl rep, w') \<Longrightarrow> \<exists>c msg. rep = error_reply c msg"
  by (auto simp: accept_messages_def local_user_or_return_def shadow_sender_def try_await_Inl_iff
      internal_error_def ok_or_def split: option.splits)

lemma ack_from_reply:
  assumes "receive_messages h st parts p w = (rep, w')"
    and "http_of_reply rep = Http_Response s (Some j)" "ack_of_json j = Some ack"
  obtains peer w1 where "as_peer h st parts w = (Inr peer, w1)"
    "accept_messages h peer p w1 = (Inr rep, w')" "rep = Reply OK (Ack_Body ack)"
proof -
  have err: "rep \<noteq> error_reply c msg" for c msg
    using assms(2,3) by (auto simp: error_reply_def ack_of_json_def)
  have plain: "rep \<noteq> plain_error e" for e
    using assms(2) by (auto simp: plain_error_def split: prod.splits)
  obtain x w1 where x: "as_peer h st parts w = (x, w1)"
    by fastforce
  show ?thesis
  proof (cases x)
    case (Inl r)
    with x assms(1) have "rep = r"
      by (simp add: receive_messages_def responding_def try_await_def await_def ret_def)
    moreover have "\<exists>e. r = plain_error e"
      using x Inl by (auto simp: as_peer_def)
    ultimately have "\<exists>e. rep = plain_error e"
      by simp
    with plain show ?thesis
      by blast
  next
    case (Inr peer)
    with x assms(1) have "accept_messages h peer p w1 = (Inr rep, w')"
      using err accept_rejects_without_ack [of h peer p w1 rep w']
      by (auto simp: receive_messages_def responding_def try_await_def await_def ret_def
          split: prod.splits sum.splits)
    moreover from this have "rep = Reply OK (Ack_Body ack)"
      by (rule accept_messages_OK) (use assms(2,3) in auto)
    ultimately show ?thesis
      using that x Inr by blast
  qed
qed

lemma forward_messages_Inr:
  assumes "forward_messages h c url p w = (Inr ack, w')"
  obtains r k s j where "sent w' = sent w @ [r]" "hr_url r = url @ ''/s2s/messages''"
    "hr_body r = Some (message_payload_to_json (uuid_show h) p)"
    "http_send h k r = Http_Response s (Some j)" "ack_of_json j = Some ack"
proof -
  obtain sg w1 where sign: "sign h c ''POST'' ''/s2s/messages'' w = (Inr sg, w1)" and s1: "sent w1 = sent w"
    using assms by (auto simp: forward_messages_def signed_post_def try_await_Inr_iff sign_def await_eq_iff
        system_secs_def fill_random_def Let_def)
  let ?r = "\<lparr>hr_method = ''POST'', hr_url = url @ ''/s2s/messages'',
    hr_headers = (''Content-Type'', ''application/json'') # auth_headers c sg,
    hr_body = Some (message_payload_to_json (uuid_show h) p)\<rparr>"
  show ?thesis
  proof (cases "http_send h (ticks w1) ?r")
    case Http_Error
    with assms sign show ?thesis
      by (simp add: forward_messages_def signed_post_def try_await_step await_def send_http_def ret_def
          or_http_error_def try_await_def)
  next
    case (Http_Response s body)
    with assms sign have "w' = w1\<lparr>ticks := Suc (ticks w1), sent := sent w1 @ [?r]\<rparr>"
      "\<exists>j. body = Some j \<and> ack_of_json j = Some ack"
      by (auto simp: forward_messages_def signed_post_def try_await_step await_def send_http_def ret_def
          or_http_error_def try_await_def error_for_status_def json_body_def ok_or_def
          split: if_splits option.splits bind_splits)
    with that [of ?r "ticks w1" s] s1 Http_Response show ?thesis
      by auto
  qed
qed

text \<open>Authenticating the peer adds no row, so what held before the request is what its handler starts from.\<close>

lemma received_copies:
  assumes "host_ok h" "as_peer h st parts w = (Inr peer, w1)"
    and "accept_messages h peer p w1 = (Inr reply, w')" "dev \<in> set (sm_payloads p)"
  shows "\<exists>m \<in> set (t_messages (store w')). message_key m = Some (sm_logical_msg_id p, sd_to_device_id dev) \<and>
    (others_leave h (sm_logical_msg_id p) \<longrightarrow>
       (\<exists>m0 \<in> set (t_messages (store w)). same_message m0 m) \<or> accepted_copy p (store w') m)"
proof -
  from acknowledged_copies [OF assms(1,3,4)] obtain m where m: "m \<in> set (t_messages (store w'))"
    "message_key m = Some (sm_logical_msg_id p, sd_to_device_id dev)"
    and from1: "others_leave h (sm_logical_msg_id p) \<Longrightarrow>
      (\<exists>m1 \<in> set (t_messages (store w1)). same_message m1 m) \<or> accepted_copy p (store w') m"
    by blast
  have "(\<exists>m0 \<in> set (t_messages (store w)). same_message m0 m) \<or> accepted_copy p (store w') m"
    if leave: "others_leave h (sm_logical_msg_id p)"
  proof -
    have "from_rows (sm_logical_msg_id p) (\<lambda>_. False) (store w) (store w1)"
      by (rule addsD [OF adds_extractors(2) leave assms(2)])
    moreover have "me_logical_msg_id m1 = sm_logical_msg_id p" if "same_message m1 m" for m1
      using that m(2) by (auto simp: same_message_def message_key_def)
    ultimately show ?thesis
      using from1 [OF leave] unfolding from_rows_def by (blast intro: same_trans(3))
  qed
  with m show ?thesis
    by blast
qed

text \<open>
  C8: what the sender counts as delivered is in the peer's database. When the sender's client forwards a
  message to a peer and gets an acknowledgement, from which the outbox marks the entry delivered, then
  the acknowledgement is for this message and, whatever statements failed at the peer, the peer has for
  each recipient device a row under the message's logical id. Unless a row with that id was there before
  or another connection stored one, the row is the message that was forwarded: the header and the ciphertext
  for that device, the sending device, the sender's federated address and the account it was addressed to.
\<close>

theorem delivered_means_stored:
  assumes "host_ok hb" "crypto_laws hb" "same_crates ha hb"
    and "\<forall>k r. hr_url r = url @ ''/s2s/messages'' \<longrightarrow> http_send ha k r = fst (post_messages hb stb r wb)"
    and "forward_messages ha c url p w = (Inr ack, w')"
  shows "ack_logical_msg_id ack = sm_logical_msg_id p \<and>
    (\<exists>r wb'. sent w' = sent w @ [r] \<and> wb' = snd (post_messages hb stb r wb) \<and>
       (\<forall>dev \<in> set (sm_payloads p). \<exists>m \<in> set (t_messages (store wb')).
          message_key m = Some (sm_logical_msg_id p, sd_to_device_id dev) \<and>
          (others_leave hb (sm_logical_msg_id p) \<longrightarrow>
             (\<exists>m0 \<in> set (t_messages (store wb)). same_message m0 m) \<or> accepted_copy p (store wb') m)))"
proof -
  obtain r k s j where r: "sent w' = sent w @ [r]" "hr_url r = url @ ''/s2s/messages''"
    and body: "hr_body r = Some (message_payload_to_json (uuid_show ha) p)"
    and answer: "http_send ha k r = Http_Response s (Some j)" "ack_of_json j = Some ack"
    using assms(5) by (rule forward_messages_Inr)
  have "uuid_parse hb (uuid_show ha i) = Some i" for i
    using assms(2,3) by (simp add: crypto_laws_def same_crates_def)
  with body have p: "Option.bind (hr_body r) (message_payload_of_json (uuid_parse hb)) = Some p"
    by (simp add: message_payload_roundtrip)
  obtain rep wb' where run: "receive_messages hb stb (received r) p wb = (rep, wb')"
    by fastforce
  with p have post: "post_messages hb stb r wb = (http_of_reply rep, wb')"
    by (simp add: post_messages_def await_def ret_def)
  with assms(4) r(2) answer(1) have "http_of_reply rep = Http_Response s (Some j)"
    by simp
  from run this answer(2) obtain peer w1 where peer: "as_peer hb stb (received r) wb = (Inr peer, w1)"
    and accept: "accept_messages hb peer p w1 = (Inr rep, wb')" and rep: "rep = Reply OK (Ack_Body ack)"
    by (rule ack_from_reply)
  have "ack_logical_msg_id ack = sm_logical_msg_id p"
    using accept rep by (auto elim: accept_messages_OK)
  with r(1) post received_copies [OF assms(1) peer accept] show ?thesis
    by auto
qed

section \<open>A peer that is up\<close>

lemma forward_messages_run:
  assumes "signing_key h (fc_node_keys c) = Inr sk"
  shows "\<exists>r. hr_url r = url @ ''/s2s/messages'' \<and> hr_body r = Some (message_payload_to_json (uuid_show h) p) \<and>
    signed_request h (fc_this_node_id c) sk ''POST'' ''/s2s/messages'' (unix_secs h (ticks w))
      (os_rng h (Suc (ticks w)) 16) (received r) \<and>
    (\<forall>j ack. http_send h (Suc (Suc (ticks w))) r = Http_Response 200 (Some j) \<longrightarrow> ack_of_json j = Some ack \<longrightarrow>
       (\<exists>w'. forward_messages h c url p w = (Inr ack, w')))"
proof -
  let ?ts = "show_nat (unix_secs h (ticks w))" and ?nonce = "b64_encode h (os_rng h (Suc (ticks w)) 16)"
  let ?sg = "(?ts, ?nonce, b64_encode h (ed_sign h sk (canonical_string ''POST'' ''/s2s/messages'' ?ts ?nonce)))"
  let ?r = "\<lparr>hr_method = ''POST'', hr_url = url @ ''/s2s/messages'',
    hr_headers = (''Content-Type'', ''application/json'') # auth_headers c ?sg,
    hr_body = Some (message_payload_to_json (uuid_show h) p)\<rparr>"
  have sign: "sign h c ''POST'' ''/s2s/messages'' w = (Inr ?sg, w\<lparr>ticks := Suc (Suc (ticks w))\<rparr>)"
    by (rule sign_outcome [OF assms])
  have "signed_request h (fc_this_node_id c) sk ''POST'' ''/s2s/messages'' (unix_secs h (ticks w))
      (os_rng h (Suc (ticks w)) 16) (received ?r)"
    by (simp add: signed_request_def received_def auth_headers_def)
  moreover have "\<exists>w'. forward_messages h c url p w = (Inr ack, w')"
    if "http_send h (Suc (Suc (ticks w))) ?r = Http_Response 200 (Some j)" "ack_of_json j = Some ack" for j ack
    using that sign by (simp add: forward_messages_def signed_post_def try_await_def await_def send_http_def ret_def
        or_http_error_def error_for_status_def is_error_status_def json_body_def)
  ultimately show ?thesis
    by (intro exI [of _ ?r]) auto
qed

lemma willing_peer_run:
  assumes "quiet hb" "crypto_laws hb" "same_crates ha hb" "crypto_laws ha"
    and "signing_key ha (fc_node_keys c) = Inr sk" "length sk = 32"
    and "url = scheme @ ''://'' @ authority" "CHR '':'' \<notin> set scheme" "CHR ''/'' \<notin> set authority"
    and "\<forall>k r. hr_url r = url @ ''/s2s/messages'' \<longrightarrow> http_send ha k r = fst (post_messages hb stb r wb)"
    and "find_node (fc_this_node_id c) (store wb) = Some peer" "\<not> fn_is_blocked peer"
    and "fn_public_key_b64 peer = b64_encode hb (ed_public hb sk)"
    and "unix_secs hb (ticks wb) < 2 ^ 62" "unix_secs ha (ticks w) < 2 ^ 62"
    and "\<bar>int (unix_secs hb (ticks wb)) - int (unix_secs ha (ticks w))\<bar> \<le> 60"
    and "nonce_used (store wb) (fc_this_node_id c, b64_encode hb (os_rng ha (Suc (ticks w)) 16)) = None"
    and "\<forall>w1. nonce_kept wb w1 \<longrightarrow> fst (accept_messages hb peer p w1) = Inr (Reply OK (Ack_Body ack))"
  shows "\<exists>w'. forward_messages ha c url p w = (Inr ack, w')"
proof -
  let ?body = "message_payload_to_json (uuid_show ha) p"
  have path: "url_path (url @ ''/s2s/messages'') = ''/s2s/messages''"
    using url_path_absolute [OF assms(8,9), of "''s2s/messages''"] assms(7) by simp
  obtain r where r: "hr_url r = url @ ''/s2s/messages''" "hr_body r = Some ?body"
    and signed: "signed_request ha (fc_this_node_id c) sk ''POST'' ''/s2s/messages'' (unix_secs ha (ticks w))
      (os_rng ha (Suc (ticks w)) 16) (received r)"
    and run: "\<And>j ack. http_send ha (Suc (Suc (ticks w))) r = Http_Response 200 (Some j) \<Longrightarrow> ack_of_json j = Some ack \<Longrightarrow>
       \<exists>w'. forward_messages ha c url p w = (Inr ack, w')"
    using forward_messages_run [OF assms(5), of url p w] by blast
  have "signed_path (received r) = ''/s2s/messages''"
    using path r(1) by simp
  moreover have "signed_request hb (fc_this_node_id c) sk ''POST'' ''/s2s/messages'' (unix_secs ha (ticks w))
      (os_rng ha (Suc (ticks w)) 16) (received r)"
    using signed signed_request_crates [OF assms(3)] by blast
  ultimately obtain w1 where auth: "authenticate_node hb stb (received r) wb = (Inr peer, w1)" "nonce_kept wb w1"
    using accepts_signed [OF assms(1,2,6) _ _ assms(11-15) assms(16,17)] by blast
  have "uuid_parse hb (uuid_show ha i) = Some i" for i
    using assms(2,3) by (simp add: crypto_laws_def same_crates_def)
  with r(2) have "Option.bind (hr_body r) (message_payload_of_json (uuid_parse hb)) = Some p"
    by (simp add: message_payload_roundtrip)
  moreover have "fst (receive_messages hb stb (received r) p wb) = Reply OK (Ack_Body ack)"
    using auth assms(18) by (auto simp: receive_messages_def responding_def try_await_def await_def ret_def
        as_peer_def map_err_def split: prod.split)
  ultimately have "fst (post_messages hb stb r wb) = Http_Response 200 (Some (ack_to_json ack))"
    by (cases "receive_messages hb stb (received r) p wb") (simp add: post_messages_def await_def ret_def)
  with assms(10) r(1) have "http_send ha (Suc (Suc (ticks w))) r = Http_Response 200 (Some (ack_to_json ack))"
    by simp
  from run [OF this ack_roundtrip] show ?thesis .
qed

text \<open>
  C18: a message to a peer that is up and willing is delivered at the first attempt. When the peer knows
  the sender with its key, the clocks agree to a minute, the nonce is new and the peer's endpoint,
  given the message of an authenticated sender, acknowledges it, the forwarding returns that
  acknowledgement: what the client signs and writes is what the peer's extractors verify and read. The
  peer's URL must have no path of its own.
\<close>

theorem willing_peer_acknowledges:
  assumes "quiet hb" "crypto_laws hb" "same_crates ha hb" "crypto_laws ha"
    and "signing_key ha (fc_node_keys c) = Inr sk" "length sk = 32"
    and "url = scheme @ ''://'' @ authority" "CHR '':'' \<notin> set scheme" "CHR ''/'' \<notin> set authority"
    and "\<forall>k r. hr_url r = url @ ''/s2s/messages'' \<longrightarrow> http_send ha k r = fst (post_messages hb stb r wb)"
    and "find_node (fc_this_node_id c) (store wb) = Some peer" "\<not> fn_is_blocked peer"
    and "fn_public_key_b64 peer = b64_encode hb (ed_public hb sk)"
    and "unix_secs hb (ticks wb) < 2 ^ 62" "unix_secs ha (ticks w) < 2 ^ 62"
    and "\<bar>int (unix_secs hb (ticks wb)) - int (unix_secs ha (ticks w))\<bar> \<le> 60"
    and "nonce_used (store wb) (fc_this_node_id c, b64_encode hb (os_rng ha (Suc (ticks w)) 16)) = None"
    and "\<forall>w1. nonce_kept wb w1 \<longrightarrow> fst (accept_messages hb peer p w1) = Inr (Reply OK (Ack_Body ack))"
  shows "\<exists>w'. forward_messages ha c url p w = (Inr ack, w')"
  by (rule willing_peer_run [OF assms])

section \<open>Witnesses\<close>

text \<open>Bob's node \<^verbatim>\<open>b.net\<close>, whose network leads to alice's node.\<close>

definition alice_host :: host where
  "alice_host = sample_host no_network"

definition bob_host :: host where
  "bob_host = sample_host (\<lambda>r. fst (post_messages alice_host sample_state r (sample_world sample_db)))"

definition bob_client :: federation_client where
  "bob_client = \<lparr>fc_node_keys = key_pair bob_host peer_key, fc_this_node_id = ''b.net''\<rparr>"

lemma node_hosts: "quiet alice_host" "host_ok alice_host" "crypto_laws alice_host" "crypto_laws bob_host" "same_crates bob_host alice_host"
  by (simp_all add: alice_host_def bob_host_def) (simp add: same_crates_def sample_host_def)

lemma bob_key: "signing_key bob_host (fc_node_keys bob_client) = Inr peer_key" "length peer_key = 32"
  using signing_key_pair [OF node_hosts(4), of peer_key] by (simp_all add: bob_client_def peer_key_def)

lemma alice_accepts:
  "nonce_kept (sample_world sample_db) w1 \<Longrightarrow> fst (accept_messages alice_host sample_node sample_payload w1) =
     Inr (Reply OK (Ack_Body \<lparr>ack_logical_msg_id = ''m1'', ack_status = ''delivered''\<rparr>))"
  using sample_accept_later [of no_network 3]
  by (auto simp: nonce_kept_def sample_world_def alice_host_def) (metis fst_conv)

definition bob_ack :: s2s_ack where
  "bob_ack = \<lparr>ack_logical_msg_id = ''m1'', ack_status = ''delivered''\<rparr>"

lemma bob_network:
  "\<forall>k r. hr_url r = ''https://a.net'' @ ''/s2s/messages'' \<longrightarrow>
     http_send bob_host k r = fst (post_messages alice_host sample_state r (sample_world sample_db))"
  by (simp add: bob_host_def)

lemma alice_knows_bob:
  "find_node (fc_this_node_id bob_client) (store (sample_world sample_db)) = Some sample_node"
  "\<not> fn_is_blocked sample_node" "fn_public_key_b64 sample_node = b64_encode alice_host (ed_public alice_host peer_key)"
  "unix_secs alice_host (ticks (sample_world sample_db)) < 2 ^ 62" "unix_secs bob_host (ticks (sample_world empty_db)) < 2 ^ 62"
  "\<bar>int (unix_secs alice_host (ticks (sample_world sample_db))) - int (unix_secs bob_host (ticks (sample_world empty_db)))\<bar> \<le> 60"
  "nonce_used (store (sample_world sample_db)) (fc_this_node_id bob_client,
     b64_encode alice_host (os_rng bob_host (Suc (ticks (sample_world empty_db))) 16)) = None"
  using sample_find_node
  by (simp_all add: bob_client_def alice_host_def bob_host_def sample_world_def nonce_used_def)
    (simp_all add: sample_db_def empty_db_def)

lemma alice_acks:
  "\<forall>w1. nonce_kept (sample_world sample_db) w1 \<longrightarrow>
     fst (accept_messages alice_host sample_node sample_payload w1) = Inr (Reply OK (Ack_Body bob_ack))"
  using alice_accepts by (simp add: bob_ack_def)

lemma bob_url: "''https://a.net'' = ''https'' @ ''://'' @ ''a.net''" "CHR '':'' \<notin> set ''https''" "CHR ''/'' \<notin> set ''a.net''"
  by simp_all

lemmas bob_setting = node_hosts(1,3,5,4) bob_key bob_url bob_network alice_knows_bob alice_acks

theorem willing_peer_witness:
  "\<exists>w'. forward_messages bob_host bob_client ''https://a.net'' sample_payload (sample_world empty_db) = (Inr bob_ack, w')"
  by (rule willing_peer_acknowledges [OF bob_setting])

lemma bob_forwards:
  obtains w' where "forward_messages bob_host bob_client ''https://a.net'' sample_payload (sample_world empty_db) = (Inr bob_ack, w')"
  using willing_peer_run [OF bob_setting] by blast

theorem delivered_means_stored_witness:
  "\<exists>w' r m. forward_messages bob_host bob_client ''https://a.net'' sample_payload (sample_world empty_db) = (Inr bob_ack, w') \<and>
     sent w' = [r] \<and> m \<in> set (t_messages (store (snd (post_messages alice_host sample_state r (sample_world sample_db))))) \<and>
     message_key m = Some (''m1'', 21) \<and> me_ciphertext m = ''c''"
proof -
  obtain w' where w': "forward_messages bob_host bob_client ''https://a.net'' sample_payload (sample_world empty_db) = (Inr bob_ack, w')"
    by (rule bob_forwards)
  have "t_messages (store (sample_world sample_db)) = []"
    by (simp add: sample_world_def sample_db_def empty_db_def)
  moreover have "others_leave alice_host l" for l
    unfolding alice_host_def by (rule unshared_leaves [OF sample_unshared])
  ultimately show ?thesis
    using delivered_means_stored [OF node_hosts(2,3,5) bob_network w'] w'
    by (auto simp: sample_payload_def accepted_copy_def is_copy_for_def sample_world_def)
qed

end
