(* ===== verification/Realtime.thy ===== *)
theory Realtime
  imports Host "HOL-Library.Sublist"
begin

text \<open>
  \<^verbatim>\<open>src/realtime\<close>: the listener that turns the database's notifications into events, the broadcast
  channel of \<^verbatim>\<open>main.rs\<close>, and the websocket loop that passes a client the events of one user. The
  state of a connection is a step relation, since the events of the channel and the progress of a
  connection interleave in any order.
\<close>

section \<open>Notifications and events\<close>

text \<open>The payloads the triggers build; \<open>show_time\<close> is PostgreSQL's rendering of a timestamp.\<close>

definition json_opt :: "('a \<Rightarrow> string) \<Rightarrow> 'a option \<Rightarrow> json" where
  "json_opt f x = (case x of None \<Rightarrow> JNull | Some a \<Rightarrow> JStr (f a))"

fun notification_payload :: "(uuid \<Rightarrow> string) \<Rightarrow> (timestamp \<Rightarrow> string) \<Rightarrow> notification \<Rightarrow> json" where
  "notification_payload show_id show_time (Message_Notif chat user) =
     JObj [(''type'', JStr ''message''), (''chat_id'', json_opt show_id chat),
           (''user_id'', json_opt show_id user)]"
| "notification_payload show_id show_time (Session_Notif user sender receiver) =
     JObj [(''type'', JStr ''session''), (''user_id'', JStr (show_id user)),
           (''sender_device_id'', JStr (show_id sender)),
           (''receiver_device_id'', JStr (show_id receiver))]"
| "notification_payload show_id show_time (Device_Notif user) =
     JObj [(''type'', JStr ''device''), (''user_id'', JStr (show_id user))]"
| "notification_payload show_id show_time (Pending_Session_Notif user r) =
     JObj [(''type'', JStr ''pending_session''), (''user_id'', JStr (show_id user)),
           (''recipient_device_id'', JStr (show_id (pse_recipient_device_id r))),
           (''sender_device_id'', JStr (show_id (pse_sender_device_id r))),
           (''pending_session_id'', JStr (show_id (pse_id r))),
           (''created_at'', json_opt show_time (pse_created_at r))]"

text \<open>\<^verbatim>\<open>payload.get(key).and_then(|v| v.as_str()).unwrap_or(default)\<close>\<close>

definition str_member :: "string \<Rightarrow> json \<Rightarrow> string \<Rightarrow> string" where
  "str_member key payload dflt =
     (case Option.bind (json_get payload key) as_str of None \<Rightarrow> dflt | Some s \<Rightarrow> s)"

definition event_of :: "json \<Rightarrow> realtime_event" where
  "event_of payload =
     \<lparr>ev_event_type = str_member ''type'' payload ''unknown'', ev_payload = payload\<rparr>"

text \<open>
  What the listener receives, and what it sends to the channel: \<open>log\<close> is all that was ever sent. A
  send on a channel without receivers fails and is only logged.
\<close>

datatype pg_recv = Notification string string | Recv_Error

fun listener_step ::
  "(string \<Rightarrow> json option) \<Rightarrow> nat \<Rightarrow> pg_recv \<Rightarrow> realtime_event list \<Rightarrow> realtime_event list" where
  "listener_step from_str receivers (Notification channel text) log =
     (case from_str text of
        None \<Rightarrow> log
      | Some payload \<Rightarrow> if receivers = 0 then log else log @ [event_of payload])"
| "listener_step from_str receivers Recv_Error log = log"

section \<open>A websocket connection\<close>

definition CHANNEL_CAPACITY :: nat where
  "CHANNEL_CAPACITY = 100"

text \<open>
  The receiver's position in the log, whether the loop still runs, the events sent to the client, and
  how many events were lost to lag.
\<close>

record connection =
  wc_next :: nat
  wc_open :: bool
  wc_delivered :: "realtime_event list"
  wc_skipped :: nat

text \<open>\<^verbatim>\<open>tx.subscribe()\<close>: only later events are received.\<close>

definition subscribe :: "realtime_event list \<Rightarrow> connection" where
  "subscribe log = \<lparr>wc_next = length log, wc_open = True, wc_delivered = [], wc_skipped = 0\<rparr>"

definition addressed_to :: "string \<Rightarrow> realtime_event \<Rightarrow> bool" where
  "addressed_to user_id event \<longleftrightarrow> str_member ''user_id'' (ev_payload event) '''' = user_id"

text \<open>
  One turn of \<^verbatim>\<open>handle_socket\<close>'s loop. The channel keeps the last \<open>slots\<close> events, at least the
  \<open>CHANNEL_CAPACITY\<close> it was made with (tokio may round that up); a receiver that fell behind them gets \<^verbatim>\<open>Lagged(n)\<close> and goes on at the oldest kept one.
\<close>

inductive socket_step :: "string \<Rightarrow> nat \<Rightarrow> realtime_event list \<Rightarrow> connection \<Rightarrow> connection \<Rightarrow> bool"
  for user_id slots log where
  dispatch: "wc_open c \<Longrightarrow> wc_next c < length log \<Longrightarrow> length log \<le> wc_next c + slots \<Longrightarrow>
    addressed_to user_id (log ! wc_next c) \<Longrightarrow>
    socket_step user_id slots log c
      (c\<lparr>wc_next := Suc (wc_next c), wc_delivered := wc_delivered c @ [log ! wc_next c]\<rparr>)"
| send_failed: "wc_open c \<Longrightarrow> wc_next c < length log \<Longrightarrow> length log \<le> wc_next c + slots \<Longrightarrow>
    addressed_to user_id (log ! wc_next c) \<Longrightarrow>
    socket_step user_id slots log c (c\<lparr>wc_next := Suc (wc_next c), wc_open := False\<rparr>)"
| not_addressed: "wc_open c \<Longrightarrow> wc_next c < length log \<Longrightarrow> length log \<le> wc_next c + slots \<Longrightarrow>
    \<not> addressed_to user_id (log ! wc_next c) \<Longrightarrow>
    socket_step user_id slots log c (c\<lparr>wc_next := Suc (wc_next c)\<rparr>)"
| lagged: "wc_open c \<Longrightarrow> wc_next c + slots < length log \<Longrightarrow>
    socket_step user_id slots log c
      (c\<lparr>wc_next := length log - slots,
         wc_skipped := wc_skipped c + (length log - slots - wc_next c)\<rparr>)"
| channel_closed: "wc_open c \<Longrightarrow> wc_next c = length log \<Longrightarrow>
    socket_step user_id slots log c (c\<lparr>wc_open := False\<rparr>)"

inductive_cases socket_stepE: "socket_step user_id slots log c c'"

text \<open>The listener and one connection, interleaved; the connection subscribed when \<open>start\<close> had been sent.\<close>

inductive session_run ::
  "(string \<Rightarrow> json option) \<Rightarrow> string \<Rightarrow> nat \<Rightarrow> realtime_event list \<Rightarrow> realtime_event list \<Rightarrow>
     connection \<Rightarrow> bool"
  for from_str user_id slots start where
  connect: "session_run from_str user_id slots start start (subscribe start)"
| notify: "session_run from_str user_id slots start log c \<Longrightarrow> 0 < receivers \<Longrightarrow>
    session_run from_str user_id slots start (listener_step from_str receivers r log) c"
| progress: "session_run from_str user_id slots start log c \<Longrightarrow> socket_step user_id slots log c c' \<Longrightarrow>
    session_run from_str user_id slots start log c'"

text \<open>A receiver that is at most \<open>CHANNEL_CAPACITY\<close> events behind loses none.\<close>

lemma no_lag:
  assumes "socket_step user_id slots log c c'" "CHANNEL_CAPACITY \<le> slots"
    and "length log \<le> wc_next c + CHANNEL_CAPACITY"
  shows "wc_skipped c' = wc_skipped c"
  using assms by (auto elim!: socket_stepE)

section \<open>What the client receives\<close>

lemma listener_step_extends: "\<exists>new. listener_step from_str n r log = log @ new"
  by (cases r) (auto split: option.split)

definition received_so_far :: "string \<Rightarrow> realtime_event list \<Rightarrow> realtime_event list \<Rightarrow> nat \<Rightarrow> realtime_event list" where
  "received_so_far user_id start log k =
     filter (addressed_to user_id) (drop (length start) (take k log))"

lemma received_Suc:
  assumes "length start \<le> k" "k < length log"
  shows "received_so_far user_id start log (Suc k) =
    received_so_far user_id start log k @ (if addressed_to user_id (log ! k) then [log ! k] else [])"
  using assms by (simp add: received_so_far_def take_Suc_conv_app_nth)

lemma received_append [simp]:
  "k \<le> length log \<Longrightarrow> received_so_far user_id start (log @ new) k = received_so_far user_id start log k"
  by (simp add: received_so_far_def)

lemma received_mono:
  assumes "j \<le> k"
  shows "subseq (received_so_far user_id start log j) (received_so_far user_id start log k)"
proof -
  have "take k log = take j log @ take (k - j) (drop j log)"
    using assms by (metis le_add_diff_inverse take_add)
  then show ?thesis
    by (simp add: received_so_far_def prefix_imp_subseq)
qed

lemma session_run_invariant:
  assumes "session_run from_str user_id slots start log c"
  shows "length start \<le> wc_next c \<and> wc_next c \<le> length log \<and> take (length start) log = start \<and>
    subseq (wc_delivered c) (received_so_far user_id start log (wc_next c)) \<and>
    (wc_skipped c = 0 \<longrightarrow> wc_open c \<longrightarrow>
       wc_delivered c = received_so_far user_id start log (wc_next c))"
  using assms
proof (induction rule: session_run.induct)
  case connect
  then show ?case
    by (simp add: subscribe_def received_so_far_def)
next
  case (notify log c receivers r)
  obtain new where "listener_step from_str receivers r log = log @ new"
    using listener_step_extends by blast
  with notify show ?case
    by auto
next
  case (progress log c c')
  from progress.hyps(2) progress.IH show ?case
  proof (cases rule: socket_step.cases)
    case lagged
    then have "subseq (received_so_far user_id start log (wc_next c))
        (received_so_far user_id start log (wc_next c'))"
      by (intro received_mono) auto
    with lagged progress.IH show ?thesis
      by (auto intro: subseq_order.trans)
  qed (auto simp: received_Suc intro: list_emb_append2)
qed

text \<open>
  C13: a websocket client receives only events of the user it connected for, in the order they were
  sent and none twice; and as long as its connection is open and has not lagged behind the events
  the channel keeps, it has received every one of them sent since it connected, up to its position.
\<close>

theorem websocket_delivery:
  assumes "session_run from_str user_id slots start log c"
  shows "subseq (wc_delivered c) (filter (addressed_to user_id) (drop (length start) log)) \<and>
    (wc_open c \<and> wc_skipped c = 0 \<longrightarrow>
       wc_delivered c = filter (addressed_to user_id) (drop (length start) (take (wc_next c) log)))"
proof -
  from session_run_invariant [OF assms]
  have "subseq (wc_delivered c) (received_so_far user_id start log (wc_next c))" "wc_next c \<le> length log"
    by simp_all
  then have "subseq (wc_delivered c) (received_so_far user_id start log (length log))"
    by (blast intro: subseq_order.trans received_mono)
  with session_run_invariant [OF assms] show ?thesis
    by (simp add: received_so_far_def)
qed

definition sample_event :: json where
  "sample_event = JObj [(''type'', JStr ''message''), (''user_id'', JStr ''7'')]"

lemma sample_addressed: "addressed_to ''7'' (event_of sample_event)"
  by (simp add: addressed_to_def event_of_def str_member_def sample_event_def)

lemma sample_step:
  "socket_step ''7'' CHANNEL_CAPACITY [event_of sample_event] (subscribe [])
     \<lparr>wc_next = 1, wc_open = True, wc_delivered = [event_of sample_event], wc_skipped = 0\<rparr>"
  using socket_step.dispatch [of "subscribe []" "[event_of sample_event]" CHANNEL_CAPACITY "''7''"] sample_addressed
  by (simp add: subscribe_def CHANNEL_CAPACITY_def)

lemma sample_run:
  "session_run (\<lambda>_. Some sample_event) ''7'' CHANNEL_CAPACITY [] [event_of sample_event]
     \<lparr>wc_next = 1, wc_open = True, wc_delivered = [event_of sample_event], wc_skipped = 0\<rparr>"
proof -
  have "session_run (\<lambda>_. Some sample_event) ''7'' CHANNEL_CAPACITY []
      (listener_step (\<lambda>_. Some sample_event) 1 (Notification [] []) []) (subscribe [])"
    by (rule session_run.notify [OF session_run.connect]) simp
  then have "session_run (\<lambda>_. Some sample_event) ''7'' CHANNEL_CAPACITY [] [event_of sample_event] (subscribe [])"
    by simp
  from this sample_step show ?thesis
    by (rule session_run.progress)
qed

theorem websocket_delivery_witness:
  "subseq [event_of sample_event] (filter (addressed_to ''7'') [event_of sample_event])"
  using websocket_delivery [OF sample_run, THEN conjunct1] by simp

section \<open>Whom an event reaches\<close>

fun notified_user :: "notification \<Rightarrow> uuid option" where
  "notified_user (Message_Notif chat user) = user"
| "notified_user (Session_Notif user sender receiver) = Some user"
| "notified_user (Device_Notif user) = Some user"
| "notified_user (Pending_Session_Notif user r) = Some user"

text \<open>
  C30: an event reaches the connections of the user it concerns and no other. What a trigger of the database
  notifies arrives, while somebody is connected, as one event of the channel; a connection for the id of a
  user takes that event exactly when the notification is about that user.
\<close>

theorem event_reaches_its_user:
  assumes "inj show_id" "show_id u \<noteq> ''''" "0 < receivers"
    and "from_str text = Some (notification_payload show_id show_time n)"
  shows "\<exists>e. listener_step from_str receivers (Notification channel text) log = log @ [e] \<and>
    (addressed_to (show_id u) e \<longleftrightarrow> notified_user n = Some u)"
  using assms
  by (cases n) (auto simp: addressed_to_def event_of_def str_member_def json_opt_def inj_eq
      split: option.split)

theorem event_reaches_its_user_witness:
  "\<exists>e. listener_step (\<lambda>_. Some (notification_payload (\<lambda>i. CHR ''u'' # show_nat (unat i)) (\<lambda>_. ''t'') (Device_Notif 7))) 1
     (Notification ''hushnet'' ''x'') [] = [e] \<and> addressed_to (CHR ''u'' # show_nat (unat (7 :: uuid))) e"
proof -
  have "inj (\<lambda>i :: uuid. CHR ''u'' # show_nat (unat i))"
    by (rule injI) (metis digits_value_show_nat list.inject option.inject word_unat_eq_iff)
  from event_reaches_its_user [OF this, of 7 1 "\<lambda>_. Some (notification_payload (\<lambda>i. CHR ''u'' # show_nat (unat i)) (\<lambda>_. ''t'') (Device_Notif 7))"
      "''x''" "\<lambda>_. ''t''" "Device_Notif 7" "''hushnet''" "[]"]
  show ?thesis
    by simp
qed

end
