(* ===== verification/Spec2Isabelle.thy ===== *)
theory Spec2Isabelle
  imports Federation_Limits Provenance Enrollment Key_Material Sessions_Chats Two_Nodes Realtime
begin

text \<open>
  A model of the HushNet backend: a node of a federation that relays end-to-end encrypted messages
  between the devices of its users and those of its peers. The server is a Rust program (axum, sqlx,
  tokio) over PostgreSQL; all of its handlers, repositories, middlewares, background tasks and its
  start-up are modelled, with the schema of \<^verbatim>\<open>sql_models\<close>.

  \<^bold>\<open>How the program is modelled.\<close> A call of the program is a function from a \<open>world\<close> to a result and the
  next world. The world holds the database, the HTTP requests sent, the tasks spawned and a counter
  \<open>ticks\<close> of the calls that went outside. \<^verbatim>\<open>m.await\<close>, \<^verbatim>\<open>m.await?\<close>, \<^verbatim>\<open>map_err\<close> and \<^verbatim>\<open>for x in xs { ...? }\<close> are
  \<open>await\<close>, \<open>try_await\<close>, \<open>map_err\<close> and \<open>for_each\<close> of \<open>Prelude\<close>; errors are the left of a sum, and a
  panic of a handler is a reply of its own. Everything that is not in the repository is a \<open>host\<close>, an
  argument of the definitions: which statement fails before or after its effect (\<open>stmt_fate\<close>), what other
  connections do to the database between two of our calls (\<open>others\<close>), the clocks, the random source,
  the replies of the network, and the base64, Ed25519, JWT and uuid crates. A statement of SQL is a
  function on \<open>db\<close>, a record of tables with a list of rows each, and gives the error codes of the
  constraints it violates. Integers keep their width: ids are 128-bit words, timestamps of headers
  64-bit, the attempt counter of the outbox 32-bit, with the wrap-around of a release build.

  \<^bold>\<open>The theories\<close>, from the bottom:
  \<^item> \<open>Prelude\<close>: calls and their sequencing, and the frame calculus: \<open>keeps R m\<close> says that a call stays
    within a preorder \<open>R\<close> on worlds, and the rules \<open>keeps_intro\<close> derive it from the calls a handler makes
    (locale \<open>frame\<close>, interpreted in \<open>Guarantee\<close>, \<open>Read_Only\<close>, \<open>Message_Origin\<close> and \<open>Server\<close>).
  \<^item> \<open>Rust_Text\<close> (\<^verbatim>\<open>federation/mod.rs\<close>, \<^verbatim>\<open>url_path\<close>, the parsing of integers), \<open>Json_Values\<close> (serde values),
    \<open>Models\<close> (\<^verbatim>\<open>src/models\<close>, with the bodies that nodes exchange and their readers), \<open>Database\<close> (the tables and
    constraints of \<^verbatim>\<open>seed.sql\<close> and \<^verbatim>\<open>federation.sql\<close>, \<open>db_ok\<close>), \<open>Host\<close>.
  \<^item> \<open>Contracts\<close>: the interfaces the handlers rely on (a table that takes a row once per key, a lookup that
    creates what it does not find, a cache keyed by a name), which the repositories interpret.
    \<open>User_Repository\<close>, \<open>Device_Repository\<close>, \<open>Message_Repository\<close>, \<open>Session_Repository\<close> (with the chats) and
    \<open>Federation_Repository\<close> hold one \<open>_stmt\<close> per query and the repository function that runs it.
  \<^item> \<open>Db_Steps\<close>, \<open>Guarantee\<close>, \<open>Read_Only\<close>, \<open>Nonce_Store\<close>: the database as a state machine, one rule per
    statement. Every step keeps the constraints and the history (\<open>evolves\<close>); every call of the program is
    such a sequence of steps (\<open>guarantee\<close>) if the other connections are (\<open>host_ok\<close>); a nonce stays claimed
    for at least five minutes. \<open>Message_Origin\<close>: which rows of \<^verbatim>\<open>messages\<close> a call adds (\<open>adds_only\<close>), and what a
    row must hold to be the copy of a message for a device (\<open>is_copy_of\<close>, \<open>is_copy_for\<close>).
  \<^item> \<open>Crypto_Utils\<close> (\<^verbatim>\<open>utils\<close>, \<^verbatim>\<open>services/auth.rs\<close>, and the laws \<open>crypto_laws\<close> of the crates), \<open>Device_Auth\<close> and
    \<open>Node_Auth\<close> (\<^verbatim>\<open>middlewares\<close>), \<open>Federation_Client\<close> and \<open>Federation_Outbox\<close> (\<^verbatim>\<open>federation\<close>), \<open>Handlers\<close> and the
    five \<open>_Controller\<close> theories (\<^verbatim>\<open>controllers\<close>), \<open>Realtime\<close> (\<^verbatim>\<open>realtime\<close>), \<open>Registry\<close> and \<open>Startup\<close>
    (\<^verbatim>\<open>registry\<close>, \<^verbatim>\<open>main.rs\<close>, \<^verbatim>\<open>routes\<close>): the program's own definitions.
  \<^item> \<open>Sample_Host\<close>: a host and a small federation on which the witnesses are computed.
  \<^item> The properties: \<open>Peer_Security\<close> (authentication of peers and replay), \<open>Device_Security\<close>,
    \<open>Message_Delivery\<close> (receiving and collecting), \<open>Sending\<close>, \<open>Two_Nodes\<close> (a client and a peer's endpoint joined
    by the network), \<open>Federation_Outbox\<close> (attempts as a refinement of a four-state machine, backoff,
    giving up), \<open>Accounts\<close>, \<open>Enrollment\<close>, \<open>Key_Material\<close>, \<open>Sessions_Chats\<close>, \<open>Federation_Limits\<close>, \<open>Realtime\<close>,
    \<open>Startup\<close>, and \<open>Server\<close>, where all handlers, the worker and its tasks run interleaved, with \<open>Provenance\<close>,
    which traces every stored message along such a run to the request that stored it.

  \<^bold>\<open>What is proved.\<close> A peer's request is accepted only if it is signed, fresh and never seen before, and one
  that this program's client signs is accepted; an accepted request is never accepted again. A message
  that a peer acknowledges is stored with its contents, a repetition of it is a duplicate and changes
  nothing, a message that was collected is not collected again, and what the sender counts as delivered is
  in the peer's database, contents included, unless its logical id was taken there. A stored message is
  always the work of an authenticated device or peer. A message accepted for another node stays in the outbox in every later state; its
  attempts follow the schedule and end after the tenth. A device is registered only with a signed
  prekey and a token that was not used. The history of the database is kept in every
  state of every run, and a request without an identity changes no table but the cache of peers and the
  nonces, registrations apart. Several properties state where the code does less than one might expect:
  a token that does not verify at all is accepted, a peer can name a local account as a sender, a
  message stored during a collection is lost, the routes are written in a syntax that the pinned
  version of axum refuses.

  \<^bold>\<open>Hypotheses.\<close> \<open>quiet h\<close>: no statement fails and no other connection interferes. \<open>unshared h\<close>: no interference,
  any faults. \<open>host_ok h\<close>: the database's clock does not go back and other connections execute statements
  of this program; properties with only this hypothesis hold under all faults and interleavings.
  \<open>others_leave h l\<close>: the other connections store no message under the logical id \<open>l\<close>, so that a row with
  it can only be ours.
  \<open>crypto_laws h\<close>, \<open>jwt_laws h\<close>, \<open>axum_0_8\<close>: documented laws of the crates. \<open>clocks_agree h\<close>: the clocks of the
  process and of the database differ by at most ninety seconds, so the nonce of a request outlives its
  timestamp window. Unix times are below
  \<open>2 ^ 62\<close> where a difference of 64-bit words is taken, so that it does not wrap. No definition uses
  fuel: the loops of the program run over lists, and the endless ones (the worker, the listener, a
  connection) are step relations of which one turn is a definition.

  \<^bold>\<open>Not modelled.\<close> How axum matches a request to a route and decodes path and body (\<open>Server\<close> starts from the
  decoded arguments, \<open>Startup\<close> has the table of routes), log output, the timers, timeouts of the HTTP
  client (a request fails or is answered), the column \<^verbatim>\<open>pending_sessions.state\<close> that no query reads, foreign keys
  of deleted rows (no statement deletes a referenced row), and \<^verbatim>\<open>src/db\<close>, which is not compiled
  into the program, like \<^verbatim>\<open>controllers/keys_controller.rs\<close>; \<^verbatim>\<open>repository/keys_repository.rs\<close> is empty.
  The unit tests, the container files and the documents under \<^verbatim>\<open>docs\<close> are not part of the model.
\<close>

end
